(* ===== verification/Prelude.thy ===== *)
theory Prelude
  imports Main "HOL-Library.Word" "HOL-Library.Char_ord" "HOL-Library.List_Lexorder"
    "HOL-Library.Product_Lexorder"
begin

text \<open>
  Shared vocabulary of the development: machine integers and byte strings, the result type
  of Rust functions (\<open>Ok\<close>, \<open>Err\<close>, and \<open>Panic\<close> for a call that unwinds), operations that
  pass a state and may fail, preservation of a predicate by such operations, and lemmas on
  lists that several components use.
\<close>

unbundle bit_operations_syntax

section \<open>Bytes and strings\<close>

type_synonym byte = "8 word"
type_synonym bytes = "8 word list"
type_synonym u16 = "16 word"
type_synonym u32 = "32 word"
type_synonym u64 = "64 word"

text \<open>
  A Rust \<open>str\<close> is a sequence of bytes in UTF-8, kept here as an Isabelle \<open>string\<close>, whose
  characters are bytes. \<open>as_bytes\<close> and \<open>of_bytes\<close> convert.
\<close>

definition byte_of :: "char \<Rightarrow> byte" where
  "byte_of c = of_nat (of_char c)"

definition char_of_byte :: "byte \<Rightarrow> char" where
  "char_of_byte b = char_of (unat b)"

definition as_bytes :: "string \<Rightarrow> bytes" where
  "as_bytes s = map byte_of s"

definition of_bytes :: "bytes \<Rightarrow> string" where
  "of_bytes bs = map char_of_byte bs"

lemma unat_byte_of [simp]: "unat (byte_of c) = of_char c"
  by (simp add: byte_of_def unat_of_nat)

lemma char_of_byte_of [simp]: "char_of_byte (byte_of c) = c"
  by (simp add: char_of_byte_def)

lemma byte_of_char_of_byte [simp]: "byte_of (char_of_byte b) = b"
proof -
  have "unat b < 256" using unsigned_less [of b] by simp
  then show ?thesis by (simp add: byte_of_def char_of_byte_def)
qed

lemma byte_of_inject [simp]: "byte_of c = byte_of d \<longleftrightarrow> c = d"
  by (metis char_of_byte_of)

lemma of_bytes_as_bytes [simp]: "of_bytes (as_bytes s) = s"
  by (simp add: of_bytes_def as_bytes_def comp_def)

lemma as_bytes_of_bytes [simp]: "as_bytes (of_bytes bs) = bs"
  by (simp add: of_bytes_def as_bytes_def comp_def)

lemma as_bytes_inject [simp]: "as_bytes s = as_bytes t \<longleftrightarrow> s = t"
  by (metis of_bytes_as_bytes)

lemma length_as_bytes [simp]: "length (as_bytes s) = length s"
  by (simp add: as_bytes_def)

lemma length_of_bytes [simp]: "length (of_bytes bs) = length bs"
  by (simp add: of_bytes_def)

section \<open>Results\<close>

text \<open>
  \<open>Result<A, E>\<close> of Rust, with the third outcome every call has: a panic.
\<close>

datatype ('a, 'e) res = Ok 'a | Err 'e | Panic

named_theorems res_simps \<open>rewriting of results and of operations that return them\<close>

fun rbind :: "('a, 'e) res \<Rightarrow> ('a \<Rightarrow> ('b, 'e) res) \<Rightarrow> ('b, 'e) res" where
  "rbind (Ok x) f = f x"
| "rbind (Err e) f = Err e"
| "rbind Panic f = Panic"

fun map_err :: "('e \<Rightarrow> 'f) \<Rightarrow> ('a, 'e) res \<Rightarrow> ('a, 'f) res" where
  "map_err g (Ok x) = Ok x"
| "map_err g (Err e) = Err (g e)"
| "map_err g Panic = Panic"

fun is_ok :: "('a, 'e) res \<Rightarrow> bool" where
  "is_ok (Ok x) = True"
| "is_ok (Err e) = False"
| "is_ok Panic = False"

definition ok_or :: "'e \<Rightarrow> 'a option \<Rightarrow> ('a, 'e) res" where
  "ok_or e m = (case m of None \<Rightarrow> Err e | Some x \<Rightarrow> Ok x)"

lemma ok_or_simps [simp]: "ok_or e None = Err e" "ok_or e (Some x) = Ok x"
  by (simp_all add: ok_or_def)

lemma rbind_Ok_iff [res_simps]: "rbind m f = Ok y \<longleftrightarrow> (\<exists>x. m = Ok x \<and> f x = Ok y)"
  by (cases m) auto

lemma map_err_Ok_iff [res_simps]: "map_err g m = Ok y \<longleftrightarrow> m = Ok y"
  by (cases m) auto

lemma map_err_Panic_iff [simp]: "map_err g m = Panic \<longleftrightarrow> m = Panic" "Panic = map_err g m \<longleftrightarrow> m = Panic"
  by (cases m, auto)+

lemma rbind_Panic_iff: "rbind m f = Panic \<longleftrightarrow> m = Panic \<or> (\<exists>x. m = Ok x \<and> f x = Panic)"
  by (cases m) auto

lemma ok_or_not_Panic [simp]: "ok_or e m \<noteq> Panic" "Panic \<noteq> ok_or e m"
  by (cases m, auto)+

lemma ok_or_Ok_iff [res_simps]: "ok_or e m = Ok y \<longleftrightarrow> m = Some y"
  by (cases m) auto

lemma rbind_eq_Err_iff: "rbind m f = Err e \<longleftrightarrow> m = Err e \<or> (\<exists>x. m = Ok x \<and> f x = Err e)"
  by (cases m) auto

lemma rbind_assoc: "rbind (rbind m f) g = rbind m (\<lambda>x. rbind (f x) g)"
  by (cases m) auto

section \<open>Operations on a state\<close>

text \<open>
  A function that changes a state and may fail returns its result and the new state. An
  error does not roll the state back: what was written before the error stays written.
\<close>

type_synonym ('s, 'a, 'e) oper = "'s \<Rightarrow> ('a, 'e) res \<times> 's"

definition ret :: "'a \<Rightarrow> ('s, 'a, 'e) oper" where
  "ret x = (\<lambda>s. (Ok x, s))"

definition lift_res :: "('a, 'e) res \<Rightarrow> ('s, 'a, 'e) oper" where
  "lift_res r = (\<lambda>s. (r, s))"

definition reading :: "('s \<Rightarrow> ('a, 'e) res) \<Rightarrow> ('s, 'a, 'e) oper" where
  "reading f = (\<lambda>s. (f s, s))"

definition obind :: "('s, 'a, 'e) oper \<Rightarrow> ('a \<Rightarrow> ('s, 'b, 'e) oper) \<Rightarrow> ('s, 'b, 'e) oper" where
  "obind m f = (\<lambda>s. case m s of
      (Ok x, t) \<Rightarrow> f x t
    | (Err e, t) \<Rightarrow> (Err e, t)
    | (Panic, t) \<Rightarrow> (Panic, t))"

text \<open>A \<open>for\<close> loop whose body is an operation and passes an accumulator.\<close>

fun ofold :: "('x \<Rightarrow> 'b \<Rightarrow> ('s, 'b, 'e) oper) \<Rightarrow> 'x list \<Rightarrow> 'b \<Rightarrow> ('s, 'b, 'e) oper" where
  "ofold f [] b = ret b"
| "ofold f (x # xs) b = obind (f x b) (ofold f xs)"

lemma ret_apply [simp]: "ret x s = (Ok x, s)"
  by (simp add: ret_def)

lemma lift_res_apply [simp]: "lift_res r s = (r, s)"
  by (simp add: lift_res_def)

lemma reading_apply [simp]: "reading f s = (f s, s)"
  by (simp add: reading_def)

lemma obind_apply:
  "obind m f s = (case fst (m s) of
      Ok x \<Rightarrow> f x (snd (m s)) | Err e \<Rightarrow> (Err e, snd (m s)) | Panic \<Rightarrow> (Panic, snd (m s)))"
  by (simp add: obind_def split: prod.splits res.splits)

lemma obind_reading:
  "obind (reading f) g s = (case f s of Ok x \<Rightarrow> g x s | Err e \<Rightarrow> (Err e, s) | Panic \<Rightarrow> (Panic, s))"
  by (simp add: obind_def)

lemma obind_lift:
  "obind (lift_res r) g s = (case r of Ok x \<Rightarrow> g x s | Err e \<Rightarrow> (Err e, s) | Panic \<Rightarrow> (Panic, s))"
  by (simp add: obind_def)

lemma obind_Ok [simp]: "m s = (Ok x, t) \<Longrightarrow> obind m f s = f x t"
  and obind_Err [simp]: "m s = (Err e, t) \<Longrightarrow> obind m f s = (Err e, t)"
  and obind_Panic [simp]: "m s = (Panic, t) \<Longrightarrow> obind m f s = (Panic, t)"
  by (simp_all add: obind_def)

lemma obind_Ok_iff [res_simps]:
  "obind m f s = (Ok y, u) \<longleftrightarrow> (\<exists>x t. m s = (Ok x, t) \<and> f x t = (Ok y, u))"
  by (auto simp: obind_def split: prod.splits res.splits)

text \<open>\<open>keeps P m\<close>: the operation preserves \<open>P\<close> whatever its result.\<close>

definition keeps :: "('s \<Rightarrow> bool) \<Rightarrow> ('s, 'a, 'e) oper \<Rightarrow> bool" where
  "keeps P m \<longleftrightarrow> (\<forall>s. P s \<longrightarrow> P (snd (m s)))"

named_theorems keeps_intros \<open>preservation rules, one per combinator and statement\<close>

lemma keepsI: "(\<And>s. P s \<Longrightarrow> P (snd (m s))) \<Longrightarrow> keeps P m"
  by (simp add: keeps_def)

lemma keepsD: "keeps P m \<Longrightarrow> P s \<Longrightarrow> m s = (r, t) \<Longrightarrow> P t"
  by (metis keeps_def snd_conv)

lemma keeps_ret [keeps_intros]: "keeps P (ret x)"
  and keeps_lift_res [keeps_intros]: "keeps P (lift_res r)"
  and keeps_reading [keeps_intros]: "keeps P (reading f)"
  by (simp_all add: keeps_def)

lemma keeps_obind [keeps_intros]:
  "keeps P m \<Longrightarrow> (\<And>x. keeps P (f x)) \<Longrightarrow> keeps P (obind m f)"
  by (auto simp: keeps_def obind_apply split: res.splits)

lemma keeps_ofold [keeps_intros]:
  "(\<And>x b. x \<in> set xs \<Longrightarrow> keeps P (f x b)) \<Longrightarrow> keeps P (ofold f xs b)"
  by (induction xs arbitrary: b) (auto intro!: keeps_intros)

lemma keeps_if [keeps_intros]:
  "(c \<Longrightarrow> keeps P m) \<Longrightarrow> (\<not> c \<Longrightarrow> keeps P n) \<Longrightarrow> keeps P (if c then m else n)"
  by simp

section \<open>Big-endian words\<close>

text \<open>\<open>u32::to_be_bytes\<close> and \<open>u32::from_be_bytes\<close>.\<close>

definition to_be_bytes :: "u32 \<Rightarrow> bytes" where
  "to_be_bytes w = [ucast (drop_bit 24 w), ucast (drop_bit 16 w), ucast (drop_bit 8 w), ucast w]"

definition from_be_bytes :: "bytes \<Rightarrow> u32" where
  "from_be_bytes bs = foldl (\<lambda>acc b. push_bit 8 acc OR ucast b) 0 bs"

lemma length_to_be_bytes [simp]: "length (to_be_bytes w) = 4"
  by (simp add: to_be_bytes_def)

lemma from_to_be_bytes [simp]: "from_be_bytes (to_be_bytes w) = w"
proof (rule bit_word_eqI)
  fix n assume "n < LENGTH(32)"
  then consider "n < 8" | "8 \<le> n" "n < 16" | "16 \<le> n" "n < 24" | "24 \<le> n" "n < 32"
    by force
  then show "bit (from_be_bytes (to_be_bytes w)) n = bit w n"
    by cases (auto simp: from_be_bytes_def to_be_bytes_def bit_simps)
qed

lemma to_from_be_bytes: "to_be_bytes (from_be_bytes [a, b, c, d]) = [a, b, c, d]"
proof -
  let ?w = "from_be_bytes [a, b, c, d]"
  have w: "?w = push_bit 24 (ucast a) OR push_bit 16 (ucast b) OR push_bit 8 (ucast c) OR ucast d"
    by (simp add: from_be_bytes_def push_bit_or ac_simps)
  have "ucast (drop_bit 24 ?w) = a" "ucast (drop_bit 16 ?w) = b" "ucast (drop_bit 8 ?w) = c" "ucast ?w = d"
    unfolding w
    by ((rule bit_word_eqI, simp add: bit_simps, (auto dest: bit_imp_le_length)?)[1])+
  then show ?thesis by (simp add: to_be_bytes_def)
qed

lemma unat_of_nat_u32 [simp]: "n < 2 ^ 32 \<Longrightarrow> unat (of_nat n :: u32) = n"
  by (simp add: unat_of_nat)

section \<open>Reading from a byte sequence\<close>

text \<open>
  \<open>Read::read_exact\<close> on a buffer or on a stream whose peer has finished sending: the next
  \<open>n\<close> bytes, or \<open>None\<close> for \<open>ErrorKind::UnexpectedEof\<close>.
\<close>

definition read_exact :: "nat \<Rightarrow> bytes \<Rightarrow> (bytes \<times> bytes) option" where
  "read_exact n bs = (if n \<le> length bs then Some (take n bs, drop n bs) else None)"

lemma read_exact_append [simp]: "length xs = n \<Longrightarrow> read_exact n (xs @ ys) = Some (xs, ys)"
  by (simp add: read_exact_def)

lemma read_exact_Some:
  "read_exact n bs = Some (xs, ys) \<longleftrightarrow> bs = xs @ ys \<and> length xs = n"
  by (auto simp: read_exact_def)

lemma read_exact_None: "read_exact n bs = None \<longleftrightarrow> length bs < n"
  by (auto simp: read_exact_def)

section \<open>Lists\<close>

lemma find_filter_Nil: "find P xs = None \<longleftrightarrow> filter P xs = []"
  by (induction xs) auto

lemma find_append: "find P (xs @ ys) = (case find P xs of None \<Rightarrow> find P ys | Some x \<Rightarrow> Some x)"
  by (induction xs) auto

lemma find_SomeD: "find P xs = Some x \<Longrightarrow> x \<in> set xs \<and> P x"
  by (induction xs) (auto split: if_splits)

lemma find_Some_ex: "x \<in> set xs \<Longrightarrow> P x \<Longrightarrow> \<exists>y. find P xs = Some y"
  by (induction xs) auto

lemma find_unique:
  "x \<in> set xs \<Longrightarrow> P x \<Longrightarrow> (\<And>y. y \<in> set xs \<Longrightarrow> P y \<Longrightarrow> y = x) \<Longrightarrow> find P xs = Some x"
  by (metis find_SomeD find_Some_ex)

lemma sort_key_map: "(\<And>x. f (g x) = f x) \<Longrightarrow> sort_key f (map g xs) = map g (sort_key f xs)"
proof (induction xs)
  case (Cons x xs)
  have "insort_key f (g x) (map g ys) = map g (insort_key f x ys)" for ys
    using Cons.prems by (induction ys) auto
  with Cons show ?case by simp
qed simp

lemma find_map: "find P (map g xs) = map_option g (find (P \<circ> g) xs)"
  by (induction xs) auto

text \<open>Pairwise absence of a conflict, the shape of every uniqueness constraint.\<close>

definition pairwise_free :: "('a \<Rightarrow> 'a \<Rightarrow> bool) \<Rightarrow> 'a list \<Rightarrow> bool" where
  "pairwise_free c xs \<longleftrightarrow> sorted_wrt (\<lambda>x y. \<not> c x y) xs"

lemma pairwise_free_Nil [simp]: "pairwise_free c []"
  by (simp add: pairwise_free_def)

lemma pairwise_free_snoc:
  "pairwise_free c (xs @ [x]) \<longleftrightarrow> pairwise_free c xs \<and> (\<forall>y\<in>set xs. \<not> c y x)"
  by (auto simp: pairwise_free_def sorted_wrt_append)

lemma pairwise_free_filter: "pairwise_free c xs \<Longrightarrow> pairwise_free c (filter P xs)"
  by (simp add: pairwise_free_def sorted_wrt_filter)

lemma pairwise_free_map_same:
  "(\<And>x y. c (f x) (f y) = c x y) \<Longrightarrow> pairwise_free c (map f xs) = pairwise_free c xs"
  by (simp add: pairwise_free_def sorted_wrt_map)

end
