(* ===== verification/Rust_Std.thy ===== *)
theory Rust_Std
  imports Prelude
begin

text \<open>
  The functions of Rust's standard library that the program calls on strings and integers:
  formatting and parsing of integers, slicing, splitting and trimming of \<open>str\<close>, UTF-8
  validation. They are modelled from the library's documentation, panics included.
\<close>

section \<open>Formatting integers\<close>

definition digit_char :: "nat \<Rightarrow> char" where
  "digit_char d = char_of (if d < 10 then 48 + d else 87 + d)"

text \<open>\<open>format!("{}", n)\<close> for an unsigned integer.\<close>

fun dec :: "nat \<Rightarrow> string" where
  "dec n = (if n < 10 then [digit_char n] else dec (n div 10) @ [digit_char (n mod 10)])"

declare dec.simps [simp del]

text \<open>
  The last \<open>k\<close> hexadecimal digits of a number, and \<open>format!("{:08x}", w)\<close> for a \<open>u32\<close>, which
  has at most eight of them.
\<close>

fun hex_pad :: "(nat \<Rightarrow> char) \<Rightarrow> nat \<Rightarrow> nat \<Rightarrow> string" where
  "hex_pad f 0 n = []"
| "hex_pad f (Suc k) n = hex_pad f k (n div 16) @ [f (n mod 16)]"

definition hex08 :: "u32 \<Rightarrow> string" where
  "hex08 w = hex_pad digit_char 8 (unat w)"

text \<open>The digits of C's \<open>%X\<close>, in which the kernel prints addresses.\<close>

definition upper_digit_char :: "nat \<Rightarrow> char" where
  "upper_digit_char d = char_of (if d < 10 then 48 + d else 55 + d)"

text \<open>\<open>u32::swap_bytes\<close>, which is also \<open>u32::from_be\<close> on a little-endian machine, and \<open>to_le_bytes\<close>.\<close>

definition swap_bytes :: "u32 \<Rightarrow> u32" where
  "swap_bytes w = from_be_bytes (rev (to_be_bytes w))"

definition from_be :: "u32 \<Rightarrow> u32" where
  "from_be w = swap_bytes w"

definition to_le_bytes :: "u32 \<Rightarrow> bytes" where
  "to_le_bytes w = rev (to_be_bytes w)"

section \<open>Parsing integers\<close>

text \<open>\<open>char::to_digit\<close> for a radix of at most 36.\<close>

definition to_digit :: "nat \<Rightarrow> char \<Rightarrow> nat option" where
  "to_digit r c = (let n = of_char c :: nat;
       d = (if 48 \<le> n \<and> n \<le> 57 then n - 48
            else if 97 \<le> n \<and> n \<le> 122 then n - 87
            else if 65 \<le> n \<and> n \<le> 90 then n - 55 else r)
     in if d < r then Some d else None)"

fun digits_val :: "nat \<Rightarrow> nat \<Rightarrow> string \<Rightarrow> nat \<Rightarrow> nat option" where
  "digits_val r m [] acc = Some acc"
| "digits_val r m (c # cs) acc = (case to_digit r c of
      None \<Rightarrow> None
    | Some d \<Rightarrow> if acc * r + d < m then digits_val r m cs (acc * r + d) else None)"

text \<open>
  \<open>uN::from_str_radix(s, r).ok()\<close> with \<open>m = 2 ^ N\<close>: no empty string, one optional leading
  plus sign followed by at least one digit, and no overflow.
\<close>

definition from_str_radix :: "nat \<Rightarrow> nat \<Rightarrow> string \<Rightarrow> nat option" where
  "from_str_radix r m s = (case s of
      [] \<Rightarrow> None
    | c # cs \<Rightarrow> if c = CHR ''+'' then (if cs = [] then None else digits_val r m cs 0)
               else digits_val r m s 0)"

section \<open>Slices, splitting and trimming\<close>

definition is_char_boundary :: "string \<Rightarrow> nat \<Rightarrow> bool" where
  "is_char_boundary s i \<longleftrightarrow> i = 0 \<or> i = length s \<or>
     (i < length s \<and> \<not> (128 \<le> (of_char (s ! i) :: nat) \<and> (of_char (s ! i) :: nat) < 192))"

text \<open>\<open>&s[i..]\<close> and \<open>&s[i..j]\<close> panic out of range and inside a character.\<close>

definition str_from :: "string \<Rightarrow> nat \<Rightarrow> (string, 'e) res" where
  "str_from s i = (if is_char_boundary s i then Ok (drop i s) else Panic)"

definition str_range :: "string \<Rightarrow> nat \<Rightarrow> nat \<Rightarrow> (string, 'e) res" where
  "str_range s i j = (if i \<le> j \<and> is_char_boundary s i \<and> is_char_boundary s j
     then Ok (take (j - i) (drop i s)) else Panic)"

text \<open>\<open>str::rfind\<close> of an ASCII character: the byte index of its last occurrence.\<close>

definition rfind :: "char \<Rightarrow> string \<Rightarrow> nat option" where
  "rfind c s = (if c \<in> set s
     then Some (length s - Suc (length (takeWhile (\<lambda>x. x \<noteq> c) (rev s)))) else None)"

fun split_once :: "char \<Rightarrow> string \<Rightarrow> (string \<times> string) option" where
  "split_once c [] = None"
| "split_once c (x # xs) = (if x = c then Some ([], xs)
     else map_option (\<lambda>(a, b). (x # a, b)) (split_once c xs))"

definition starts_with :: "string \<Rightarrow> string \<Rightarrow> bool" where
  "starts_with s p \<longleftrightarrow> take (length p) s = p"

definition ends_with :: "string \<Rightarrow> string \<Rightarrow> bool" where
  "ends_with s p \<longleftrightarrow> length p \<le> length s \<and> drop (length s - length p) s = p"

text \<open>\<open>str::trim_end_matches\<close> removes the suffix as often as it occurs.\<close>

function trim_end_matches :: "string \<Rightarrow> string \<Rightarrow> string" where
  "trim_end_matches s p = (if p \<noteq> [] \<and> ends_with s p
     then trim_end_matches (take (length s - length p) s) p else s)"
  by pat_completeness auto
termination
  by (relation "measure (\<lambda>(s, p). length s)")
    (auto simp: ends_with_def neq_Nil_conv)

declare trim_end_matches.simps [simp del]

text \<open>The length in bytes of the white-space character at the front, 0 if there is none.\<close>

definition ws_len :: "string \<Rightarrow> nat" where
  "ws_len s = (case map (of_char :: char \<Rightarrow> nat) (take 3 s) of
      [] \<Rightarrow> 0
    | a # r \<Rightarrow>
        if (9 \<le> a \<and> a \<le> 13) \<or> a = 32 then 1
        else if a = 194 \<and> (take 1 r = [133] \<or> take 1 r = [160]) then 2
        else if a = 225 \<and> r = [154, 128] then 3
        else if a = 226 \<and> (case r of [b, c] \<Rightarrow>
               (b = 128 \<and> ((128 \<le> c \<and> c \<le> 138) \<or> c = 168 \<or> c = 169 \<or> c = 175)) \<or>
               (b = 129 \<and> c = 159) | _ \<Rightarrow> False) then 3
        else if a = 227 \<and> r = [128, 128] then 3 else 0)"

fun split_ws :: "string \<Rightarrow> string \<Rightarrow> string list" where
  "split_ws cur [] = (if cur = [] then [] else [cur])"
| "split_ws cur (c # cs) = (let n = ws_len (c # cs) in
     if n = 0 then split_ws (cur @ [c]) cs
     else (if cur = [] then [] else [cur]) @ split_ws [] (drop (n - 1) cs))"

definition split_whitespace :: "string \<Rightarrow> string list" where
  "split_whitespace s = split_ws [] s"

definition newline :: char where
  "newline = CHR 0x0A"

definition strip_cr :: "string \<Rightarrow> string" where
  "strip_cr s = (if s \<noteq> [] \<and> last s = CHR 0x0D then butlast s else s)"

text \<open>\<open>str::lines\<close>.\<close>

function lines :: "string \<Rightarrow> string list" where
  "lines s = (if s = [] then [] else
     (case dropWhile (\<lambda>c. c \<noteq> newline) s of
        [] \<Rightarrow> [s]
      | nl # rest \<Rightarrow> strip_cr (takeWhile (\<lambda>c. c \<noteq> newline) s) # lines rest))"
  by pat_completeness auto
termination
proof (relation "measure length")
  fix s rest :: string and nl
  assume "dropWhile (\<lambda>c. c \<noteq> newline) s = nl # rest"
  then have "length (nl # rest) \<le> length s"
    by (metis length_dropWhile_le)
  then show "(rest, s) \<in> measure length" by simp
qed simp

declare lines.simps [simp del]

text \<open>\<open>str::split\<close> on one character, \<open>str::contains\<close>.\<close>

fun str_split :: "char \<Rightarrow> string \<Rightarrow> string list" where
  "str_split c [] = [[]]"
| "str_split c (x # xs) = (if x = c then [] # str_split c xs
     else (case str_split c xs of [] \<Rightarrow> [[x]] | p # ps \<Rightarrow> (x # p) # ps))"

fun contains :: "string \<Rightarrow> string \<Rightarrow> bool" where
  "contains [] p \<longleftrightarrow> p = []"
| "contains (c # s) p \<longleftrightarrow> starts_with (c # s) p \<or> contains s p"

text \<open>
  \<open>str::to_lowercase\<close>. Of Unicode's table only the characters whose lower case is ASCII are
  translated: the letters A to Z, and the Kelvin sign (E2 84 AA), which becomes a k. Every other
  character becomes characters that are not all ASCII, and is kept as it is.
\<close>

definition ascii_lower :: "char \<Rightarrow> char" where
  "ascii_lower c = (let n = of_char c :: nat in if 65 \<le> n \<and> n \<le> 90 then char_of (n + 32) else c)"

fun to_lowercase :: "string \<Rightarrow> string" where
  "to_lowercase [] = []"
| "to_lowercase (c # s) =
     (if take 3 (c # s) = [CHR 0xE2, CHR 0x84, CHR 0xAA]
      then CHR ''k'' # to_lowercase (drop 2 s)
      else ascii_lower c # to_lowercase s)"

text \<open>\<open>format!("{}", n)\<close> for a signed integer, \<open>format!("{:02}", n)\<close> for an unsigned one.\<close>

definition show_int :: "int \<Rightarrow> string" where
  "show_int n = (if n < 0 then CHR ''-'' # dec (nat (- n)) else dec (nat n))"

definition dec_pad2 :: "nat \<Rightarrow> string" where
  "dec_pad2 n = (if n < 10 then CHR ''0'' # dec n else dec n)"

section \<open>Paths\<close>

text \<open>
  \<open>Path::file_name\<close> and \<open>Path::extension\<close>: empty components and those that are a single dot are
  skipped, the dot of a relative path's first component excepted; a file name that starts with
  its only dot has no extension.
\<close>

definition path_components :: "string \<Rightarrow> string list" where
  "path_components p = (case str_split (CHR ''/'') p of
      [] \<Rightarrow> []
    | c # cs \<Rightarrow> (if c = [] then [] else [c]) @ filter (\<lambda>x. x \<noteq> [] \<and> x \<noteq> ''.'') cs)"

definition file_name :: "string \<Rightarrow> string option" where
  "file_name p = (case rev (path_components p) of
      [] \<Rightarrow> None
    | c # cs \<Rightarrow> if c = ''.'' \<or> c = ''..'' then None else Some c)"

definition path_extension :: "string \<Rightarrow> string option" where
  "path_extension p = Option.bind (file_name p) (\<lambda>f. Option.bind (rfind (CHR ''.'') f) (\<lambda>i.
     if i = 0 then None else Some (drop (Suc i) f)))"

section \<open>UTF-8\<close>

definition in_range :: "nat \<Rightarrow> nat \<Rightarrow> byte \<Rightarrow> bool" where
  "in_range lo hi b \<longleftrightarrow> lo \<le> unat b \<and> unat b \<le> hi"

text \<open>The well-formed sequences of Unicode's table 3-7, as \<open>str::from_utf8\<close> accepts them.\<close>

fun utf8_valid :: "bytes \<Rightarrow> bool" where
  "utf8_valid [] = True"
| "utf8_valid (a # r) =
     (if in_range 0 0x7F a then utf8_valid r
      else if in_range 0xC2 0xDF a then
        (case r of b # t \<Rightarrow> in_range 0x80 0xBF b \<and> utf8_valid t | [] \<Rightarrow> False)
      else if in_range 0xE0 0xEF a then
        (case r of b # c # t \<Rightarrow>
            in_range (if unat a = 0xE0 then 0xA0 else 0x80) (if unat a = 0xED then 0x9F else 0xBF) b
            \<and> in_range 0x80 0xBF c \<and> utf8_valid t | _ \<Rightarrow> False)
      else if in_range 0xF0 0xF4 a then
        (case r of b # c # d # t \<Rightarrow>
            in_range (if unat a = 0xF0 then 0x90 else 0x80) (if unat a = 0xF4 then 0x8F else 0xBF) b
            \<and> in_range 0x80 0xBF c \<and> in_range 0x80 0xBF d \<and> utf8_valid t | _ \<Rightarrow> False)
      else False)"

text \<open>\<open>OsStr::to_str\<close> and the check of \<open>fs::read_to_string\<close>.\<close>

definition to_str :: "bytes \<Rightarrow> string option" where
  "to_str bs = (if utf8_valid bs then Some (of_bytes bs) else None)"

section \<open>Facts\<close>

subsection \<open>Decimal and hexadecimal numbers\<close>

lemma of_char_digit_char: "d < 16 \<Longrightarrow> of_char (digit_char d) = (if d < 10 then 48 + d else 87 + d)"
  by (simp add: digit_char_def)

lemma to_digit_digit_char [simp]:
  "d < r \<Longrightarrow> r \<le> 16 \<Longrightarrow> to_digit r (digit_char d) = Some d"
  by (simp add: to_digit_def of_char_digit_char Let_def)

lemma digit_char_not_plus: "d < 16 \<Longrightarrow> digit_char d \<noteq> CHR ''+''"
proof
  assume "d < 16" and "digit_char d = CHR ''+''"
  then have "(of_char (digit_char d) :: nat) = of_char (CHR ''+'')" by simp
  then show False using \<open>d < 16\<close> by (simp add: of_char_digit_char split: if_splits)
qed

lemma digits_val_append:
  "digits_val r m (xs @ ys) acc = Option.bind (digits_val r m xs acc) (digits_val r m ys)"
  by (induction xs arbitrary: acc) (auto split: option.splits)

lemma dec_not_Nil [simp]: "dec n \<noteq> []"
  by (subst dec.simps) simp

lemma digits_val_dec: "n < m \<Longrightarrow> digits_val 10 m (dec n) 0 = Some n"
proof (induction n rule: dec.induct)
  case (1 n)
  show ?case
  proof (cases "n < 10")
    case True
    with "1.prems" show ?thesis by (subst dec.simps) simp
  next
    case False
    with 1 have "digits_val 10 m (dec (n div 10)) 0 = Some (n div 10)" by simp
    with False "1.prems" show ?thesis by (subst dec.simps) (simp add: digits_val_append)
  qed
qed

lemma set_dec: "c \<in> set (dec n) \<Longrightarrow> \<exists>d<10. c = digit_char d"
proof (induction n rule: dec.induct)
  case (1 n)
  then have "c \<in> set (if n < 10 then [digit_char n] else dec (n div 10) @ [digit_char (n mod 10)])"
    by (simp only: dec.simps [of n])
  with 1 consider "n < 10" "c = digit_char n" | "\<exists>d<10. c = digit_char d" | "c = digit_char (n mod 10)"
    by (auto split: if_splits)
  then show ?case using mod_less_divisor [of 10 n] by cases (blast, blast, force)
qed

lemma from_str_radix_dec: "n < m \<Longrightarrow> from_str_radix 10 m (dec n) = Some n"
proof -
  assume n: "n < m"
  obtain c cs where d: "dec n = c # cs" by (cases "dec n") auto
  then obtain k where "k < 10" "c = digit_char k" using set_dec [of c n] by auto
  then have "c \<noteq> CHR ''+''" using digit_char_not_plus [of k] by simp
  then show ?thesis using digits_val_dec [OF n] d by (simp add: from_str_radix_def)
qed

lemma dec_inject [simp]: "dec m = dec n \<longleftrightarrow> m = n"
proof
  assume eq: "dec m = dec n"
  have "Some m = from_str_radix 10 (Suc (m + n)) (dec m)" by (rule from_str_radix_dec [symmetric]) simp
  also have "\<dots> = Some n" unfolding eq by (rule from_str_radix_dec) simp
  finally show "m = n" by simp
qed simp

lemma dec_chars: "c \<in> set (dec n) \<Longrightarrow> 48 \<le> (of_char c :: nat) \<and> (of_char c :: nat) < 58"
  using set_dec [of c n] by (auto simp: of_char_digit_char)

lemma dec_no_punctuation [simp]:
  "CHR ''.'' \<notin> set (dec n)" "CHR ''/'' \<notin> set (dec n)" "CHR '':'' \<notin> set (dec n)"
  using dec_chars [of "CHR ''.''" n] dec_chars [of "CHR ''/''" n] dec_chars [of "CHR '':''" n] by auto

text \<open>\<open>format!("{}.{}.{}.{}", a, b, c, d)\<close>.\<close>

definition dotted :: "nat \<Rightarrow> nat \<Rightarrow> nat \<Rightarrow> nat \<Rightarrow> string" where
  "dotted a b c d = dec a @ ''.'' @ dec b @ ''.'' @ dec c @ ''.'' @ dec d"

lemma of_char_upper_digit_char:
  "d < 16 \<Longrightarrow> of_char (upper_digit_char d) = (if d < 10 then 48 + d else 55 + d)"
  by (simp add: upper_digit_char_def)

lemma to_digit_upper_digit_char [simp]:
  "d < r \<Longrightarrow> r \<le> 16 \<Longrightarrow> to_digit r (upper_digit_char d) = Some d"
  by (simp add: to_digit_def of_char_upper_digit_char Let_def)

lemma length_hex_pad [simp]: "length (hex_pad f k n) = k"
  by (induction k arbitrary: n) auto

lemma set_hex_pad: "c \<in> set (hex_pad f k n) \<Longrightarrow> \<exists>d<16. c = f d"
proof (induction k arbitrary: n)
  case (Suc k)
  from Suc.prems consider "c \<in> set (hex_pad f k (n div 16))" | "c = f (n mod 16)" by auto
  then show ?case
  proof cases
    case 2
    then show ?thesis by (intro exI [of _ "n mod 16"]) simp
  qed (rule Suc.IH)
qed simp

lemma digits_val_hex_pad:
  assumes "\<And>d. d < 16 \<Longrightarrow> to_digit 16 (f d) = Some d"
  shows "acc * 16 ^ k + n < m \<Longrightarrow> n < 16 ^ k \<Longrightarrow> digits_val 16 m (hex_pad f k n) acc = Some (acc * 16 ^ k + n)"
proof (induction k arbitrary: n)
  case 0
  then show ?case by simp
next
  case (Suc k)
  have split: "(acc * 16 ^ k + n div 16) * 16 + n mod 16 = acc * 16 ^ Suc k + n"
    by (simp add: algebra_simps)
  have "acc * 16 ^ k + n div 16 < m"
    by (rule le_less_trans [OF _ Suc.prems(1)]) (simp only: split [symmetric], simp)
  moreover have "n div 16 < 16 ^ k" using Suc.prems(2) by (simp add: less_mult_imp_div_less)
  ultimately have "digits_val 16 m (hex_pad f k (n div 16)) acc = Some (acc * 16 ^ k + n div 16)"
    by (rule Suc.IH)
  then show ?case using assms [of "n mod 16"] split Suc.prems(1) by (simp add: digits_val_append)
qed

lemma from_str_radix_hex_pad:
  assumes "\<And>d. d < 16 \<Longrightarrow> to_digit 16 (f d) = Some d" and "n < m" and "n < 16 ^ Suc k"
  shows "from_str_radix 16 m (hex_pad f (Suc k) n) = Some n"
proof -
  obtain c cs where c: "hex_pad f (Suc k) n = c # cs" by (cases "hex_pad f (Suc k) n") auto
  then obtain d where "d < 16" "c = f d" using set_hex_pad [of c f "Suc k" n] by auto
  then have "to_digit 16 c \<noteq> None" using assms(1) by simp
  then have "c \<noteq> CHR ''+''" by (auto simp: to_digit_def)
  with c show ?thesis
    using digits_val_hex_pad [OF assms(1), of 0 "Suc k" n m] assms(2,3)
    by (simp add: from_str_radix_def)
qed

lemma swap_bytes_swap_bytes [simp]: "swap_bytes (swap_bytes w) = w"
proof -
  obtain a b c d where "to_be_bytes w = [a, b, c, d]" by (auto simp: to_be_bytes_def)
  then show ?thesis
    using from_to_be_bytes [of w] by (simp add: swap_bytes_def to_from_be_bytes)
qed

subsection \<open>Splitting\<close>

lemma rfind_append:
  "c \<notin> set t \<Longrightarrow> rfind c (s @ c # t) = Some (length s)"
proof -
  assume "c \<notin> set t"
  then have "takeWhile (\<lambda>x. x \<noteq> c) (rev t @ c # rev s) = rev t"
    by (subst takeWhile_append2) auto
  then show ?thesis by (simp add: rfind_def)
qed

lemma rfind_None: "rfind c s = None \<longleftrightarrow> c \<notin> set s"
  by (simp add: rfind_def)

lemma split_once_append: "c \<notin> set s \<Longrightarrow> split_once c (s @ c # t) = Some (s, t)"
  by (induction s) auto

lemma split_once_Some: "split_once c s = Some (a, b) \<Longrightarrow> s = a @ c # b \<and> c \<notin> set a"
  by (induction s arbitrary: a) (auto split: if_splits)

lemma split_once_None: "split_once c s = None \<longleftrightarrow> c \<notin> set s"
  by (induction s) auto

text \<open>Printable ASCII: no white space, no part of a multi-byte character.\<close>

definition graphic :: "char \<Rightarrow> bool" where
  "graphic c \<longleftrightarrow> 33 \<le> (of_char c :: nat) \<and> (of_char c :: nat) \<le> 126"

lemma graphic_digit_char: "d < 16 \<Longrightarrow> graphic (digit_char d)"
  by (simp add: graphic_def of_char_digit_char)

lemma graphic_dec: "\<forall>c\<in>set (dec n). graphic c"
  using set_dec graphic_digit_char by fastforce

lemma ws_len_graphic: "graphic c \<Longrightarrow> ws_len (c # s) = 0"
  by (simp add: ws_len_def graphic_def)

lemma ws_len_space: "ws_len (CHR '' '' # s) = 1" "ws_len (CHR 0x0A # s) = 1"
  by (simp_all add: ws_len_def)

lemma split_ws_token:
  "\<forall>c\<in>set t. graphic c \<Longrightarrow> split_ws cur (t @ s) = split_ws (cur @ t) s"
  by (induction t arbitrary: cur) (auto simp: ws_len_graphic)

lemma split_ws_space:
  "split_ws cur (CHR '' '' # s) = (if cur = [] then [] else [cur]) @ split_ws [] s"
  by (simp add: ws_len_space)

lemma split_ws_newline:
  "split_ws cur (CHR 0x0A # s) = (if cur = [] then [] else [cur]) @ split_ws [] s"
  by (simp add: ws_len_space)

declare split_ws.simps(2) [simp del]

text \<open>Tokens separated by one space each.\<close>

fun unwords :: "string list \<Rightarrow> string" where
  "unwords [] = []"
| "unwords [t] = t"
| "unwords (t # ts) = t @ CHR '' '' # unwords ts"

definition token :: "string \<Rightarrow> bool" where
  "token t \<longleftrightarrow> t \<noteq> [] \<and> (\<forall>c\<in>set t. graphic c)"

lemma token_dec: "token (dec n)"
  by (simp add: token_def graphic_dec)

lemma split_ws_unwords:
  "\<forall>t\<in>set ts. token t \<Longrightarrow> ts \<noteq> [] \<Longrightarrow>
   split_ws [] (unwords ts @ r) = butlast ts @ split_ws (last ts) r"
proof (induction ts rule: unwords.induct)
  case 1
  then show ?case by simp
next
  case (2 t)
  then show ?case using split_ws_token [of t "[]" r] by (simp add: token_def)
next
  case (3 t u ts)
  then have "split_ws [] (t @ CHR '' '' # unwords (u # ts) @ r)
      = t # split_ws [] (unwords (u # ts) @ r)"
    using split_ws_token [of t "[]"] split_ws_space [of t] by (simp add: token_def)
  with 3 show ?case by simp
qed

lemma split_whitespace_unwords:
  assumes "\<forall>t\<in>set ts. token t" and "ts \<noteq> []"
  shows "split_whitespace (unwords ts @ [newline]) = ts"
proof -
  have "split_ws (last ts) [newline] = [last ts]"
    using assms by (simp add: newline_def split_ws_newline token_def)
  then show ?thesis
    using assms split_ws_unwords [of ts "[newline]"]
    by (simp add: split_whitespace_def)
qed

lemma split_whitespace_tokens:
  "\<forall>t\<in>set ts. token t \<Longrightarrow> ts \<noteq> [] \<Longrightarrow> split_whitespace (unwords ts) = ts"
  using split_ws_unwords [of ts "[]"] last_in_set [of ts] by (simp add: split_whitespace_def token_def)

lemma ends_with_append: "ends_with (s @ p) p"
  by (simp add: ends_with_def)

lemma trim_end_matches_once:
  "p \<noteq> [] \<Longrightarrow> \<not> ends_with s p \<Longrightarrow> trim_end_matches (s @ p) p = s"
  by (subst trim_end_matches.simps, subst trim_end_matches.simps) (simp add: ends_with_append)

lemma starts_with_append [simp]: "starts_with (p @ s) p"
  by (simp add: starts_with_def)

lemma starts_with_iff: "starts_with s p \<longleftrightarrow> (\<exists>r. s = p @ r)"
  by (metis append_eq_conv_conj append_take_drop_id starts_with_def)

lemma starts_with_field:
  "x \<notin> set p \<Longrightarrow> x \<notin> set q \<Longrightarrow> starts_with (q @ x # s) (p @ x # r) \<longleftrightarrow> p = q \<and> starts_with s r"
proof (induction p arbitrary: q)
  case Nil
  then show ?case by (cases q) (auto simp: starts_with_def)
next
  case (Cons a p)
  then show ?case by (cases q) (auto simp: starts_with_def)
qed

lemma starts_with_last_field:
  "x \<notin> set p \<Longrightarrow> starts_with (q @ x # s) p \<longleftrightarrow> starts_with q p"
proof (induction p arbitrary: q)
  case Nil
  then show ?case by (simp add: starts_with_def)
next
  case (Cons a p)
  then show ?case by (cases q) (auto simp: starts_with_def)
qed

subsection \<open>Lines\<close>

lemma lines_Cons:
  "newline \<notin> set l \<Longrightarrow> lines (l @ newline # s) = strip_cr l # lines s"
  by (subst lines.simps) (simp add: takeWhile_append dropWhile_append)

lemma lines_concat:
  assumes "\<forall>l\<in>set ls. newline \<notin> set l \<and> strip_cr l = l"
  shows "lines (concat (map (\<lambda>l. l @ [newline]) ls)) = ls"
  using assms by (induction ls) (auto simp: lines_Cons lines.simps [of "[]"])

lemma lines_Nil [simp]: "lines [] = []"
  by (simp add: lines.simps)

subsection \<open>UTF-8\<close>

lemma utf8_valid_ascii: "\<forall>b\<in>set bs. unat b < 128 \<Longrightarrow> utf8_valid bs"
  by (induction bs) (auto simp: in_range_def)

lemma to_str_SomeD: "to_str bs = Some s \<Longrightarrow> utf8_valid bs \<and> s = of_bytes bs"
  by (auto simp: to_str_def split: if_splits)

lemma to_str_ascii:
  "\<forall>c\<in>set s. (of_char c :: nat) < 128 \<Longrightarrow> to_str (as_bytes s) = Some s"
  using utf8_valid_ascii [of "as_bytes s"] by (auto simp: to_str_def as_bytes_def of_bytes_def comp_def)

end
