(* ===== verification/Models.thy ===== *)
theory Models
  imports Rust_Std
begin

text \<open>
  The data types of \<open>crates/cone-store/src/models.rs\<close> and the errors of
  \<open>crates/cone-store/src/error.rs\<close>. A struct is a record, its fields carry a prefix because
  field names are global in HOL; an enum is a datatype. An \<open>i64\<close> that is only stored and
  compared is an \<open>int\<close>.
\<close>

datatype key_algorithm = Rsa2048 | Rsa4096 | EcP256 | EcP384

datatype ssh_algorithm = Ed25519 | EcdsaP256 | SshRsa4096

datatype match_type = Hostname | Ip | IpCidr

record cert =
  c_id :: string
  c_label :: string
  c_der :: bytes
  c_fingerprint :: string
  c_subject :: string
  c_issuer :: string
  c_not_before :: int
  c_not_after :: int
  c_created_at :: int

record ssh_key =
  sk_id :: string
  sk_label :: string
  sk_public_key :: string
  sk_algorithm :: ssh_algorithm
  sk_enc :: bytes
  sk_salt :: bytes
  sk_nonce :: bytes
  sk_created_at :: int

record ca_cert =
  ca_id :: string
  ca_label :: string
  ca_pem :: string
  ca_fingerprint :: string
  ca_subject :: string
  ca_not_after :: int
  ca_system_file :: "string option"
  ca_created_at :: int

record app =
  app_id :: string
  app_label :: string
  app_exe_path :: string
  app_exe_hash :: string
  app_registered_at :: int

record route =
  rt_id :: string
  rt_cert_id :: string
  rt_app_id :: "string option"
  rt_match_type :: match_type
  rt_pattern :: "string option"
  rt_require_both :: bool
  rt_priority :: int
  rt_created_at :: int

record ssh_route =
  sr_id :: string
  sr_ssh_key_id :: string
  sr_app_id :: "string option"
  sr_host_pattern :: "string option"
  sr_created_at :: int

record integrity_record =
  ir_id :: string
  ir_component :: string
  ir_path :: string
  ir_sha256 :: string
  ir_version :: string
  ir_recorded_at :: int
  ir_verified_at :: "int option"

record audit_entry =
  au_id :: string
  au_event_type :: string
  au_cert_id :: "string option"
  au_ssh_key_id :: "string option"
  au_app_id :: "string option"
  au_detail :: "string option"
  au_occurred_at :: int

text \<open>
  The errors of the SQL engine that the program's statements can meet, and those of the file
  system. Both are wrapped by \<open>StoreError\<close>.
\<close>

datatype sql_error = UniqueViolation | ForeignKeyViolation | NotADatabase | CannotOpen
  | NoSuchTable | QueryReturnedNoRows

datatype io_error = NotFoundIo | PermissionDenied | InvalidData | InvalidInput | BrokenPipe

datatype store_error =
    Database sql_error
  | WrongPassphrase
  | LockedError
  | IntegrityFailure string
  | Import string
  | Crypto string
  | NotFound string
  | Io io_error

text \<open>\<open>'s'\<close> in a message: the text between single quotes.\<close>

definition quoted :: "string \<Rightarrow> string" where
  "quoted s = CHR 0x27 # s @ [CHR 0x27]"

text \<open>The em dash, three bytes in UTF-8, stands in several messages.\<close>

definition em_dash :: string where
  "em_dash = [CHR 0xE2, CHR 0x80, CHR 0x94]"

text \<open>\<open>format!("{:?}", a)\<close> of a derived \<open>Debug\<close>: the variant's name.\<close>

fun debug_key_algorithm :: "key_algorithm \<Rightarrow> string" where
  "debug_key_algorithm Rsa2048 = ''Rsa2048''"
| "debug_key_algorithm Rsa4096 = ''Rsa4096''"
| "debug_key_algorithm EcP256 = ''EcP256''"
| "debug_key_algorithm EcP384 = ''EcP384''"

end
