(* ===== verification/Tables.thy ===== *)
theory Tables
  imports Models
begin

text \<open>
  The tables of \<open>migration_001\<close> in \<open>crates/cone-store/src/db.rs\<close>, their constraints, and the
  SQL statements that the program runs on them. A table is the list of its rows in insertion
  order, which is the order in which a statement without \<open>ORDER BY\<close> visits them. A statement
  either fails with a constraint violation and changes nothing, or returns the new tables.
\<close>

section \<open>Rows and tables\<close>

text \<open>Columns whose Rust type differs from the stored one get a row type of their own.\<close>

record key_row =
  k_id :: string
  k_cert_id :: string
  k_algorithm :: string
  k_enc :: bytes
  k_salt :: bytes
  k_nonce :: bytes

record ssh_key_row =
  s_id :: string
  s_label :: string
  s_public_key :: string
  s_algorithm :: string
  s_enc :: bytes
  s_salt :: bytes
  s_nonce :: bytes
  s_created_at :: int

record route_row =
  r_id :: string
  r_cert_id :: string
  r_app_id :: "string option"
  r_match_type :: string
  r_pattern :: "string option"
  r_require_both :: int
  r_priority :: int
  r_created_at :: int

record tables =
  certs :: "cert list"
  keys :: "key_row list"
  ssh_keys :: "ssh_key_row list"
  ca_certs :: "ca_cert list"
  apps :: "app list"
  routes :: "route_row list"
  ssh_routes :: "ssh_route list"
  integrity :: "integrity_record list"
  audit_log :: "audit_entry list"

definition no_rows :: tables where
  "no_rows = \<lparr>certs = [], keys = [], ssh_keys = [], ca_certs = [], apps = [], routes = [],
     ssh_routes = [], integrity = [], audit_log = []\<rparr>"

section \<open>Constraints\<close>

text \<open>Two rows that \<open>PRIMARY KEY\<close> or \<open>UNIQUE\<close> keeps apart.\<close>

definition cert_conflict :: "cert \<Rightarrow> cert \<Rightarrow> bool" where
  "cert_conflict a b \<longleftrightarrow> c_id a = c_id b \<or> c_fingerprint a = c_fingerprint b"

definition key_conflict :: "key_row \<Rightarrow> key_row \<Rightarrow> bool" where
  "key_conflict a b \<longleftrightarrow> k_id a = k_id b"

definition ssh_key_conflict :: "ssh_key_row \<Rightarrow> ssh_key_row \<Rightarrow> bool" where
  "ssh_key_conflict a b \<longleftrightarrow> s_id a = s_id b"

definition ca_conflict :: "ca_cert \<Rightarrow> ca_cert \<Rightarrow> bool" where
  "ca_conflict a b \<longleftrightarrow> ca_id a = ca_id b \<or> ca_fingerprint a = ca_fingerprint b"

definition app_conflict :: "app \<Rightarrow> app \<Rightarrow> bool" where
  "app_conflict a b \<longleftrightarrow> app_id a = app_id b \<or> app_exe_path a = app_exe_path b"

definition route_conflict :: "route_row \<Rightarrow> route_row \<Rightarrow> bool" where
  "route_conflict a b \<longleftrightarrow> r_id a = r_id b"

definition ssh_route_conflict :: "ssh_route \<Rightarrow> ssh_route \<Rightarrow> bool" where
  "ssh_route_conflict a b \<longleftrightarrow> sr_id a = sr_id b"

definition integrity_conflict :: "integrity_record \<Rightarrow> integrity_record \<Rightarrow> bool" where
  "integrity_conflict a b \<longleftrightarrow> ir_id a = ir_id b"

definition audit_conflict :: "audit_entry \<Rightarrow> audit_entry \<Rightarrow> bool" where
  "audit_conflict a b \<longleftrightarrow> au_id a = au_id b"

lemmas conflict_defs = cert_conflict_def key_conflict_def ssh_key_conflict_def ca_conflict_def
  app_conflict_def route_conflict_def ssh_route_conflict_def integrity_conflict_def
  audit_conflict_def

text \<open>\<open>REFERENCES\<close>: the row's foreign keys point at existing rows (\<open>NULL\<close> is allowed).\<close>

definition has_cert :: "string \<Rightarrow> tables \<Rightarrow> bool" where
  "has_cert i t \<longleftrightarrow> i \<in> c_id ` set (certs t)"

definition has_ssh_key :: "string \<Rightarrow> tables \<Rightarrow> bool" where
  "has_ssh_key i t \<longleftrightarrow> i \<in> s_id ` set (ssh_keys t)"

definition has_app :: "string option \<Rightarrow> tables \<Rightarrow> bool" where
  "has_app a t \<longleftrightarrow> set_option a \<subseteq> app_id ` set (apps t)"

definition key_refs :: "key_row \<Rightarrow> tables \<Rightarrow> bool" where
  "key_refs k t \<longleftrightarrow> has_cert (k_cert_id k) t"

definition route_refs :: "route_row \<Rightarrow> tables \<Rightarrow> bool" where
  "route_refs r t \<longleftrightarrow> has_cert (r_cert_id r) t \<and> has_app (r_app_id r) t"

definition ssh_route_refs :: "ssh_route \<Rightarrow> tables \<Rightarrow> bool" where
  "ssh_route_refs r t \<longleftrightarrow> has_ssh_key (sr_ssh_key_id r) t \<and> has_app (sr_app_id r) t"

lemmas refs_defs = key_refs_def route_refs_def ssh_route_refs_def

lemmas has_defs = has_cert_def has_ssh_key_def has_app_def

text \<open>A reference survives every update that keeps the rows of the table it points into.\<close>

lemma has_cert_cong [simp]:
  "has_cert i (t\<lparr>keys := a\<rparr>) = has_cert i t" "has_cert i (t\<lparr>ssh_keys := b\<rparr>) = has_cert i t"
  "has_cert i (t\<lparr>ca_certs := c\<rparr>) = has_cert i t" "has_cert i (t\<lparr>apps := d\<rparr>) = has_cert i t"
  "has_cert i (t\<lparr>routes := e\<rparr>) = has_cert i t" "has_cert i (t\<lparr>ssh_routes := f\<rparr>) = has_cert i t"
  "has_cert i (t\<lparr>integrity := g\<rparr>) = has_cert i t" "has_cert i (t\<lparr>audit_log := h\<rparr>) = has_cert i t"
  by (simp_all add: has_cert_def)

lemma has_ssh_key_cong [simp]:
  "has_ssh_key i (t\<lparr>keys := a\<rparr>) = has_ssh_key i t" "has_ssh_key i (t\<lparr>certs := b\<rparr>) = has_ssh_key i t"
  "has_ssh_key i (t\<lparr>ca_certs := c\<rparr>) = has_ssh_key i t" "has_ssh_key i (t\<lparr>apps := d\<rparr>) = has_ssh_key i t"
  "has_ssh_key i (t\<lparr>routes := e\<rparr>) = has_ssh_key i t"
  "has_ssh_key i (t\<lparr>ssh_routes := f\<rparr>) = has_ssh_key i t"
  "has_ssh_key i (t\<lparr>integrity := g\<rparr>) = has_ssh_key i t"
  "has_ssh_key i (t\<lparr>audit_log := h\<rparr>) = has_ssh_key i t"
  by (simp_all add: has_ssh_key_def)

lemma has_app_cong [simp]:
  "has_app i (t\<lparr>keys := a\<rparr>) = has_app i t" "has_app i (t\<lparr>certs := b\<rparr>) = has_app i t"
  "has_app i (t\<lparr>ca_certs := c\<rparr>) = has_app i t" "has_app i (t\<lparr>ssh_keys := d\<rparr>) = has_app i t"
  "has_app i (t\<lparr>routes := e\<rparr>) = has_app i t" "has_app i (t\<lparr>ssh_routes := f\<rparr>) = has_app i t"
  "has_app i (t\<lparr>integrity := g\<rparr>) = has_app i t" "has_app i (t\<lparr>audit_log := h\<rparr>) = has_app i t"
  by (simp_all add: has_app_def)

lemma has_append [simp]:
  "has_cert i (t\<lparr>certs := certs t @ [c]\<rparr>) \<longleftrightarrow> has_cert i t \<or> i = c_id c"
  "has_ssh_key i (t\<lparr>ssh_keys := ssh_keys t @ [k]\<rparr>) \<longleftrightarrow> has_ssh_key i t \<or> i = s_id k"
  by (auto simp: has_cert_def has_ssh_key_def)

lemma has_app_append [intro]: "has_app i t \<Longrightarrow> has_app i (t\<lparr>apps := apps t @ [a]\<rparr>)"
  by (auto simp: has_app_def)

section \<open>Statements\<close>

text \<open>
  \<open>INSERT INTO\<close>: uniqueness is checked when the row is written, an immediate foreign key at
  the end of the statement.
\<close>

definition insert_row ::
  "('r \<Rightarrow> 'r \<Rightarrow> bool) \<Rightarrow> bool \<Rightarrow> 'r \<Rightarrow> 'r list \<Rightarrow> ('r list, sql_error) res" where
  "insert_row conflict refs r rs =
     (if \<exists>x\<in>set rs. conflict x r then Err UniqueViolation
      else if \<not> refs then Err ForeignKeyViolation
      else Ok (rs @ [r]))"

definition insert_cert :: "cert \<Rightarrow> tables \<Rightarrow> (tables, sql_error) res" where
  "insert_cert c t = rbind (insert_row cert_conflict True c (certs t)) (\<lambda>rs. Ok (t\<lparr>certs := rs\<rparr>))"

definition insert_key :: "key_row \<Rightarrow> tables \<Rightarrow> (tables, sql_error) res" where
  "insert_key k t =
     rbind (insert_row key_conflict (key_refs k t) k (keys t)) (\<lambda>rs. Ok (t\<lparr>keys := rs\<rparr>))"

definition insert_ssh_key :: "ssh_key_row \<Rightarrow> tables \<Rightarrow> (tables, sql_error) res" where
  "insert_ssh_key k t =
     rbind (insert_row ssh_key_conflict True k (ssh_keys t)) (\<lambda>rs. Ok (t\<lparr>ssh_keys := rs\<rparr>))"

definition insert_ca_cert :: "ca_cert \<Rightarrow> tables \<Rightarrow> (tables, sql_error) res" where
  "insert_ca_cert c t =
     rbind (insert_row ca_conflict True c (ca_certs t)) (\<lambda>rs. Ok (t\<lparr>ca_certs := rs\<rparr>))"

definition insert_app :: "app \<Rightarrow> tables \<Rightarrow> (tables, sql_error) res" where
  "insert_app a t = rbind (insert_row app_conflict True a (apps t)) (\<lambda>rs. Ok (t\<lparr>apps := rs\<rparr>))"

definition insert_route :: "route_row \<Rightarrow> tables \<Rightarrow> (tables, sql_error) res" where
  "insert_route r t =
     rbind (insert_row route_conflict (route_refs r t) r (routes t)) (\<lambda>rs. Ok (t\<lparr>routes := rs\<rparr>))"

definition insert_ssh_route :: "ssh_route \<Rightarrow> tables \<Rightarrow> (tables, sql_error) res" where
  "insert_ssh_route r t =
     rbind (insert_row ssh_route_conflict (ssh_route_refs r t) r (ssh_routes t))
       (\<lambda>rs. Ok (t\<lparr>ssh_routes := rs\<rparr>))"

definition insert_integrity :: "integrity_record \<Rightarrow> tables \<Rightarrow> (tables, sql_error) res" where
  "insert_integrity i t =
     rbind (insert_row integrity_conflict True i (integrity t)) (\<lambda>rs. Ok (t\<lparr>integrity := rs\<rparr>))"

definition insert_audit :: "audit_entry \<Rightarrow> tables \<Rightarrow> (tables, sql_error) res" where
  "insert_audit a t =
     rbind (insert_row audit_conflict True a (audit_log t)) (\<lambda>rs. Ok (t\<lparr>audit_log := rs\<rparr>))"

text \<open>
  \<open>INSERT OR IGNORE\<close>: a row that breaks uniqueness is skipped; a foreign key still fails.
\<close>

definition insert_or_ignore_route :: "route_row \<Rightarrow> tables \<Rightarrow> (tables, sql_error) res" where
  "insert_or_ignore_route r t =
     (if \<exists>x\<in>set (routes t). route_conflict x r then Ok t else insert_route r t)"

definition insert_or_ignore_ssh_route :: "ssh_route \<Rightarrow> tables \<Rightarrow> (tables, sql_error) res" where
  "insert_or_ignore_ssh_route r t =
     (if \<exists>x\<in>set (ssh_routes t). ssh_route_conflict x r then Ok t else insert_ssh_route r t)"

text \<open>\<open>INSERT OR REPLACE\<close>: the rows in conflict are deleted first.\<close>

definition insert_or_replace_integrity :: "integrity_record \<Rightarrow> tables \<Rightarrow> (tables, sql_error) res"
  where
  "insert_or_replace_integrity i t =
     insert_integrity i (t\<lparr>integrity := filter (\<lambda>x. \<not> integrity_conflict x i) (integrity t)\<rparr>)"

text \<open>
  \<open>DELETE FROM certs WHERE id = i\<close> with \<open>ON DELETE CASCADE\<close> on \<open>keys\<close> and \<open>routes\<close>.
\<close>

definition delete_certs_by_id :: "string \<Rightarrow> tables \<Rightarrow> (tables, sql_error) res" where
  "delete_certs_by_id i t = Ok (t\<lparr>
     certs := filter (\<lambda>c. c_id c \<noteq> i) (certs t),
     keys := filter (\<lambda>k. \<not> (k_cert_id k = i \<and> has_cert i t)) (keys t),
     routes := filter (\<lambda>r. \<not> (r_cert_id r = i \<and> has_cert i t)) (routes t)\<rparr>)"

definition delete_routes :: "(route_row \<Rightarrow> bool) \<Rightarrow> tables \<Rightarrow> (tables, sql_error) res" where
  "delete_routes P t = Ok (t\<lparr>routes := filter (\<lambda>r. \<not> P r) (routes t)\<rparr>)"

text \<open>\<open>UPDATE integrity SET verified_at = now\<close>.\<close>

definition update_verified_at :: "int \<Rightarrow> tables \<Rightarrow> (tables, sql_error) res" where
  "update_verified_at now t =
     Ok (t\<lparr>integrity := map (\<lambda>i. i\<lparr>ir_verified_at := Some now\<rparr>) (integrity t)\<rparr>)"

text \<open>\<open>query_row\<close>: the first row, or \<open>QueryReturnedNoRows\<close>.\<close>

definition query_row :: "('r \<Rightarrow> bool) \<Rightarrow> 'r list \<Rightarrow> ('r, sql_error) res" where
  "query_row P rs = ok_or QueryReturnedNoRows (find P rs)"

section \<open>The invariant that the schema enforces\<close>

definition tables_unique :: "tables \<Rightarrow> bool" where
  "tables_unique t \<longleftrightarrow>
     pairwise_free cert_conflict (certs t) \<and> pairwise_free key_conflict (keys t) \<and>
     pairwise_free ssh_key_conflict (ssh_keys t) \<and> pairwise_free ca_conflict (ca_certs t) \<and>
     pairwise_free app_conflict (apps t) \<and> pairwise_free route_conflict (routes t) \<and>
     pairwise_free ssh_route_conflict (ssh_routes t) \<and>
     pairwise_free integrity_conflict (integrity t) \<and> pairwise_free audit_conflict (audit_log t)"

definition tables_refs :: "tables \<Rightarrow> bool" where
  "tables_refs t \<longleftrightarrow> (\<forall>k\<in>set (keys t). key_refs k t) \<and> (\<forall>r\<in>set (routes t). route_refs r t) \<and>
     (\<forall>r\<in>set (ssh_routes t). ssh_route_refs r t)"

definition tables_ok :: "tables \<Rightarrow> bool" where
  "tables_ok t \<longleftrightarrow> tables_unique t \<and> tables_refs t"

lemma tables_ok_no_rows [simp]: "tables_ok no_rows"
  by (simp add: tables_ok_def tables_unique_def tables_refs_def no_rows_def)

lemma insert_row_Ok_iff:
  "insert_row c f r rs = Ok rs' \<longleftrightarrow> (\<forall>x\<in>set rs. \<not> c x r) \<and> f \<and> rs' = rs @ [r]"
  by (auto simp: insert_row_def)

text \<open>\<open>stmt_ok q\<close>: the statement never panics and keeps the invariant.\<close>

definition stmt_ok :: "(tables \<Rightarrow> (tables, sql_error) res) \<Rightarrow> bool" where
  "stmt_ok q \<longleftrightarrow> (\<forall>t. q t \<noteq> Panic \<and> (\<forall>t'. tables_ok t \<longrightarrow> q t = Ok t' \<longrightarrow> tables_ok t'))"

named_theorems stmt_intros \<open>statements that keep the invariant\<close>

lemma stmt_okI:
  "(\<And>t. q t \<noteq> Panic) \<Longrightarrow> (\<And>t t'. tables_ok t \<Longrightarrow> q t = Ok t' \<Longrightarrow> tables_ok t') \<Longrightarrow> stmt_ok q"
  by (simp add: stmt_ok_def)

section \<open>The interface of a table\<close>

text \<open>
  What the operations of the store rely on when they insert into a table: the row is refused
  when it conflicts or dangles, else it is appended, and the invariant of the schema survives.
\<close>

locale sql_table =
  fixes rows :: "tables \<Rightarrow> 'r list"
    and conflict :: "'r \<Rightarrow> 'r \<Rightarrow> bool"
    and refs :: "'r \<Rightarrow> tables \<Rightarrow> bool"
    and ins :: "'r \<Rightarrow> tables \<Rightarrow> (tables, sql_error) res"
  assumes conflict_refl: "conflict r r"
    and ins_rows: "ins r t = Ok t' \<Longrightarrow> rows t' = rows t @ [r]"
    and ins_accepts: "is_ok (ins r t) \<longleftrightarrow> (\<forall>x\<in>set (rows t). \<not> conflict x r) \<and> refs r t"
    and ins_unique: "\<exists>x\<in>set (rows t). conflict x r \<Longrightarrow> ins r t = Err UniqueViolation"
    and ins_dangling:
      "\<forall>x\<in>set (rows t). \<not> conflict x r \<Longrightarrow> \<not> refs r t \<Longrightarrow> ins r t = Err ForeignKeyViolation"
    and ins_inv: "tables_ok t \<Longrightarrow> ins r t = Ok t' \<Longrightarrow> tables_ok t'"
begin

lemma ins_no_panic: "ins r t \<noteq> Panic"
  by (metis ins_accepts ins_dangling ins_unique is_ok.simps(3) res.distinct(5))

lemma ins_stmt_ok [stmt_intros]: "stmt_ok (ins r)"
  by (rule stmt_okI) (use ins_no_panic ins_inv in auto)

lemma ins_inserted: "ins r t = Ok t' \<Longrightarrow> r \<in> set (rows t')"
  by (simp add: ins_rows)

lemma ins_keeps_rows: "ins r t = Ok t' \<Longrightarrow> set (rows t) \<subseteq> set (rows t')"
  by (auto simp: ins_rows)

lemma ins_twice: "ins r t = Ok t' \<Longrightarrow> ins r t' = Err UniqueViolation"
  by (rule ins_unique) (auto simp: ins_rows conflict_refl)

lemma ins_Ok_conflict_free: "ins r t = Ok t' \<Longrightarrow> x \<in> set (rows t) \<Longrightarrow> \<not> conflict x r"
  by (metis ins_accepts is_ok.simps(1))

lemma ins_Ok_refs: "ins r t = Ok t' \<Longrightarrow> refs r t"
  by (metis ins_accepts is_ok.simps(1))

lemma ins_find:
  "ins r t = Ok t' \<Longrightarrow> P r \<Longrightarrow> (\<And>x. x \<in> set (rows t) \<Longrightarrow> \<not> P x) \<Longrightarrow> query_row P (rows t') = Ok r"
  by (auto simp: query_row_def ins_rows ok_or_Ok_iff find_append split: option.splits dest: find_SomeD)

lemma ins_find_old:
  "ins r t = Ok t' \<Longrightarrow> query_row P (rows t) = Ok x \<Longrightarrow> query_row P (rows t') = Ok x"
  by (simp add: query_row_def ins_rows ok_or_Ok_iff find_append)

end

lemmas insert_defs = insert_cert_def insert_key_def insert_ssh_key_def insert_ca_cert_def
  insert_app_def insert_route_def insert_ssh_route_def insert_integrity_def insert_audit_def

lemmas tables_ok_defs = tables_ok_def tables_unique_def tables_refs_def

interpretation cert_table: sql_table certs cert_conflict "(\<lambda>_ _. True)" insert_cert
  by unfold_locales
    (auto simp: insert_cert_def insert_row_def conflict_defs tables_ok_defs pairwise_free_snoc refs_defs
      split: if_splits)

interpretation key_table: sql_table keys key_conflict "key_refs" insert_key
  by unfold_locales
    (auto simp: insert_key_def insert_row_def conflict_defs tables_ok_defs pairwise_free_snoc refs_defs
      split: if_splits)

interpretation ssh_key_table: sql_table ssh_keys ssh_key_conflict "(\<lambda>_ _. True)" insert_ssh_key
  by unfold_locales
    (auto simp: insert_ssh_key_def insert_row_def conflict_defs tables_ok_defs pairwise_free_snoc refs_defs
      split: if_splits)

interpretation ca_cert_table: sql_table ca_certs ca_conflict "(\<lambda>_ _. True)" insert_ca_cert
  by unfold_locales
    (auto simp: insert_ca_cert_def insert_row_def conflict_defs tables_ok_defs pairwise_free_snoc refs_defs
      split: if_splits)

interpretation app_table: sql_table apps app_conflict "(\<lambda>_ _. True)" insert_app
  by unfold_locales
    (auto simp: insert_app_def insert_row_def conflict_defs tables_ok_defs pairwise_free_snoc refs_defs
      split: if_splits)

interpretation route_table: sql_table routes route_conflict "route_refs" insert_route
  by unfold_locales
    (auto simp: insert_route_def insert_row_def conflict_defs tables_ok_defs pairwise_free_snoc refs_defs
      split: if_splits)

interpretation ssh_route_table: sql_table ssh_routes ssh_route_conflict "ssh_route_refs" insert_ssh_route
  by unfold_locales
    (auto simp: insert_ssh_route_def insert_row_def conflict_defs tables_ok_defs pairwise_free_snoc refs_defs
      split: if_splits)

interpretation integrity_table: sql_table integrity integrity_conflict "(\<lambda>_ _. True)" insert_integrity
  by unfold_locales
    (auto simp: insert_integrity_def insert_row_def conflict_defs tables_ok_defs pairwise_free_snoc refs_defs
      split: if_splits)

interpretation audit_table: sql_table audit_log audit_conflict "(\<lambda>_ _. True)" insert_audit
  by unfold_locales
    (auto simp: insert_audit_def insert_row_def conflict_defs tables_ok_defs pairwise_free_snoc refs_defs
      split: if_splits)

section \<open>The other statements\<close>

lemma stmt_ok_or_ignore [stmt_intros]:
  "stmt_ok (insert_or_ignore_route r)" "stmt_ok (insert_or_ignore_ssh_route q)"
  by (rule stmt_okI, auto simp: insert_or_ignore_route_def insert_or_ignore_ssh_route_def
      route_table.ins_no_panic ssh_route_table.ins_no_panic
      split: if_splits intro: route_table.ins_inv ssh_route_table.ins_inv)+

lemma tables_ok_filter_integrity:
  "tables_ok t \<Longrightarrow> tables_ok (t\<lparr>integrity := filter P (integrity t)\<rparr>)"
  by (simp add: tables_ok_defs pairwise_free_filter refs_defs)

lemma stmt_ok_or_replace [stmt_intros]: "stmt_ok (insert_or_replace_integrity i)"
  by (rule stmt_okI) (auto simp: insert_or_replace_integrity_def integrity_table.ins_no_panic
      intro: integrity_table.ins_inv tables_ok_filter_integrity)

lemma has_cert_filter:
  "has_cert j (t\<lparr>certs := filter (\<lambda>c. c_id c \<noteq> i) (certs t)\<rparr>) \<longleftrightarrow> has_cert j t \<and> j \<noteq> i"
  by (auto simp: has_cert_def)

lemma has_cert_certs: "certs t = certs u \<Longrightarrow> has_cert i t = has_cert i u"
  and has_app_apps: "apps t = apps u \<Longrightarrow> has_app a t = has_app a u"
  and has_ssh_key_ssh_keys: "ssh_keys t = ssh_keys u \<Longrightarrow> has_ssh_key i t = has_ssh_key i u"
  by (simp_all add: has_defs)

lemma stmt_ok_delete_certs [stmt_intros]: "stmt_ok (delete_certs_by_id i)"
proof (rule stmt_okI)
  fix t t'
  assume t: "tables_ok t" and d: "delete_certs_by_id i t = Ok t'"
  from d have t': "t' = t\<lparr>certs := filter (\<lambda>c. c_id c \<noteq> i) (certs t),
      keys := filter (\<lambda>k. \<not> (k_cert_id k = i \<and> has_cert i t)) (keys t),
      routes := filter (\<lambda>r. \<not> (r_cert_id r = i \<and> has_cert i t)) (routes t)\<rparr>"
    by (simp add: delete_certs_by_id_def)
  have c: "has_cert j t' \<longleftrightarrow> has_cert j t \<and> j \<noteq> i" for j
    by (auto simp: t' has_cert_def)
  have a: "has_app x t' = has_app x t" "has_ssh_key j t' = has_ssh_key j t" for x j
    by (simp_all add: t' has_defs)
  from t show "tables_ok t'"
    by (auto simp: tables_ok_defs refs_defs c a) (auto simp: t' pairwise_free_filter)
qed (simp add: delete_certs_by_id_def)

lemma stmt_ok_delete_routes [stmt_intros]: "stmt_ok (delete_routes P)"
  by (rule stmt_okI) (auto simp: delete_routes_def tables_ok_defs pairwise_free_filter refs_defs)

lemma stmt_ok_update_verified [stmt_intros]: "stmt_ok (update_verified_at now)"
  by (rule stmt_okI)
    (auto simp: update_verified_at_def tables_ok_defs refs_defs pairwise_free_map_same
      integrity_conflict_def)

end
