(* ===== verification/World.thy ===== *)
theory World
  imports Tables
begin

text \<open>
  What the program finds around it: files and symbolic links (\<open>/proc\<close> included, whose entries
  are read like files), the environment, the user, the clock, the number of random draws made
  so far, and the SQLCipher database files. A file operation fails as \<open>std::fs\<close> documents it.
\<close>

record db_file =
  df_key :: string
  df_version :: "int list option"
  df_tables :: "tables option"

record world =
  w_files :: "string \<Rightarrow> bytes option"
  w_unreadable :: "string \<Rightarrow> bool"
  w_unwritable :: "string \<Rightarrow> bool"
  w_links :: "string \<Rightarrow> bytes option"
  w_env :: "string \<Rightarrow> bytes option"
  w_uid :: u32
  w_clock :: int
  w_draws :: nat
  w_dbs :: "string \<Rightarrow> db_file option"

section \<open>Files\<close>

text \<open>\<open>fs::read\<close>, \<open>fs::read_to_string\<close>, \<open>fs::read_link\<close>, \<open>Path::exists\<close>, \<open>fs::write\<close>.\<close>

definition fs_read :: "string \<Rightarrow> world \<Rightarrow> (bytes, io_error) res" where
  "fs_read p w = (case w_files w p of
      None \<Rightarrow> Err NotFoundIo
    | Some bs \<Rightarrow> if w_unreadable w p then Err PermissionDenied else Ok bs)"

definition fs_read_to_string :: "string \<Rightarrow> world \<Rightarrow> (string, io_error) res" where
  "fs_read_to_string p w = rbind (fs_read p w) (\<lambda>bs. ok_or InvalidData (to_str bs))"

definition fs_read_link :: "string \<Rightarrow> world \<Rightarrow> (bytes, io_error) res" where
  "fs_read_link p w = (case w_links w p of
      None \<Rightarrow> Err NotFoundIo
    | Some bs \<Rightarrow> if w_unreadable w p then Err PermissionDenied else Ok bs)"

definition path_exists :: "string \<Rightarrow> world \<Rightarrow> bool" where
  "path_exists p w \<longleftrightarrow> w_files w p \<noteq> None"

definition fs_write :: "string \<Rightarrow> bytes \<Rightarrow> (world, unit, io_error) oper" where
  "fs_write p bs = (\<lambda>w. if w_unwritable w p then (Err PermissionDenied, w)
     else (Ok (), w\<lparr>w_files := (w_files w)(p \<mapsto> bs)\<rparr>))"

lemma fs_read_cong:
  "w_files v = w_files w \<Longrightarrow> w_unreadable v = w_unreadable w \<Longrightarrow> fs_read p v = fs_read p w"
  by (cases "w_files w p") (simp_all add: fs_read_def)

text \<open>\<open>env::var\<close>: \<open>None\<close> when the variable is unset, and also when it is not valid Unicode.\<close>

definition env_var :: "string \<Rightarrow> world \<Rightarrow> string option" where
  "env_var n w = Option.bind (w_env w n) to_str"

section \<open>Time\<close>

text \<open>\<open>unix_now\<close>, of which five files have a copy: the clock in seconds since the epoch.\<close>

definition unix_now :: "(world, int, 'e) oper" where
  "unix_now = reading (\<lambda>w. Ok (w_clock w))"

lemma unix_now_apply [simp]: "unix_now w = (Ok (w_clock w), w)"
  by (simp add: unix_now_def)

lemma unix_now_keeps [keeps_intros]: "keeps P unix_now"
  by (simp add: unix_now_def keeps_intros)

section \<open>Databases\<close>

text \<open>A connection is open on the database file at a path.\<close>

type_synonym connection = string

definition conn_tables :: "connection \<Rightarrow> world \<Rightarrow> (tables, sql_error) res" where
  "conn_tables c w = (case w_dbs w c of
      None \<Rightarrow> Err CannotOpen
    | Some f \<Rightarrow> ok_or NoSuchTable (df_tables f))"

text \<open>\<open>Connection::execute\<close> of one statement, outside any explicit transaction.\<close>

definition conn_execute ::
  "connection \<Rightarrow> (tables \<Rightarrow> (tables, sql_error) res) \<Rightarrow> (world, unit, store_error) oper" where
  "conn_execute c q = (\<lambda>w. case w_dbs w c of
      None \<Rightarrow> (Err (Database CannotOpen), w)
    | Some f \<Rightarrow> (case df_tables f of
        None \<Rightarrow> (Err (Database NoSuchTable), w)
      | Some t \<Rightarrow> (case q t of
          Ok t' \<Rightarrow> (Ok (), w\<lparr>w_dbs := (w_dbs w)(c \<mapsto> f\<lparr>df_tables := Some t'\<rparr>)\<rparr>)
        | Err e \<Rightarrow> (Err (Database e), w)
        | Panic \<Rightarrow> (Panic, w))))"

text \<open>The invariant of every database file, and of the world.\<close>

definition world_ok :: "world \<Rightarrow> bool" where
  "world_ok w \<longleftrightarrow> (\<forall>p f t. w_dbs w p = Some f \<longrightarrow> df_tables f = Some t \<longrightarrow> tables_ok t)"

lemma world_okD: "world_ok w \<Longrightarrow> conn_tables c w = Ok t \<Longrightarrow> tables_ok t"
  by (auto simp: world_ok_def conn_tables_def ok_or_Ok_iff split: option.splits)

text \<open>The world after the tables of a connection have become \<open>t\<close>.\<close>

definition put_tables :: "connection \<Rightarrow> tables \<Rightarrow> world \<Rightarrow> world" where
  "put_tables c t w = w\<lparr>w_dbs := (w_dbs w)(c := map_option (\<lambda>f. f\<lparr>df_tables := Some t\<rparr>) (w_dbs w c))\<rparr>"

lemma put_tables_fields [simp]:
  "w_clock (put_tables c t w) = w_clock w" "w_draws (put_tables c t w) = w_draws w"
  "w_files (put_tables c t w) = w_files w" "w_links (put_tables c t w) = w_links w"
  "w_unreadable (put_tables c t w) = w_unreadable w" "w_unwritable (put_tables c t w) = w_unwritable w"
  "w_env (put_tables c t w) = w_env w" "w_uid (put_tables c t w) = w_uid w"
  by (simp_all add: put_tables_def)

lemma put_tables_dbs_other [simp]: "p \<noteq> c \<Longrightarrow> w_dbs (put_tables c t w) p = w_dbs w p"
  by (simp add: put_tables_def)

lemma put_tables_put_tables [simp]: "put_tables c u (put_tables c t w) = put_tables c u w"
  by (cases "w_dbs w c") (simp_all add: put_tables_def)

lemma put_tables_draws [simp]: "put_tables c t (w\<lparr>w_draws := n\<rparr>) = (put_tables c t w)\<lparr>w_draws := n\<rparr>"
  by (simp add: put_tables_def)

lemma conn_tables_put [simp]: "conn_tables c w = Ok t \<Longrightarrow> conn_tables c (put_tables c u w) = Ok u"
  by (auto simp: conn_tables_def put_tables_def ok_or_Ok_iff split: option.splits)

lemma conn_tables_draws [simp]: "conn_tables c (w\<lparr>w_draws := n\<rparr>) = conn_tables c w"
  by (simp add: conn_tables_def)

lemma conn_tables_same: "conn_tables c w = Ok t \<Longrightarrow> put_tables c t w = w"
  by (cases "w_dbs w c") (auto simp: conn_tables_def put_tables_def ok_or_Ok_iff fun_upd_idem)

lemma conn_execute_eq:
  "conn_tables c w = Ok t \<Longrightarrow> conn_execute c q w =
     (case q t of Ok t' \<Rightarrow> (Ok (), put_tables c t' w) | Err e \<Rightarrow> (Err (Database e), w) | Panic \<Rightarrow> (Panic, w))"
  by (auto simp: conn_execute_def conn_tables_def put_tables_def ok_or_Ok_iff
      split: option.splits res.splits)

lemma conn_execute_Ok_iff:
  "conn_execute c q w = (Ok x, w') \<longleftrightarrow>
     (\<exists>t t'. conn_tables c w = Ok t \<and> q t = Ok t' \<and> w' = put_tables c t' w)"
  by (auto simp: conn_execute_def conn_tables_def put_tables_def ok_or_Ok_iff
      split: option.splits res.splits)

lemma conn_execute_Err: "conn_execute c q w = (Err e, w') \<Longrightarrow> w' = w"
  by (auto simp: conn_execute_def split: option.splits res.splits)

lemma conn_execute_keeps [keeps_intros]: "stmt_ok q \<Longrightarrow> keeps world_ok (conn_execute c q)"
  by (rule keepsI) (auto simp: conn_execute_def world_ok_def stmt_ok_def split: option.splits res.splits)

lemma fs_write_keeps [keeps_intros]: "keeps world_ok (fs_write p bs)"
  by (rule keepsI) (auto simp: fs_write_def world_ok_def)

end
