(* ===== verification/Crypto.thy ===== *)
theory Crypto
  imports World
begin

text \<open>
  \<open>crates/cone-store/src/crypto.rs\<close>: key derivation, encryption of key material and hashing.
  The algorithms belong to third-party crates (\<open>argon2\<close>, \<open>aes-gcm\<close>, \<open>sha2\<close>, \<open>hex\<close>, \<open>rand\<close>): they
  are the fields of a record that every operation takes as an argument. What the code relies
  on about them is stated by \<open>gcm_correct\<close> and \<open>hex_correct\<close>.
\<close>

record crypto_lib =
  argon2_params :: "nat \<Rightarrow> nat \<Rightarrow> nat \<Rightarrow> nat \<Rightarrow> (unit, string) res"
  argon2id_hash :: "nat \<Rightarrow> nat \<Rightarrow> nat \<Rightarrow> nat \<Rightarrow> bytes \<Rightarrow> bytes \<Rightarrow> (bytes, string) res"
  gcm_encrypt :: "bytes \<Rightarrow> bytes \<Rightarrow> bytes \<Rightarrow> (bytes, string) res"
  gcm_decrypt :: "bytes \<Rightarrow> bytes \<Rightarrow> bytes \<Rightarrow> (bytes, string) res"
  sha256 :: "bytes \<Rightarrow> bytes"
  hex_encode :: "bytes \<Rightarrow> string"
  hex_decode :: "string \<Rightarrow> (bytes, string) res"
  os_rng :: "nat \<Rightarrow> nat \<Rightarrow> byte"

definition gcm_correct :: "crypto_lib \<Rightarrow> bool" where
  "gcm_correct lib \<longleftrightarrow>
     (\<forall>k n p c. gcm_encrypt lib k n p = Ok c \<longrightarrow> gcm_decrypt lib k n c = Ok p)"

definition hex_correct :: "crypto_lib \<Rightarrow> bool" where
  "hex_correct lib \<longleftrightarrow> (\<forall>bs. hex_decode lib (hex_encode lib bs) = Ok bs)"

definition ARGON2_MEMORY_KB :: nat where "ARGON2_MEMORY_KB = 65536"

definition ARGON2_ITERATIONS :: nat where "ARGON2_ITERATIONS = 3"

definition ARGON2_PARALLELISM :: nat where "ARGON2_PARALLELISM = 1"

definition KEY_LEN :: nat where "KEY_LEN = 32"

definition SALT_LEN :: nat where "SALT_LEN = 32"

definition NONCE_LEN :: nat where "NONCE_LEN = 12"

definition derive_key :: "crypto_lib \<Rightarrow> bytes \<Rightarrow> bytes \<Rightarrow> (bytes, store_error) res" where
  "derive_key lib passphrase salt =
     rbind (map_err Crypto
       (argon2_params lib ARGON2_MEMORY_KB ARGON2_ITERATIONS ARGON2_PARALLELISM KEY_LEN))
     (\<lambda>_. map_err Crypto
       (argon2id_hash lib ARGON2_MEMORY_KB ARGON2_ITERATIONS ARGON2_PARALLELISM KEY_LEN
          passphrase salt))"

text \<open>
  \<open>OsRng::fill_bytes\<close> on an array of \<open>n\<close> bytes: the \<open>k\<close>-th draw of the run gives the bytes
  \<open>os_rng lib k\<close>.
\<close>

definition fill_bytes :: "crypto_lib \<Rightarrow> nat \<Rightarrow> (world, bytes, 'e) oper" where
  "fill_bytes lib n = (\<lambda>w. (Ok (map (os_rng lib (w_draws w)) [0..<n]), w\<lparr>w_draws := Suc (w_draws w)\<rparr>))"

definition random_salt :: "crypto_lib \<Rightarrow> (world, bytes, 'e) oper" where
  "random_salt lib = fill_bytes lib SALT_LEN"

definition random_nonce :: "crypto_lib \<Rightarrow> (world, bytes, 'e) oper" where
  "random_nonce lib = fill_bytes lib NONCE_LEN"

text \<open>\<open>new_id\<close>, of which \<open>list.rs\<close>, \<open>import.rs\<close>, \<open>export.rs\<close>, \<open>integrity.rs\<close> and the CLI each have a copy.\<close>

definition new_id :: "crypto_lib \<Rightarrow> (world, string, 'e) oper" where
  "new_id lib = obind (fill_bytes lib 16) (\<lambda>bs. ret (hex_encode lib bs))"

text \<open>
  \<open>Nonce::from_slice\<close> panics when the slice is not 12 bytes long.
\<close>

definition nonce_from_slice :: "bytes \<Rightarrow> (bytes, 'e) res" where
  "nonce_from_slice bs = (if length bs = 12 then Ok bs else Panic)"

definition encrypt_key ::
  "crypto_lib \<Rightarrow> bytes \<Rightarrow> bytes \<Rightarrow> (world, bytes \<times> bytes \<times> bytes, store_error) oper" where
  "encrypt_key lib key_bytes passphrase =
     obind (random_salt lib) (\<lambda>salt.
     obind (random_nonce lib) (\<lambda>nonce_bytes.
     obind (lift_res (derive_key lib passphrase salt)) (\<lambda>derived.
     obind (lift_res (nonce_from_slice nonce_bytes)) (\<lambda>nonce.
     obind (lift_res (map_err Crypto (gcm_encrypt lib derived nonce key_bytes))) (\<lambda>ciphertext.
     ret (ciphertext, salt, nonce_bytes))))))"

definition decrypt_key ::
  "crypto_lib \<Rightarrow> bytes \<Rightarrow> bytes \<Rightarrow> bytes \<Rightarrow> bytes \<Rightarrow> (bytes, store_error) res" where
  "decrypt_key lib ciphertext salt nonce_bytes passphrase =
     rbind (derive_key lib passphrase salt) (\<lambda>derived.
     rbind (nonce_from_slice nonce_bytes) (\<lambda>nonce.
     map_err (\<lambda>_. WrongPassphrase) (gcm_decrypt lib derived nonce ciphertext)))"

definition hash_bytes :: "crypto_lib \<Rightarrow> bytes \<Rightarrow> string" where
  "hash_bytes lib bs = hex_encode lib (sha256 lib bs)"

definition hash_file :: "crypto_lib \<Rightarrow> string \<Rightarrow> world \<Rightarrow> (string, store_error) res" where
  "hash_file lib path w = rbind (map_err Io (fs_read path w)) (\<lambda>bs. Ok (hash_bytes lib bs))"

section \<open>Facts\<close>

lemma fill_bytes_apply [simp]:
  "fill_bytes lib n w = (Ok (map (os_rng lib (w_draws w)) [0..<n]), w\<lparr>w_draws := Suc (w_draws w)\<rparr>)"
  by (simp add: fill_bytes_def)

text \<open>The identifier that the \<open>k\<close>-th draw gives.\<close>

abbreviation drawn_id :: "crypto_lib \<Rightarrow> nat \<Rightarrow> string" where
  "drawn_id lib k \<equiv> hex_encode lib (map (os_rng lib k) [0..<16])"

lemma new_id_apply:
  "new_id lib w = (Ok (hex_encode lib (map (os_rng lib (w_draws w)) [0..<16])),
     w\<lparr>w_draws := Suc (w_draws w)\<rparr>)"
  by (simp add: new_id_def obind_def)

lemma fill_bytes_keeps [keeps_intros]: "keeps world_ok (fill_bytes lib n)"
  by (rule keepsI) (simp add: world_ok_def)

lemma draws_keep [keeps_intros]:
  "keeps world_ok (random_salt lib)" "keeps world_ok (random_nonce lib)" "keeps world_ok (new_id lib)"
  by (auto simp: random_salt_def random_nonce_def new_id_def intro!: keeps_intros)

lemma encrypt_key_keeps [keeps_intros]: "keeps world_ok (encrypt_key lib k p)"
  by (auto simp: encrypt_key_def intro!: keeps_intros)

text \<open>What \<open>encrypt_key\<close> returns: a fresh salt and nonce of the fixed lengths.\<close>

lemma encrypt_key_Ok_iff:
  "encrypt_key lib kb pass w = (Ok (ct, salt, nonce), w') \<longleftrightarrow>
     salt = map (os_rng lib (w_draws w)) [0..<32] \<and>
     nonce = map (os_rng lib (Suc (w_draws w))) [0..<12] \<and>
     w' = w\<lparr>w_draws := Suc (Suc (w_draws w))\<rparr> \<and>
     (\<exists>d. derive_key lib pass salt = Ok d \<and> gcm_encrypt lib d nonce kb = Ok ct)"
  by (auto simp: encrypt_key_def random_salt_def random_nonce_def SALT_LEN_def NONCE_LEN_def
      nonce_from_slice_def res_simps)

lemma encrypt_key_no_panic:
  "(\<And>m t p l. argon2_params lib m t p l \<noteq> Panic) \<Longrightarrow>
   (\<And>m t p l a b. argon2id_hash lib m t p l a b \<noteq> Panic) \<Longrightarrow>
   (\<And>k n b. gcm_encrypt lib k n b \<noteq> Panic) \<Longrightarrow> fst (encrypt_key lib kb pass w) \<noteq> Panic"
  by (auto simp: encrypt_key_def random_salt_def random_nonce_def NONCE_LEN_def derive_key_def
      nonce_from_slice_def obind_apply split: res.splits elim!: rbind.elims map_err.elims)

lemma decrypt_key_panic_iff:
  "derive_key lib pass salt = Ok d \<Longrightarrow> (\<And>k n c. gcm_decrypt lib k n c \<noteq> Panic) \<Longrightarrow>
   decrypt_key lib ct salt nonce pass = Panic \<longleftrightarrow> length nonce \<noteq> 12"
  by (auto simp: decrypt_key_def nonce_from_slice_def elim!: map_err.elims)

lemma decrypt_encrypt:
  "gcm_correct lib \<Longrightarrow> encrypt_key lib kb pass w = (Ok (ct, salt, nonce), w') \<Longrightarrow>
   decrypt_key lib ct salt nonce pass = Ok kb"
  by (auto simp: encrypt_key_Ok_iff decrypt_key_def nonce_from_slice_def gcm_correct_def)

end
