(* ===== verification/Store.thy ===== *)
theory Store
  imports Crypto
begin

text \<open>
  \<open>crates/cone-store/src/db.rs\<close> (opening and migrating the database) and
  \<open>crates/cone-store/src/store.rs\<close> (the \<open>Store\<close> handle, locked or unlocked).
\<close>

section \<open>Opening the database\<close>

text \<open>
  \<open>migration_001\<close> creates the nine tables if they do not exist; \<open>migrate\<close> reads the schema
  version, creating its table and row on a new database, and applies the migration below 1.
\<close>

definition migration_001 :: "db_file \<Rightarrow> db_file" where
  "migration_001 f = f\<lparr>df_tables := Some (case df_tables f of None \<Rightarrow> no_rows | Some t \<Rightarrow> t)\<rparr>"

definition migrate :: "db_file \<Rightarrow> db_file" where
  "migrate f =
     (let rows = (case df_version f of None \<Rightarrow> [] | Some vs \<Rightarrow> vs);
          rows = (if rows = [] then [0] else rows);
          f = f\<lparr>df_version := Some rows\<rparr>
      in if hd rows < 1
         then (migration_001 f)\<lparr>df_version := Some (map (\<lambda>_. 1) rows)\<rparr>
         else f)"

text \<open>
  \<open>db::open\<close>. SQLCipher creates a missing file under the given key, and refuses the first
  statement on an existing file when the key is not the file's.
\<close>

definition db_open :: "string \<Rightarrow> string \<Rightarrow> (world, connection, store_error) oper" where
  "db_open path key = (\<lambda>w. case w_dbs w path of
      None \<Rightarrow>
        if w_unwritable w path then (Err (Database CannotOpen), w)
        else (Ok path, w\<lparr>w_dbs := (w_dbs w)(path \<mapsto>
                migrate \<lparr>df_key = key, df_version = None, df_tables = None\<rparr>)\<rparr>)
    | Some f \<Rightarrow>
        if w_unreadable w path then (Err (Database CannotOpen), w)
        else if df_key f \<noteq> key then (Err (Database NotADatabase), w)
        else (Ok path, w\<lparr>w_dbs := (w_dbs w)(path \<mapsto> migrate f)\<rparr>))"

section \<open>The store\<close>

datatype store_state = Locked | Unlocked connection bytes

record store =
  st_path :: string
  st_state :: store_state

definition store_open :: "string \<Rightarrow> store" where
  "store_open path = \<lparr>st_path = path, st_state = Locked\<rparr>"

definition load_or_create_db_salt :: "crypto_lib \<Rightarrow> store \<Rightarrow> (world, bytes, store_error) oper" where
  "load_or_create_db_salt lib s =
     (let salt_path = st_path s @ ''.salt'' in
      (\<lambda>w. (if path_exists salt_path w
            then reading (\<lambda>w. map_err Io (fs_read salt_path w))
            else obind (random_salt lib) (\<lambda>salt w.
                   (case fs_write salt_path salt w of (r, w') \<Rightarrow>
                      (rbind (map_err Io r) (\<lambda>_. Ok salt), w')))) w))"

definition unlock :: "crypto_lib \<Rightarrow> bytes \<Rightarrow> (store \<times> world, unit, store_error) oper" where
  "unlock lib passphrase = (\<lambda>(s, w).
     (case obind (load_or_create_db_salt lib s) (\<lambda>salt.
           obind (lift_res (derive_key lib passphrase salt)) (\<lambda>key.
           db_open (st_path s) (hex_encode lib key))) w of
        (Ok conn, w') \<Rightarrow> (Ok (), s\<lparr>st_state := Unlocked conn passphrase\<rparr>, w')
      | (Err e, w') \<Rightarrow> (Err e, s, w')
      | (Panic, w') \<Rightarrow> (Panic, s, w')))"

definition lock :: "store \<Rightarrow> store" where
  "lock s = s\<lparr>st_state := Locked\<rparr>"

definition is_unlocked :: "store \<Rightarrow> bool" where
  "is_unlocked s = (case st_state s of Unlocked c p \<Rightarrow> True | Locked \<Rightarrow> False)"

definition store_conn :: "store \<Rightarrow> (connection, store_error) res" where
  "store_conn s = (case st_state s of Unlocked c p \<Rightarrow> Ok c | Locked \<Rightarrow> Err LockedError)"

definition store_passphrase :: "store \<Rightarrow> (bytes, store_error) res" where
  "store_passphrase s = (case st_state s of Unlocked c p \<Rightarrow> Ok p | Locked \<Rightarrow> Err LockedError)"

definition execute :: "store \<Rightarrow> (tables \<Rightarrow> (tables, sql_error) res) \<Rightarrow> (world, unit, store_error) oper"
  where
  "execute s q = obind (lift_res (store_conn s)) (\<lambda>c. conn_execute c q)"

text \<open>A query through the store's connection.\<close>

definition store_tables :: "store \<Rightarrow> world \<Rightarrow> (tables, store_error) res" where
  "store_tables s w = rbind (store_conn s) (\<lambda>c. map_err Database (conn_tables c w))"

section \<open>Facts\<close>

lemma store_conn_simps [simp]:
  "st_state s = Locked \<Longrightarrow> store_conn s = Err LockedError"
  "st_state s = Unlocked c p \<Longrightarrow> store_conn s = Ok c"
  "st_state s = Locked \<Longrightarrow> store_passphrase s = Err LockedError"
  "st_state s = Unlocked c p \<Longrightarrow> store_passphrase s = Ok p"
  by (simp_all add: store_conn_def store_passphrase_def)

lemma lock_simps [simp]: "st_state (lock s) = Locked" "st_path (lock s) = st_path s" "\<not> is_unlocked (lock s)"
  by (simp_all add: lock_def is_unlocked_def)

lemma migrate_key [simp]: "df_key (migrate f) = df_key f"
  by (simp add: migrate_def migration_001_def Let_def)

text \<open>A migrated file is at version 1 or later, and migrating it again changes nothing.\<close>

lemma migrate_tables:
  "df_tables (migrate f) = (if hd (case df_version f of None \<Rightarrow> [0] | Some [] \<Rightarrow> [0] | Some vs \<Rightarrow> vs) < 1
     then Some (case df_tables f of None \<Rightarrow> no_rows | Some t \<Rightarrow> t) else df_tables f)"
  by (auto simp: migrate_def migration_001_def Let_def split: option.splits list.splits)

lemma migrate_migrate [simp]: "migrate (migrate f) = migrate f"
  by (cases f) (auto simp: migrate_def migration_001_def Let_def hd_map split: option.splits list.splits)

lemma migrate_ok: "(\<And>t. df_tables f = Some t \<Longrightarrow> tables_ok t) \<Longrightarrow> df_tables (migrate f) = Some t \<Longrightarrow> tables_ok t"
  by (auto simp: migrate_tables split: if_splits option.splits list.splits)

lemma db_open_keeps [keeps_intros]: "keeps world_ok (db_open p k)"
  by (rule keepsI) (auto simp: db_open_def world_ok_def split: option.splits intro: migrate_ok
      dest: migrate_ok [rotated])

lemma load_or_create_db_salt_keeps [keeps_intros]: "keeps world_ok (load_or_create_db_salt lib s)"
  by (rule keepsI)
    (auto simp: load_or_create_db_salt_def Let_def random_salt_def fs_write_def world_ok_def)

lemma execute_keeps [keeps_intros]: "stmt_ok q \<Longrightarrow> keeps world_ok (execute s q)"
  by (auto simp: execute_def intro!: keeps_intros)

lemma store_tables_Ok_iff:
  "store_tables s w = Ok t \<longleftrightarrow> (\<exists>c p. st_state s = Unlocked c p \<and> conn_tables c w = Ok t)"
  by (cases "st_state s") (auto simp: store_tables_def res_simps)

lemma db_open_Ok:
  "db_open p k w = (Ok c, w') \<Longrightarrow>
   c = p \<and> (\<exists>f. w_dbs w' p = Some (migrate f) \<and> df_key f = k) \<and> w_files w' = w_files w \<and>
   w_unreadable w' = w_unreadable w \<and> w_unwritable w' = w_unwritable w"
  by (auto simp: db_open_def split: option.splits if_splits)

lemma load_or_create_db_salt_Ok:
  "load_or_create_db_salt lib s w = (Ok salt, w') \<Longrightarrow>
   w_files w' (st_path s @ ''.salt'') = Some salt \<and> w_dbs w' = w_dbs w \<and>
   w_unreadable w' = w_unreadable w \<and> w_unwritable w' = w_unwritable w"
  by (auto simp: load_or_create_db_salt_def Let_def random_salt_def fs_read_def fs_write_def path_exists_def
      split: if_splits option.splits)

text \<open>The salt file: read when it exists, else created from a fresh draw.\<close>

lemma load_salt_old:
  "w_files w (st_path s @ ''.salt'') = Some salt \<Longrightarrow> \<not> w_unreadable w (st_path s @ ''.salt'') \<Longrightarrow>
   load_or_create_db_salt lib s w = (Ok salt, w)"
  by (simp add: load_or_create_db_salt_def path_exists_def fs_read_def Let_def)

definition fresh_salt :: "crypto_lib \<Rightarrow> world \<Rightarrow> bytes" where
  "fresh_salt lib w = map (os_rng lib (w_draws w)) [0..<32]"

lemma load_salt_new:
  "w_files w (st_path s @ ''.salt'') = None \<Longrightarrow> \<not> w_unwritable w (st_path s @ ''.salt'') \<Longrightarrow>
   load_or_create_db_salt lib s w = (Ok (fresh_salt lib w),
     w\<lparr>w_draws := Suc (w_draws w),
       w_files := (w_files w)(st_path s @ ''.salt'' \<mapsto> fresh_salt lib w)\<rparr>)"
  by (simp add: load_or_create_db_salt_def path_exists_def fs_write_def random_salt_def SALT_LEN_def
      fresh_salt_def Let_def obind_apply)

lemma unlock_apply:
  assumes "load_or_create_db_salt lib s w = (Ok salt, w1)" and "derive_key lib pass salt = Ok key"
  shows "unlock lib pass (s, w) = (case db_open (st_path s) (hex_encode lib key) w1 of
     (Ok conn, w') \<Rightarrow> (Ok (), s\<lparr>st_state := Unlocked conn pass\<rparr>, w')
   | (Err e, w') \<Rightarrow> (Err e, s, w') | (Panic, w') \<Rightarrow> (Panic, s, w'))"
  using assms by (simp add: unlock_def)

lemma unlock_fresh:
  assumes "w_files w (st_path s @ ''.salt'') = None" and "w_dbs w (st_path s) = None"
    and "\<not> w_unwritable w (st_path s @ ''.salt'')" and "\<not> w_unwritable w (st_path s)"
    and "derive_key lib pass (fresh_salt lib w) = Ok key"
  shows "\<exists>w'. unlock lib pass (s, w) = (Ok (), s\<lparr>st_state := Unlocked (st_path s) pass\<rparr>, w') \<and>
    conn_tables (st_path s) w' = Ok no_rows"
  using assms
  by (simp add: unlock_apply [OF load_salt_new] db_open_def conn_tables_def migrate_tables)

lemma unlock_Ok:
  assumes "unlock lib pass (s, w) = (Ok (), s', w')"
  shows "s' = s\<lparr>st_state := Unlocked (st_path s) pass\<rparr> \<and>
    (\<exists>salt key f. w_files w' (st_path s @ ''.salt'') = Some salt \<and> derive_key lib pass salt = Ok key \<and>
      w_dbs w' (st_path s) = Some (migrate f) \<and> df_key f = hex_encode lib key)"
proof -
  from assms obtain c where r: "obind (load_or_create_db_salt lib s) (\<lambda>salt.
      obind (lift_res (derive_key lib pass salt)) (\<lambda>key. db_open (st_path s) (hex_encode lib key))) w = (Ok c, w')"
    and s': "s' = s\<lparr>st_state := Unlocked c pass\<rparr>"
    by (auto simp: unlock_def split: prod.splits res.splits)
  from r obtain salt w1 key where l: "load_or_create_db_salt lib s w = (Ok salt, w1)"
    "derive_key lib pass salt = Ok key" "db_open (st_path s) (hex_encode lib key) w1 = (Ok c, w')"
    by (auto simp: obind_Ok_iff)
  with load_or_create_db_salt_Ok [OF l(1)] db_open_Ok [OF l(3)] s' show ?thesis by auto
qed

end
