(* ===== verification/Listing.thy ===== *)
theory Listing
  imports Store
begin

text \<open>
  \<open>crates/cone-store/src/list.rs\<close> without the routing decision: listing and lookup of the
  stored credentials, decryption of private keys, deletion of a certificate. \<open>ORDER BY\<close> is a
  stable sort of the rows; text compares by bytes.
\<close>

section \<open>Certificates\<close>

definition list_certs :: "store \<Rightarrow> world \<Rightarrow> (cert list, store_error) res" where
  "list_certs s w = rbind (store_tables s w) (\<lambda>t. Ok (sort_key c_label (certs t)))"

definition get_cert_by_label :: "store \<Rightarrow> string \<Rightarrow> world \<Rightarrow> (cert, store_error) res" where
  "get_cert_by_label s label w = rbind (store_conn s) (\<lambda>conn.
     map_err (\<lambda>_. NotFound (''no certificate with label '' @ quoted label))
       (rbind (conn_tables conn w) (\<lambda>t. query_row (\<lambda>c. c_label c = label) (certs t))))"

definition get_cert_by_id :: "store \<Rightarrow> string \<Rightarrow> world \<Rightarrow> (cert, store_error) res" where
  "get_cert_by_id s i w = rbind (store_conn s) (\<lambda>conn.
     map_err (\<lambda>_. NotFound (''no certificate with id '' @ quoted i))
       (rbind (conn_tables conn w) (\<lambda>t. query_row (\<lambda>c. c_id c = i) (certs t))))"

definition parse_algorithm :: "string \<Rightarrow> (key_algorithm, store_error) res" where
  "parse_algorithm s =
     (if s = ''Rsa2048'' then Ok Rsa2048
      else if s = ''Rsa4096'' then Ok Rsa4096
      else if s = ''EcP256'' then Ok EcP256
      else if s = ''EcP384'' then Ok EcP384
      else Err (Crypto (''unknown key algorithm in database: '' @ s)))"

definition get_plaintext_key ::
  "crypto_lib \<Rightarrow> store \<Rightarrow> string \<Rightarrow> world \<Rightarrow> (bytes \<times> key_algorithm, store_error) res" where
  "get_plaintext_key lib s cid w = rbind (store_conn s) (\<lambda>conn.
     rbind (map_err (\<lambda>_. NotFound (''no private key found for cert '' @ quoted cid))
       (rbind (conn_tables conn w) (\<lambda>t. query_row (\<lambda>k. k_cert_id k = cid) (keys t)))) (\<lambda>k.
     rbind (store_passphrase s) (\<lambda>master.
     rbind (decrypt_key lib (k_enc k) (k_salt k) (k_nonce k) master) (\<lambda>plaintext.
     rbind (parse_algorithm (k_algorithm k)) (\<lambda>algorithm.
     Ok (plaintext, algorithm))))))"

text \<open>\<open>format!("Deleted cert: {}", label)\<close> goes into the audit log after the deletion.\<close>

definition delete_cert :: "crypto_lib \<Rightarrow> store \<Rightarrow> string \<Rightarrow> (world, unit, store_error) oper" where
  "delete_cert lib s label =
     obind (reading (get_cert_by_label s label)) (\<lambda>cert.
     obind (lift_res (store_conn s)) (\<lambda>conn.
     obind (conn_execute conn (delete_certs_by_id (c_id cert))) (\<lambda>_.
     obind (new_id lib) (\<lambda>i.
     obind unix_now (\<lambda>now.
     conn_execute conn (insert_audit
       \<lparr>au_id = i, au_event_type = ''cert_deleted'', au_cert_id = Some (c_id cert),
        au_ssh_key_id = None, au_app_id = None, au_detail = Some (''Deleted cert: '' @ label),
        au_occurred_at = now\<rparr>))))))"

section \<open>SSH keys\<close>

text \<open>The row's \<open>algorithm\<close> column is selected, but every entry is given \<open>Ed25519\<close>.\<close>

definition ssh_key_of_row :: "ssh_key_row \<Rightarrow> ssh_key" where
  "ssh_key_of_row k = \<lparr>sk_id = s_id k, sk_label = s_label k, sk_public_key = s_public_key k,
     sk_algorithm = Ed25519, sk_enc = s_enc k, sk_salt = s_salt k, sk_nonce = s_nonce k,
     sk_created_at = s_created_at k\<rparr>"

definition list_ssh_keys :: "store \<Rightarrow> world \<Rightarrow> (ssh_key list, store_error) res" where
  "list_ssh_keys s w =
     rbind (store_tables s w) (\<lambda>t. Ok (map ssh_key_of_row (sort_key s_label (ssh_keys t))))"

definition get_ssh_plaintext_key ::
  "crypto_lib \<Rightarrow> store \<Rightarrow> string \<Rightarrow> world \<Rightarrow> (bytes, store_error) res" where
  "get_ssh_plaintext_key lib s label w = rbind (store_conn s) (\<lambda>conn.
     rbind (map_err (\<lambda>_. NotFound (''no SSH key with label '' @ quoted label))
       (rbind (conn_tables conn w) (\<lambda>t. query_row (\<lambda>k. s_label k = label) (ssh_keys t)))) (\<lambda>k.
     rbind (store_passphrase s) (\<lambda>master.
     decrypt_key lib (s_enc k) (s_salt k) (s_nonce k) master)))"

section \<open>CA certificates, applications, routes, audit log\<close>

definition list_ca_certs :: "store \<Rightarrow> world \<Rightarrow> (ca_cert list, store_error) res" where
  "list_ca_certs s w = rbind (store_tables s w) (\<lambda>t. Ok (sort_key ca_label (ca_certs t)))"

definition list_apps :: "store \<Rightarrow> world \<Rightarrow> (app list, store_error) res" where
  "list_apps s w = rbind (store_tables s w) (\<lambda>t. Ok (sort_key app_label (apps t)))"

definition get_app_by_exe :: "store \<Rightarrow> string \<Rightarrow> world \<Rightarrow> (app, store_error) res" where
  "get_app_by_exe s exe w = rbind (store_conn s) (\<lambda>conn.
     map_err (\<lambda>_. NotFound (''no registered application at path '' @ quoted exe))
       (rbind (conn_tables conn w) (\<lambda>t. query_row (\<lambda>a. app_exe_path a = exe) (apps t))))"

definition match_type_of_str :: "string \<Rightarrow> match_type" where
  "match_type_of_str m =
     (if m = ''ip'' then Ip else if m = ''ip_cidr'' then IpCidr else Hostname)"

definition route_of_row :: "route_row \<Rightarrow> route" where
  "route_of_row r = \<lparr>rt_id = r_id r, rt_cert_id = r_cert_id r, rt_app_id = r_app_id r,
     rt_match_type = match_type_of_str (r_match_type r), rt_pattern = r_pattern r,
     rt_require_both = (r_require_both r \<noteq> 0), rt_priority = r_priority r,
     rt_created_at = r_created_at r\<rparr>"

definition list_routes :: "store \<Rightarrow> world \<Rightarrow> (route list, store_error) res" where
  "list_routes s w = rbind (store_tables s w) (\<lambda>t.
     Ok (map route_of_row (sort_key (\<lambda>r. (- r_priority r, r_created_at r)) (routes t))))"

definition list_ssh_routes :: "store \<Rightarrow> world \<Rightarrow> (ssh_route list, store_error) res" where
  "list_ssh_routes s w = rbind (store_tables s w) (\<lambda>t. Ok (sort_key sr_created_at (ssh_routes t)))"

definition list_audit_log :: "store \<Rightarrow> u32 \<Rightarrow> world \<Rightarrow> (audit_entry list, store_error) res" where
  "list_audit_log s limit w = rbind (store_tables s w) (\<lambda>t.
     Ok (take (unat limit) (sort_key (\<lambda>e. - au_occurred_at e) (audit_log t))))"

section \<open>Facts\<close>

lemma parse_debug_algorithm [simp]: "parse_algorithm (debug_key_algorithm a) = Ok a"
  by (cases a) (simp_all add: parse_algorithm_def)

lemma parse_algorithm_Ok: "parse_algorithm s = Ok a \<Longrightarrow> s = debug_key_algorithm a"
  by (auto simp: parse_algorithm_def split: if_splits)

lemma delete_cert_keeps [keeps_intros]: "keeps world_ok (delete_cert lib s label)"
  unfolding delete_cert_def
  by (intro keeps_intros stmt_intros audit_table.ins_stmt_ok)

end
