(* ===== verification/Samples.thy ===== *)
theory Samples
  imports Listing
begin

text \<open>
  A concrete instance of the external cryptography and a small concrete world, on which the
  theorems are evaluated. The library is a transparent one: encryption prepends the key,
  decryption checks and removes it, the digest and the hexadecimal form are the identity.
\<close>

definition plain_crypto :: crypto_lib where
  "plain_crypto = \<lparr>
     argon2_params = (\<lambda>m t p l. Ok ()),
     argon2id_hash = (\<lambda>m t p l pass salt. Ok (take l (pass @ salt))),
     gcm_encrypt = (\<lambda>k n p. Ok (k @ p)),
     gcm_decrypt = (\<lambda>k n c. if take (length k) c = k then Ok (drop (length k) c) else Err ''aead::Error''),
     sha256 = (\<lambda>bs. bs),
     hex_encode = of_bytes,
     hex_decode = (\<lambda>s. Ok (as_bytes s)),
     os_rng = (\<lambda>k i. of_nat k)\<rparr>"

lemma plain_crypto_correct: "gcm_correct plain_crypto" "hex_correct plain_crypto"
  by (simp_all add: gcm_correct_def hex_correct_def plain_crypto_def)

definition demo_cert :: "string \<Rightarrow> string \<Rightarrow> cert" where
  "demo_cert i l = \<lparr>c_id = i, c_label = l, c_der = [], c_fingerprint = i, c_subject = l,
     c_issuer = ''CA'', c_not_before = 0, c_not_after = 10, c_created_at = 0\<rparr>"

definition demo_key :: "string \<Rightarrow> string \<Rightarrow> bytes \<Rightarrow> key_row" where
  "demo_key i cid nonce = \<lparr>k_id = i, k_cert_id = cid, k_algorithm = ''EcP256'', k_enc = [7, 1, 2],
     k_salt = [], k_nonce = nonce\<rparr>"

definition demo_app :: "string \<Rightarrow> string \<Rightarrow> app" where
  "demo_app i exe = \<lparr>app_id = i, app_label = i, app_exe_path = exe, app_exe_hash = [],
     app_registered_at = 0\<rparr>"

definition demo_route :: "string \<Rightarrow> string \<Rightarrow> string option \<Rightarrow> string \<Rightarrow> string option \<Rightarrow> bool \<Rightarrow> int \<Rightarrow> route_row"
  where
  "demo_route i cid a m p both pri = \<lparr>r_id = i, r_cert_id = cid, r_app_id = a, r_match_type = m,
     r_pattern = p, r_require_both = (if both then 1 else 0), r_priority = pri, r_created_at = 0\<rparr>"

definition demo_db :: "tables \<Rightarrow> db_file" where
  "demo_db t = \<lparr>df_key = ''key'', df_version = Some [1], df_tables = Some t\<rparr>"

definition bare_world :: world where
  "bare_world = \<lparr>w_files = (\<lambda>_. None), w_unreadable = (\<lambda>_. False), w_unwritable = (\<lambda>_. False),
     w_links = (\<lambda>_. None), w_env = (\<lambda>_. None), w_uid = 1000, w_clock = 5, w_draws = 0,
     w_dbs = (\<lambda>_. None)\<rparr>"

definition demo_world :: "tables \<Rightarrow> world" where
  "demo_world t = bare_world\<lparr>w_dbs := [''/s'' \<mapsto> demo_db t]\<rparr>"

definition demo_store :: store where
  "demo_store = \<lparr>st_path = ''/s'', st_state = Unlocked ''/s'' [7]\<rparr>"

definition demo_tables :: tables where
  "demo_tables = no_rows\<lparr>
     certs := [demo_cert ''c1'' ''work'', demo_cert ''c2'' ''bank''],
     keys := [demo_key ''k1'' ''c1'' (replicate 12 0)],
     apps := [demo_app ''a1'' ''/usr/bin/firefox''],
     routes := [demo_route ''r1'' ''c1'' (Some ''a1'') ''ip'' (Some ''10.0.0.1'') True 5,
                demo_route ''r2'' ''c2'' None ''ip_cidr'' (Some ''10.0.1.0/24'') True 1]\<rparr>"

lemmas demo_defs = demo_cert_def demo_key_def demo_app_def demo_route_def demo_db_def
  bare_world_def demo_world_def demo_store_def demo_tables_def no_rows_def

lemma demo_store_tables: "store_tables demo_store (demo_world t) = Ok t"
  by (simp add: store_tables_def demo_store_def demo_world_def conn_tables_def demo_db_def)

lemma demo_conn [simp]:
  "store_conn demo_store = Ok ''/s''" "st_state demo_store = Unlocked ''/s'' [7]"
  "conn_tables ''/s'' (demo_world t) = Ok t"
  by (simp_all add: demo_store_def demo_world_def conn_tables_def demo_db_def)

lemma demo_world_ok: "tables_ok t \<Longrightarrow> world_ok (demo_world t)"
  by (auto simp: world_ok_def demo_world_def bare_world_def demo_db_def split: if_splits)

lemma demo_tables_ok: "tables_ok demo_tables"
  by (simp add: tables_ok_defs refs_defs has_defs demo_defs conflict_defs pairwise_free_def)

end
