(* ===== verification/Route_Choice.thy ===== *)
theory Route_Choice
  imports Samples
begin

text \<open>
  \<open>resolve_route\<close> of \<open>crates/cone-store/src/list.rs\<close>: which certificate a process at an
  executable path presents to a remote host. The scan over the routes keeps the best candidate
  seen so far; the locale \<open>best_scan\<close> states what such a scan computes.
\<close>

section \<open>Matching\<close>

fun app_matches :: "string option \<Rightarrow> string option \<Rightarrow> bool" where
  "app_matches (Some r_app) (Some a_id) = (r_app = a_id)"
| "app_matches None _ = True"
| "app_matches (Some _) None = False"

fun host_matches :: "string option \<Rightarrow> match_type \<Rightarrow> string option \<Rightarrow> string option \<Rightarrow> bool" where
  "host_matches None _ remote_host remote_ip = True"
| "host_matches (Some pattern) Hostname remote_host remote_ip =
     (case remote_host of None \<Rightarrow> False | Some h \<Rightarrow> h = pattern)"
| "host_matches (Some pattern) Ip remote_host remote_ip =
     (case remote_ip of None \<Rightarrow> False | Some ip \<Rightarrow> ip = pattern)"
| "host_matches (Some pattern) IpCidr remote_host remote_ip =
     (case remote_ip of None \<Rightarrow> False
      | Some ip \<Rightarrow> starts_with ip (trim_end_matches pattern ''.0/24''))"

definition specificity :: "route \<Rightarrow> bool \<Rightarrow> bool \<Rightarrow> int" where
  "specificity r app host =
     (if (app \<and> rt_app_id r \<noteq> None) \<and> (host \<and> rt_pattern r \<noteq> None) then 2 else 1)"

text \<open>The body of the \<open>for\<close> loop: \<open>best\<close> is \<open>(priority, specificity, cert_id)\<close>.\<close>

type_synonym candidate = "int \<times> int \<times> string"

definition is_better :: "int \<Rightarrow> int \<Rightarrow> candidate option \<Rightarrow> bool" where
  "is_better pri spec best = (case best of
      None \<Rightarrow> True
    | Some (best_pri, best_spec, _) \<Rightarrow> pri > best_pri \<or> (pri = best_pri \<and> spec > best_spec))"

definition consider_route ::
  "string option \<Rightarrow> string option \<Rightarrow> string option \<Rightarrow> route \<Rightarrow> candidate option \<Rightarrow> candidate option"
  where
  "consider_route aid remote_host remote_ip r best =
     (let app = app_matches (rt_app_id r) aid;
          host = host_matches (rt_pattern r) (rt_match_type r) remote_host remote_ip
      in if rt_require_both r \<and> \<not> (app \<and> host) then best
         else if \<not> app \<and> \<not> host then best
         else let spec = specificity r app host
              in if is_better (rt_priority r) spec best
                 then Some (rt_priority r, spec, rt_cert_id r) else best)"

definition app_id_of_exe :: "app list \<Rightarrow> string option \<Rightarrow> string option" where
  "app_id_of_exe as exe = Option.bind exe (\<lambda>path.
     map_option app_id (find (\<lambda>a. app_exe_path a = path) as))"

definition resolve_route ::
  "store \<Rightarrow> string option \<Rightarrow> string option \<Rightarrow> string option \<Rightarrow> world \<Rightarrow> (string option, store_error) res"
  where
  "resolve_route s exe remote_host remote_ip w =
     rbind (list_routes s w) (\<lambda>rts.
     rbind (list_apps s w) (\<lambda>as.
     Ok (map_option (\<lambda>(_, _, cid). cid)
       (fold (consider_route (app_id_of_exe as exe) remote_host remote_ip) rts None))))"

section \<open>Scanning for the best element\<close>

text \<open>
  A scan that skips the elements that do not apply and replaces the candidate only by a
  strictly better one returns the first of the best applicable elements.
\<close>

locale best_scan =
  fixes applies :: "'a \<Rightarrow> bool"
    and entry :: "'a \<Rightarrow> 'b"
    and rank :: "'b \<Rightarrow> 'k::linorder"
    and step :: "'a \<Rightarrow> 'b option \<Rightarrow> 'b option"
  assumes step_skip: "\<not> applies x \<Longrightarrow> step x best = best"
    and step_first: "applies x \<Longrightarrow> step x None = Some (entry x)"
    and step_next: "applies x \<Longrightarrow>
      step x (Some b) = (if rank b < rank (entry x) then Some (entry x) else Some b)"
begin

definition first_best :: "'a list \<Rightarrow> 'a \<Rightarrow> bool" where
  "first_best xs x \<longleftrightarrow> (\<exists>ys zs. xs = ys @ x # zs \<and> applies x \<and>
     (\<forall>y\<in>set ys. applies y \<longrightarrow> rank (entry y) < rank (entry x)) \<and>
     (\<forall>z\<in>set zs. applies z \<longrightarrow> rank (entry z) \<le> rank (entry x)))"

lemma scan_None_iff: "fold step xs None = None \<longleftrightarrow> (\<forall>x\<in>set xs. \<not> applies x)"
proof (induction xs rule: rev_induct)
  case Nil
  then show ?case by simp
next
  case (snoc x xs)
  then show ?case
    by (cases "applies x"; cases "fold step xs None") (auto simp: step_skip step_first step_next)
qed

lemma first_best_snoc:
  assumes "first_best xs y" and "applies x \<longrightarrow> rank (entry x) \<le> rank (entry y)"
  shows "first_best (xs @ [x]) y"
proof -
  obtain ys zs where "xs = ys @ y # zs" "applies y"
    "\<forall>u\<in>set ys. applies u \<longrightarrow> rank (entry u) < rank (entry y)"
    "\<forall>z\<in>set zs. applies z \<longrightarrow> rank (entry z) \<le> rank (entry y)"
    using assms(1) unfolding first_best_def by blast
  with assms(2) show ?thesis
    unfolding first_best_def by (intro exI [of _ ys] exI [of _ "zs @ [x]"]) auto
qed

lemma first_best_le: "first_best xs y \<Longrightarrow> u \<in> set xs \<Longrightarrow> applies u \<Longrightarrow> rank (entry u) \<le> rank (entry y)"
  unfolding first_best_def by (auto simp: less_imp_le)

lemma first_best_last:
  assumes "applies x" and "\<forall>u\<in>set xs. applies u \<longrightarrow> rank (entry u) < rank (entry x)"
  shows "first_best (xs @ [x]) x"
  unfolding first_best_def using assms by (intro exI [of _ xs] exI [of _ "[]"]) auto

lemma scan_Some: "fold step xs None = Some b \<Longrightarrow> \<exists>x. first_best xs x \<and> entry x = b"
proof (induction xs arbitrary: b rule: rev_induct)
  case Nil
  then show ?case by simp
next
  case (snoc x xs)
  show ?case
  proof (cases "applies x")
    case False
    with snoc obtain y where y: "first_best xs y" "entry y = b" by (auto simp: step_skip)
    with False have "first_best (xs @ [x]) y" by (simp add: first_best_snoc)
    with y show ?thesis by blast
  next
    case True
    show ?thesis
    proof (cases "fold step xs None")
      case None
      with True snoc.prems have "b = entry x" by (simp add: step_first)
      moreover have "\<forall>y\<in>set xs. \<not> applies y" using None scan_None_iff by blast
      ultimately show ?thesis using True first_best_last [of x xs] by blast
    next
      case (Some c)
      then obtain y where y: "first_best xs y" "entry y = c" using snoc.IH by blast
      show ?thesis
      proof (cases "rank c < rank (entry x)")
        case less: True
        then have "first_best (xs @ [x]) x"
          using True y first_best_le by (blast intro: first_best_last le_less_trans)
        with less Some True snoc.prems show ?thesis by (auto simp: step_next)
      next
        case False
        then have "first_best (xs @ [x]) y" using y by (intro first_best_snoc) auto
        with False Some True snoc.prems y show ?thesis by (auto simp: step_next)
      qed
    qed
  qed
qed

lemma first_best_mem: "first_best xs x \<Longrightarrow> x \<in> set xs \<and> applies x"
  unfolding first_best_def by auto

lemma first_best_same_rank: "first_best xs x \<Longrightarrow> first_best xs y \<Longrightarrow> rank (entry x) = rank (entry y)"
  using first_best_le first_best_mem by (metis order_antisym)

lemma first_best_unique:
  assumes "first_best xs x" and "first_best xs x'"
  shows "x = x'"
proof -
  obtain ys zs ys' zs' where d: "xs = ys @ x # zs" "xs = ys' @ x' # zs'"
    "\<forall>u\<in>set ys. applies u \<longrightarrow> rank (entry u) < rank (entry x)"
    "\<forall>u\<in>set ys'. applies u \<longrightarrow> rank (entry u) < rank (entry x')"
    using assms unfolding first_best_def by blast
  have r: "rank (entry x) = rank (entry x')" "applies x" "applies x'"
    using first_best_same_rank [OF assms] first_best_mem [OF assms(1)] first_best_mem [OF assms(2)]
    by simp_all
  have "x \<notin> set ys'" "x' \<notin> set ys" using d(3,4) r by auto
  moreover from d(1,2) have "ys @ x # zs = ys' @ x' # zs'" by simp
  then obtain us where "ys = ys' @ us \<and> us @ x # zs = x' # zs' \<or> ys @ us = ys' \<and> x # zs = us @ x' # zs'"
    by (auto simp: append_eq_append_conv2)
  ultimately show ?thesis by (cases us) auto
qed

lemma scan_Some_iff: "fold step xs None = Some b \<longleftrightarrow> (\<exists>x. first_best xs x \<and> entry x = b)"
proof
  assume "\<exists>x. first_best xs x \<and> entry x = b"
  then obtain x where x: "first_best xs x" "entry x = b" by blast
  then have "fold step xs None \<noteq> None" using first_best_mem scan_None_iff by blast
  then obtain c where c: "fold step xs None = Some c" by blast
  with scan_Some [OF this] x show "fold step xs None = Some b" using first_best_unique by blast
qed (rule scan_Some)

end

definition route_applies ::
  "string option \<Rightarrow> string option \<Rightarrow> string option \<Rightarrow> route \<Rightarrow> bool" where
  "route_applies aid remote_host remote_ip r =
     (let app = app_matches (rt_app_id r) aid;
          host = host_matches (rt_pattern r) (rt_match_type r) remote_host remote_ip
      in if rt_require_both r then app \<and> host else app \<or> host)"

definition route_entry ::
  "string option \<Rightarrow> string option \<Rightarrow> string option \<Rightarrow> route \<Rightarrow> candidate" where
  "route_entry aid remote_host remote_ip r =
     (rt_priority r,
      specificity r (app_matches (rt_app_id r) aid)
        (host_matches (rt_pattern r) (rt_match_type r) remote_host remote_ip),
      rt_cert_id r)"

definition route_rank :: "candidate \<Rightarrow> int \<times> int" where
  "route_rank c = (fst c, fst (snd c))"

interpretation route_scan: best_scan "route_applies aid host ip" "route_entry aid host ip"
  route_rank "consider_route aid host ip" for aid host ip
  by unfold_locales
    (auto simp: route_applies_def route_entry_def route_rank_def consider_route_def is_better_def
      Let_def split: if_splits)

section \<open>The choice\<close>

lemma resolve_route_eq:
  "list_routes s w = Ok rts \<Longrightarrow> list_apps s w = Ok as \<Longrightarrow>
   resolve_route s exe host ip w = Ok (map_option (\<lambda>(_, _, cid). cid)
     (fold (consider_route (app_id_of_exe as exe) host ip) rts None))"
  by (simp add: resolve_route_def)

lemma resolve_route_Ok:
  "resolve_route s exe host ip w = Ok m \<Longrightarrow>
   \<exists>rts as t. list_routes s w = Ok rts \<and> list_apps s w = Ok as \<and> store_tables s w = Ok t"
  by (auto simp: resolve_route_def list_apps_def res_simps)

text \<open>The route that the scan settles on.\<close>

definition chosen_route ::
  "string option \<Rightarrow> string option \<Rightarrow> string option \<Rightarrow> route list \<Rightarrow> route \<Rightarrow> bool" where
  "chosen_route aid host ip rts r \<longleftrightarrow> (\<exists>before after. rts = before @ r # after \<and>
     route_applies aid host ip r \<and>
     (\<forall>q\<in>set before. route_applies aid host ip q \<longrightarrow>
        route_rank (route_entry aid host ip q) < route_rank (route_entry aid host ip r)) \<and>
     (\<forall>q\<in>set after. route_applies aid host ip q \<longrightarrow>
        route_rank (route_entry aid host ip q) \<le> route_rank (route_entry aid host ip r)))"

lemma chosen_route_first_best: "chosen_route aid host ip = route_scan.first_best aid host ip"
  by (intro ext) (simp add: chosen_route_def route_scan.first_best_def)

lemma chosen_route_mem: "chosen_route aid host ip rts r \<Longrightarrow> r \<in> set rts \<and> route_applies aid host ip r"
  by (simp add: chosen_route_first_best route_scan.first_best_mem)

lemma resolve_route_Some_iff:
  assumes "list_routes s w = Ok rts" and "list_apps s w = Ok as"
  shows "resolve_route s exe host ip w = Ok (Some cid) \<longleftrightarrow>
    (\<exists>r. chosen_route (app_id_of_exe as exe) host ip rts r \<and> rt_cert_id r = cid)"
proof -
  have "resolve_route s exe host ip w = Ok (Some cid) \<longleftrightarrow>
    (\<exists>p q. fold (consider_route (app_id_of_exe as exe) host ip) rts None = Some (p, q, cid))"
    using assms by (auto simp: resolve_route_eq)
  then show ?thesis
    by (auto simp: route_scan.scan_Some_iff chosen_route_first_best route_entry_def)
qed

lemma resolve_route_None_iff:
  assumes "list_routes s w = Ok rts" and "list_apps s w = Ok as"
  shows "resolve_route s exe host ip w = Ok None \<longleftrightarrow>
    (\<forall>r\<in>set rts. \<not> route_applies (app_id_of_exe as exe) host ip r)"
  using assms by (simp add: resolve_route_eq route_scan.scan_None_iff)

lemma store_lists:
  assumes "store_tables s w = Ok t"
  shows "list_routes s w = Ok (map route_of_row (sort_key (\<lambda>r. (- r_priority r, r_created_at r)) (routes t)))"
    and "list_apps s w = Ok (sort_key app_label (apps t))"
  using assms by (simp_all add: list_routes_def list_apps_def)

lemma app_id_of_exe_Some:
  "app_id_of_exe as exe = Some i \<Longrightarrow> \<exists>a\<in>set as. app_id a = i \<and> exe = Some (app_exe_path a)"
  by (cases exe) (auto simp: app_id_of_exe_def dest: find_SomeD)

lemma chosen_row:
  assumes "store_tables s w = Ok t" and "resolve_route s exe host ip w = Ok (Some cid)"
  obtains r where "r \<in> set (routes t)" "r_cert_id r = cid"
    "route_applies (app_id_of_exe (sort_key app_label (apps t)) exe) host ip (route_of_row r)"
proof -
  let ?aid = "app_id_of_exe (sort_key app_label (apps t)) exe"
  let ?rts = "map route_of_row (sort_key (\<lambda>r. (- r_priority r, r_created_at r)) (routes t))"
  obtain q where "chosen_route ?aid host ip ?rts q" "rt_cert_id q = cid"
    using resolve_route_Some_iff [OF store_lists [OF assms(1)]] assms(2) by blast
  then have "q \<in> set ?rts \<and> route_applies ?aid host ip q \<and> rt_cert_id q = cid"
    using chosen_route_mem by blast
  then show thesis using that by (auto simp: route_of_row_def)
qed

text \<open>What a route confined by \<open>require_both\<close> to an application and an IP address demands.\<close>

lemma confined_row_applies:
  assumes "route_applies (app_id_of_exe (sort_key app_label (apps t)) exe) host ip (route_of_row r)"
    and "r_require_both r \<noteq> 0 \<and> r_match_type r = ''ip'' \<and> r_app_id r \<noteq> None \<and> r_pattern r \<noteq> None"
  shows "\<exists>a\<in>set (apps t). r_app_id r = Some (app_id a) \<and> exe = Some (app_exe_path a) \<and>
    ip = r_pattern r \<and> r_pattern r \<noteq> None"
proof -
  let ?aid = "app_id_of_exe (sort_key app_label (apps t)) exe"
  from assms(2) obtain i p where rr: "r_require_both r \<noteq> 0" "r_match_type r = ''ip''"
    "r_app_id r = Some i" "r_pattern r = Some p"
    by auto
  with assms(1) have "app_matches (Some i) ?aid" "host_matches (Some p) Ip host ip"
    by (auto simp: route_applies_def route_of_row_def match_type_of_str_def Let_def)
  then have "?aid = Some i" "ip = Some p"
    by (cases ?aid, auto split: option.splits)
  with app_id_of_exe_Some [of _ exe i] rr show ?thesis by force
qed

section \<open>Properties\<close>

text \<open>
  C1. The routing decision is functionally correct: the certificate chosen is that of the first
  route, in the order of the route list, among the applicable routes of greatest priority and,
  within a priority, of greatest specificity; and no certificate is chosen exactly when no
  route applies.
\<close>

theorem resolve_route_spec:
  assumes "list_routes s w = Ok rts" and "list_apps s w = Ok as"
  shows "(resolve_route s exe host ip w = Ok (Some cid) \<longleftrightarrow>
      (\<exists>r. chosen_route (app_id_of_exe as exe) host ip rts r \<and> rt_cert_id r = cid)) \<and>
    (resolve_route s exe host ip w = Ok None \<longleftrightarrow>
      (\<forall>r\<in>set rts. \<not> route_applies (app_id_of_exe as exe) host ip r))"
  using resolve_route_Some_iff [OF assms] resolve_route_None_iff [OF assms] by blast

lemma demo_lists:
  "list_routes demo_store (demo_world demo_tables) = Ok (map route_of_row (routes demo_tables))"
  "list_apps demo_store (demo_world demo_tables) = Ok (apps demo_tables)"
  unfolding store_lists [OF demo_store_tables] by (simp_all add: demo_tables_def demo_route_def)

theorem resolve_route_spec_witness:
  "resolve_route demo_store (Some ''/usr/bin/firefox'') None (Some ''10.0.0.1'') (demo_world demo_tables)
     = Ok (Some ''c1'')"
proof -
  let ?r = "hd (map route_of_row (routes demo_tables))"
  have "chosen_route (app_id_of_exe (apps demo_tables) (Some ''/usr/bin/firefox'')) None
      (Some ''10.0.0.1'') (map route_of_row (routes demo_tables)) ?r"
    unfolding chosen_route_def
    by (rule exI [of _ "[]"], rule exI [of _ "tl (map route_of_row (routes demo_tables))"]) code_simp
  moreover have "rt_cert_id ?r = ''c1''" by (simp add: demo_defs route_of_row_def)
  ultimately show ?thesis using resolve_route_spec [OF demo_lists] by blast
qed

text \<open>
  A certificate chosen by the router exists: the schema's foreign keys exclude a dangling
  route, so looking the certificate up succeeds.
\<close>

theorem resolve_route_cert_exists:
  assumes "world_ok w" and "resolve_route s exe host ip w = Ok (Some cid)"
  shows "\<exists>c. get_cert_by_id s cid w = Ok c \<and> c_id c = cid"
proof -
  obtain t where t: "store_tables s w = Ok t" using resolve_route_Ok [OF assms(2)] by blast
  obtain r where r: "r \<in> set (routes t)" "r_cert_id r = cid" using chosen_row [OF t assms(2)] .
  from t obtain c p where c: "st_state s = Unlocked c p" "conn_tables c w = Ok t"
    by (auto simp: store_tables_Ok_iff)
  then have "tables_ok t" using assms(1) world_okD by blast
  with r have "has_cert cid t" by (auto simp: tables_ok_defs refs_defs)
  then obtain k where k: "k \<in> set (certs t)" "c_id k = cid" by (auto simp: has_cert_def)
  then obtain k' where "find (\<lambda>c. c_id c = cid) (certs t) = Some k'"
    using find_Some_ex [of k "certs t" "\<lambda>c. c_id c = cid"] by blast
  with c show ?thesis
    by (auto simp: get_cert_by_id_def query_row_def dest: find_SomeD)
qed

theorem resolve_route_cert_exists_witness:
  "\<exists>c. get_cert_by_id demo_store ''c1'' (demo_world demo_tables) = Ok c \<and> c_id c = ''c1''"
proof (rule resolve_route_cert_exists [OF demo_world_ok [OF demo_tables_ok]])
  show "resolve_route demo_store (Some ''/usr/bin/firefox'') None (Some ''10.0.0.1'')
      (demo_world demo_tables) = Ok (Some ''c1'')"
    unfolding resolve_route_eq [OF demo_lists] by code_simp
qed

text \<open>
  A route for one application without a host pattern, stored without \<open>require_both\<close>, applies
  to every process: the missing pattern counts as a host match, and one match is enough. So
  a certificate is chosen for executables that no one registered.
\<close>

theorem app_route_open_to_all:
  assumes "store_tables s w = Ok t" and "r \<in> set (routes t)"
    and "r_require_both r = 0" and "r_pattern r = None"
  shows "\<exists>cid. resolve_route s exe host ip w = Ok (Some cid)"
proof -
  note lists = store_lists [OF assms(1)]
  have "route_applies aid host ip (route_of_row r)" for aid
    using assms by (simp add: route_applies_def route_of_row_def Let_def)
  then have "resolve_route s exe host ip w \<noteq> Ok None"
    using resolve_route_None_iff [OF lists] assms(2) by force
  moreover obtain m where "resolve_route s exe host ip w = Ok m"
    using resolve_route_eq [OF lists] by blast
  ultimately show ?thesis by (cases m) auto
qed

theorem app_route_open_to_all_witness:
  "\<exists>cid. resolve_route demo_store (Some ''/tmp/malware'') None (Some ''6.6.6.6'')
     (demo_world (demo_tables\<lparr>routes := [demo_route ''r'' ''c1'' (Some ''a1'') ''hostname'' None False 1]\<rparr>))
     = Ok (Some cid)"
  by (rule app_route_open_to_all [OF demo_store_tables,
        where r = "demo_route ''r'' ''c1'' (Some ''a1'') ''hostname'' None False 1"])
    (simp_all add: demo_route_def)

text \<open>
  What a \<open>/24\<close> pattern really matches: the first two octets must agree, and the third octet
  of the pattern need only be a decimal prefix of the address's. \<open>10.0.1.0/24\<close> admits
  \<open>10.0.10.7\<close>.
\<close>

theorem cidr_match_iff:
  "host_matches (Some (dotted a b c 0 @ ''/24'')) IpCidr host (Some (dotted w x y z)) \<longleftrightarrow>
     a = w \<and> b = x \<and> starts_with (dec y) (dec c)"
proof -
  let ?p = "dec a @ ''.'' @ dec b @ ''.'' @ dec c"
  have d0: "dec 0 = ''0''" by code_simp
  have "\<not> ends_with ?p ''.0/24''"
  proof
    assume "ends_with ?p ''.0/24''"
    then have "set ''.0/24'' \<subseteq> set ?p" by (metis ends_with_def set_drop_subset)
    then show False by simp
  qed
  then have "trim_end_matches (dotted a b c 0 @ ''/24'') ''.0/24'' = ?p"
    using trim_end_matches_once [of "''.0/24''" ?p] by (simp add: dotted_def d0)
  then show ?thesis
    by (simp add: dotted_def starts_with_field starts_with_last_field)
qed

end
