(* ===== verification/Integrity.thy ===== *)
theory Integrity
  imports Samples
begin

text \<open>
  \<open>crates/cone-store/src/integrity.rs\<close>: the recorded hashes of the program's binaries and their
  verification at startup.
\<close>

definition COMPONENTS :: "string list" where
  "COMPONENTS = [''coned'', ''libcone.so'', ''cone'']"

definition hash_file_path :: "crypto_lib \<Rightarrow> string \<Rightarrow> world \<Rightarrow> (string, store_error) res" where
  "hash_file_path lib path w = hash_file lib path w"

text \<open>
  \<open>INSERT OR REPLACE\<close> under a fresh identifier: the table's only unique column is the identifier.
\<close>

definition record_binary ::
  "crypto_lib \<Rightarrow> store \<Rightarrow> string \<Rightarrow> string \<Rightarrow> string \<Rightarrow> (world, unit, store_error) oper" where
  "record_binary lib s component path version =
     obind (lift_res (store_conn s)) (\<lambda>conn.
     obind (reading (hash_file lib path)) (\<lambda>h.
     obind unix_now (\<lambda>now.
     obind (new_id lib) (\<lambda>i.
     conn_execute conn (insert_or_replace_integrity
       \<lparr>ir_id = i, ir_component = component, ir_path = path, ir_sha256 = h, ir_version = version,
        ir_recorded_at = now, ir_verified_at = None\<rparr>)))))"

definition verify_record ::
  "crypto_lib \<Rightarrow> world \<Rightarrow> integrity_record \<Rightarrow> (unit, store_error) res" where
  "verify_record lib w r = rbind (hash_file lib (ir_path r) w) (\<lambda>actual.
     if actual \<noteq> ir_sha256 r
     then Err (IntegrityFailure (ir_component r @ '' at '' @ ir_path r @
            '' has been modified (expected '' @ ir_sha256 r @ '', found '' @ actual @ '')''))
     else Ok ())"

definition list_integrity :: "store \<Rightarrow> world \<Rightarrow> (integrity_record list, store_error) res" where
  "list_integrity s w = rbind (store_tables s w) (\<lambda>t. Ok (sort_key ir_component (integrity t)))"

fun verify_records :: "crypto_lib \<Rightarrow> world \<Rightarrow> integrity_record list \<Rightarrow> (unit, store_error) res" where
  "verify_records lib w [] = Ok ()"
| "verify_records lib w (r # rs) = rbind (verify_record lib w r) (\<lambda>_. verify_records lib w rs)"

definition verify_all :: "crypto_lib \<Rightarrow> store \<Rightarrow> (world, unit, store_error) oper" where
  "verify_all lib s =
     obind (reading (list_integrity s)) (\<lambda>records.
     obind (reading (\<lambda>w. verify_records lib w records)) (\<lambda>_.
     obind unix_now (\<lambda>now.
     obind (lift_res (store_conn s)) (\<lambda>conn.
     conn_execute conn (update_verified_at now)))))"

section \<open>Facts\<close>

text \<open>The file at a record's path is readable and has the recorded digest.\<close>

definition intact :: "crypto_lib \<Rightarrow> world \<Rightarrow> integrity_record \<Rightarrow> bool" where
  "intact lib w r \<longleftrightarrow> (\<exists>bs. fs_read (ir_path r) w = Ok bs \<and> hash_bytes lib bs = ir_sha256 r)"

lemma verify_record_Ok_iff: "verify_record lib w r = Ok () \<longleftrightarrow> intact lib w r"
  by (auto simp: verify_record_def hash_file_def intact_def res_simps)

lemma verify_records_Ok_iff: "verify_records lib w rs = Ok () \<longleftrightarrow> (\<forall>r\<in>set rs. intact lib w r)"
  by (induction rs) (auto simp: rbind_Ok_iff verify_record_Ok_iff)

lemma verify_all_apply:
  assumes "store_tables s w = Ok t"
  shows "verify_all lib s w =
    (case verify_records lib w (sort_key ir_component (integrity t)) of
       Ok _ \<Rightarrow> (Ok (), put_tables (case st_state s of Unlocked c p \<Rightarrow> c | Locked \<Rightarrow> [])
         (t\<lparr>integrity := map (\<lambda>i. i\<lparr>ir_verified_at := Some (w_clock w)\<rparr>) (integrity t)\<rparr>) w)
     | Err e \<Rightarrow> (Err e, w) | Panic \<Rightarrow> (Panic, w))"
proof -
  obtain c p where c: "st_state s = Unlocked c p" "conn_tables c w = Ok t"
    using assms by (auto simp: store_tables_Ok_iff)
  then show ?thesis
    by (auto simp: verify_all_def list_integrity_def assms obind_apply conn_execute_eq
        update_verified_at_def split: res.splits)
qed

lemma verify_all_intact:
  assumes "store_tables s w = Ok t" and "verify_all lib s w = (Ok (), w')"
  shows "(\<forall>r\<in>set (integrity t). intact lib w r) \<and> (\<exists>t'. store_tables s w' = Ok t' \<and>
    integrity t' = map (\<lambda>i. i\<lparr>ir_verified_at := Some (w_clock w)\<rparr>) (integrity t))"
proof -
  obtain c p where c: "st_state s = Unlocked c p" "conn_tables c w = Ok t"
    using assms(1) by (auto simp: store_tables_Ok_iff)
  with assms(2) verify_records_Ok_iff [of lib w "sort_key ir_component (integrity t)"] show ?thesis
    by (auto simp: verify_all_apply [OF assms(1)] store_tables_Ok_iff split: res.splits)
qed

lemma verify_all_reads:
  assumes "store_tables s w = Ok t"
  shows "fs_read p (snd (verify_all lib s w)) = fs_read p w"
  unfolding verify_all_apply [OF assms] by (auto split: res.splits intro: fs_read_cong)

lemma record_binary_keeps [keeps_intros]: "keeps world_ok (record_binary lib s c p v)"
  and verify_all_keeps [keeps_intros]: "keeps world_ok (verify_all lib s)"
  by (auto simp: record_binary_def verify_all_def intro!: keeps_intros stmt_intros)

lemma record_binary_apply:
  assumes "store_tables s w = Ok t" and "fs_read path w = Ok bs"
    and "\<forall>r\<in>set (integrity t). ir_id r \<noteq> hex_encode lib (map (os_rng lib (w_draws w)) [0..<16])"
  shows "\<exists>w' r. record_binary lib s component path version w = (Ok (), w') \<and>
    ir_component r = component \<and> ir_path r = path \<and> ir_sha256 r = hash_bytes lib bs \<and>
    store_tables s w' = Ok (t\<lparr>integrity := integrity t @ [r]\<rparr>) \<and> w_files w' = w_files w \<and>
    w_unreadable w' = w_unreadable w"
proof -
  let ?i = "hex_encode lib (map (os_rng lib (w_draws w)) [0..<16])"
  let ?r = "\<lparr>ir_id = ?i, ir_component = component, ir_path = path, ir_sha256 = hash_bytes lib bs,
    ir_version = version, ir_recorded_at = w_clock w, ir_verified_at = None\<rparr>"
  obtain c p where c: "st_state s = Unlocked c p" "conn_tables c w = Ok t"
    using assms(1) by (auto simp: store_tables_Ok_iff)
  have "filter (\<lambda>x. \<not> integrity_conflict x ?r) (integrity t) = integrity t"
    using assms(3) by (auto simp: filter_id_conv integrity_conflict_def)
  then have "insert_or_replace_integrity ?r t = Ok (t\<lparr>integrity := integrity t @ [?r]\<rparr>)"
    using assms(3) by (auto simp: insert_or_replace_integrity_def insert_integrity_def insert_row_def
        integrity_conflict_def)
  with c assms(2) show ?thesis
    by (auto simp: record_binary_def obind_apply hash_file_def new_id_apply conn_execute_eq
        store_tables_Ok_iff intro!: exI [of _ ?r])
qed

section \<open>Properties\<close>

text \<open>
  C14. \<open>verify_all\<close> succeeds exactly when every recorded file can be read and has the recorded
  digest; then every record carries the time of the check, and on any failure the world is
  as it was.
\<close>

theorem verify_all_spec:
  assumes "store_tables s w = Ok t"
  shows "(fst (verify_all lib s w) = Ok () \<longleftrightarrow> (\<forall>r\<in>set (integrity t). intact lib w r)) \<and>
    (if fst (verify_all lib s w) = Ok ()
     then \<exists>t'. store_tables s (snd (verify_all lib s w)) = Ok t' \<and>
       integrity t' = map (\<lambda>i. i\<lparr>ir_verified_at := Some (w_clock w)\<rparr>) (integrity t)
     else snd (verify_all lib s w) = w)"
proof -
  obtain c p where c: "st_state s = Unlocked c p" "conn_tables c w = Ok t"
    using assms by (auto simp: store_tables_Ok_iff)
  have *: "verify_records lib w (sort_key ir_component (integrity t)) = Ok () \<longleftrightarrow>
      (\<forall>r\<in>set (integrity t). intact lib w r)"
    by (simp add: verify_records_Ok_iff)
  show ?thesis
    using * c by (auto simp: verify_all_apply [OF assms] store_tables_Ok_iff split: res.splits)
qed

definition demo_record :: integrity_record where
  "demo_record = \<lparr>ir_id = ''i1'', ir_component = ''cone'', ir_path = ''/bin/cone'', ir_sha256 = ''old'',
     ir_version = ''1'', ir_recorded_at = 0, ir_verified_at = None\<rparr>"

definition demo_disk :: "string \<Rightarrow> world" where
  "demo_disk s = (demo_world (no_rows\<lparr>integrity := [demo_record]\<rparr>))\<lparr>w_files := [''/bin/cone'' \<mapsto> as_bytes s]\<rparr>"

lemma demo_disk_facts:
  "store_tables demo_store (demo_disk s) = Ok (no_rows\<lparr>integrity := [demo_record]\<rparr>)"
  "fs_read ''/bin/cone'' (demo_disk s) = Ok (as_bytes s)" "w_draws (demo_disk s) = 0"
  by (simp_all add: store_tables_def conn_tables_def demo_disk_def demo_defs fs_read_def)

theorem verify_all_spec_witness:
  "fst (verify_all plain_crypto demo_store (demo_disk ''old'')) = Ok () \<and>
   fst (verify_all plain_crypto demo_store (demo_disk ''new'')) \<noteq> Ok ()"
  using verify_all_spec [OF demo_disk_facts(1), of plain_crypto]
  by (simp add: intact_def demo_record_def demo_disk_facts hash_bytes_def plain_crypto_def)

text \<open>
  Recording a component again does not replace its record. The new row has a fresh
  identifier and the identifier is the only unique column, so the row with the old digest
  stays, and after an upgrade that changed the binary the verification fails.
\<close>

theorem rerecord_keeps_stale:
  assumes "store_tables s w = Ok t" and "fs_read path w = Ok bs"
    and "old \<in> set (integrity t)" and "ir_component old = component" and "ir_path old = path"
    and "ir_sha256 old \<noteq> hash_bytes lib bs"
    and "\<forall>r\<in>set (integrity t). ir_id r \<noteq> hex_encode lib (map (os_rng lib (w_draws w)) [0..<16])"
  shows "\<exists>w'. record_binary lib s component path version w = (Ok (), w') \<and>
    fst (verify_all lib s w') \<noteq> Ok ()"
proof -
  obtain w' r where w': "record_binary lib s component path version w = (Ok (), w')"
    "store_tables s w' = Ok (t\<lparr>integrity := integrity t @ [r]\<rparr>)" "w_files w' = w_files w"
    "w_unreadable w' = w_unreadable w"
    using record_binary_apply [OF assms(1,2,7), of component version] by blast
  then have "fs_read path w' = Ok bs" using assms(2) fs_read_cong by metis
  then have "\<not> intact lib w' old" using assms(5,6) by (auto simp: intact_def)
  then have "fst (verify_all lib s w') \<noteq> Ok ()"
    using assms(3) verify_records_Ok_iff [of lib w' "sort_key ir_component (integrity t @ [r])"]
    by (auto simp: verify_all_apply [OF w'(2)] split: res.splits)
  with w' show ?thesis by blast
qed

theorem rerecord_keeps_stale_witness:
  "\<exists>w'. record_binary plain_crypto demo_store ''cone'' ''/bin/cone'' ''2'' (demo_disk ''new'') = (Ok (), w') \<and>
     fst (verify_all plain_crypto demo_store w') \<noteq> Ok ()"
  by (rule rerecord_keeps_stale [OF demo_disk_facts(1,2), where old = demo_record])
    (simp_all add: demo_record_def hash_bytes_def plain_crypto_def demo_disk_facts neq_Nil_conv,
      simp add: of_bytes_def upt_rec char_of_byte_def)

end
