(* ===== verification/Daemon_Lib.thy ===== *)
theory Daemon_Lib
  imports Samples
begin

text \<open>
  What the daemon \<open>coned\<close> takes from outside the repository, and its errors. An \<open>anyhow\<close> error
  is either an error converted by the question mark or the message of \<open>bail!\<close>; its text is
  what a client is sent. \<open>display_store_error\<close> is \<open>crates/cone-store/src/error.rs\<close>.
\<close>

datatype coned_error = FromStore store_error | FromIo io_error | EofError | JsonError string
  | Message string | WithContext string coned_error

text \<open>
  The texts of the errors of \<open>rusqlite\<close>, \<open>std::io\<close> and \<open>serde_json\<close>, and the cryptographic
  signers. A signing key is opaque: the bytes that the parser returned.
\<close>

type_synonym signing_key = bytes

record daemon_lib =
  dl_crypto :: crypto_lib
  sql_text :: "sql_error \<Rightarrow> string"
  io_text :: "io_error \<Rightarrow> string"
  eof_text :: string
  p256_from_pkcs8_der :: "bytes \<Rightarrow> (signing_key, string) res"
  p256_sign_der :: "signing_key \<Rightarrow> bytes \<Rightarrow> bytes"
  rsa_from_pkcs8_der :: "bytes \<Rightarrow> (signing_key, string) res"
  rsa_sign_sha256 :: "signing_key \<Rightarrow> bytes \<Rightarrow> bytes"
  rsa_sign_sha512 :: "signing_key \<Rightarrow> bytes \<Rightarrow> bytes"
  ed25519_sign :: "signing_key \<Rightarrow> bytes \<Rightarrow> bytes"

fun display_store_error :: "daemon_lib \<Rightarrow> store_error \<Rightarrow> string" where
  "display_store_error lib (Database e) = ''database error: '' @ sql_text lib e"
| "display_store_error lib WrongPassphrase = ''wrong passphrase or corrupted database''"
| "display_store_error lib LockedError = ''store is locked '' @ em_dash @ '' call unlock() first''"
| "display_store_error lib (IntegrityFailure m) = ''integrity check failed: '' @ m"
| "display_store_error lib (Import m) = ''import error: '' @ m"
| "display_store_error lib (Crypto m) = ''cryptographic error: '' @ m"
| "display_store_error lib (NotFound m) = ''not found: '' @ m"
| "display_store_error lib (Io e) = ''io error: '' @ io_text lib e"

fun display_error :: "daemon_lib \<Rightarrow> coned_error \<Rightarrow> string" where
  "display_error lib (FromStore e) = display_store_error lib e"
| "display_error lib (FromIo e) = io_text lib e"
| "display_error lib EofError = eof_text lib"
| "display_error lib (JsonError m) = m"
| "display_error lib (Message m) = m"
| "display_error lib (WithContext m e) = m"

text \<open>\<open>.context("...")\<close>: the outermost message is the one displayed.\<close>

definition with_context :: "string \<Rightarrow> ('a, coned_error) res \<Rightarrow> ('a, coned_error) res" where
  "with_context m r = map_err (WithContext m) r"

text \<open>\<open>format!("{}", pid)\<close>.\<close>

definition show_u32 :: "u32 \<Rightarrow> string" where
  "show_u32 w = dec (unat w)"

text \<open>\<open>HashMap\<close> operations on an association list with one entry per key.\<close>

fun map_insert :: "'k \<Rightarrow> 'v \<Rightarrow> ('k \<times> 'v) list \<Rightarrow> ('k \<times> 'v) list" where
  "map_insert k v [] = [(k, v)]"
| "map_insert k v (e # es) = (if fst e = k then (k, v) # es else e # map_insert k v es)"

lemma map_of_map_insert [simp]: "map_of (map_insert k v es) = (map_of es)(k \<mapsto> v)"
  by (induction es) auto

definition map_remove :: "'k \<Rightarrow> ('k \<times> 'v) list \<Rightarrow> ('k \<times> 'v) list" where
  "map_remove k es = filter (\<lambda>e. fst e \<noteq> k) es"

lemma map_of_map_remove [simp]: "map_of (map_remove k es) = (map_of es)(k := None)"
  by (induction es) (auto simp: map_remove_def)

lemma distinct_map_insert: "distinct (map fst es) \<Longrightarrow> distinct (map fst (map_insert k v es))"
proof -
  have "fst ` set (map_insert k v es) \<subseteq> insert k (fst ` set es)" for es :: "('a \<times> 'b) list"
    by (induction es) auto
  then show "distinct (map fst es) \<Longrightarrow> ?thesis"
    by (induction es) auto
qed

text \<open>A concrete instance, for evaluation: a signature is the key followed by the data.\<close>

definition demo_lib :: daemon_lib where
  "demo_lib = \<lparr>dl_crypto = plain_crypto, sql_text = (\<lambda>_. ''sql''), io_text = (\<lambda>_. ''io''),
     eof_text = ''eof'', p256_from_pkcs8_der = Ok, p256_sign_der = (@), rsa_from_pkcs8_der = Ok,
     rsa_sign_sha256 = (@), rsa_sign_sha512 = (@), ed25519_sign = (@)\<rparr>"

end
