(* ===== verification/Process_Monitor.thy ===== *)
theory Process_Monitor
  imports Daemon_Lib
begin

text \<open>
  \<open>crates/coned/src/process_monitor.rs\<close>: from a process identifier to the executable that it
  runs, its hash and its network peers, all read from \<open>/proc\<close>, with a cache of the resolved
  processes.
\<close>

record process_entry =
  pe_pid :: u32
  pe_exe_path :: string
  pe_exe_hash :: string
  pe_start_time :: u64

record process_monitor =
  pm_cache :: "(u32 \<times> process_entry) list"

definition new_monitor :: process_monitor where
  "new_monitor = \<lparr>pm_cache = []\<rparr>"

datatype connection_state = Established | Other

record tcp_connection =
  tc_remote_ip :: string
  tc_remote_port :: u16
  tc_state :: connection_state

section \<open>The readers of \<open>/proc\<close>\<close>

definition read_exe_path :: "daemon_lib \<Rightarrow> u32 \<Rightarrow> world \<Rightarrow> (string, coned_error) res" where
  "read_exe_path lib pid w =
     rbind (map_err (\<lambda>e. Message (''failed to read /proc/'' @ show_u32 pid @ ''/exe: '' @ io_text lib e
         @ '' '' @ em_dash @ '' process may have exited or permission denied''))
       (fs_read_link (''/proc/'' @ show_u32 pid @ ''/exe'') w)) (\<lambda>exe.
     ok_or (Message (''exe path for PID '' @ show_u32 pid @ '' contains invalid UTF-8'')) (to_str exe))"

definition get_nth :: "'a list \<Rightarrow> nat \<Rightarrow> 'a option" where
  "get_nth xs n = (if n < length xs then Some (xs ! n) else None)"

text \<open>The fields after the last closing parenthesis; \<open>stat[after_comm + 2..]\<close> may panic.\<close>

definition read_process_start_time :: "u32 \<Rightarrow> world \<Rightarrow> (u64, coned_error) res" where
  "read_process_start_time pid w =
     rbind (map_err (\<lambda>_. Message (''process '' @ show_u32 pid @ '' not found''))
       (fs_read_to_string (''/proc/'' @ show_u32 pid @ ''/stat'') w)) (\<lambda>stat.
     rbind (ok_or (Message (''malformed /proc/'' @ show_u32 pid @ ''/stat'')) (rfind (CHR '')'') stat)) (\<lambda>after_comm.
     rbind (str_from stat (after_comm + 2)) (\<lambda>rest.
     let fields = split_whitespace rest in
     map_err (\<lambda>_. Message (''failed to parse start time from /proc/'' @ show_u32 pid @ ''/stat''))
       (rbind (ok_or () (Option.bind (get_nth fields 19) (from_str_radix 10 (2 ^ 64)))) (\<lambda>n.
        Ok (of_nat n))))))"

text \<open>One step of the loop over the four words of an IPv6 address.\<close>

fun hex_groups :: "string \<Rightarrow> nat list \<Rightarrow> (string list option, 'e) res" where
  "hex_groups addr_part [] = Ok (Some [])"
| "hex_groups addr_part (i # is) =
     rbind (str_range addr_part i (i + 8)) (\<lambda>part.
     case from_str_radix 16 (2 ^ 32) part of
       None \<Rightarrow> Ok None
     | Some n \<Rightarrow>
         let word = from_be (swap_bytes (of_nat n)) in
         rbind (hex_groups addr_part is) (\<lambda>r. Ok (map_option (\<lambda>gs. hex08 word # gs) r)))"

fun join :: "string \<Rightarrow> string list \<Rightarrow> string" where
  "join sep [] = []"
| "join sep [s] = s"
| "join sep (s # t # ss) = s @ sep @ join sep (t # ss)"

definition parse_hex_addr :: "string \<Rightarrow> bool \<Rightarrow> ((string \<times> u16) option, 'e) res" where
  "parse_hex_addr addr ipv6 = (case split_once (CHR '':'') addr of
      None \<Rightarrow> Ok None
    | Some (addr_part, port_part) \<Rightarrow> (case from_str_radix 16 (2 ^ 16) port_part of
        None \<Rightarrow> Ok None
      | Some p \<Rightarrow>
          let port = (of_nat p :: u16) in
          if ipv6 then
            (if length addr_part \<noteq> 32 then Ok None
             else rbind (hex_groups addr_part [0, 8, 16, 24]) (\<lambda>r.
               Ok (map_option (\<lambda>groups.
                 let hex = concat groups
                 in (join '':'' (map (\<lambda>i. take 4 (drop (i * 4) hex)) [0..<8]), port)) r)))
          else if length addr_part \<noteq> 8 then Ok None
          else (case from_str_radix 16 (2 ^ 32) addr_part of
              None \<Rightarrow> Ok None
            | Some n \<Rightarrow> Ok (case map unat (to_le_bytes (of_nat n)) of
                [a, b, c, d] \<Rightarrow> Some (dotted a b c d, port) | _ \<Rightarrow> None))))"

text \<open>The loop over the lines after the header.\<close>

fun tcp_lines :: "bool \<Rightarrow> string list \<Rightarrow> (tcp_connection list, 'e) res" where
  "tcp_lines ipv6 [] = Ok []"
| "tcp_lines ipv6 (l # ls) =
     (let fields = split_whitespace l in
      if length fields < 4 then tcp_lines ipv6 ls
      else
        let connection_state = (if fields ! 3 = ''01'' then Established else Other) in
        if connection_state \<noteq> Established then tcp_lines ipv6 ls
        else rbind (parse_hex_addr (fields ! 2) ipv6) (\<lambda>a. rbind (tcp_lines ipv6 ls) (\<lambda>cs.
          Ok (case a of
              Some (ip, port) \<Rightarrow>
                \<lparr>tc_remote_ip = ip, tc_remote_port = port, tc_state = connection_state\<rparr> # cs
            | None \<Rightarrow> cs))))"

definition read_proc_net_tcp :: "u32 \<Rightarrow> bool \<Rightarrow> world \<Rightarrow> (tcp_connection list, coned_error) res" where
  "read_proc_net_tcp pid ipv6 w =
     (let filename = (if ipv6 then ''tcp6'' else ''tcp'') in
      case fs_read_to_string (''/proc/'' @ show_u32 pid @ ''/net/'' @ filename) w of
        Ok content \<Rightarrow> tcp_lines ipv6 (drop 1 (lines content))
      | Err _ \<Rightarrow> Ok []
      | Panic \<Rightarrow> Panic)"

definition monitor_hash_file :: "daemon_lib \<Rightarrow> string \<Rightarrow> world \<Rightarrow> (string, coned_error) res" where
  "monitor_hash_file lib path w =
     rbind (map_err (\<lambda>e. Message (''failed to read '' @ path @ '': '' @ io_text lib e)) (fs_read path w))
       (\<lambda>bs. Ok (hex_encode (dl_crypto lib) (sha256 (dl_crypto lib) bs)))"

section \<open>The monitor\<close>

definition resolve_fresh ::
  "daemon_lib \<Rightarrow> world \<Rightarrow> u32 \<Rightarrow> u64 \<Rightarrow> (process_monitor, process_entry, coned_error) oper" where
  "resolve_fresh lib w pid start_time =
     obind (lift_res (read_exe_path lib pid w)) (\<lambda>exe_path.
     obind (lift_res (monitor_hash_file lib exe_path w)) (\<lambda>exe_hash pm.
       let entry = \<lparr>pe_pid = pid, pe_exe_path = exe_path, pe_exe_hash = exe_hash,
             pe_start_time = start_time\<rparr>
       in (Ok entry, pm\<lparr>pm_cache := map_insert pid entry (pm_cache pm)\<rparr>)))"

definition resolve :: "daemon_lib \<Rightarrow> world \<Rightarrow> u32 \<Rightarrow> (process_monitor, process_entry, coned_error) oper" where
  "resolve lib w pid =
     obind (lift_res (read_process_start_time pid w)) (\<lambda>start_time pm.
       case map_of (pm_cache pm) pid of
         Some entry \<Rightarrow>
           if pe_start_time entry = start_time then (Ok entry, pm)
           else resolve_fresh lib w pid start_time pm
       | None \<Rightarrow> resolve_fresh lib w pid start_time pm)"

definition verify_hash ::
  "daemon_lib \<Rightarrow> world \<Rightarrow> u32 \<Rightarrow> string \<Rightarrow> (process_monitor, process_entry, coned_error) oper" where
  "verify_hash lib w pid expected_hash =
     obind (resolve lib w pid) (\<lambda>entry.
       if pe_exe_hash entry \<noteq> expected_hash
       then lift_res (Err (Message (''Binary hash mismatch for PID '' @ show_u32 pid @ '' ('' @
              pe_exe_path entry @ ''): expected '' @ expected_hash @ '', found '' @ pe_exe_hash entry @
              ''. The binary may have been modified or replaced.'')))
       else ret entry)"

definition get_connections :: "u32 \<Rightarrow> world \<Rightarrow> (tcp_connection list, coned_error) res" where
  "get_connections pid w =
     (case read_proc_net_tcp pid False w of
        Panic \<Rightarrow> Panic
      | r4 \<Rightarrow> (case read_proc_net_tcp pid True w of
          Panic \<Rightarrow> Panic
        | r6 \<Rightarrow> Ok ((case r4 of Ok tcp \<Rightarrow> tcp | _ \<Rightarrow> []) @ (case r6 of Ok tcp6 \<Rightarrow> tcp6 | _ \<Rightarrow> []))))"

definition invalidate :: "u32 \<Rightarrow> process_monitor \<Rightarrow> process_monitor" where
  "invalidate pid pm = pm\<lparr>pm_cache := map_remove pid (pm_cache pm)\<rparr>"

text \<open>\<open>HashMap::retain\<close> with a predicate that reads \<open>/proc\<close> and may panic.\<close>

fun retain_live :: "world \<Rightarrow> (u32 \<times> process_entry) list \<Rightarrow> ((u32 \<times> process_entry) list, 'e) res" where
  "retain_live w [] = Ok []"
| "retain_live w ((pid, entry) # es) =
     (case read_process_start_time pid w of
        Panic \<Rightarrow> Panic
      | r \<Rightarrow> rbind (retain_live w es) (\<lambda>rest.
          Ok (if (case r of Ok current_start \<Rightarrow> current_start = pe_start_time entry | _ \<Rightarrow> False)
              then (pid, entry) # rest else rest)))"

definition cleanup_stale :: "world \<Rightarrow> process_monitor \<Rightarrow> (process_monitor, 'e) res" where
  "cleanup_stale w pm = rbind (retain_live w (pm_cache pm)) (\<lambda>es. Ok (pm\<lparr>pm_cache := es\<rparr>))"

section \<open>Facts\<close>

text \<open>The entry that a fresh resolution of \<open>pid\<close> gives in the world \<open>w\<close>.\<close>

definition fresh_entry :: "daemon_lib \<Rightarrow> world \<Rightarrow> u32 \<Rightarrow> process_entry \<Rightarrow> bool" where
  "fresh_entry lib w pid e \<longleftrightarrow> pe_pid e = pid \<and>
     read_process_start_time pid w = Ok (pe_start_time e) \<and>
     read_exe_path lib pid w = Ok (pe_exe_path e) \<and>
     monitor_hash_file lib (pe_exe_path e) w = Ok (pe_exe_hash e)"

text \<open>Every cached entry is filed under its own process identifier.\<close>

definition monitor_ok :: "process_monitor \<Rightarrow> bool" where
  "monitor_ok pm \<longleftrightarrow> distinct (map fst (pm_cache pm)) \<and> (\<forall>(pid, e)\<in>set (pm_cache pm). pe_pid e = pid)"

lemma set_map_insert: "set (map_insert k v es) \<subseteq> insert (k, v) (set es)"
  by (induction es) auto

lemma resolve_fresh_Ok:
  assumes "resolve_fresh lib w pid st pm = (Ok e, pm')" and "read_process_start_time pid w = Ok st"
  shows "fresh_entry lib w pid e" "pm' = pm\<lparr>pm_cache := map_insert pid e (pm_cache pm)\<rparr>"
  using assms by (auto simp: resolve_fresh_def fresh_entry_def res_simps Let_def)

lemma resolve_Ok:
  assumes "resolve lib w pid pm = (Ok e, pm')"
  shows "(map_of (pm_cache pm) pid = Some e \<and> pm' = pm \<and>
            read_process_start_time pid w = Ok (pe_start_time e)) \<or>
         (fresh_entry lib w pid e \<and> pm' = pm\<lparr>pm_cache := map_insert pid e (pm_cache pm)\<rparr>)"
proof -
  obtain st where st: "read_process_start_time pid w = Ok st"
    using assms by (auto simp: resolve_def res_simps)
  with assms show ?thesis
    by (auto simp: resolve_def split: option.splits if_splits dest: resolve_fresh_Ok)
qed

lemma resolve_not_Ok: "resolve lib w pid pm = (r, pm') \<Longrightarrow> (\<And>e. r \<noteq> Ok e) \<Longrightarrow> pm' = pm"
  by (auto simp: resolve_def resolve_fresh_def obind_apply Let_def split: res.splits option.splits if_splits)

lemma monitor_ok_insert:
  "monitor_ok pm \<Longrightarrow> pe_pid e = pid \<Longrightarrow> monitor_ok (pm\<lparr>pm_cache := map_insert pid e (pm_cache pm)\<rparr>)"
  using set_map_insert [of pid e "pm_cache pm"] by (auto simp: monitor_ok_def distinct_map_insert)

lemma resolve_keeps [keeps_intros]: "keeps monitor_ok (resolve lib w pid)"
proof (rule keepsI)
  fix pm assume pm: "monitor_ok pm"
  obtain r pm' where r: "resolve lib w pid pm = (r, pm')" by force
  then show "monitor_ok (snd (resolve lib w pid pm))"
  proof (cases r)
    case (Ok e)
    with r resolve_Ok [of lib w pid pm e pm'] pm show ?thesis
      by (auto simp: fresh_entry_def intro: monitor_ok_insert)
  qed (use r pm resolve_not_Ok in \<open>force+\<close>)
qed

lemma retain_live_Ok:
  "retain_live w es = Ok es' \<Longrightarrow>
   es' = filter (\<lambda>(pid, e). read_process_start_time pid w = Ok (pe_start_time e)) es"
  by (induction es arbitrary: es') (auto split: res.splits simp: res_simps)

lemma unwords_Cons: "ts \<noteq> [] \<Longrightarrow> unwords (t # ts) = t @ CHR '' '' # unwords ts"
  by (cases ts) auto

lemma hd_unwords: "token (hd ts) \<Longrightarrow> ts \<noteq> [] \<Longrightarrow> \<exists>c cs. unwords ts = c # cs \<and> graphic c"
  by (cases ts rule: unwords.cases) (auto simp: token_def neq_Nil_conv)

lemma set_unwords: "c \<in> set (unwords ts) \<Longrightarrow> c = CHR '' '' \<or> (\<exists>t\<in>set ts. c \<in> set t)"
  by (induction ts rule: unwords.induct) auto

lemma str_from_append:
  "graphic c \<Longrightarrow> length xs = n \<Longrightarrow> str_from (xs @ c # ys) n = Ok (c # ys)"
  by (auto simp: str_from_def is_char_boundary_def graphic_def nth_append)

subsection \<open>Addresses\<close>

text \<open>The kernel prints an address word and a port as fixed-width upper-case hexadecimal numbers.\<close>

definition kernel_hex :: "nat \<Rightarrow> nat \<Rightarrow> string" where
  "kernel_hex k n = hex_pad upper_digit_char k n"

lemma length_kernel_hex [simp]: "length (kernel_hex k n) = k"
  by (simp add: kernel_hex_def)

lemma from_str_radix_kernel_hex:
  "n < 16 ^ Suc k \<Longrightarrow> n < m \<Longrightarrow> from_str_radix 16 m (kernel_hex (Suc k) n) = Some n"
  unfolding kernel_hex_def by (rule from_str_radix_hex_pad) auto

lemma kernel_hex_chars:
  assumes "c \<in> set (kernel_hex k n)"
  shows "graphic c \<and> c \<noteq> CHR '':''"
proof -
  obtain d where d: "d < 16" "c = upper_digit_char d"
    using assms set_hex_pad unfolding kernel_hex_def by blast
  then have "(of_char c :: nat) = (if d < 10 then 48 + d else 55 + d)"
    by (simp add: of_char_upper_digit_char)
  moreover have "(of_char (CHR '':'') :: nat) = 58" by simp
  ultimately show ?thesis using d(1) by (auto simp: graphic_def split: if_splits)
qed

lemma from_str_radix_port:
  "port < 65536 \<Longrightarrow> from_str_radix 16 65536 (kernel_hex 4 port) = Some port"
  using from_str_radix_kernel_hex [of port 3 65536] by simp

lemma from_str_radix_word:
  "n < 4294967296 \<Longrightarrow> from_str_radix 16 4294967296 (kernel_hex 8 n) = Some n"
  using from_str_radix_kernel_hex [of n 7 4294967296] by simp

lemma kernel_hex_no_colon [simp]: "CHR '':'' \<notin> set (kernel_hex k n)"
  using kernel_hex_chars by blast

lemma ascii_boundary: "\<forall>c\<in>set s. graphic c \<Longrightarrow> is_char_boundary s i \<longleftrightarrow> i \<le> length s"
proof -
  assume g: "\<forall>c\<in>set s. graphic c"
  have "(of_char (s ! i) :: nat) < 128" if "i < length s"
    using g nth_mem [OF that] by (auto simp: graphic_def)
  then show ?thesis by (auto simp: is_char_boundary_def)
qed

lemma str_range_ascii:
  "\<forall>c\<in>set s. graphic c \<Longrightarrow> i \<le> j \<Longrightarrow> j \<le> length s \<Longrightarrow> str_range s i j = Ok (take (j - i) (drop i s))"
  by (simp add: str_range_def ascii_boundary)

lemma hex_groups_Cons:
  assumes "\<forall>c\<in>set s. graphic c" and "take 8 (drop i s) = kernel_hex 8 (unat (swap_bytes w))"
    and "i + 8 \<le> length s"
  shows "hex_groups s (i # is) =
    rbind (hex_groups s is) (\<lambda>r. Ok (map_option (\<lambda>gs. hex08 (swap_bytes w) # gs) r))"
proof -
  have "unat (swap_bytes w) < 4294967296" using unsigned_less [of "swap_bytes w"] by simp
  then show ?thesis
    using assms by (simp add: str_range_ascii from_str_radix_word from_be_def)
qed

text \<open>The text of the address whose four words are \<open>ws\<close>, and the way the kernel prints it.\<close>

definition ipv6_text :: "u32 list \<Rightarrow> string" where
  "ipv6_text ws = join '':'' (map (\<lambda>i. take 4 (drop (i * 4) (concat (map hex08 ws)))) [0..<8])"

definition kernel_ipv6 :: "u32 list \<Rightarrow> string" where
  "kernel_ipv6 ws = concat (map (\<lambda>w. kernel_hex 8 (unat (swap_bytes w))) ws)"

lemma kernel_ipv6_graphic: "\<forall>c\<in>set (kernel_ipv6 ws). graphic c \<and> c \<noteq> CHR '':''"
  using kernel_hex_chars by (fastforce simp: kernel_ipv6_def)

lemma hex_groups_kernel:
  "hex_groups (kernel_ipv6 [a, b, c, d]) [0, 8, 16, 24] =
     Ok (Some (map hex08 (map swap_bytes [a, b, c, d])))"
proof -
  let ?s = "kernel_ipv6 [a, b, c, d]"
  have g: "\<forall>c\<in>set ?s. graphic c" using kernel_ipv6_graphic by blast
  have l: "length ?s = 32" by (simp add: kernel_ipv6_def)
  have t: "take 8 (drop 0 ?s) = kernel_hex 8 (unat (swap_bytes a))"
    "take 8 (drop 8 ?s) = kernel_hex 8 (unat (swap_bytes b))"
    "take 8 (drop 16 ?s) = kernel_hex 8 (unat (swap_bytes c))"
    "take 8 (drop 24 ?s) = kernel_hex 8 (unat (swap_bytes d))"
    by (simp_all add: kernel_ipv6_def)
  show ?thesis
    by (simp add: hex_groups_Cons [OF g t(1)] hex_groups_Cons [OF g t(2)] hex_groups_Cons [OF g t(3)]
        hex_groups_Cons [OF g t(4)] l del: hex_groups.simps(2))
qed

subsection \<open>The connection table\<close>

text \<open>A row of the IPv4 table as the kernel prints it: the fields that matter and the rest.\<close>

record tcp_row =
  tr_sl :: string
  tr_local :: string
  tr_addr :: "byte \<times> byte \<times> byte \<times> byte"
  tr_port :: u16
  tr_st :: string
  tr_rest :: "string list"

definition row_tokens :: "tcp_row \<Rightarrow> string list" where
  "row_tokens r = (case tr_addr r of (a, b, c, d) \<Rightarrow>
     [tr_sl r, tr_local r,
      kernel_hex 8 (unat (from_be_bytes [d, c, b, a])) @ '':'' @ kernel_hex 4 (unat (tr_port r)),
      tr_st r] @ tr_rest r)"

definition row_ok :: "tcp_row \<Rightarrow> bool" where
  "row_ok r \<longleftrightarrow> token (tr_sl r) \<and> token (tr_local r) \<and> token (tr_st r) \<and> (\<forall>t\<in>set (tr_rest r). token t)"

definition row_connection :: "tcp_row \<Rightarrow> tcp_connection" where
  "row_connection r = (case tr_addr r of (a, b, c, d) \<Rightarrow>
     \<lparr>tc_remote_ip = dotted (unat a) (unat b) (unat c) (unat d), tc_remote_port = tr_port r,
      tc_state = Established\<rparr>)"

definition tcp_table :: "string \<Rightarrow> tcp_row list \<Rightarrow> string" where
  "tcp_table header rows = concat (map (\<lambda>l. l @ [newline]) (header # map (\<lambda>r. unwords (row_tokens r)) rows))"

lemma row_tokens_ok: "row_ok r \<Longrightarrow> \<forall>t\<in>set (row_tokens r). token t"
proof -
  assume r: "row_ok r"
  have "token (kernel_hex 8 n @ '':'' @ kernel_hex 4 m)" for n m
  proof -
    have "\<forall>c\<in>set (kernel_hex 8 n @ '':'' @ kernel_hex 4 m). graphic c"
      using kernel_hex_chars by (auto simp: graphic_def [of "CHR '':''"])
    then show ?thesis unfolding token_def by simp
  qed
  with r show ?thesis by (cases "tr_addr r") (auto simp: row_ok_def row_tokens_def)
qed

lemma row_tokens_not_Nil [simp]: "row_tokens r \<noteq> []"
  by (cases "tr_addr r") (simp add: row_tokens_def)

lemma parse_row_address:
  "parse_hex_addr (kernel_hex 8 (unat (from_be_bytes [d, c, b, a])) @ '':'' @ kernel_hex 4 (unat port)) False
     = Ok (Some (dotted (unat a) (unat b) (unat c) (unat d), port))"
proof -
  let ?w = "from_be_bytes [d, c, b, a]"
  have "unat ?w < 4294967296" "unat port < 65536"
    using unsigned_less [of ?w] unsigned_less [of port] by simp_all
  then show ?thesis
    by (simp add: parse_hex_addr_def split_once_append from_str_radix_port from_str_radix_word
        to_le_bytes_def to_from_be_bytes)
qed

lemma tcp_lines_rows:
  "\<forall>r\<in>set rows. row_ok r \<Longrightarrow>
   tcp_lines False (map (\<lambda>r. unwords (row_tokens r)) rows) =
     Ok (map row_connection (filter (\<lambda>r. tr_st r = ''01'') rows))"
proof (induction rows)
  case (Cons r rows)
  obtain a b c d where addr: "tr_addr r = (a, b, c, d)" by (cases "tr_addr r")
  have "split_whitespace (unwords (row_tokens r)) = row_tokens r"
    using Cons.prems row_tokens_ok [of r] by (intro split_whitespace_tokens) auto
  with Cons addr show ?case
    by (simp add: row_tokens_def row_connection_def parse_row_address [unfolded append.simps])
qed simp

lemma unwords_line:
  assumes "\<forall>t\<in>set ts. token t" and "ts \<noteq> []"
  shows "newline \<notin> set (unwords ts)" "strip_cr (unwords ts) = unwords ts"
proof -
  have g: "c = CHR '' '' \<or> graphic c" if "c \<in> set (unwords ts)" for c
    using assms(1) set_unwords [OF that] by (auto simp: token_def)
  show "newline \<notin> set (unwords ts)" using g [of newline] by (auto simp: newline_def graphic_def)
  show "strip_cr (unwords ts) = unwords ts"
    using g [OF last_in_set] by (auto simp: strip_cr_def graphic_def)
qed

lemma lines_tcp_table:
  "newline \<notin> set header \<Longrightarrow> strip_cr header = header \<Longrightarrow> \<forall>r\<in>set rows. row_ok r \<Longrightarrow>
   lines (tcp_table header rows) = header # map (\<lambda>r. unwords (row_tokens r)) rows"
  unfolding tcp_table_def
  by (rule lines_concat) (auto simp: row_tokens_ok unwords_line)

lemma concat_chunks: "concat (map (\<lambda>i. take k (drop (i * k) s)) [0..<n]) = take (n * k) s"
proof (induction n)
  case (Suc n)
  have "take (n * k + k) s = take (n * k) s @ take k (drop (n * k) s)" by (rule take_add)
  with Suc show ?case by (simp add: add.commute)
qed simp

lemma filter_join:
  "\<forall>s\<in>set ss. x \<notin> set s \<Longrightarrow> filter (\<lambda>c. c \<noteq> x) (join [x] ss) = concat ss"
proof (induction ss rule: induct_list012)
  case (2 s)
  then show ?case by (auto simp: filter_id_conv)
next
  case (3 s t ss)
  then have "filter (\<lambda>c. c \<noteq> x) s = s" by (auto simp: filter_id_conv)
  with 3 show ?case by simp
qed simp

lemma hex08_chars: "c \<in> set (hex08 w) \<Longrightarrow> c \<noteq> CHR '':''"
proof -
  assume "c \<in> set (hex08 w)"
  then obtain d where "d < 16" "c = digit_char d" using set_hex_pad unfolding hex08_def by blast
  then have "(of_char c :: nat) = (if d < 10 then 48 + d else 87 + d)" by (simp add: of_char_digit_char)
  moreover have "(of_char (CHR '':'') :: nat) = 58" by simp
  ultimately show ?thesis using \<open>d < 16\<close> by (auto split: if_splits)
qed

lemma from_str_radix_hex08: "from_str_radix 16 4294967296 (hex08 w) = Some (unat w)"
proof -
  have "from_str_radix 16 4294967296 (hex_pad digit_char (Suc 7) (unat w)) = Some (unat w)"
    using unsigned_less [of w] by (intro from_str_radix_hex_pad) auto
  then show ?thesis by (simp add: hex08_def del: hex_pad.simps)
qed

lemma hex08_inject: "hex08 v = hex08 w \<longleftrightarrow> v = w"
proof
  assume eq: "hex08 v = hex08 w"
  have "Some (unat v) = from_str_radix 16 4294967296 (hex08 v)" by (rule from_str_radix_hex08 [symmetric])
  also have "\<dots> = Some (unat w)" unfolding eq by (rule from_str_radix_hex08)
  finally show "v = w" by (simp add: unsigned_word_eqI)
qed simp

lemma chunks_avoid: "x \<notin> set s \<Longrightarrow> \<forall>t\<in>set (map (\<lambda>i. take k (drop (i * k) s)) is). x \<notin> set t"
  by (auto dest: in_set_takeD in_set_dropD)

lemma ipv6_text_inject: "ipv6_text [a, b, c, d] = ipv6_text [a', b', c', d'] \<longleftrightarrow> [a, b, c, d] = [a', b', c', d']"
proof
  have l [simp]: "length (hex08 w) = 8" for w by (simp add: hex08_def)
  have "filter (\<lambda>c. c \<noteq> CHR '':'') (ipv6_text [p, q, r, s]) = concat (map hex08 [p, q, r, s])" for p q r s
  proof -
    let ?s = "concat (map hex08 [p, q, r, s])"
    have n: "CHR '':'' \<notin> set ?s" using hex08_chars by auto
    have "length ?s = 32" by simp
    then have "concat (map (\<lambda>i. take 4 (drop (i * 4) ?s)) [0..<8]) = ?s"
      using concat_chunks [of 4 ?s 8] by (simp del: concat.simps list.map)
    moreover have "\<forall>t\<in>set (map (\<lambda>i. take 4 (drop (i * 4) ?s)) [0..<8]). CHR '':'' \<notin> set t"
      by (rule chunks_avoid [OF n])
    ultimately show ?thesis unfolding ipv6_text_def by (simp only: filter_join)
  qed
  moreover assume "ipv6_text [a, b, c, d] = ipv6_text [a', b', c', d']"
  ultimately have "concat (map hex08 [a, b, c, d]) = concat (map hex08 [a', b', c', d'])" by metis
  then show "[a, b, c, d] = [a', b', c', d']" by (simp add: hex08_inject)
qed simp

lemma parse_hex_addr_v6:
  "CHR '':'' \<notin> set a \<Longrightarrow> length a = 32 \<Longrightarrow> port < 65536 \<Longrightarrow>
   hex_groups a [0, 8, 16, 24] = (Ok (Some (map hex08 ws)) :: (string list option, 'e) res) \<Longrightarrow>
   parse_hex_addr (a @ '':'' @ kernel_hex 4 port) True = (Ok (Some (ipv6_text ws, of_nat port)) :: ((string \<times> u16) option, 'e) res)"
  by (simp add: parse_hex_addr_def split_once_append from_str_radix_port ipv6_text_def Let_def
      del: hex_groups.simps)

lemma start_time_after_paren:
  assumes stat: "fs_read_to_string (''/proc/'' @ show_u32 pid @ ''/stat'') w =
      Ok (pre @ '') '' @ unwords fs @ [newline])"
    and fields: "\<forall>f\<in>set fs. token f \<and> CHR '')'' \<notin> set f" "20 \<le> length fs"
    and time: "fs ! 19 = dec (unat t)"
  shows "read_process_start_time pid w = Ok t"
proof -
  let ?rest = "unwords fs @ [newline]"
  obtain c cs where c: "unwords fs = c # cs" "graphic c"
    using hd_unwords [of fs] fields by (cases fs) auto
  have "CHR '')'' \<notin> set ('' '' @ ?rest)"
    using fields(1) by (auto simp: newline_def dest: set_unwords)
  then have "rfind (CHR '')'') (pre @ CHR '')'' # '' '' @ ?rest) = Some (length pre)"
    by (rule rfind_append)
  moreover have "str_from (pre @ CHR '')'' # '' '' @ ?rest) (length pre + 2) = (Ok ?rest :: (string, coned_error) res)"
    using str_from_append [OF c(2), of "pre @ '') ''" "length pre + 2" "cs @ [newline]"] c(1) by simp
  moreover have "split_whitespace ?rest = fs"
    using fields by (intro split_whitespace_unwords) auto
  moreover have "from_str_radix 10 18446744073709551616 (dec (unat t)) = Some (unat t)"
    using unsigned_less [of t] by (intro from_str_radix_dec) simp
  ultimately show ?thesis
    using stat fields(2) time by (simp add: read_process_start_time_def get_nth_def Let_def)
qed

lemma get_connections_rows:
  assumes "fs_read_to_string (''/proc/'' @ show_u32 pid @ ''/net/tcp'') w = Ok (tcp_table header rows)"
    and "fs_read_to_string (''/proc/'' @ show_u32 pid @ ''/net/tcp6'') w = Err e"
    and "newline \<notin> set header" and "strip_cr header = header" and "\<forall>r\<in>set rows. row_ok r"
  shows "get_connections pid w = Ok (map row_connection (filter (\<lambda>r. tr_st r = ''01'') rows))"
proof -
  have "read_proc_net_tcp pid False w = Ok (map row_connection (filter (\<lambda>r. tr_st r = ''01'') rows))"
    using assms by (simp add: read_proc_net_tcp_def lines_tcp_table tcp_lines_rows)
  moreover have "read_proc_net_tcp pid True w = Ok []"
    using assms(2) by (simp add: read_proc_net_tcp_def)
  ultimately show ?thesis by (simp add: get_connections_def)
qed

section \<open>Properties\<close>

text \<open>
  The address column of the IPv6 table is not parsed as printed: \<open>from_be\<close> undoes \<open>swap_bytes\<close>, so every word
  keeps the little-endian order in which the kernel printed it. The text returned is that of
  the address with the bytes of each word reversed, which is the right text only when every
  word reads the same in both directions.
\<close>

theorem parse_hex_addr_ipv6:
  "parse_hex_addr (kernel_ipv6 [a, b, c, d] @ '':'' @ kernel_hex 4 (unat port)) True
     = Ok (Some (ipv6_text [swap_bytes a, swap_bytes b, swap_bytes c, swap_bytes d], port)) \<and>
   (ipv6_text [swap_bytes a, swap_bytes b, swap_bytes c, swap_bytes d] = ipv6_text [a, b, c, d] \<longleftrightarrow>
      swap_bytes a = a \<and> swap_bytes b = b \<and> swap_bytes c = c \<and> swap_bytes d = d)"
proof
  have p: "unat port < 65536" using unsigned_less [of port] by simp
  have n: "CHR '':'' \<notin> set (kernel_ipv6 [a, b, c, d])" using kernel_ipv6_graphic by blast
  have l: "length (kernel_ipv6 [a, b, c, d]) = 32" by (simp add: kernel_ipv6_def)
  have e: "(of_nat (unat port) :: u16) = port" by simp
  show "parse_hex_addr (kernel_ipv6 [a, b, c, d] @ '':'' @ kernel_hex 4 (unat port)) True
     = Ok (Some (ipv6_text [swap_bytes a, swap_bytes b, swap_bytes c, swap_bytes d], port))"
    using parse_hex_addr_v6 [OF n l p hex_groups_kernel] unfolding e by (simp only: list.map)
qed (simp add: ipv6_text_inject)

text \<open>
  The start time of a process is read correctly whatever its name contains, spaces and
  parentheses included: the fields are counted from the last closing parenthesis.
\<close>

theorem read_process_start_time_correct:
  assumes stat: "fs_read_to_string (''/proc/'' @ show_u32 pid @ ''/stat'') w =
      Ok (show_u32 pid @ '' ('' @ comm @ '') '' @ unwords fs @ [newline])"
    and fields: "\<forall>f\<in>set fs. token f \<and> CHR '')'' \<notin> set f" "20 \<le> length fs"
    and time: "fs ! 19 = dec (unat t)"
  shows "read_process_start_time pid w = Ok t"
  using start_time_after_paren [of pid w "show_u32 pid @ '' ('' @ comm" fs t] assms by simp

definition demo_stat :: string where
  "demo_stat = show_u32 7 @ '' ('' @ ''a) b'' @ '') '' @ unwords (replicate 20 (dec 5)) @ [newline]"

definition demo_proc :: world where
  "demo_proc = bare_world\<lparr>w_files := [''/proc/7/stat'' \<mapsto> as_bytes demo_stat, ''/bin/x'' \<mapsto> as_bytes ''new''],
     w_links := [''/proc/7/exe'' \<mapsto> as_bytes ''/bin/x'']\<rparr>"

lemma show_u32_7 [simp]: "show_u32 7 = ''7''"
  by code_simp

lemma demo_stat_read:
  "fs_read_to_string (''/proc/'' @ show_u32 7 @ ''/stat'') demo_proc =
     Ok (show_u32 7 @ '' ('' @ ''a) b'' @ '') '' @ unwords (replicate 20 (dec (unat (5::u64)))) @ [newline])"
proof -
  have "to_str (as_bytes demo_stat) = Some demo_stat"
    by (rule to_str_ascii) code_simp
  then show ?thesis
    by (simp add: fs_read_to_string_def fs_read_def demo_proc_def bare_world_def demo_stat_def)
qed

lemma dec_5: "dec 5 = ''5''"
  by code_simp

definition demo_entry :: process_entry where
  "demo_entry = \<lparr>pe_pid = 7, pe_exe_path = ''/bin/x'', pe_exe_hash = ''h'', pe_start_time = 5\<rparr>"

definition demo_monitor :: process_monitor where
  "demo_monitor = \<lparr>pm_cache = [(7, demo_entry)]\<rparr>"

lemma demo_start_time: "read_process_start_time 7 demo_proc = Ok 5"
  using start_time_after_paren [of 7 demo_proc "show_u32 7 @ '' ('' @ ''a) b''" "replicate 20 (dec (unat (5::u64)))"]
    demo_stat_read by (simp add: token_def graphic_def dec_5)

theorem read_process_start_time_correct_witness:
  "read_process_start_time 7 demo_proc = Ok 5"
  by (rule read_process_start_time_correct [OF demo_stat_read])
    (simp_all add: token_def graphic_def dec_5)

text \<open>
  C30. A lookup is answered from the cache exactly when the cache holds an entry of that process
  identifier with the start time that \<open>/proc\<close> shows now; otherwise the answer is resolved afresh,
  so that a recycled identifier is never taken for the process that had it before. Either way
  the entry bears the identifier asked for.
\<close>

theorem resolve_spec:
  assumes "monitor_ok pm" and "read_process_start_time pid w = Ok st"
  shows "(fst (resolve lib w pid pm) = Ok e \<longleftrightarrow>
      (if \<exists>c. map_of (pm_cache pm) pid = Some c \<and> pe_start_time c = st
       then map_of (pm_cache pm) pid = Some e else fresh_entry lib w pid e)) \<and>
    (fst (resolve lib w pid pm) = Ok e \<longrightarrow> pe_pid e = pid \<and> pe_start_time e = st \<and>
       map_of (pm_cache (snd (resolve lib w pid pm))) pid = Some e)"
proof -
  have fresh: "fst (resolve_fresh lib w pid st pm) = Ok e \<longleftrightarrow> fresh_entry lib w pid e"
    using assms(2) by (auto simp: resolve_fresh_def fresh_entry_def obind_apply Let_def split: res.splits)
  have iff: "fst (resolve lib w pid pm) = Ok e \<longleftrightarrow>
      (if \<exists>c. map_of (pm_cache pm) pid = Some c \<and> pe_start_time c = st
       then map_of (pm_cache pm) pid = Some e else fresh_entry lib w pid e)"
    using assms(2) by (auto simp: resolve_def fresh split: option.splits)
  have "pe_pid e = pid \<and> pe_start_time e = st \<and> map_of (pm_cache (snd (resolve lib w pid pm))) pid = Some e"
    if "fst (resolve lib w pid pm) = Ok e"
  proof -
    obtain pm' where r: "resolve lib w pid pm = (Ok e, pm')" using \<open>fst _ = _\<close> by (metis prod.collapse)
    have "pe_pid c = pid" if "map_of (pm_cache pm) pid = Some c" for c
      using assms(1) map_of_SomeD [OF that] by (auto simp: monitor_ok_def)
    with resolve_Ok [OF r] r assms(2) show ?thesis by (auto simp: fresh_entry_def)
  qed
  with iff show ?thesis by blast
qed

theorem resolve_spec_witness:
  "fst (resolve demo_lib demo_proc 7 demo_monitor) = Ok demo_entry"
  using resolve_spec [of demo_monitor, OF _ demo_start_time]
  by (fastforce simp: monitor_ok_def demo_monitor_def demo_entry_def)


definition demo_row :: tcp_row where
  "demo_row = \<lparr>tr_sl = ''0:'', tr_local = ''0:0'', tr_addr = (10, 0, 0, 1), tr_port = 443,
     tr_st = ''01'', tr_rest = []\<rparr>"

definition demo_net :: world where
  "demo_net = demo_proc\<lparr>w_files := (w_files demo_proc)
     (''/proc/7/net/tcp'' \<mapsto> as_bytes (tcp_table ''sl'' [demo_row]))\<rparr>"

lemma demo_row_ok: "row_ok demo_row"
  by (simp add: row_ok_def demo_row_def token_def graphic_def)

lemma demo_net_reads:
  "fs_read_to_string (''/proc/'' @ show_u32 7 @ ''/net/tcp'') demo_net = Ok (tcp_table ''sl'' [demo_row])"
  "fs_read_to_string (''/proc/'' @ show_u32 7 @ ''/net/tcp6'') demo_net = Err NotFoundIo"
proof -
  have "to_str (as_bytes (tcp_table ''sl'' [demo_row])) = Some (tcp_table ''sl'' [demo_row])"
  proof (rule to_str_ascii, rule ballI)
    fix c assume "c \<in> set (tcp_table ''sl'' [demo_row])"
    then have "c \<in> set ''sl'' \<or> c = newline \<or> c \<in> set (unwords (row_tokens demo_row))"
      by (auto simp: tcp_table_def)
    moreover have "c = CHR '' '' \<or> graphic c" if "c \<in> set (unwords (row_tokens demo_row))"
      using row_tokens_ok [OF demo_row_ok] set_unwords [OF that] by (auto simp: token_def)
    ultimately show "(of_char c :: nat) < 128" by (auto simp: newline_def graphic_def)
  qed
  then show "fs_read_to_string (''/proc/'' @ show_u32 7 @ ''/net/tcp'') demo_net = Ok (tcp_table ''sl'' [demo_row])"
    by (simp add: fs_read_to_string_def fs_read_def demo_net_def demo_proc_def bare_world_def)
qed (simp add: fs_read_to_string_def fs_read_def demo_net_def demo_proc_def bare_world_def)


text \<open>
  A cached hash outlives the executable. When a process replaces its image or its file
  changes, its start time stays, so verification still accepts the hash computed earlier
  although the file at the path now has another.
\<close>

theorem verify_hash_stale:
  assumes "map_of (pm_cache pm) pid = Some e" and "read_process_start_time pid w = Ok (pe_start_time e)"
    and "monitor_hash_file lib (pe_exe_path e) w = Ok h" and "h \<noteq> pe_exe_hash e"
  shows "verify_hash lib w pid (pe_exe_hash e) pm = (Ok e, pm) \<and>
    fst (verify_hash lib w pid h pm) \<noteq> Ok e"
  using assms by (simp add: verify_hash_def resolve_def obind_apply)

theorem verify_hash_stale_witness:
  "verify_hash demo_lib demo_proc 7 ''h'' demo_monitor = (Ok demo_entry, demo_monitor)"
proof -
  have "monitor_hash_file demo_lib (pe_exe_path demo_entry) demo_proc = Ok (''new'')"
    by (simp add: monitor_hash_file_def demo_entry_def demo_proc_def bare_world_def fs_read_def
        demo_lib_def plain_crypto_def)
  moreover have "''new'' \<noteq> pe_exe_hash demo_entry" by (simp add: demo_entry_def)
  ultimately show ?thesis
    using verify_hash_stale [of demo_monitor 7 demo_entry demo_proc demo_lib] demo_start_time
    by (simp add: demo_monitor_def demo_entry_def)
qed

end
