(* ===== verification/Routing.thy ===== *)
theory Routing
  imports Route_Choice Integrity Process_Monitor
begin

text \<open>
  \<open>crates/coned/src/routing.rs\<close>: from the process identifier in a signing request to the
  certificate to use, and the check of the processes that connect to the daemon.
\<close>

record resolved_route =
  rr_cert_id :: string
  rr_process :: process_entry
  rr_remote_host :: "string option"
  rr_remote_ip :: "string option"

type_synonym known_hashes = "string \<Rightarrow> string option"

text \<open>The loop over the established connections; hostnames are never resolved.\<close>

fun try_connections ::
  "store \<Rightarrow> world \<Rightarrow> process_entry \<Rightarrow> tcp_connection list \<Rightarrow> (resolved_route option, coned_error) res" where
  "try_connections s w p [] = Ok None"
| "try_connections s w p (conn # conns) =
     rbind (map_err FromStore
       (resolve_route s (Some (pe_exe_path p)) None (Some (tc_remote_ip conn)) w)) (\<lambda>cert_id.
     case cert_id of
       Some i \<Rightarrow> Ok (Some \<lparr>rr_cert_id = i, rr_process = p, rr_remote_host = None,
           rr_remote_ip = Some (tc_remote_ip conn)\<rparr>)
     | None \<Rightarrow> try_connections s w p conns)"

definition no_route_message :: "u32 \<Rightarrow> string \<Rightarrow> string" where
  "no_route_message pid exe = ''No route matched for PID '' @ show_u32 pid @ '' ('' @ exe @
     ''). Register this application and add a route with: cone app add --label '' @ [CHR 0x22] @
     ''AppName'' @ [CHR 0x22] @ '' --exe '' @ [CHR 0x22] @ exe @ [CHR 0x22] @
     '' && cone route add --cert '' @ [CHR 0x22] @ ''YourCert'' @ [CHR 0x22] @ '' --app '' @ [CHR 0x22] @
     ''AppName'' @ [CHR 0x22]"

text \<open>Steps 2 to 5, on the process entry of step 1.\<close>

definition route_process ::
  "store \<Rightarrow> known_hashes \<Rightarrow> world \<Rightarrow> u32 \<Rightarrow> process_entry \<Rightarrow> (resolved_route, coned_error) res" where
  "route_process s known w pid process =
     (if \<exists>expected\<in>set_option (known (pe_exe_path process)). pe_exe_hash process \<noteq> expected
      then Err (Message (''Binary hash mismatch for '' @ pe_exe_path process @ '' (PID '' @ show_u32 pid
             @ ''): binary may have been replaced''))
      else
        rbind (get_connections pid w) (\<lambda>connections.
        rbind (try_connections s w process connections) (\<lambda>found.
        case found of
          Some r \<Rightarrow> Ok r
        | None \<Rightarrow>
            rbind (map_err FromStore (resolve_route s (Some (pe_exe_path process)) None None w)) (\<lambda>cert_id.
            case cert_id of
              Some i \<Rightarrow> Ok \<lparr>rr_cert_id = i, rr_process = process, rr_remote_host = None,
                  rr_remote_ip = None\<rparr>
            | None \<Rightarrow> Err (Message (no_route_message pid (pe_exe_path process)))))))"

definition resolve_for_pid ::
  "daemon_lib \<Rightarrow> store \<Rightarrow> known_hashes \<Rightarrow> world \<Rightarrow> u32 \<Rightarrow> (process_monitor, resolved_route, coned_error) oper"
  where
  "resolve_for_pid lib s known w pid =
     obind (resolve lib w pid) (\<lambda>process. lift_res (route_process s known w pid process))"

definition verify_traffic_cone_binary ::
  "daemon_lib \<Rightarrow> world \<Rightarrow> u32 \<Rightarrow> u32 \<Rightarrow> known_hashes \<Rightarrow> (process_monitor, process_entry, coned_error) oper"
  where
  "verify_traffic_cone_binary lib w pid uid expected_hashes =
     (let our_uid = w_uid w in
      if uid \<noteq> our_uid
      then lift_res (Err (Message (''IPC connection rejected: UID '' @ show_u32 uid
             @ '' does not match daemon UID '' @ show_u32 our_uid)))
      else obind (resolve lib w pid) (\<lambda>process.
        case expected_hashes (pe_exe_path process) of
          Some expected \<Rightarrow>
            if expected = pe_exe_hash process then ret process
            else lift_res (Err (Message (''IPC connection rejected: '' @ pe_exe_path process @ '' (PID ''
                   @ show_u32 pid @ '') has an unexpected binary hash. The binary may have been modified.'')))
        | None \<Rightarrow> lift_res (Err (Message (''IPC connection rejected: '' @ pe_exe_path process @ '' (PID ''
                   @ show_u32 pid @ '') is not a registered Traffic Cone binary.'')))))"

definition load_known_hashes :: "daemon_lib \<Rightarrow> store \<Rightarrow> world \<Rightarrow> (known_hashes, coned_error) res" where
  "load_known_hashes lib s w =
     rbind (map_err (\<lambda>e. Message (''failed to load integrity records: '' @ display_store_error lib e))
       (list_integrity s w)) (\<lambda>records.
     Ok (foldl (\<lambda>m r. m(ir_path r \<mapsto> ir_sha256 r)) (\<lambda>_. None) records))"

section \<open>Facts\<close>

lemma resolve_for_pid_keeps [keeps_intros]: "keeps monitor_ok (resolve_for_pid lib s known w pid)"
  unfolding resolve_for_pid_def by (intro keeps_intros)

lemma verify_traffic_cone_binary_keeps [keeps_intros]:
  "keeps monitor_ok (verify_traffic_cone_binary lib w pid uid known)"
proof -
  have "keeps monitor_ok (case known (pe_exe_path p) of
      Some expected \<Rightarrow> if expected = pe_exe_hash p then ret p else lift_res (Err (f p))
    | None \<Rightarrow> lift_res (Err (g p)))" for p and f g :: "process_entry \<Rightarrow> coned_error"
    by (cases "known (pe_exe_path p)") (auto intro!: keeps_intros)
  then show ?thesis
    unfolding verify_traffic_cone_binary_def Let_def by (intro keeps_intros)
qed

lemma verify_Ok_iff:
  "verify_traffic_cone_binary lib w pid uid known pm = (Ok e, pm') \<longleftrightarrow>
     uid = w_uid w \<and> resolve lib w pid pm = (Ok e, pm') \<and> known (pe_exe_path e) = Some (pe_exe_hash e)"
  by (auto simp: verify_traffic_cone_binary_def Let_def obind_Ok_iff split: option.splits if_splits)

lemma foldl_known: "foldl (\<lambda>m r. m(ir_path r \<mapsto> ir_sha256 r)) m rs p =
  (case find (\<lambda>r. ir_path r = p) (rev rs) of Some r \<Rightarrow> Some (ir_sha256 r) | None \<Rightarrow> m p)"
  by (induction rs rule: rev_induct) auto

lemma known_intact:
  assumes "load_known_hashes lib s w = Ok known" and "store_tables s w = Ok t"
    and "\<forall>r\<in>set (integrity t). intact clib v r" and "known p = Some h"
  shows "\<exists>bs. fs_read p v = Ok bs \<and> hash_bytes clib bs = h"
proof -
  have "known = foldl (\<lambda>m r. m(ir_path r \<mapsto> ir_sha256 r)) (\<lambda>_. None) (sort_key ir_component (integrity t))"
    using assms(1,2) by (auto simp: load_known_hashes_def list_integrity_def)
  with assms(4) obtain r where "find (\<lambda>r. ir_path r = p) (rev (sort_key ir_component (integrity t))) = Some r"
    "ir_sha256 r = h" by (auto simp: foldl_known split: option.splits)
  then have "r \<in> set (integrity t)" "ir_path r = p" "ir_sha256 r = h"
    using find_SomeD by fastforce+
  with assms(3) show ?thesis by (auto simp: intact_def)
qed

lemma try_connections_Some:
  "try_connections s w p cs = Ok (Some r) \<Longrightarrow>
   \<exists>c\<in>set cs. rr_process r = p \<and> rr_remote_ip r = Some (tc_remote_ip c) \<and>
     resolve_route s (Some (pe_exe_path p)) None (Some (tc_remote_ip c)) w = Ok (Some (rr_cert_id r))"
  by (induction cs) (auto simp: res_simps split: option.splits)

lemma try_connections_eq:
  assumes "\<And>ip. lookup ip = (case resolve_route s (Some (pe_exe_path p)) None (Some ip) w of
      Ok m \<Rightarrow> m | _ \<Rightarrow> None)"
    and "store_tables s w = Ok t"
  shows "try_connections s w p cs = Ok (map_option
    (\<lambda>c. \<lparr>rr_cert_id = the (lookup (tc_remote_ip c)), rr_process = p, rr_remote_host = None,
       rr_remote_ip = Some (tc_remote_ip c)\<rparr>)
    (find (\<lambda>c. lookup (tc_remote_ip c) \<noteq> None) cs))"
proof (induction cs)
  case (Cons c cs)
  obtain m where "resolve_route s (Some (pe_exe_path p)) None (Some (tc_remote_ip c)) w = Ok m"
    using resolve_route_eq [OF store_lists [OF assms(2)]] by blast
  with Cons assms(1) show ?case by (cases m) auto
qed simp

lemma route_process_cases:
  assumes "route_process s known w pid p = Ok r"
  obtains ip where "resolve_route s (Some (pe_exe_path p)) None ip w = Ok (Some (rr_cert_id r))"
    "rr_process r = p" "rr_remote_ip r = ip"
    "\<forall>h. known (pe_exe_path p) = Some h \<longrightarrow> h = pe_exe_hash p"
    "\<And>i. ip = Some i \<Longrightarrow> \<exists>cs. get_connections pid w = Ok cs \<and> i \<in> tc_remote_ip ` set cs"
proof -
  from assms obtain cs f where cs: "get_connections pid w = Ok cs" "try_connections s w p cs = Ok f"
    "\<forall>h. known (pe_exe_path p) = Some h \<longrightarrow> h = pe_exe_hash p"
    by (auto simp: route_process_def res_simps split: if_splits)
  show thesis
  proof (cases f)
    case (Some r')
    with assms cs have "r' = r" by (auto simp: route_process_def split: if_splits)
    with try_connections_Some [of s w p cs r] cs Some that show thesis by blast
  next
    case None
    with assms cs show thesis
      by (intro that [of None]) (auto simp: route_process_def res_simps split: if_splits option.splits)
  qed
qed

subsection \<open>A sample host\<close>

text \<open>
  Process 7 runs \<open>/bin/x\<close> and talks to \<open>10.0.0.1\<close>; the certificate \<open>c1\<close> is confined to that
  pair, \<open>c2\<close> has a route for any process.
\<close>

definition host_tables :: tables where
  "host_tables = demo_tables\<lparr>
     apps := [demo_app ''a1'' ''/bin/x''],
     routes := [demo_route ''r1'' ''c1'' (Some ''a1'') ''ip'' (Some ''10.0.0.1'') True 5],
     integrity := [\<lparr>ir_id = ''i1'', ir_component = ''cone'', ir_path = ''/bin/x'', ir_sha256 = ''new'',
       ir_version = ''1'', ir_recorded_at = 0, ir_verified_at = None\<rparr>]\<rparr>"

definition host_world :: "tables \<Rightarrow> world" where
  "host_world t = demo_net\<lparr>w_dbs := [''/s'' \<mapsto> demo_db t]\<rparr>"

abbreviation demo_host :: world where
  "demo_host \<equiv> host_world host_tables"

definition demo_peer :: process_entry where
  "demo_peer = \<lparr>pe_pid = 7, pe_exe_path = ''/bin/x'', pe_exe_hash = ''new'', pe_start_time = 5\<rparr>"

lemma demo_host_store: "store_tables demo_store (host_world t) = Ok t"
  by (simp add: store_tables_def demo_store_def host_world_def conn_tables_def demo_db_def)

lemma demo_host_fields [simp]:
  "w_files (host_world t) = w_files demo_net" "w_unreadable (host_world t) = w_unreadable demo_net"
  "w_uid (host_world t) = 1000"
  by (simp_all add: host_world_def demo_net_def demo_proc_def bare_world_def)

lemma demo_host_read [simp]: "fs_read_to_string p (host_world t) = fs_read_to_string p demo_net"
  by (simp add: fs_read_to_string_def fs_read_cong [of "host_world t" demo_net])

lemma demo_host_connections: "get_connections 7 (host_world t) = Ok [row_connection demo_row]"
proof -
  have "get_connections 7 (host_world t) = Ok (map row_connection (filter (\<lambda>r. tr_st r = ''01'') [demo_row]))"
    by (rule get_connections_rows [where header = "''sl''" and e = NotFoundIo])
      (simp_all only: demo_host_read demo_net_reads, simp_all add: demo_row_ok newline_def strip_cr_def)
  then show ?thesis by (simp add: demo_row_def)
qed

lemma demo_host_start: "read_process_start_time 7 (host_world t) = Ok 5"
proof -
  have "fs_read_to_string (''/proc/'' @ show_u32 7 @ ''/stat'') (host_world t) =
      fs_read_to_string (''/proc/'' @ show_u32 7 @ ''/stat'') demo_proc"
    by (simp add: fs_read_to_string_def fs_read_def demo_net_def demo_proc_def bare_world_def)
  then show ?thesis using demo_start_time by (simp only: read_process_start_time_def)
qed

lemma demo_host_resolve: "fst (resolve demo_lib (host_world t) 7 new_monitor) = Ok demo_peer"
proof -
  have "to_str (as_bytes ''/bin/x'') = Some ''/bin/x''" by (rule to_str_ascii) simp
  then have "read_exe_path demo_lib 7 (host_world t) = Ok ''/bin/x''"
    by (simp add: read_exe_path_def fs_read_link_def host_world_def demo_net_def demo_proc_def bare_world_def)
  moreover have "monitor_hash_file demo_lib ''/bin/x'' (host_world t) = Ok ''new''"
    by (simp add: monitor_hash_file_def fs_read_def host_world_def demo_net_def demo_proc_def bare_world_def
        demo_lib_def plain_crypto_def)
  ultimately show ?thesis
    by (simp add: resolve_def resolve_fresh_def obind_apply demo_host_start new_monitor_def demo_peer_def Let_def)
qed

lemma demo_ip: "tc_remote_ip (row_connection demo_row) = ''10.0.0.1''"
proof -
  have "dotted 10 0 0 1 = ''10.0.0.1''" by code_simp
  then show ?thesis by (simp add: row_connection_def demo_row_def)
qed

lemma host_choice:
  assumes "routes t = routes host_tables" and "apps t = apps host_tables"
  shows "resolve_route demo_store (Some ''/bin/x'') None (Some ''10.0.0.1'') (host_world t) = Ok (Some ''c1'')"
proof -
  have "list_routes demo_store (host_world t) = Ok (map route_of_row (routes host_tables))"
    "list_apps demo_store (host_world t) = Ok (apps host_tables)"
    unfolding store_lists [OF demo_host_store] assms by (simp_all add: host_tables_def)
  note eq = resolve_route_eq [OF this]
  show ?thesis unfolding eq by code_simp
qed

lemma host_route:
  assumes "routes t = routes host_tables" and "apps t = apps host_tables"
  shows "route_process demo_store (\<lambda>_. None) (host_world t) 7 demo_peer =
    Ok \<lparr>rr_cert_id = ''c1'', rr_process = demo_peer, rr_remote_host = None, rr_remote_ip = Some ''10.0.0.1''\<rparr>"
  by (simp add: route_process_def demo_host_connections demo_ip demo_peer_def host_choice [OF assms])

section \<open>Properties\<close>

text \<open>
  C3. The decision for a process is functionally correct: its peers are tried in the order of
  the connection tables, the first one for which the router finds a certificate decides, and
  only when there is none the routes without a host are consulted.
\<close>

theorem route_process_spec:
  assumes "store_tables s w = Ok t" and "get_connections pid w = Ok cs"
    and "known (pe_exe_path p) = None \<or> known (pe_exe_path p) = Some (pe_exe_hash p)"
    and "\<And>ip. lookup ip = (case resolve_route s (Some (pe_exe_path p)) None ip w of Ok m \<Rightarrow> m | _ \<Rightarrow> None)"
  shows "route_process s known w pid p =
    (case find (\<lambda>c. lookup (Some (tc_remote_ip c)) \<noteq> None) cs of
       Some c \<Rightarrow> Ok \<lparr>rr_cert_id = the (lookup (Some (tc_remote_ip c))), rr_process = p,
           rr_remote_host = None, rr_remote_ip = Some (tc_remote_ip c)\<rparr>
     | None \<Rightarrow> (case lookup None of
         Some i \<Rightarrow> Ok \<lparr>rr_cert_id = i, rr_process = p, rr_remote_host = None, rr_remote_ip = None\<rparr>
       | None \<Rightarrow> Err (Message (no_route_message pid (pe_exe_path p)))))"
proof -
  obtain m where "resolve_route s (Some (pe_exe_path p)) None None w = Ok m"
    using resolve_route_eq [OF store_lists [OF assms(1)]] by blast
  then show ?thesis
    using assms(2,3) try_connections_eq [of "\<lambda>ip. lookup (Some ip)", OF assms(4) assms(1)]
    by (auto simp: route_process_def assms(4) [of None] split: option.splits)
qed

theorem route_process_spec_witness:
  "\<exists>r. route_process demo_store (\<lambda>_. None) demo_host 7 demo_peer = Ok r \<and> rr_cert_id r = ''c1''"
proof -
  define lookup where "lookup = (\<lambda>ip. case resolve_route demo_store (Some (pe_exe_path demo_peer)) None ip demo_host of
      Ok m \<Rightarrow> m | _ \<Rightarrow> None)"
  have "lookup (Some (tc_remote_ip (row_connection demo_row))) = Some ''c1''"
    by (simp add: lookup_def demo_ip demo_peer_def host_choice)
  then show ?thesis
    using route_process_spec [OF demo_host_store demo_host_connections, of "\<lambda>_. None" demo_peer lookup]
    by (simp add: lookup_def)
qed



text \<open>
  A connection is accepted exactly when the peer runs under the daemon's user and the
  monitor resolves it to an executable whose path is recorded with that very hash.
\<close>

theorem verify_traffic_cone_binary_iff:
  "fst (verify_traffic_cone_binary lib w pid uid known pm) = Ok e \<longleftrightarrow>
     uid = w_uid w \<and> fst (resolve lib w pid pm) = Ok e \<and> known (pe_exe_path e) = Some (pe_exe_hash e)"
  using verify_Ok_iff [of lib w pid uid known pm e] by (metis prod.collapse)

text \<open>
  C31. The chain of trust from startup to a connection: when the integrity check has passed and
  the known hashes were loaded from the same store, an accepted peer's executable had, at the
  time of the check, exactly the content whose hash the monitor found.
\<close>

theorem accepted_peer_was_intact:
  assumes "store_tables s w0 = Ok t" and "verify_all (dl_crypto lib) s w0 = (Ok (), w1)"
    and "load_known_hashes lib s w1 = Ok known"
    and "fst (verify_traffic_cone_binary lib w pid uid known pm) = Ok e"
  shows "\<exists>bs. fs_read (pe_exe_path e) w0 = Ok bs \<and> hash_bytes (dl_crypto lib) bs = pe_exe_hash e"
proof -
  note v = verify_all_intact [OF assms(1,2)]
  obtain t1 where t1: "store_tables s w1 = Ok t1"
    "integrity t1 = map (\<lambda>i. i\<lparr>ir_verified_at := Some (w_clock w0)\<rparr>) (integrity t)"
    using v by blast
  have "\<forall>r\<in>set (integrity t1). intact (dl_crypto lib) w0 r"
    using v t1 by (auto simp: intact_def)
  moreover have "known (pe_exe_path e) = Some (pe_exe_hash e)"
    using assms(4) verify_Ok_iff [of lib w pid uid known pm e] by (metis prod.collapse)
  ultimately show ?thesis
    using known_intact [OF assms(3) t1(1)] by blast
qed

theorem accepted_peer_was_intact_witness:
  "\<exists>bs. fs_read ''/bin/x'' demo_host = Ok bs \<and> hash_bytes (dl_crypto demo_lib) bs = ''new''"
proof -
  have "fs_read ''/bin/x'' demo_host = Ok (as_bytes ''new'')"
    by (simp add: fs_read_def demo_net_def demo_proc_def bare_world_def)
  then have "\<forall>r\<in>set (integrity host_tables). intact (dl_crypto demo_lib) demo_host r"
    by (simp add: host_tables_def intact_def hash_bytes_def demo_lib_def plain_crypto_def)
  then have "fst (verify_all (dl_crypto demo_lib) demo_store demo_host) = Ok ()"
    using verify_records_Ok_iff [of "dl_crypto demo_lib" demo_host "sort_key ir_component (integrity host_tables)"]
    by (simp add: verify_all_apply [OF demo_host_store])
  then obtain w1 where v: "verify_all (dl_crypto demo_lib) demo_store demo_host = (Ok (), w1)"
    by (metis prod.collapse)
  then obtain t' where t': "store_tables demo_store w1 = Ok t'" "map ir_path (integrity t') = [''/bin/x'']"
    "map ir_sha256 (integrity t') = [''new'']"
    using verify_all_intact [OF demo_host_store v] by (auto simp: host_tables_def)
  then obtain known where k: "load_known_hashes demo_lib demo_store w1 = Ok known"
    "known ''/bin/x'' = Some ''new''"
    by (auto simp: load_known_hashes_def list_integrity_def)
  then have "fst (verify_traffic_cone_binary demo_lib demo_host 7 1000 known new_monitor) = Ok demo_peer"
    using demo_host_resolve
    by (simp add: verify_traffic_cone_binary_def obind_apply demo_peer_def)
  from accepted_peer_was_intact [OF demo_host_store v k(1) this] show ?thesis
    by (simp add: demo_peer_def)
qed

text \<open>
  The hash with which an application was registered plays no part in routing: replacing
  every registered hash leaves every decision as it was, so a replaced application binary
  keeps its certificates.
\<close>

theorem routing_ignores_app_hash:
  assumes "store_tables s w = Ok t"
    and "store_tables s w' = Ok (t\<lparr>apps := map (\<lambda>a. a\<lparr>app_exe_hash := h a\<rparr>) (apps t)\<rparr>)"
  shows "resolve_route s exe host ip w' = resolve_route s exe host ip w"
proof -
  have "app_id_of_exe (map (\<lambda>a. a\<lparr>app_exe_hash := h a\<rparr>) as) exe = app_id_of_exe as exe" for as
    by (cases exe) (simp_all add: app_id_of_exe_def find_map comp_def option.map_comp)
  then show ?thesis
    using resolve_route_eq [OF store_lists [OF assms(1)]] resolve_route_eq [OF store_lists [OF assms(2)]]
    by (simp add: sort_key_map)
qed

theorem routing_ignores_app_hash_witness:
  "resolve_route demo_store (Some ''/bin/x'') None (Some ''10.0.0.1'')
     (demo_world (host_tables\<lparr>apps := map (\<lambda>a. a\<lparr>app_exe_hash := ''evil''\<rparr>) (apps host_tables)\<rparr>)) =
   resolve_route demo_store (Some ''/bin/x'') None (Some ''10.0.0.1'') (demo_world host_tables)"
  by (rule routing_ignores_app_hash [OF demo_store_tables demo_store_tables])

end
