(* ===== verification/Wire.thy ===== *)
theory Wire
  imports Daemon_Lib
begin

text \<open>
  Byte streams between processes and the interface of a wire format: what is written is read
  back, and reading makes progress. The frames of the daemon's protocol and the strings of the
  SSH agent protocol are instances.
\<close>

section \<open>Streams\<close>

text \<open>
  One end of a connected socket: the bytes that the peer has sent or will send before it
  closes, the bytes written so far, and whether writing fails.
\<close>

record stream =
  sm_in :: bytes
  sm_out :: bytes
  sm_broken :: bool

definition stream_read_exact :: "nat \<Rightarrow> (stream, bytes, coned_error) oper" where
  "stream_read_exact n = (\<lambda>st. case read_exact n (sm_in st) of
      None \<Rightarrow> (Err EofError, st\<lparr>sm_in := []\<rparr>)
    | Some (xs, ys) \<Rightarrow> (Ok xs, st\<lparr>sm_in := ys\<rparr>))"

definition stream_write_all :: "bytes \<Rightarrow> (stream, unit, coned_error) oper" where
  "stream_write_all bs = (\<lambda>st. if sm_broken st then (Err (FromIo BrokenPipe), st)
     else (Ok (), st\<lparr>sm_out := sm_out st @ bs\<rparr>))"

text \<open>A length in four bytes, cast to \<open>u32\<close>.\<close>

definition len_prefix :: "bytes \<Rightarrow> bytes" where
  "len_prefix bs = to_be_bytes (of_nat (length bs))"

definition frame :: "bytes \<Rightarrow> bytes" where
  "frame bs = len_prefix bs @ bs"

lemma stream_read_exact_append [simp]:
  "sm_in st = xs @ ys \<Longrightarrow> length xs = n \<Longrightarrow> stream_read_exact n st = (Ok xs, st\<lparr>sm_in := ys\<rparr>)"
  by (simp add: stream_read_exact_def)

lemma stream_read_exact_Ok_iff:
  "stream_read_exact n st = (Ok xs, st') \<longleftrightarrow>
     (\<exists>ys. sm_in st = xs @ ys \<and> length xs = n \<and> st' = st\<lparr>sm_in := ys\<rparr>)"
  by (auto simp: stream_read_exact_def read_exact_Some split: option.splits)

lemma stream_read_exact_not_Panic [simp]: "fst (stream_read_exact n st) \<noteq> Panic"
  by (auto simp: stream_read_exact_def split: option.splits)

lemma stream_read_exact_out [simp]: "sm_out (snd (stream_read_exact n st)) = sm_out st"
  "sm_broken (snd (stream_read_exact n st)) = sm_broken st"
  by (auto simp: stream_read_exact_def split: option.splits)

lemma stream_write_all_apply [simp]:
  "\<not> sm_broken st \<Longrightarrow> stream_write_all bs st = (Ok (), st\<lparr>sm_out := sm_out st @ bs\<rparr>)"
  "sm_broken st \<Longrightarrow> stream_write_all bs st = (Err (FromIo BrokenPipe), st)"
  by (simp_all add: stream_write_all_def)

lemma stream_write_all_in [simp]: "sm_in (snd (stream_write_all bs st)) = sm_in st"
  by (simp add: stream_write_all_def)

section \<open>Wire formats\<close>

text \<open>Reading a known number of items one after the other.\<close>

fun get_many :: "(bytes \<Rightarrow> ('a \<times> bytes, 'e) res) \<Rightarrow> nat \<Rightarrow> bytes \<Rightarrow> ('a list \<times> bytes, 'e) res" where
  "get_many get 0 bs = Ok ([], bs)"
| "get_many get (Suc n) bs =
     rbind (get bs) (\<lambda>(x, r). rbind (get_many get n r) (\<lambda>(xs, r'). Ok (x # xs, r')))"

locale wire_codec =
  fixes put :: "'a \<Rightarrow> bytes"
    and get :: "bytes \<Rightarrow> ('a \<times> bytes, 'e) res"
    and fits :: "'a \<Rightarrow> bool"
  assumes get_put: "fits x \<Longrightarrow> get (put x @ rest) = Ok (x, rest)"
    and get_progress: "get bs = Ok (x, rest) \<Longrightarrow> length rest < length bs"
begin

lemma get_many_put:
  "\<forall>x\<in>set xs. fits x \<Longrightarrow> get_many get (length xs) (concat (map put xs) @ rest) = Ok (xs, rest)"
  by (induction xs) (simp_all add: get_put)

lemma put_unique: "fits x \<Longrightarrow> fits y \<Longrightarrow> put x @ r = put y @ s \<Longrightarrow> x = y \<and> r = s"
  by (metis get_put prod.inject res.inject(1))

lemma get_many_progress:
  "get_many get n bs = Ok (xs, rest) \<Longrightarrow> length rest + n \<le> length bs"
proof (induction n arbitrary: bs xs)
  case (Suc n)
  then obtain x r ys where "get bs = Ok (x, r)" "get_many get n r = Ok (ys, rest)"
    by (auto simp: rbind_Ok_iff)
  with Suc.IH [of r ys] get_progress [of bs x r] show ?case by simp
qed simp

lemma put_not_Nil: "fits x \<Longrightarrow> put x \<noteq> []"
  using get_put [of x "[]"] get_progress [of "put x" x "[]"] by auto

end

text \<open>Two formats one after the other are a format of pairs.\<close>

definition put_pair :: "('a \<Rightarrow> bytes) \<Rightarrow> ('b \<Rightarrow> bytes) \<Rightarrow> 'a \<times> 'b \<Rightarrow> bytes" where
  "put_pair p q xy = p (fst xy) @ q (snd xy)"

definition get_pair ::
  "(bytes \<Rightarrow> ('a \<times> bytes, 'e) res) \<Rightarrow> (bytes \<Rightarrow> ('b \<times> bytes, 'e) res) \<Rightarrow> bytes \<Rightarrow> (('a \<times> 'b) \<times> bytes, 'e) res"
  where
  "get_pair g h bs = rbind (g bs) (\<lambda>(x, r). rbind (h r) (\<lambda>(y, r'). Ok ((x, y), r')))"

locale wire_pair = first: wire_codec put1 get1 fits1 + second: wire_codec put2 get2 fits2
  for put1 :: "'a \<Rightarrow> bytes" and get1 :: "bytes \<Rightarrow> ('a \<times> bytes, 'e) res" and fits1
    and put2 :: "'b \<Rightarrow> bytes" and get2 :: "bytes \<Rightarrow> ('b \<times> bytes, 'e) res" and fits2

sublocale wire_pair \<subseteq> both: wire_codec "put_pair put1 put2" "get_pair get1 get2"
  "\<lambda>xy. fits1 (fst xy) \<and> fits2 (snd xy)"
proof unfold_locales
  fix xy :: "'a \<times> 'b" and rest
  assume "fits1 (fst xy) \<and> fits2 (snd xy)"
  then show "get_pair get1 get2 (put_pair put1 put2 xy @ rest) = Ok (xy, rest)"
    by (simp add: put_pair_def get_pair_def first.get_put second.get_put)
next
  fix bs xy rest
  assume "get_pair get1 get2 bs = Ok (xy, rest)"
  then obtain x r y where "get1 bs = Ok (x, r)" "get2 r = Ok (y, rest)"
    by (auto simp: get_pair_def rbind_Ok_iff)
  then show "length rest < length bs"
    using first.get_progress second.get_progress less_trans by blast
qed

section \<open>Length-prefixed frames\<close>

text \<open>
  Four bytes of length, a limit on it, then so many bytes: the shape of a request, a response
  and an SSH string.
\<close>

definition get_frame :: "(nat \<Rightarrow> coned_error) \<Rightarrow> nat \<Rightarrow> bytes \<Rightarrow> (bytes \<times> bytes, coned_error) res" where
  "get_frame too_large limit bs = rbind (ok_or EofError (read_exact 4 bs)) (\<lambda>(len_bytes, r).
     let len = unat (from_be_bytes len_bytes) in
     if len > limit then Err (too_large len) else ok_or EofError (read_exact len r))"

definition frame_fits :: "nat \<Rightarrow> bytes \<Rightarrow> bool" where
  "frame_fits limit bs \<longleftrightarrow> length bs \<le> limit \<and> length bs < 2 ^ 32"

lemma length_len_prefix [simp]: "length (len_prefix bs) = 4"
  by (simp add: len_prefix_def)

lemma from_len_prefix [simp]: "length bs < 2 ^ 32 \<Longrightarrow> unat (from_be_bytes (len_prefix bs)) = length bs"
  by (simp add: len_prefix_def)

interpretation framed: wire_codec frame "get_frame too_large limit" "frame_fits limit" for too_large limit
proof unfold_locales
  fix x rest
  assume "frame_fits limit x"
  then show "get_frame too_large limit (frame x @ rest) = Ok (x, rest)"
    by (simp add: get_frame_def frame_def frame_fits_def Let_def)
next
  fix bs x rest
  assume "get_frame too_large limit bs = Ok (x, rest)"
  then show "length rest < length bs"
    by (auto simp: get_frame_def Let_def res_simps read_exact_Some split: if_splits)
qed

lemma get_frame_too_large:
  "limit < unat n \<Longrightarrow> get_frame too_large limit (to_be_bytes n @ rest) = Err (too_large (unat n))"
  by (simp add: get_frame_def)

lemma get_frame_no_panic [simp]: "get_frame too_large limit bs \<noteq> Panic"
  by (auto simp: get_frame_def rbind_Panic_iff Let_def split: if_splits)

end
