(* ===== verification/Ipc.thy ===== *)
theory Ipc
  imports Routing Wire
begin

text \<open>
  \<open>crates/coned/src/ipc.rs\<close>: the server behind which the command line tool and the PKCS#11
  module reach the keys. One connection carries one framed request and one framed response.
\<close>

section \<open>Messages\<close>

datatype request = Ping | Sign u32 bytes | ListCerts | StatusRequest | LockRequest

record cert_summary =
  cs_id :: string
  cs_label :: string
  cs_fingerprint :: string
  cs_subject :: string
  cs_not_after :: int

datatype response = Pong | Signature string bytes | Certs "cert_summary list" | Status bool nat
  | OkResponse | Error string

text \<open>\<open>serde_json\<close> on the two types.\<close>

record server_json =
  request_from_slice :: "bytes \<Rightarrow> (request, string) res"
  response_to_vec :: "response \<Rightarrow> (bytes, string) res"

section \<open>Framing\<close>

definition MAX_REQUEST :: nat where
  "MAX_REQUEST = 1024 * 1024"

definition read_request :: "server_json \<Rightarrow> (stream, request, coned_error) oper" where
  "read_request json =
     obind (stream_read_exact 4) (\<lambda>len_bytes.
     let len = unat (from_be_bytes len_bytes) in
     if len > MAX_REQUEST
     then lift_res (Err (Message (''Request too large: '' @ dec len @ '' bytes'')))
     else
       obind (stream_read_exact len) (\<lambda>buf.
       lift_res (map_err (\<lambda>e. Message (''failed to parse request: '' @ e)) (request_from_slice json buf))))"

definition send_response :: "server_json \<Rightarrow> response \<Rightarrow> (stream, unit, coned_error) oper" where
  "send_response json response =
     obind (lift_res (map_err JsonError (response_to_vec json response))) (\<lambda>body.
     obind (stream_write_all (len_prefix body)) (\<lambda>_.
     stream_write_all body))"

section \<open>Signing\<close>

definition sign_ecdsa :: "daemon_lib \<Rightarrow> bytes \<Rightarrow> bytes \<Rightarrow> (bytes, coned_error) res" where
  "sign_ecdsa lib key_der data =
     rbind (map_err (\<lambda>e. Message (''failed to parse EC key: '' @ e)) (p256_from_pkcs8_der lib key_der))
       (\<lambda>signing_key. Ok (p256_sign_der lib signing_key data))"

definition sign_rsa :: "daemon_lib \<Rightarrow> bytes \<Rightarrow> bytes \<Rightarrow> (bytes, coned_error) res" where
  "sign_rsa lib key_der data =
     rbind (map_err (\<lambda>e. Message (''failed to parse RSA key: '' @ e)) (rsa_from_pkcs8_der lib key_der))
       (\<lambda>signing_key. Ok (rsa_sign_sha256 lib signing_key data))"

definition sign_data :: "daemon_lib \<Rightarrow> store \<Rightarrow> string \<Rightarrow> bytes \<Rightarrow> world \<Rightarrow> (bytes, coned_error) res" where
  "sign_data lib s cert_id data w =
     rbind (map_err (\<lambda>e. Message (''failed to retrieve key: '' @ display_store_error lib e))
       (get_plaintext_key (dl_crypto lib) s cert_id w)) (\<lambda>(key_bytes, algorithm).
     case algorithm of
       EcP256 \<Rightarrow> sign_ecdsa lib key_bytes data
     | EcP384 \<Rightarrow> sign_ecdsa lib key_bytes data
     | Rsa2048 \<Rightarrow> sign_rsa lib key_bytes data
     | Rsa4096 \<Rightarrow> sign_rsa lib key_bytes data)"

section \<open>The server\<close>

text \<open>
  The state behind the two mutexes. A panic while the store's mutex is held poisons it, and
  \<open>lock().unwrap()\<close> on a poisoned mutex panics.
\<close>

record daemon =
  dm_store :: store
  dm_poisoned :: bool
  dm_monitor :: process_monitor

definition with_store :: "(daemon, 'a, 'e) oper \<Rightarrow> (daemon, 'a, 'e) oper" where
  "with_store m = (\<lambda>d. if dm_poisoned d then (Panic, d)
     else (case m d of
        (Panic, d') \<Rightarrow> (Panic, d'\<lparr>dm_poisoned := True\<rparr>)
      | r \<Rightarrow> r))"

definition cert_summary_of :: "cert \<Rightarrow> cert_summary" where
  "cert_summary_of c = \<lparr>cs_id = c_id c, cs_label = c_label c, cs_fingerprint = c_fingerprint c,
     cs_subject = c_subject c, cs_not_after = c_not_after c\<rparr>"

definition handle_status :: "world \<Rightarrow> (daemon, response, coned_error) oper" where
  "handle_status w = with_store (\<lambda>d.
     let locked = \<not> is_unlocked (dm_store d) in
     if \<not> locked then
       (case list_certs (dm_store d) w of
          Ok cs \<Rightarrow> (Ok (Status locked (length cs)), d)
        | Err _ \<Rightarrow> (Ok (Status locked 0), d)
        | Panic \<Rightarrow> (Panic, d))
     else (Ok (Status locked 0), d))"

definition handle_list_certs :: "daemon_lib \<Rightarrow> world \<Rightarrow> (daemon, response, coned_error) oper" where
  "handle_list_certs lib w = with_store (\<lambda>d. case list_certs (dm_store d) w of
      Ok cs \<Rightarrow> (Ok (Certs (map cert_summary_of cs)), d)
    | Err e \<Rightarrow> (Ok (Error (display_store_error lib e)), d)
    | Panic \<Rightarrow> (Panic, d))"

definition handle_sign ::
  "daemon_lib \<Rightarrow> known_hashes \<Rightarrow> world \<Rightarrow> u32 \<Rightarrow> bytes \<Rightarrow> (daemon, response, coned_error) oper" where
  "handle_sign lib known w pid data = with_store (\<lambda>d.
     case resolve_for_pid lib (dm_store d) known w pid (dm_monitor d) of
       (Ok route, m) \<Rightarrow> (case sign_data lib (dm_store d) (rr_cert_id route) data w of
           Ok signature \<Rightarrow> (Ok (Signature (rr_cert_id route) signature), d\<lparr>dm_monitor := m\<rparr>)
         | Err e \<Rightarrow> (Ok (Error (display_error lib e)), d\<lparr>dm_monitor := m\<rparr>)
         | Panic \<Rightarrow> (Panic, d\<lparr>dm_monitor := m\<rparr>))
     | (Err e, m) \<Rightarrow> (Ok (Error (display_error lib e)), d\<lparr>dm_monitor := m\<rparr>)
     | (Panic, m) \<Rightarrow> (Panic, d\<lparr>dm_monitor := m\<rparr>))"

fun dispatch ::
  "daemon_lib \<Rightarrow> known_hashes \<Rightarrow> world \<Rightarrow> u32 \<Rightarrow> request \<Rightarrow> (daemon, response, coned_error) oper" where
  "dispatch lib known w peer_pid Ping = ret Pong"
| "dispatch lib known w peer_pid StatusRequest = handle_status w"
| "dispatch lib known w peer_pid LockRequest =
     with_store (\<lambda>d. (Ok OkResponse, d\<lparr>dm_store := lock (dm_store d)\<rparr>))"
| "dispatch lib known w peer_pid ListCerts = handle_list_certs lib w"
| "dispatch lib known w peer_pid (Sign pid data) = handle_sign lib known w pid data"

text \<open>Running an operation on one half of a pair of states.\<close>

definition on_fst :: "('s, 'a, 'e) oper \<Rightarrow> ('s \<times> 't, 'a, 'e) oper" where
  "on_fst m = (\<lambda>(s, t). case m s of (r, s') \<Rightarrow> (r, s', t))"

definition on_snd :: "('t, 'a, 'e) oper \<Rightarrow> ('s \<times> 't, 'a, 'e) oper" where
  "on_snd m = (\<lambda>(s, t). case m t of (r, t') \<Rightarrow> (r, s, t'))"

definition handle_connection ::
  "daemon_lib \<Rightarrow> server_json \<Rightarrow> known_hashes \<Rightarrow> world \<Rightarrow> u32 \<Rightarrow> (daemon \<times> stream, unit, coned_error) oper"
  where
  "handle_connection lib json known w peer_pid =
     obind (on_snd (read_request json)) (\<lambda>request.
     obind (on_fst (dispatch lib known w peer_pid request)) (\<lambda>response.
     on_snd (send_response json response)))"

text \<open>
  What \<open>listener.incoming()\<close> yields: a stream, with what \<open>SO_PEERCRED\<close> gives for it, or an error
  of \<open>accept\<close>.
\<close>

datatype incoming = Accepted stream "(u32 \<times> u32) option" | AcceptFailed

definition get_peer_credentials :: "(u32 \<times> u32) option \<Rightarrow> (u32 \<times> u32, coned_error) res" where
  "get_peer_credentials cred = ok_or (Message ''getsockopt(SO_PEERCRED) failed'') cred"

definition UNAUTHORIZED :: string where
  "UNAUTHORIZED = ''Connection rejected: unauthorized process''"

text \<open>One turn of the accept loop, with the stream as it is left.\<close>

fun serve ::
  "daemon_lib \<Rightarrow> server_json \<Rightarrow> known_hashes \<Rightarrow> world \<Rightarrow> incoming \<Rightarrow> (daemon, stream option, coned_error) oper"
  where
  "serve lib json known w AcceptFailed d = (Ok None, d)"
| "serve lib json known w (Accepted st cred) d =
     (case get_peer_credentials cred of
        Err e \<Rightarrow> (Err e, d)
      | Panic \<Rightarrow> (Panic, d)
      | Ok (peer_pid, peer_uid) \<Rightarrow>
          (case verify_traffic_cone_binary lib w peer_pid peer_uid known (dm_monitor d) of
             (Ok process, m) \<Rightarrow>
               (case handle_connection lib json known w peer_pid (d\<lparr>dm_monitor := m\<rparr>, st) of
                  (Ok _, d', st') \<Rightarrow> (Ok (Some st'), d')
                | (Err e, d', st') \<Rightarrow>
                    (Ok (Some (snd (send_response json (Error (display_error lib e)) st'))), d')
                | (Panic, d', st') \<Rightarrow> (Panic, d'))
           | (Err e, m) \<Rightarrow> (Ok (Some (snd (send_response json (Error UNAUTHORIZED) st))), d\<lparr>dm_monitor := m\<rparr>)
           | (Panic, m) \<Rightarrow> (Panic, d\<lparr>dm_monitor := m\<rparr>)))"

text \<open>The loop over the connections; the world may differ from one to the next.\<close>

fun ipc_run ::
  "daemon_lib \<Rightarrow> server_json \<Rightarrow> known_hashes \<Rightarrow> (world \<times> incoming) list \<Rightarrow>
   (daemon, stream option list, coned_error) oper" where
  "ipc_run lib json known [] = ret []"
| "ipc_run lib json known ((w, i) # is) =
     obind (serve lib json known w i) (\<lambda>st. obind (ipc_run lib json known is) (\<lambda>sts. ret (st # sts)))"

section \<open>Binding the socket\<close>

text \<open>
  The answers of the three system calls. \<open>sun_path\<close> has 108 bytes, an index beyond it panics; the
  address bound is the prefix of \<open>sun_path\<close> that \<open>addr_len\<close> covers.
\<close>

record socket_calls =
  socket_ok :: bool
  bind_ok :: "bytes \<Rightarrow> bool"
  listen_ok :: bool

definition SOCKET_NAME :: string where
  "SOCKET_NAME = CHR 0x00 # ''traffic-cone-daemon''"

definition bind_abstract_socket :: "socket_calls \<Rightarrow> string \<Rightarrow> (bytes, coned_error) res" where
  "bind_abstract_socket os name =
     (if \<not> socket_ok os then Err (Message ''socket() failed'')
      else
        let name_bytes = as_bytes name in
        if 107 < length name_bytes then Panic
        else
          let sun_path = 0 # name_bytes @ replicate (107 - length name_bytes) 0;
              address = take (1 + length name_bytes) sun_path in
          if \<not> bind_ok os address then Err (Message ''bind() failed on abstract socket'')
          else if \<not> listen_ok os then Err (Message ''listen() failed'')
          else Ok address)"

section \<open>Facts\<close>

definition too_large :: "nat \<Rightarrow> coned_error" where
  "too_large len = Message (''Request too large: '' @ dec len @ '' bytes'')"

text \<open>\<open>read_request\<close> is the frame reader followed by the JSON parser.\<close>

lemma read_request_frame:
  "fst (read_request json st) = rbind (get_frame too_large MAX_REQUEST (sm_in st)) (\<lambda>(body, _).
     map_err (\<lambda>e. Message (''failed to parse request: '' @ e)) (request_from_slice json body))"
  by (auto simp: read_request_def get_frame_def stream_read_exact_def obind_apply too_large_def Let_def
      read_exact_def split: option.splits res.splits)

lemma read_request_rest:
  "get_frame too_large MAX_REQUEST (sm_in st) = Ok (body, rest) \<Longrightarrow>
   snd (read_request json st) = st\<lparr>sm_in := rest\<rparr>"
  by (auto simp: read_request_def get_frame_def stream_read_exact_def obind_apply Let_def
      read_exact_def split: option.splits res.splits if_splits)

lemma read_request_out [simp]:
  "sm_out (snd (read_request json st)) = sm_out st" "sm_broken (snd (read_request json st)) = sm_broken st"
  by (simp_all add: read_request_def obind_apply Let_def split: res.splits)

lemma send_response_apply:
  "\<not> sm_broken st \<Longrightarrow> response_to_vec json r = Ok body \<Longrightarrow>
   send_response json r st = (Ok (), st\<lparr>sm_out := sm_out st @ frame body\<rparr>)"
  by (simp add: send_response_def obind_apply frame_def)

lemma send_response_in [simp]: "sm_in (snd (send_response json r st)) = sm_in st"
  by (simp add: send_response_def obind_apply split: res.splits)

lemma handle_connection_apply:
  "handle_connection lib json known w p (d, st) =
    (case read_request json st of
       (Err e, st1) \<Rightarrow> (Err e, d, st1)
     | (Panic, st1) \<Rightarrow> (Panic, d, st1)
     | (Ok rq, st1) \<Rightarrow> (case dispatch lib known w p rq d of
          (Err e, d') \<Rightarrow> (Err e, d', st1)
        | (Panic, d') \<Rightarrow> (Panic, d', st1)
        | (Ok resp, d') \<Rightarrow> (case send_response json resp st1 of (r, st2) \<Rightarrow> (r, d', st2))))"
  by (simp add: handle_connection_def obind_def on_fst_def on_snd_def split: prod.splits res.splits)

text \<open>Preservation by the layers of the server, from the operations upwards.\<close>

lemma keeps_on_fst: "keeps P m \<Longrightarrow> keeps (\<lambda>(s, t). P s) (on_fst m)"
  and keeps_on_snd: "keeps (\<lambda>(s, t). P s) (on_snd m')"
  by (auto simp: keeps_def on_fst_def on_snd_def split: prod.splits)

lemma keeps_handle_connection:
  assumes "\<And>rq. keeps P (dispatch lib known w p rq)"
  shows "keeps (\<lambda>(d, st). P d) (handle_connection lib json known w p)"
  unfolding handle_connection_def
  by (intro keeps_obind keeps_on_snd keeps_on_fst assms)

lemma keeps_serve:
  assumes "\<And>p rq. keeps P (dispatch lib known w p rq)"
    and "\<And>d m. P d \<Longrightarrow> monitor_ok m \<Longrightarrow> P (d\<lparr>dm_monitor := m\<rparr>)" and "\<And>d. P d \<Longrightarrow> monitor_ok (dm_monitor d)"
  shows "keeps P (serve lib json known w i)"
proof (rule keepsI)
  fix d assume d: "P d"
  show "P (snd (serve lib json known w i d))"
  proof (cases i)
    case (Accepted st cred)
    show ?thesis
    proof (cases cred)
      case (Some pu)
      obtain r m where v: "verify_traffic_cone_binary lib w (fst pu) (snd pu) known (dm_monitor d) = (r, m)"
        by force
      have m: "P (d\<lparr>dm_monitor := m\<rparr>)"
        using assms(2,3) d keepsD [OF verify_traffic_cone_binary_keeps _ v] by blast
      have "P (fst (snd (handle_connection lib json known w (fst pu) (d\<lparr>dm_monitor := m\<rparr>, st))))"
        using keeps_handle_connection [OF assms(1), of json "fst pu"] m by (auto simp: keeps_def split_beta)
      with m v Some Accepted show ?thesis
        by (cases pu) (auto simp: get_peer_credentials_def split: prod.splits res.splits)
    qed (use d Accepted in \<open>simp add: get_peer_credentials_def\<close>)
  qed (use d in simp)
qed

lemma keeps_ipc_run:
  assumes "\<And>w p rq. keeps P (dispatch lib known w p rq)"
    and "\<And>d m. P d \<Longrightarrow> monitor_ok m \<Longrightarrow> P (d\<lparr>dm_monitor := m\<rparr>)" and "\<And>d. P d \<Longrightarrow> monitor_ok (dm_monitor d)"
  shows "keeps P (ipc_run lib json known is)"
proof (induction "is")
  case Nil
  show ?case by (simp only: ipc_run.simps keeps_ret)
next
  case (Cons wi "is")
  obtain w i where "wi = (w, i)" by force
  with Cons show ?case
    by (simp only: ipc_run.simps) (intro keeps_obind keeps_ret keeps_serve assms)
qed

lemma with_store_keeps:
  assumes "keeps P m" and "\<And>d. P d \<Longrightarrow> P (d\<lparr>dm_poisoned := True\<rparr>)"
  shows "keeps P (with_store m)"
  using assms by (fastforce simp: keeps_def with_store_def split: prod.splits res.splits)

definition daemon_locked :: "daemon \<Rightarrow> bool" where
  "daemon_locked d \<longleftrightarrow> \<not> is_unlocked (dm_store d) \<and> monitor_ok (dm_monitor d)"

lemma store_conn_locked: "\<not> is_unlocked s \<Longrightarrow> store_conn s = Err LockedError"
  by (cases "st_state s") (auto simp: is_unlocked_def)

lemma handle_sign_keeps:
  assumes "\<And>d m. P d \<Longrightarrow> monitor_ok m \<Longrightarrow> P (d\<lparr>dm_monitor := m\<rparr>)"
    and "\<And>d. P d \<Longrightarrow> P (d\<lparr>dm_poisoned := True\<rparr>)" and "\<And>d. P d \<Longrightarrow> monitor_ok (dm_monitor d)"
  shows "keeps P (handle_sign lib known w pid data)"
  unfolding handle_sign_def
proof (rule with_store_keeps)
  show "keeps P (\<lambda>d. case resolve_for_pid lib (dm_store d) known w pid (dm_monitor d) of
       (Ok route, m) \<Rightarrow> (case sign_data lib (dm_store d) (rr_cert_id route) data w of
           Ok signature \<Rightarrow> (Ok (Signature (rr_cert_id route) signature), d\<lparr>dm_monitor := m\<rparr>)
         | Err e \<Rightarrow> (Ok (Error (display_error lib e)), d\<lparr>dm_monitor := m\<rparr>)
         | Panic \<Rightarrow> (Panic, d\<lparr>dm_monitor := m\<rparr>))
     | (Err e, m) \<Rightarrow> (Ok (Error (display_error lib e)), d\<lparr>dm_monitor := m\<rparr>)
     | (Panic, m) \<Rightarrow> (Panic, d\<lparr>dm_monitor := m\<rparr>))"
  proof (rule keepsI)
    fix d assume d: "P d"
    obtain r m where r: "resolve_for_pid lib (dm_store d) known w pid (dm_monitor d) = (r, m)" by force
    then have "monitor_ok m"
      using keepsD [OF resolve_for_pid_keeps assms(3) [OF d]] by blast
    then show "P (snd (case resolve_for_pid lib (dm_store d) known w pid (dm_monitor d) of
       (Ok route, m) \<Rightarrow> (case sign_data lib (dm_store d) (rr_cert_id route) data w of
           Ok signature \<Rightarrow> (Ok (Signature (rr_cert_id route) signature), d\<lparr>dm_monitor := m\<rparr>)
         | Err e \<Rightarrow> (Ok (Error (display_error lib e)), d\<lparr>dm_monitor := m\<rparr>)
         | Panic \<Rightarrow> (Panic, d\<lparr>dm_monitor := m\<rparr>))
     | (Err e, m) \<Rightarrow> (Ok (Error (display_error lib e)), d\<lparr>dm_monitor := m\<rparr>)
     | (Panic, m) \<Rightarrow> (Panic, d\<lparr>dm_monitor := m\<rparr>)))"
      using r assms(1) [OF d] by (auto split: res.splits)
  qed
qed (rule assms(2))

lemma dispatch_keeps:
  assumes "\<And>d m. P d \<Longrightarrow> monitor_ok m \<Longrightarrow> P (d\<lparr>dm_monitor := m\<rparr>)"
    and "\<And>d. P d \<Longrightarrow> P (d\<lparr>dm_poisoned := True\<rparr>)" and "\<And>d. P d \<Longrightarrow> monitor_ok (dm_monitor d)"
    and "\<And>d. P d \<Longrightarrow> P (d\<lparr>dm_store := lock (dm_store d)\<rparr>)"
  shows "keeps P (dispatch lib known w p rq)"
proof (cases rq)
  case ListCerts
  have "keeps P (handle_list_certs lib w)"
    unfolding handle_list_certs_def
    by (rule with_store_keeps) (auto simp: assms(2) keeps_def split: res.splits)
  with ListCerts show ?thesis by simp
next
  case StatusRequest
  have "keeps P (handle_status w)"
    unfolding handle_status_def
    by (rule with_store_keeps) (auto simp: assms(2) keeps_def Let_def split: res.splits)
  with StatusRequest show ?thesis by simp
next
  case LockRequest
  have "keeps P (with_store (\<lambda>d. (Ok OkResponse, d\<lparr>dm_store := lock (dm_store d)\<rparr>)))"
    by (rule with_store_keeps) (auto simp: assms(2,4) keeps_def)
  then show ?thesis using LockRequest by simp
next
  case (Sign pid data)
  with handle_sign_keeps [OF assms(1-3)] show ?thesis by simp
qed (simp add: keeps_def)

lemma locked_keeps: "keeps daemon_locked (dispatch lib known w p rq)"
  by (rule dispatch_keeps) (auto simp: daemon_locked_def)

subsection \<open>A sample server\<close>

definition demo_json :: server_json where
  "demo_json = \<lparr>request_from_slice = (\<lambda>bs. Ok (if bs = [] then Ping else Sign 7 bs)),
     response_to_vec = (\<lambda>r. Ok (case r of Pong \<Rightarrow> [0] | Signature cid sig \<Rightarrow> 1 # sig | _ \<Rightarrow> [2]))\<rparr>"

definition demo_daemon :: daemon where
  "demo_daemon = \<lparr>dm_store = demo_store, dm_poisoned = False, dm_monitor = new_monitor\<rparr>"

definition demo_known :: known_hashes where
  "demo_known = (\<lambda>p. Some ''new'')"

definition opened :: "bytes \<Rightarrow> stream" where
  "opened bs = \<lparr>sm_in = bs, sm_out = [], sm_broken = False\<rparr>"

lemma demo_daemon_fields [simp]:
  "dm_store demo_daemon = demo_store" "\<not> dm_poisoned demo_daemon" "dm_monitor demo_daemon = new_monitor"
  by (simp_all add: demo_daemon_def)

lemma demo_verified:
  obtains m where "verify_traffic_cone_binary demo_lib demo_host 7 1000 demo_known new_monitor = (Ok demo_peer, m)"
proof -
  have "fst (verify_traffic_cone_binary demo_lib demo_host 7 1000 demo_known new_monitor) = Ok demo_peer"
    using demo_host_resolve by (simp add: verify_traffic_cone_binary_def obind_apply demo_known_def demo_peer_def)
  then show thesis using that by (metis prod.collapse)
qed

lemma demo_resolved:
  assumes "routes t = routes host_tables" and "apps t = apps host_tables"
  obtains m where "resolve_for_pid demo_lib demo_store (\<lambda>_. None) (host_world t) 7 new_monitor =
    (Ok \<lparr>rr_cert_id = ''c1'', rr_process = demo_peer, rr_remote_host = None,
      rr_remote_ip = Some ''10.0.0.1''\<rparr>, m)"
proof -
  obtain m where "resolve demo_lib (host_world t) 7 new_monitor = (Ok demo_peer, m)"
    using demo_host_resolve by (metis prod.collapse)
  then show thesis using that host_route [OF assms] by (simp add: resolve_for_pid_def)
qed

section \<open>Properties\<close>

text \<open>
  C4. One exchange with an authorised client: the framed request is parsed and dispatched, the
  response goes out as one frame, which a frame reader at the other end reads back, and
  nothing beyond the request is consumed.
\<close>

theorem serve_exchange:
  assumes "verify_traffic_cone_binary lib w pid uid known (dm_monitor d) = (Ok process, m)"
    and "sm_in st = frame body @ rest" and "length body \<le> MAX_REQUEST"
    and "request_from_slice json body = Ok rq"
    and "dispatch lib known w pid rq (d\<lparr>dm_monitor := m\<rparr>) = (Ok resp, d')"
    and "response_to_vec json resp = Ok out" and "length out < 2 ^ 32"
    and "\<not> sm_broken st" and "sm_out st = []"
  shows "\<exists>st'. serve lib json known w (Accepted st (Some (pid, uid))) d = (Ok (Some st'), d') \<and>
    sm_in st' = rest \<and> get_frame e (2 ^ 32) (sm_out st') = Ok (out, [])"
proof -
  have "frame_fits MAX_REQUEST body" using assms(3) by (simp add: frame_fits_def MAX_REQUEST_def)
  then have f: "get_frame too_large MAX_REQUEST (sm_in st) = Ok (body, rest)"
    using assms(2) by (simp add: framed.get_put)
  have "fst (read_request json st) = Ok rq" "snd (read_request json st) = st\<lparr>sm_in := rest\<rparr>"
    using f assms(4) by (simp_all add: read_request_frame read_request_rest)
  then have r: "read_request json st = (Ok rq, st\<lparr>sm_in := rest\<rparr>)" by (metis prod.collapse)
  have "send_response json resp (st\<lparr>sm_in := rest\<rparr>) = (Ok (), st\<lparr>sm_in := rest, sm_out := frame out\<rparr>)"
    using assms(6,8,9) by (simp add: send_response_apply)
  then have "serve lib json known w (Accepted st (Some (pid, uid))) d =
      (Ok (Some (st\<lparr>sm_in := rest, sm_out := frame out\<rparr>)), d')"
    using assms(1,5) r by (simp add: get_peer_credentials_def handle_connection_apply)
  moreover have "get_frame e (2 ^ 32) (frame out) = Ok (out, [])"
    using framed.get_put [of "2 ^ 32" out e "[]"] assms(7) by (simp add: frame_fits_def)
  ultimately show ?thesis by simp
qed

theorem serve_exchange_witness:
  "\<exists>st' d'. serve demo_lib demo_json demo_known demo_host
     (Accepted (opened (frame [] @ [5])) (Some (7, 1000))) demo_daemon = (Ok (Some st'), d') \<and>
     sm_in st' = [5] \<and> get_frame too_large (2 ^ 32) (sm_out st') = Ok ([0], [])"
proof -
  obtain m where v: "verify_traffic_cone_binary demo_lib demo_host 7 1000 demo_known (dm_monitor demo_daemon)
      = (Ok demo_peer, m)"
    using demo_verified by auto
  have "dispatch demo_lib demo_known demo_host 7 Ping (demo_daemon\<lparr>dm_monitor := m\<rparr>) =
      (Ok Pong, demo_daemon\<lparr>dm_monitor := m\<rparr>)" by simp
  have "\<exists>st'. serve demo_lib demo_json demo_known demo_host
      (Accepted (opened (frame [] @ [5])) (Some (7, 1000))) demo_daemon =
      (Ok (Some st'), demo_daemon\<lparr>dm_monitor := m\<rparr>) \<and>
     sm_in st' = [5] \<and> get_frame too_large (2 ^ 32) (sm_out st') = Ok ([0], [])"
    by (rule serve_exchange [OF v _ _ _ \<open>dispatch _ _ _ _ _ _ = _\<close>]) (simp_all add: opened_def demo_json_def)
  then show ?thesis by blast
qed

text \<open>
  A request announced as longer than one mebibyte is refused before any of its body is
  read, and the store and the router are not involved.
\<close>

theorem oversized_request_refused:
  assumes "verify_traffic_cone_binary lib w pid uid known (dm_monitor d) = (Ok process, m)"
    and "sm_in st = to_be_bytes n @ rest" and "1048576 < unat n"
  shows "\<exists>st'. serve lib json known w (Accepted st (Some (pid, uid))) d = (Ok (Some st'), d\<lparr>dm_monitor := m\<rparr>) \<and>
    sm_in st' = rest"
proof -
  have "read_request json st = (Err (too_large (unat n)), st\<lparr>sm_in := rest\<rparr>)"
    using assms(2,3) by (simp add: read_request_def obind_apply too_large_def MAX_REQUEST_def)
  then show ?thesis
    using assms(1) by (simp add: get_peer_credentials_def handle_connection_apply)
qed

theorem oversized_request_refused_witness:
  "\<exists>st' d'. serve demo_lib demo_json demo_known demo_host
     (Accepted (opened (to_be_bytes 2000000 @ [5])) (Some (7, 1000))) demo_daemon = (Ok (Some st'), d') \<and>
     sm_in st' = [5]"
proof -
  obtain m where v: "verify_traffic_cone_binary demo_lib demo_host 7 1000 demo_known (dm_monitor demo_daemon)
      = (Ok demo_peer, m)"
    using demo_verified by auto
  from oversized_request_refused [OF v, of "opened (to_be_bytes 2000000 @ [5])" 2000000 "[5]" demo_json]
  show ?thesis by (auto simp: opened_def)
qed

text \<open>
  A peer that fails verification gets the fixed rejection and nothing else: none of its
  bytes is read and the store is untouched.
\<close>

theorem unauthorized_rejected:
  assumes "verify_traffic_cone_binary lib w pid uid known (dm_monitor d) = (Err e, m)"
    and "response_to_vec json (Error UNAUTHORIZED) = Ok out" and "\<not> sm_broken st"
  shows "serve lib json known w (Accepted st (Some (pid, uid))) d =
    (Ok (Some (st\<lparr>sm_out := sm_out st @ frame out\<rparr>)), d\<lparr>dm_monitor := m\<rparr>)"
  using assms by (simp add: get_peer_credentials_def send_response_apply)

theorem unauthorized_rejected_witness:
  "\<exists>d'. serve demo_lib demo_json demo_known demo_host (Accepted (opened [1, 2]) (Some (7, 0))) demo_daemon =
     (Ok (Some (opened [1, 2]\<lparr>sm_out := frame [2]\<rparr>)), d')"
proof -
  obtain e m where v: "verify_traffic_cone_binary demo_lib demo_host 7 0 demo_known (dm_monitor demo_daemon) = (Err e, m)"
    by (simp add: verify_traffic_cone_binary_def)
  from unauthorized_rejected [OF v, of demo_json "[2]" "opened [1, 2]"]
  show ?thesis by (auto simp: demo_json_def opened_def)
qed

text \<open>
  The daemon never unlocks itself: once the store is locked, it is locked after any
  sequence of connections, whatever their peers, contents and order, and whether the server
  survives them or not.
\<close>

theorem stays_locked:
  assumes "daemon_locked d"
  shows "daemon_locked (snd (ipc_run lib json known is d))"
proof -
  have "keeps daemon_locked (ipc_run lib json known is)"
    by (rule keeps_ipc_run [OF locked_keeps]) (auto simp: daemon_locked_def)
  with assms show ?thesis by (simp add: keeps_def)
qed

theorem stays_locked_witness:
  "daemon_locked (snd (ipc_run demo_lib demo_json demo_known [(demo_host, AcceptFailed)]
     (demo_daemon\<lparr>dm_store := lock demo_store\<rparr>)))"
  by (rule stays_locked) (simp add: daemon_locked_def new_monitor_def monitor_ok_def)

text \<open>
  A locked daemon neither signs nor lists: its answer to any request is a pong, its
  status, an acknowledgement or an error.
\<close>

theorem locked_reveals_nothing:
  assumes "daemon_locked d" and "fst (dispatch lib known w p rq d) = Ok resp"
  shows "resp = Pong \<or> resp = Status True 0 \<or> resp = OkResponse \<or> (\<exists>m. resp = Error m)"
proof (cases rq)
  case ListCerts
  then show ?thesis
    using assms store_conn_locked [of "dm_store d"]
    by (auto simp: daemon_locked_def handle_list_certs_def with_store_def list_certs_def store_tables_def
        split: if_splits)
next
  case StatusRequest
  then show ?thesis
    using assms by (auto simp: daemon_locked_def handle_status_def with_store_def Let_def split: if_splits)
next
  case (Sign pid data)
  have "sign_data lib (dm_store d) cid data w \<noteq> Ok sig" for cid sig
    using assms(1) store_conn_locked [of "dm_store d"]
    by (auto simp: daemon_locked_def sign_data_def get_plaintext_key_def)
  with Sign show ?thesis
    using assms by (auto simp: handle_sign_def with_store_def split: if_splits prod.splits res.splits)
qed (use assms in \<open>auto simp: with_store_def split: if_splits\<close>)

theorem locked_reveals_nothing_witness:
  "fst (dispatch demo_lib demo_known demo_host 7 StatusRequest (demo_daemon\<lparr>dm_store := lock demo_store\<rparr>)) =
     Ok (Status True 0)"
proof -
  let ?d = "demo_daemon\<lparr>dm_store := lock demo_store\<rparr>"
  obtain locked n where r: "fst (dispatch demo_lib demo_known demo_host 7 StatusRequest ?d) = Ok (Status locked n)"
    by (simp add: handle_status_def with_store_def)
  have "daemon_locked ?d" by (simp add: daemon_locked_def new_monitor_def monitor_ok_def)
  from locked_reveals_nothing [OF this r] r show ?thesis by simp
qed



text \<open>
  C39. A stored nonce that is not twelve bytes long takes the daemon down: signing with that key
  panics inside \<open>Nonce::from_slice\<close>, the store's mutex is poisoned, and every later request
  other than a ping panics too.
\<close>

theorem bad_nonce_poisons:
  assumes "\<not> dm_poisoned d" and "store_tables (dm_store d) w = Ok t"
    and "resolve_for_pid lib (dm_store d) known w pid (dm_monitor d) = (Ok route, m)"
    and "find (\<lambda>k. k_cert_id k = rr_cert_id route) (keys t) = Some k" and "length (k_nonce k) \<noteq> 12"
    and "store_passphrase (dm_store d) = Ok pass" and "derive_key (dl_crypto lib) pass (k_salt k) = Ok derived"
  shows "\<exists>d'. dispatch lib known w p (Sign pid data) d = (Panic, d') \<and> dm_poisoned d' \<and>
    (\<forall>lib' known' w' q rq. rq \<noteq> Ping \<longrightarrow> fst (dispatch lib' known' w' q rq d') = Panic)"
proof -
  obtain c where "store_conn (dm_store d) = Ok c" "conn_tables c w = Ok t"
    using assms(2) by (auto simp: store_tables_Ok_iff)
  then have "sign_data lib (dm_store d) (rr_cert_id route) data w = Panic"
    using assms(4-7) by (simp add: sign_data_def get_plaintext_key_def query_row_def decrypt_key_def
        nonce_from_slice_def)
  then have s: "dispatch lib known w p (Sign pid data) d = (Panic, d\<lparr>dm_monitor := m, dm_poisoned := True\<rparr>)"
    using assms(1,3) by (simp add: handle_sign_def with_store_def)
  have "fst (dispatch lib' known' w' q rq (d\<lparr>dm_monitor := m, dm_poisoned := True\<rparr>)) = Panic"
    if "rq \<noteq> Ping" for lib' known' w' q rq
    using that by (cases rq)
      (simp_all add: with_store_def handle_sign_def handle_status_def handle_list_certs_def)
  with s show ?thesis by simp
qed

theorem bad_nonce_poisons_witness:
  "\<exists>d'. dispatch demo_lib (\<lambda>_. None) (host_world (host_tables\<lparr>keys := [demo_key ''k1'' ''c1'' []]\<rparr>)) 1
     (Sign 7 [9]) demo_daemon = (Panic, d') \<and> dm_poisoned d'"
proof -
  let ?t = "host_tables\<lparr>keys := [demo_key ''k1'' ''c1'' []]\<rparr>"
  obtain m where r: "resolve_for_pid demo_lib (dm_store demo_daemon) (\<lambda>_. None) (host_world ?t) 7 (dm_monitor demo_daemon) =
    (Ok \<lparr>rr_cert_id = ''c1'', rr_process = demo_peer, rr_remote_host = None,
      rr_remote_ip = Some ''10.0.0.1''\<rparr>, m)"
    using demo_resolved [of ?t] by auto
  have "store_tables (dm_store demo_daemon) (host_world ?t) = Ok ?t" by (simp add: demo_host_store)
  from bad_nonce_poisons [OF _ this r, of "demo_key ''k1'' ''c1'' []" "[7]" "[7]" 1 "[9]"]
  show ?thesis
    by (auto simp: demo_key_def derive_key_def demo_lib_def plain_crypto_def KEY_LEN_def)
qed

end
