(* ===== verification/Ssh_Agent.thy ===== *)
theory Ssh_Agent
  imports Ipc
begin

text \<open>
  \<open>crates/coned/src/ssh_agent.rs\<close>: the SSH agent protocol on the stored SSH keys. The agent
  shares the store's mutex with the IPC server; it never consults the process monitor.
\<close>

definition SSH_AGENTC_REQUEST_IDENTITIES :: byte where "SSH_AGENTC_REQUEST_IDENTITIES = 11"

definition SSH_AGENTC_SIGN_REQUEST :: byte where "SSH_AGENTC_SIGN_REQUEST = 13"

definition SSH_AGENT_FAILURE :: byte where "SSH_AGENT_FAILURE = 5"

definition SSH_AGENT_IDENTITIES_ANSWER :: byte where "SSH_AGENT_IDENTITIES_ANSWER = 12"

definition SSH_AGENT_SIGN_RESPONSE :: byte where "SSH_AGENT_SIGN_RESPONSE = 14"

definition SSH_AGENT_RSA_SHA2_512 :: u32 where "SSH_AGENT_RSA_SHA2_512 = 4"

definition MAX_SSH :: nat where "MAX_SSH = 256 * 1024"

section \<open>Wire format helpers\<close>

definition write_string :: "bytes \<Rightarrow> bytes \<Rightarrow> bytes" where
  "write_string buf data = buf @ len_prefix data @ data"

text \<open>A cursor is the rest of the payload.\<close>

definition read_u32 :: "bytes \<Rightarrow> (u32 \<times> bytes, coned_error) res" where
  "read_u32 cursor = rbind (ok_or EofError (read_exact 4 cursor)) (\<lambda>(buf, r). Ok (from_be_bytes buf, r))"

definition read_string :: "bytes \<Rightarrow> (bytes \<times> bytes, coned_error) res" where
  "read_string cursor = rbind (read_u32 cursor) (\<lambda>(n, r).
     let len = unat n in
     if len > MAX_SSH then Err (Message (''SSH string too large: '' @ dec len))
     else ok_or EofError (read_exact len r))"

section \<open>Signing\<close>

definition sign_ed25519 :: "daemon_lib \<Rightarrow> bytes \<Rightarrow> bytes \<Rightarrow> (string \<times> bytes, coned_error) res" where
  "sign_ed25519 lib key_der data =
     (if length key_der < 32 then Err (Message ''ed25519 key too short'')
      else
        let key_bytes = drop (length key_der - 32) key_der
        in Ok (''ssh-ed25519'', ed25519_sign lib key_bytes data))"

definition sign_ecdsa_p256 :: "daemon_lib \<Rightarrow> bytes \<Rightarrow> bytes \<Rightarrow> (string \<times> bytes, coned_error) res" where
  "sign_ecdsa_p256 lib key_der data =
     rbind (map_err (\<lambda>e. Message (''failed to parse P-256 key: '' @ e)) (p256_from_pkcs8_der lib key_der))
       (\<lambda>k. Ok (''ecdsa-sha2-nistp256'', p256_sign_der lib k data))"

definition sign_rsa_ssh :: "daemon_lib \<Rightarrow> bytes \<Rightarrow> bytes \<Rightarrow> bool \<Rightarrow> (string \<times> bytes, coned_error) res" where
  "sign_rsa_ssh lib key_der data use_sha512 =
     rbind (map_err (\<lambda>e. Message (''failed to parse RSA key: '' @ e)) (rsa_from_pkcs8_der lib key_der))
       (\<lambda>k. if use_sha512 then Ok (''rsa-sha2-512'', rsa_sign_sha512 lib k data)
            else Ok (''rsa-sha2-256'', rsa_sign_sha256 lib k data))"

fun sign_ssh_data ::
  "daemon_lib \<Rightarrow> bytes \<Rightarrow> bytes \<Rightarrow> ssh_algorithm \<Rightarrow> u32 \<Rightarrow> (string \<times> bytes, coned_error) res" where
  "sign_ssh_data lib key_der data Ed25519 flags = sign_ed25519 lib key_der data"
| "sign_ssh_data lib key_der data EcdsaP256 flags = sign_ecdsa_p256 lib key_der data"
| "sign_ssh_data lib key_der data SshRsa4096 flags =
     (if flags AND SSH_AGENT_RSA_SHA2_512 \<noteq> 0 then sign_rsa_ssh lib key_der data True
      else sign_rsa_ssh lib key_der data False)"

section \<open>Messages\<close>

definition handle_request_identities :: "world \<Rightarrow> (daemon, bytes, coned_error) oper" where
  "handle_request_identities w = with_store (\<lambda>d.
     let keys = (case list_ssh_keys (dm_store d) w of Ok ks \<Rightarrow> ks | _ \<Rightarrow> []);
         buf = SSH_AGENT_IDENTITIES_ANSWER # to_be_bytes (of_nat (length keys));
         buf = fold (\<lambda>key buf. write_string (write_string buf (as_bytes (sk_public_key key)))
                 (as_bytes (sk_label key))) keys buf
     in (Ok buf, d))"

text \<open>The part of \<open>handle_sign_request\<close> that runs under the store's mutex.\<close>

definition sign_with_matching_key ::
  "daemon_lib \<Rightarrow> store \<Rightarrow> world \<Rightarrow> bytes \<Rightarrow> bytes \<Rightarrow> u32 \<Rightarrow> (bytes, coned_error) res" where
  "sign_with_matching_key lib s w key_blob data flags =
     rbind (map_err FromStore (list_ssh_keys s w)) (\<lambda>keys.
     case find (\<lambda>k. as_bytes (sk_public_key k) = key_blob) keys of
       None \<Rightarrow> Ok [SSH_AGENT_FAILURE]
     | Some key \<Rightarrow>
         rbind (map_err (\<lambda>e. Message (''failed to retrieve SSH key: '' @ display_store_error lib e))
           (get_ssh_plaintext_key (dl_crypto lib) s (sk_label key) w)) (\<lambda>plaintext.
         rbind (sign_ssh_data lib plaintext data (sk_algorithm key) flags) (\<lambda>(sig_type, signature).
         let sig_blob = write_string (write_string [] (as_bytes sig_type)) signature
         in Ok (write_string [SSH_AGENT_SIGN_RESPONSE] sig_blob))))"

definition handle_sign_request ::
  "daemon_lib \<Rightarrow> world \<Rightarrow> bytes \<Rightarrow> (daemon, bytes, coned_error) oper" where
  "handle_sign_request lib w payload =
     obind (lift_res (read_string payload)) (\<lambda>(key_blob, c1).
     obind (lift_res (read_string c1)) (\<lambda>(data, c2).
     obind (lift_res (read_u32 c2)) (\<lambda>(flags, c3).
     with_store (\<lambda>d. (sign_with_matching_key lib (dm_store d) w key_blob data flags, d)))))"

text \<open>The response to one message: an error becomes \<open>SSH_AGENT_FAILURE\<close>.\<close>

definition respond :: "daemon_lib \<Rightarrow> world \<Rightarrow> bytes \<Rightarrow> (daemon, bytes, coned_error) oper" where
  "respond lib w msg = (\<lambda>d.
     let msg_type = hd msg; payload = tl msg;
         response =
           (if msg_type = SSH_AGENTC_REQUEST_IDENTITIES then handle_request_identities w d
            else if msg_type = SSH_AGENTC_SIGN_REQUEST then handle_sign_request lib w payload d
            else (Ok [SSH_AGENT_FAILURE], d))
     in (case response of
           (Ok bs, d') \<Rightarrow> (Ok bs, d')
         | (Err e, d') \<Rightarrow> (Ok [SSH_AGENT_FAILURE], d')
         | (Panic, d') \<Rightarrow> (Panic, d')))"

text \<open>\<open>Ok True\<close> keeps the connection open.\<close>

definition handle_message :: "daemon_lib \<Rightarrow> world \<Rightarrow> (daemon \<times> stream, bool, coned_error) oper" where
  "handle_message lib w = (\<lambda>(d, st).
     case stream_read_exact 4 st of
       (Panic, st1) \<Rightarrow> (Panic, d, st1)
     | (Err e, st1) \<Rightarrow> (if e = EofError then (Ok False, d, st1) else (Err e, d, st1))
     | (Ok len_buf, st1) \<Rightarrow>
         let len = unat (from_be_bytes len_buf) in
         if len = 0 \<or> len > MAX_SSH
         then (Err (Message (''invalid SSH agent message length: '' @ dec len)), d, st1)
         else
           obind (on_snd (stream_read_exact len)) (\<lambda>msg.
             if msg = [] then ret True
             else
               obind (on_fst (respond lib w msg)) (\<lambda>response_bytes.
               obind (on_snd (stream_write_all (len_prefix response_bytes))) (\<lambda>_.
               obind (on_snd (stream_write_all response_bytes)) (\<lambda>_. ret True)))) (d, st1))"

lemma handle_message_consumes:
  assumes "handle_message lib w (d, st) = (Ok True, d', st')"
  shows "length (sm_in st') < length (sm_in st)"
proof -
  from assms obtain lb st1 where l: "stream_read_exact 4 st = (Ok lb, st1)"
    by (auto simp: handle_message_def split: prod.splits res.splits if_splits)
  then have "length (sm_in st1) + 4 = length (sm_in st)"
    by (auto simp: stream_read_exact_Ok_iff)
  moreover obtain msg st2 where m: "stream_read_exact (unat (from_be_bytes lb)) st1 = (Ok msg, st2)"
    using assms l
    by (auto simp: handle_message_def Let_def obind_def on_snd_def split: prod.splits res.splits if_splits)
  then have "length (sm_in st2) \<le> length (sm_in st1)"
    by (auto simp: stream_read_exact_Ok_iff)
  moreover have "sm_in st' = sm_in st2"
    using assms l m
    by (auto simp: handle_message_def Let_def obind_def on_snd_def on_fst_def stream_write_all_def
        split: prod.splits res.splits if_splits)
  ultimately show ?thesis by simp
qed

text \<open>The inner loop of \<open>run\<close> ends because every message it handles consumes bytes.\<close>

function agent_loop :: "daemon_lib \<Rightarrow> world \<Rightarrow> (daemon \<times> stream, unit, coned_error) oper" where
  "agent_loop lib w (d, st) = (case handle_message lib w (d, st) of
      (Ok True, d', st') \<Rightarrow> agent_loop lib w (d', st')
    | (Ok False, d', st') \<Rightarrow> (Ok (), d', st')
    | (Err e, d', st') \<Rightarrow> (Ok (), d', st')
    | (Panic, d', st') \<Rightarrow> (Panic, d', st'))"
  by pat_completeness auto
termination
  by (relation "measure (\<lambda>(lib, w, d, st). length (sm_in st))")
    (auto dest: handle_message_consumes [OF sym])

declare agent_loop.simps [simp del]

definition SSH_AGENT_SOCKET :: string where
  "SSH_AGENT_SOCKET = CHR 0x00 # ''traffic-cone-ssh-agent''"

text \<open>The accept loop.\<close>

fun agent_run :: "daemon_lib \<Rightarrow> (world \<times> stream option) list \<Rightarrow> (daemon, stream list, coned_error) oper" where
  "agent_run lib [] d = (Ok [], d)"
| "agent_run lib ((w, None) # is) d = agent_run lib is d"
| "agent_run lib ((w, Some st) # is) d =
     (case agent_loop lib w (d, st) of
        (Ok _, d', st') \<Rightarrow> (case agent_run lib is d' of (r, d'') \<Rightarrow> (rbind r (\<lambda>sts. Ok (st' # sts)), d''))
      | (Err e, d', st') \<Rightarrow> (Err e, d')
      | (Panic, d', st') \<Rightarrow> (Panic, d'))"

section \<open>Facts\<close>

lemma write_string_frame: "write_string buf data = buf @ frame data"
  by (simp add: write_string_def frame_def)

text \<open>SSH strings are frames with a limit of 256 KiB, and words are four bytes.\<close>

lemma read_string_frame:
  "read_string = get_frame (\<lambda>len. Message (''SSH string too large: '' @ dec len)) MAX_SSH"
  by (rule ext) (auto simp: read_string_def get_frame_def read_u32_def Let_def read_exact_def
      split: option.splits)

interpretation ssh_word: wire_codec to_be_bytes read_u32 "\<lambda>_. True"
  by unfold_locales (auto simp: read_u32_def res_simps read_exact_Some)

interpretation ssh_string: wire_codec frame read_string "frame_fits MAX_SSH"
  unfolding read_string_frame by (rule framed.wire_codec_axioms)

interpretation ssh_identity: wire_pair frame read_string "frame_fits MAX_SSH" frame read_string
  "frame_fits MAX_SSH" ..

text \<open>The wire form of one identity.\<close>

definition identity :: "ssh_key \<Rightarrow> bytes \<times> bytes" where
  "identity k = (as_bytes (sk_public_key k), as_bytes (sk_label k))"

lemma identities_concat:
  "fold (\<lambda>key buf. write_string (write_string buf (as_bytes (sk_public_key key))) (as_bytes (sk_label key))) ks buf
     = buf @ concat (map (put_pair frame frame \<circ> identity) ks)"
  by (induction ks arbitrary: buf) (simp_all add: write_string_frame put_pair_def identity_def)

lemma with_store_state: "(\<And>r d'. m d = (r, d') \<Longrightarrow> d' = d) \<Longrightarrow> with_store m d = (r, d') \<Longrightarrow> r \<noteq> Panic \<Longrightarrow> d' = d"
  by (auto simp: with_store_def split: if_splits prod.splits res.splits)

lemma respond_state:
  assumes "respond lib w msg d = (r, d')" and "r \<noteq> Panic"
  shows "d' = d"
proof -
  have "handle_request_identities w d = (r, d') \<Longrightarrow> r \<noteq> Panic \<Longrightarrow> d' = d" for r d'
    unfolding handle_request_identities_def by (rule with_store_state) (auto simp: Let_def)
  moreover have "handle_sign_request lib w (tl msg) d = (r, d') \<Longrightarrow> r \<noteq> Panic \<Longrightarrow> d' = d" for r d'
    by (auto simp: handle_sign_request_def obind_def with_store_def split: prod.splits res.splits if_splits)
  ultimately show ?thesis
    using assms by (auto simp: respond_def Let_def split: if_splits prod.splits res.splits)
qed

lemma respond_not_Err: "respond lib w msg d \<noteq> (Err e, d')"
  by (auto simp: respond_def Let_def split: prod.splits res.splits)

lemma handle_message_frame:
  assumes "sm_in st = frame msg @ rest" and "msg \<noteq> []" and "frame_fits MAX_SSH msg"
    and "\<not> sm_broken st" and "fst (respond lib w msg d) = Ok bs"
  shows "handle_message lib w (d, st) = (Ok True, d, st\<lparr>sm_in := rest, sm_out := sm_out st @ frame bs\<rparr>)"
proof -
  have r: "respond lib w msg d = (Ok bs, d)"
    using assms(5) respond_state [of lib w msg d] by (metis prod.collapse res.distinct(3))
  have l: "unat (from_be_bytes (len_prefix msg)) = length msg" "length msg \<le> MAX_SSH"
    using assms(3) by (simp_all add: frame_fits_def)
  have s1: "stream_read_exact 4 st = (Ok (len_prefix msg), st\<lparr>sm_in := msg @ rest\<rparr>)"
    using assms(1) by (simp add: frame_def)
  have "stream_read_exact (length msg) (st\<lparr>sm_in := msg @ rest\<rparr>) = (Ok msg, st\<lparr>sm_in := rest\<rparr>)"
    by simp
  with s1 l r assms(2,4) show ?thesis
    by (simp add: handle_message_def Let_def obind_apply on_snd_def on_fst_def frame_def)
qed

lemma sign_ed25519_Ok:
  "sign_ed25519 lib k data = Ok (ty, sig) \<longleftrightarrow>
     32 \<le> length k \<and> ty = ''ssh-ed25519'' \<and> sig = ed25519_sign lib (drop (length k - 32) k) data"
  by (auto simp: sign_ed25519_def)

lemma list_ssh_keys_algorithm: "list_ssh_keys s w = Ok ks \<Longrightarrow> k \<in> set ks \<Longrightarrow> sk_algorithm k = Ed25519"
  by (auto simp: list_ssh_keys_def res_simps ssh_key_of_row_def)

subsection \<open>Sample keys\<close>

definition demo_ssh_row :: "string \<Rightarrow> byte \<Rightarrow> ssh_key_row" where
  "demo_ssh_row i b = \<lparr>s_id = i, s_label = ''laptop'', s_public_key = i, s_algorithm = ''EcdsaP256'',
     s_enc = 7 # replicate 32 b, s_salt = [], s_nonce = replicate 12 0, s_created_at = 0\<rparr>"

definition ssh_tables :: tables where
  "ssh_tables = no_rows\<lparr>ssh_keys := [demo_ssh_row ''k1'' 1, demo_ssh_row ''k2'' 2]\<rparr>"

lemma ssh_tables_keys:
  "list_ssh_keys demo_store (demo_world ssh_tables) =
     Ok [ssh_key_of_row (demo_ssh_row ''k1'' 1), ssh_key_of_row (demo_ssh_row ''k2'' 2)]"
  by (simp add: list_ssh_keys_def demo_store_tables) (simp add: ssh_tables_def demo_ssh_row_def)

lemma demo_ssh_secret:
  "decrypt_key (dl_crypto demo_lib) (s_enc (demo_ssh_row i b)) (s_salt (demo_ssh_row i b))
     (s_nonce (demo_ssh_row i b)) [7] = Ok (replicate 32 b)"
  by (simp add: demo_ssh_row_def decrypt_key_def derive_key_def demo_lib_def plain_crypto_def
      nonce_from_slice_def KEY_LEN_def)

lemma sign_k1:
  "sign_with_matching_key demo_lib demo_store (demo_world ssh_tables) (as_bytes ''k1'') data flags \<noteq> Panic"
proof -
  have "get_ssh_plaintext_key (dl_crypto demo_lib) demo_store ''laptop'' (demo_world ssh_tables) = Ok (replicate 32 1)"
    using demo_ssh_secret [of "''k1''" 1]
    by (simp add: get_ssh_plaintext_key_def query_row_def ssh_tables_def) (simp add: demo_ssh_row_def)
  then show ?thesis
    by (simp add: sign_with_matching_key_def ssh_tables_keys ssh_key_of_row_def demo_ssh_row_def
        sign_ed25519_def)
qed

section \<open>Properties\<close>

text \<open>
  C22. The agent serves a whole connection: a client that sends any number of framed messages
  and closes gets one framed response for each, in order, and the connection loop ends with
  the daemon's state unchanged.
\<close>

theorem agent_loop_answers:
  assumes "sm_in st = concat (map frame msgs)" and "\<not> sm_broken st"
    and "\<forall>m\<in>set msgs. m \<noteq> [] \<and> frame_fits MAX_SSH m \<and> fst (respond lib w m d) = Ok (answer m)"
  shows "agent_loop lib w (d, st) =
    (Ok (), d, st\<lparr>sm_in := [], sm_out := sm_out st @ concat (map (\<lambda>m. frame (answer m)) msgs)\<rparr>)"
  using assms
proof (induction msgs arbitrary: st)
  case Nil
  then have "handle_message lib w (d, st) = (Ok False, d, st\<lparr>sm_in := []\<rparr>)"
    by (simp add: handle_message_def stream_read_exact_def read_exact_def)
  with Nil show ?case by (simp add: agent_loop.simps)
next
  case (Cons m msgs)
  then have "handle_message lib w (d, st) =
      (Ok True, d, st\<lparr>sm_in := concat (map frame msgs), sm_out := sm_out st @ frame (answer m)\<rparr>)"
    by (intro handle_message_frame) auto
  with Cons show ?case by (subst agent_loop.simps) simp
qed

theorem agent_loop_answers_witness:
  "agent_loop demo_lib (demo_world ssh_tables) (demo_daemon, opened (frame [1] @ frame [2, 3])) =
     (Ok (), demo_daemon, opened []\<lparr>sm_out := frame [5] @ frame [5]\<rparr>)"
proof -
  have "\<forall>m\<in>set [[1], [2, 3]]. m \<noteq> [] \<and> frame_fits MAX_SSH m \<and>
      fst (respond demo_lib (demo_world ssh_tables) m demo_daemon) = Ok [5]"
    by (simp add: respond_def SSH_AGENTC_REQUEST_IDENTITIES_def SSH_AGENTC_SIGN_REQUEST_def
        SSH_AGENT_FAILURE_def frame_fits_def MAX_SSH_def)
  from agent_loop_answers [OF _ _ this, of "opened (frame [1] @ frame [2, 3])"]
  show ?thesis by (simp add: opened_def)
qed

text \<open>
  C23. The list of identities is well-formed: after the count, a reader of the SSH wire format
  finds exactly the public key and the label of every stored key, in the order of the labels,
  and nothing is left over.
\<close>

theorem identities_decode:
  assumes "\<not> dm_poisoned d" and "list_ssh_keys (dm_store d) w = Ok ks"
    and "\<forall>k\<in>set ks. length (sk_public_key k) \<le> 262144 \<and> length (sk_label k) \<le> 262144"
  shows "\<exists>body. respond lib w [SSH_AGENTC_REQUEST_IDENTITIES] d =
      (Ok (SSH_AGENT_IDENTITIES_ANSWER # to_be_bytes (of_nat (length ks)) @ body), d) \<and>
    get_many (get_pair read_string read_string) (length ks) body = Ok (map identity ks, [])"
proof -
  let ?body = "concat (map (put_pair frame frame \<circ> identity) ks)"
  have "respond lib w [SSH_AGENTC_REQUEST_IDENTITIES] d =
      (Ok (SSH_AGENT_IDENTITIES_ANSWER # to_be_bytes (of_nat (length ks)) @ ?body), d)"
    using assms(1,2)
    by (simp add: respond_def handle_request_identities_def with_store_def Let_def identities_concat)
  moreover have "\<forall>x\<in>set (map identity ks). frame_fits MAX_SSH (fst x) \<and> frame_fits MAX_SSH (snd x)"
    using assms(3) by (auto simp: identity_def frame_fits_def MAX_SSH_def)
  then have "get_many (get_pair read_string read_string) (length ks) ?body = Ok (map identity ks, [])"
    using ssh_identity.both.get_many_put [of "map identity ks" "[]"] by simp
  ultimately show ?thesis by blast
qed

theorem identities_decode_witness:
  "\<exists>body. respond demo_lib (demo_world ssh_tables) [SSH_AGENTC_REQUEST_IDENTITIES] demo_daemon =
      (Ok (SSH_AGENT_IDENTITIES_ANSWER # to_be_bytes 2 @ body), demo_daemon) \<and>
    get_many (get_pair read_string read_string) 2 body =
      Ok ([(as_bytes ''k1'', as_bytes ''laptop''), (as_bytes ''k2'', as_bytes ''laptop'')], [])"
proof -
  have "list_ssh_keys (dm_store demo_daemon) (demo_world ssh_tables) =
     Ok [ssh_key_of_row (demo_ssh_row ''k1'' 1), ssh_key_of_row (demo_ssh_row ''k2'' 2)]"
    using ssh_tables_keys by simp
  from identities_decode [OF _ this, of demo_lib]
  show ?thesis by (simp add: ssh_key_of_row_def demo_ssh_row_def identity_def numeral_2_eq_2)
qed

text \<open>
  Every signature that the agent returns is an Ed25519 signature, whatever algorithm the key
  was stored with: the listing labels every key \<open>Ed25519\<close>, so the ECDSA and RSA branches and
  the RSA flags of the request are never reached.
\<close>

theorem agent_signs_only_ed25519:
  assumes "fst (respond lib w (SSH_AGENTC_SIGN_REQUEST # payload) d) = Ok bs"
  shows "bs = [SSH_AGENT_FAILURE] \<or>
    (\<exists>key data. bs = SSH_AGENT_SIGN_RESPONSE #
       frame (frame (as_bytes ''ssh-ed25519'') @ frame (ed25519_sign lib key data)) \<and> length key = 32)"
proof -
  have *: "bs = [SSH_AGENT_FAILURE] \<or> (\<exists>key data. bs = SSH_AGENT_SIGN_RESPONSE #
       frame (frame (as_bytes ''ssh-ed25519'') @ frame (ed25519_sign lib key data)) \<and> length key = 32)"
    if "sign_with_matching_key lib s w blob data flags = Ok bs" for s blob data flags
    using that list_ssh_keys_algorithm [of s w]
    by (fastforce simp: sign_with_matching_key_def res_simps sign_ed25519_Ok write_string_frame
        split: option.splits dest: find_SomeD)
  from assms show ?thesis
    by (auto simp: respond_def SSH_AGENTC_SIGN_REQUEST_def SSH_AGENTC_REQUEST_IDENTITIES_def
        handle_sign_request_def obind_def with_store_def
        split: prod.splits res.splits if_splits dest!: *)
qed

theorem agent_signs_only_ed25519_witness:
  "\<exists>bs. fst (respond demo_lib (demo_world ssh_tables)
      (SSH_AGENTC_SIGN_REQUEST # frame (as_bytes ''k1'') @ frame [9] @ to_be_bytes 0) demo_daemon) = Ok bs \<and>
    (bs = [SSH_AGENT_FAILURE] \<or> (\<exists>key data. bs = SSH_AGENT_SIGN_RESPONSE #
       frame (frame (as_bytes ''ssh-ed25519'') @ frame (ed25519_sign demo_lib key data)) \<and> length key = 32))"
proof -
  have "fst (respond demo_lib (demo_world ssh_tables)
      (SSH_AGENTC_SIGN_REQUEST # frame (as_bytes ''k1'') @ frame [9] @ to_be_bytes 0) demo_daemon) \<noteq> Panic"
    using sign_k1 by (simp add: respond_def SSH_AGENTC_SIGN_REQUEST_def SSH_AGENTC_REQUEST_IDENTITIES_def
        handle_sign_request_def obind_apply with_store_def ssh_string.get_put frame_fits_def MAX_SSH_def
        read_u32_def read_exact_def split: prod.splits res.splits)
  then obtain bs where "fst (respond demo_lib (demo_world ssh_tables)
      (SSH_AGENTC_SIGN_REQUEST # frame (as_bytes ''k1'') @ frame [9] @ to_be_bytes 0) demo_daemon) = Ok bs"
    using respond_not_Err by (metis prod.collapse res.exhaust)
  then show ?thesis using agent_signs_only_ed25519 by blast
qed

text \<open>
  A key is selected by its public part but fetched by its label. When two stored keys share
  a label, a request for the later one is answered with a signature made with the private
  key of the earlier one.
\<close>

theorem colliding_label_signs_with_other_key:
  assumes "store_tables s w = Ok t" and "st_state s = Unlocked c pass"
    and "find (\<lambda>k. s_label k = label) (ssh_keys t) = Some first"
    and "second \<in> set (ssh_keys t)" and "s_label second = label"
    and "\<forall>r\<in>set (ssh_keys t). s_public_key r = s_public_key second \<longrightarrow> r = second"
    and "decrypt_key (dl_crypto lib) (s_enc first) (s_salt first) (s_nonce first) pass = Ok secret" and "32 \<le> length secret"
  shows "sign_with_matching_key lib s w (as_bytes (s_public_key second)) data flags =
    Ok (SSH_AGENT_SIGN_RESPONSE # frame (frame (as_bytes ''ssh-ed25519'') @
      frame (ed25519_sign lib (drop (length secret - 32) secret) data)))"
proof -
  let ?ks = "map ssh_key_of_row (sort_key s_label (ssh_keys t))"
  have "find (\<lambda>k. as_bytes (sk_public_key k) = as_bytes (s_public_key second)) ?ks = Some (ssh_key_of_row second)"
    using assms(4,6) by (intro find_unique) (auto simp: ssh_key_of_row_def)
  moreover have "conn_tables c w = Ok t" using assms(1,2) by (auto simp: store_tables_Ok_iff)
  ultimately show ?thesis
    using assms by (simp add: sign_with_matching_key_def list_ssh_keys_def get_ssh_plaintext_key_def
        query_row_def ssh_key_of_row_def sign_ed25519_def write_string_frame)
qed

theorem colliding_label_signs_with_other_key_witness:
  "sign_with_matching_key demo_lib demo_store (demo_world ssh_tables) (as_bytes ''k2'') [9] 0 =
    Ok (SSH_AGENT_SIGN_RESPONSE # frame (frame (as_bytes ''ssh-ed25519'') @ frame (replicate 32 1 @ [9])))"
proof -
  have r: "s_public_key (demo_ssh_row ''k2'' 2) = ''k2''" by (simp add: demo_ssh_row_def)
  have "sign_with_matching_key demo_lib demo_store (demo_world ssh_tables)
      (as_bytes (s_public_key (demo_ssh_row ''k2'' 2))) [9] 0 =
    Ok (SSH_AGENT_SIGN_RESPONSE # frame (frame (as_bytes ''ssh-ed25519'') @
      frame (ed25519_sign demo_lib (drop (length (replicate 32 (1::byte)) - 32) (replicate 32 1)) [9])))"
    by (rule colliding_label_signs_with_other_key [OF demo_store_tables demo_conn(2), where first = "demo_ssh_row ''k1'' 1"
          and label = "''laptop''"]) (simp add: ssh_tables_def demo_ssh_row_def, simp add: ssh_tables_def, simp add: demo_ssh_row_def,
        simp add: ssh_tables_def demo_ssh_row_def, rule demo_ssh_secret, simp)
  then show ?thesis unfolding r by (simp add: demo_lib_def)
qed

end
