(* ===== verification/Threads.thy ===== *)
theory Threads
  imports Ssh_Agent
begin

text \<open>
  The running daemon: the IPC server and the SSH agent as the two threads that \<open>main\<close> of
  \<open>crates/coned/src/main.rs\<close> starts on one store. A thread takes the store's mutex at most once for
  each request and changes nothing else that the other one reads, so a step is the handling of a
  connection by the IPC server or of a message by the agent, in any order.
\<close>

section \<open>Steps\<close>

record coned =
  cd_daemon :: daemon
  cd_ipc_runs :: bool
  cd_agent_runs :: bool
  cd_agent_conn :: "stream option"

text \<open>
  What happens: the IPC server has dealt with what the listener yielded and leaves a stream, or its
  thread ends; the agent accepts a connection, handles a message of it (the stream before and
  after), closes it, or its thread ends.
\<close>

datatype coned_event = Served incoming "stream option" | IpcEnded
  | AgentAccepted stream | AgentHandled stream stream | AgentClosed stream stream | AgentEnded

text \<open>
  Each thread binds its socket, with the same function text in both modules, and ends when it fails.
  \<open>main\<close> joins the two threads and returns when both have ended.
\<close>

definition started :: "socket_calls \<Rightarrow> socket_calls \<Rightarrow> daemon \<Rightarrow> coned" where
  "started ipc_os agent_os d = \<lparr>cd_daemon = d,
     cd_ipc_runs = is_ok (bind_abstract_socket ipc_os SOCKET_NAME),
     cd_agent_runs = is_ok (bind_abstract_socket agent_os SSH_AGENT_SOCKET), cd_agent_conn = None\<rparr>"

definition shut_down :: "coned \<Rightarrow> bool" where
  "shut_down c \<longleftrightarrow> \<not> cd_ipc_runs c \<and> \<not> cd_agent_runs c"

inductive coned_step ::
  "daemon_lib \<Rightarrow> server_json \<Rightarrow> known_hashes \<Rightarrow> coned \<Rightarrow> coned_event \<Rightarrow> coned \<Rightarrow> bool"
  for lib json known where
  Serve: "cd_ipc_runs c \<Longrightarrow> serve lib json known w i (cd_daemon c) = (Ok out, d) \<Longrightarrow>
    coned_step lib json known c (Served i out) (c\<lparr>cd_daemon := d\<rparr>)"
| End_Ipc: "cd_ipc_runs c \<Longrightarrow> serve lib json known w i (cd_daemon c) = (r, d) \<Longrightarrow> \<not> is_ok r \<Longrightarrow>
    coned_step lib json known c IpcEnded (c\<lparr>cd_daemon := d, cd_ipc_runs := False\<rparr>)"
| Accept: "cd_agent_runs c \<Longrightarrow> cd_agent_conn c = None \<Longrightarrow>
    coned_step lib json known c (AgentAccepted st) (c\<lparr>cd_agent_conn := Some st\<rparr>)"
| Handle: "cd_agent_runs c \<Longrightarrow> cd_agent_conn c = Some st \<Longrightarrow>
    handle_message lib w (cd_daemon c, st) = (Ok True, d, st') \<Longrightarrow>
    coned_step lib json known c (AgentHandled st st') (c\<lparr>cd_daemon := d, cd_agent_conn := Some st'\<rparr>)"
| Close: "cd_agent_runs c \<Longrightarrow> cd_agent_conn c = Some st \<Longrightarrow>
    handle_message lib w (cd_daemon c, st) = (r, d, st') \<Longrightarrow> r \<noteq> Ok True \<Longrightarrow> r \<noteq> Panic \<Longrightarrow>
    coned_step lib json known c (AgentClosed st st') (c\<lparr>cd_daemon := d, cd_agent_conn := None\<rparr>)"
| End_Agent: "cd_agent_runs c \<Longrightarrow> cd_agent_conn c = Some st \<Longrightarrow>
    handle_message lib w (cd_daemon c, st) = (Panic, d, st') \<Longrightarrow>
    coned_step lib json known c AgentEnded (c\<lparr>cd_daemon := d, cd_agent_runs := False, cd_agent_conn := None\<rparr>)"

inductive coned_trace ::
  "daemon_lib \<Rightarrow> server_json \<Rightarrow> known_hashes \<Rightarrow> coned \<Rightarrow> coned_event list \<Rightarrow> coned \<Rightarrow> bool"
  for lib json known where
  Nil: "coned_trace lib json known c [] c"
| Cons: "coned_step lib json known c e c' \<Longrightarrow> coned_trace lib json known c' es c'' \<Longrightarrow>
    coned_trace lib json known c (e # es) c''"

inductive_cases coned_stepE: "coned_step lib json known c e c'"

section \<open>What a daemon in a given condition sends\<close>

text \<open>\<open>wrote P st st'\<close>: between the two states of a stream nothing, or one frame of a \<open>P\<close>, was written.\<close>

definition wrote :: "(bytes \<Rightarrow> bool) \<Rightarrow> stream \<Rightarrow> stream \<Rightarrow> bool" where
  "wrote P st st' \<longleftrightarrow> sm_out st' = sm_out st \<or> (\<exists>body. P body \<and> sm_out st' = sm_out st @ frame body)"

text \<open>The event sends at most one response of the given kind.\<close>

fun sends_only :: "(bytes \<Rightarrow> bool) \<Rightarrow> (bytes \<Rightarrow> bool) \<Rightarrow> coned_event \<Rightarrow> bool" where
  "sends_only P Q (Served (Accepted st cred) (Some st')) \<longleftrightarrow> wrote P st st'"
| "sends_only P Q (Served AcceptFailed (Some st')) \<longleftrightarrow> False"
| "sends_only P Q (AgentHandled st st') \<longleftrightarrow> wrote Q st st'"
| "sends_only P Q (AgentClosed st st') \<longleftrightarrow> wrote Q st st'"
| "sends_only P Q e \<longleftrightarrow> True"

text \<open>The bodies that encode a response of a kind.\<close>

definition encodes :: "server_json \<Rightarrow> (response \<Rightarrow> bool) \<Rightarrow> bytes \<Rightarrow> bool" where
  "encodes json benign body \<longleftrightarrow> (\<exists>r. benign r \<and> response_to_vec json r = Ok body)"

lemma wrote_nothing [simp]: "wrote P st st"
  by (simp add: wrote_def)

lemma send_response_wrote:
  assumes "benign r"
  shows "wrote (encodes json benign) st (snd (send_response json r st))"
  using assms by (cases "response_to_vec json r"; cases "sm_broken st")
    (auto simp: send_response_def obind_apply wrote_def encodes_def frame_def)

text \<open>
  A condition that requests and agent messages preserve, and the responses that are given in it.
\<close>

locale quiet_daemon =
  fixes lib :: daemon_lib and json :: server_json and known :: known_hashes
    and inv :: "daemon \<Rightarrow> bool" and benign :: "response \<Rightarrow> bool" and agent_benign :: "bytes \<Rightarrow> bool"
  assumes inv_dispatch: "keeps inv (dispatch lib known w p rq)"
    and inv_respond: "keeps inv (respond lib w msg)"
    and inv_monitor: "inv d \<Longrightarrow> monitor_ok m \<Longrightarrow> inv (d\<lparr>dm_monitor := m\<rparr>)"
    and monitor: "inv d \<Longrightarrow> monitor_ok (dm_monitor d)"
    and dispatch_benign: "inv d \<Longrightarrow> fst (dispatch lib known w p rq d) = Ok resp \<Longrightarrow> benign resp"
    and error_benign: "benign (Error text)"
    and respond_benign: "inv d \<Longrightarrow> fst (respond lib w msg d) = Ok bs \<Longrightarrow> agent_benign bs"
begin

lemma inv_serve: "keeps inv (serve lib json known w i)"
  by (rule keeps_serve) (auto intro: inv_dispatch inv_monitor monitor)

lemma handle_connection_wrote:
  assumes "inv d" and "handle_connection lib json known w p (d, st) = (r, d', st')"
  shows "wrote (encodes json benign) st st' \<and> (\<not> is_ok r \<longrightarrow> sm_out st' = sm_out st)"
proof -
  obtain r1 st1 where rr: "read_request json st = (r1, st1)" by force
  then have out: "sm_out st1 = sm_out st" "sm_broken st1 = sm_broken st"
    using read_request_out [of json st] by simp_all
  show ?thesis
  proof (cases r1)
    case (Ok rq)
    obtain r2 d2 where di: "dispatch lib known w p rq d = (r2, d2)" by force
    show ?thesis
    proof (cases r2)
      case (Ok resp)
      with di have "benign resp" using dispatch_benign [OF assms(1), of w p rq resp] by simp
      then have "wrote (encodes json benign) st (snd (send_response json resp st1))"
        using send_response_wrote [of benign resp json st1] out by (simp add: wrote_def)
      moreover have "\<not> is_ok (fst (send_response json resp st1)) \<longrightarrow> sm_out (snd (send_response json resp st1)) = sm_out st1"
        by (cases "response_to_vec json resp"; cases "sm_broken st1") (simp_all add: send_response_def obind_apply)
      ultimately show ?thesis
        using assms(2) rr di Ok \<open>r1 = Ok rq\<close> out by (auto simp: handle_connection_apply split: prod.splits)
    qed (use assms(2) rr di Ok out in \<open>auto simp: handle_connection_apply wrote_def\<close>)
  qed (use assms(2) rr out in \<open>auto simp: handle_connection_apply wrote_def\<close>)
qed

lemma serve_wrote:
  assumes "inv d" and "serve lib json known w (Accepted st cred) d = (Ok (Some st'), d')"
  shows "wrote (encodes json benign) st st'"
proof (cases cred)
  case (Some c)
  obtain p u where c: "c = (p, u)" by force
  obtain r m where v: "verify_traffic_cone_binary lib w p u known (dm_monitor d) = (r, m)" by force
  have m: "inv (d\<lparr>dm_monitor := m\<rparr>)"
    using assms(1) inv_monitor monitor keepsD [OF verify_traffic_cone_binary_keeps _ v] by blast
  show ?thesis
  proof (cases r)
    case (Ok process)
    obtain r1 d1 st1 where h: "handle_connection lib json known w p (d\<lparr>dm_monitor := m\<rparr>, st) = (r1, d1, st1)"
      by (rule prod_cases3)
    note hw = handle_connection_wrote [OF m h]
    show ?thesis
    proof (cases r1)
      case (Err e)
      have "wrote (encodes json benign) st1 (snd (send_response json (Error (display_error lib e)) st1))"
        by (rule send_response_wrote) (rule error_benign)
      with hw Err have "wrote (encodes json benign) st (snd (send_response json (Error (display_error lib e)) st1))"
        by (auto simp: wrote_def)
      then show ?thesis
        using assms(2) Some c v Ok h Err by (auto simp: get_peer_credentials_def)
    qed (use assms(2) Some c v Ok h hw in \<open>auto simp: get_peer_credentials_def\<close>)
  next
    case (Err e)
    have "wrote (encodes json benign) st (snd (send_response json (Error UNAUTHORIZED) st))"
      by (rule send_response_wrote) (rule error_benign)
    then show ?thesis using assms(2) Some c v Err by (auto simp: get_peer_credentials_def)
  qed (use assms(2) Some c v in \<open>simp add: get_peer_credentials_def\<close>)
qed (use assms(2) in \<open>simp add: get_peer_credentials_def\<close>)

lemma handle_message_quiet:
  assumes "inv d" and "handle_message lib w (d, st) = (r, d', st')"
  shows "inv d' \<and> (r \<noteq> Panic \<longrightarrow> wrote agent_benign st st')"
proof -
  obtain r1 st1 where r1: "stream_read_exact 4 st = (r1, st1)" by force
  have o1: "sm_out st1 = sm_out st" using stream_read_exact_out(1) [of 4 st] r1 by simp
  show ?thesis
  proof (cases r1)
    case (Ok lb)
    let ?n = "unat (from_be_bytes lb)"
    obtain r2 st2 where r2: "stream_read_exact ?n st1 = (r2, st2)" by force
    have o2: "sm_out st2 = sm_out st" using stream_read_exact_out(1) [of ?n st1] r2 o1 by simp
    show ?thesis
    proof (cases "?n = 0 \<or> ?n > MAX_SSH")
      case False
      show ?thesis
      proof (cases r2)
        case (Ok msg)
        obtain r3 d3 where r3: "respond lib w msg d = (r3, d3)" by force
        have "inv d3" by (rule keepsD [OF inv_respond assms(1) r3])
        moreover have "agent_benign bs" if "r3 = Ok bs" for bs
          using respond_benign [OF assms(1), of w msg bs] r3 that by simp
        ultimately show ?thesis
          using assms r1 \<open>r1 = Ok lb\<close> r2 Ok r3 False o2
          by (cases "msg = []"; cases r3; cases "sm_broken st2")
            (auto simp: handle_message_def Let_def obind_apply on_snd_def on_fst_def wrote_def frame_def)
      qed (use assms r1 Ok r2 False o2 in \<open>auto simp: handle_message_def Let_def obind_apply on_snd_def wrote_def\<close>)
    qed (use assms r1 Ok o1 in \<open>auto simp: handle_message_def Let_def wrote_def\<close>)
  qed (use assms r1 o1 in \<open>auto simp: handle_message_def wrote_def split: if_splits\<close>)
qed

lemma step_quiet:
  assumes "coned_step lib json known c e c'" and "inv (cd_daemon c)"
  shows "inv (cd_daemon c') \<and> sends_only (encodes json benign) agent_benign e"
  using assms(1)
proof (cases rule: coned_step.cases)
  case (Serve w i out d)
  have "sends_only (encodes json benign) agent_benign (Served i out)"
    using serve_wrote [OF assms(2)] Serve by (cases i; cases out) auto
  with Serve keepsD [OF inv_serve assms(2)] show ?thesis by auto
next
  case (End_Ipc w i r d)
  with keepsD [OF inv_serve assms(2)] show ?thesis by auto
qed (use assms(2) handle_message_quiet [OF assms(2)] in auto)

lemma trace_quiet:
  "coned_trace lib json known c es c' \<Longrightarrow> inv (cd_daemon c) \<Longrightarrow>
   inv (cd_daemon c') \<and> list_all (sends_only (encodes json benign) agent_benign) es"
  by (induction rule: coned_trace.induct) (auto dest: step_quiet)

end

section \<open>The agent's part of the two conditions\<close>

lemma respond_keeps:
  assumes "\<And>d. P d \<Longrightarrow> P (d\<lparr>dm_poisoned := True\<rparr>)"
  shows "keeps P (respond lib w msg)"
proof (rule keepsI)
  fix d assume d: "P d"
  have i: "keeps P (handle_request_identities w)"
    unfolding handle_request_identities_def by (rule with_store_keeps) (simp_all add: keeps_def assms Let_def)
  have "keeps P (handle_sign_request lib w (tl msg))"
    by (rule keepsI) (auto simp: handle_sign_request_def obind_def lift_res_def with_store_def assms
        split: prod.splits res.splits if_splits)
  with i d show "P (snd (respond lib w msg d))"
    by (auto simp: respond_def Let_def keeps_def split: prod.splits res.splits)
qed

definition locked_response :: "response \<Rightarrow> bool" where
  "locked_response r \<longleftrightarrow> r = Pong \<or> r = Status True 0 \<or> r = OkResponse \<or> (\<exists>m. r = Error m)"

text \<open>The agent's failure and its empty list of identities.\<close>

definition locked_answer :: "bytes \<Rightarrow> bool" where
  "locked_answer bs \<longleftrightarrow> bs = [SSH_AGENT_FAILURE] \<or> bs = SSH_AGENT_IDENTITIES_ANSWER # to_be_bytes 0"

lemma locked_list_ssh_keys: "\<not> is_unlocked s \<Longrightarrow> list_ssh_keys s w = Err LockedError"
  by (simp add: list_ssh_keys_def store_tables_def store_conn_locked)

lemma locked_respond:
  assumes "\<not> is_unlocked (dm_store d)" and "fst (respond lib w msg d) = Ok bs"
  shows "locked_answer bs"
  using assms
  by (auto simp: respond_def Let_def locked_answer_def handle_request_identities_def handle_sign_request_def
      with_store_def sign_with_matching_key_def locked_list_ssh_keys obind_def
      split: prod.splits res.splits if_splits)

definition poisoned_response :: "response \<Rightarrow> bool" where
  "poisoned_response r \<longleftrightarrow> r = Pong \<or> (\<exists>m. r = Error m)"

definition daemon_poisoned :: "daemon \<Rightarrow> bool" where
  "daemon_poisoned d \<longleftrightarrow> dm_poisoned d \<and> monitor_ok (dm_monitor d)"

lemma poisoned_keeps: "keeps daemon_poisoned (dispatch lib known w p rq)"
  by (rule dispatch_keeps) (auto simp: daemon_poisoned_def)

lemma poisoned_respond:
  assumes "dm_poisoned d"
  shows "msg \<noteq> [] \<Longrightarrow> hd msg = SSH_AGENTC_REQUEST_IDENTITIES \<Longrightarrow> fst (respond lib w msg d) = Panic"
    and "fst (respond lib w msg d) = Ok bs \<Longrightarrow> bs = [SSH_AGENT_FAILURE]"
  using assms
  by (auto simp: respond_def Let_def handle_request_identities_def handle_sign_request_def with_store_def
      obind_def split: prod.splits res.splits if_splits)

lemma poisoned_dispatch:
  "dm_poisoned d \<Longrightarrow> fst (dispatch lib known w p rq d) = Ok resp \<Longrightarrow> resp = Pong"
  by (cases rq) (simp_all add: with_store_def handle_sign_def handle_status_def handle_list_certs_def)

section \<open>A sample exchange\<close>

definition demo_os :: socket_calls where
  "demo_os = \<lparr>socket_ok = True, bind_ok = (\<lambda>_. True), listen_ok = True\<rparr>"

lemma started_demo:
  "started demo_os demo_os d = \<lparr>cd_daemon = d, cd_ipc_runs = True, cd_agent_runs = True, cd_agent_conn = None\<rparr>"
  by (simp add: started_def bind_abstract_socket_def demo_os_def SOCKET_NAME_def SSH_AGENT_SOCKET_def as_bytes_def)

lemma demo_exchange:
  assumes "fst (respond lib w msg d) = Ok bs" and "msg \<noteq> []" and "frame_fits MAX_SSH msg"
  shows "\<exists>c'. coned_trace lib json known (started demo_os demo_os d)
    [AgentAccepted (opened (frame msg)), AgentHandled (opened (frame msg)) (opened []\<lparr>sm_out := frame bs\<rparr>)] c'"
proof -
  have h: "handle_message lib w (d, opened (frame msg)) = (Ok True, d, opened []\<lparr>sm_out := frame bs\<rparr>)"
    using handle_message_frame [of "opened (frame msg)" msg "[]" lib w d bs] assms by (simp add: opened_def)
  let ?c = "started demo_os demo_os d"
  have "coned_step lib json known ?c (AgentAccepted (opened (frame msg))) (?c\<lparr>cd_agent_conn := Some (opened (frame msg))\<rparr>)"
    by (rule Accept) (simp_all add: started_demo)
  moreover have "coned_step lib json known (?c\<lparr>cd_agent_conn := Some (opened (frame msg))\<rparr>)
      (AgentHandled (opened (frame msg)) (opened []\<lparr>sm_out := frame bs\<rparr>))
      (?c\<lparr>cd_agent_conn := Some (opened (frame msg))\<rparr>\<lparr>cd_daemon := d, cd_agent_conn := Some (opened []\<lparr>sm_out := frame bs\<rparr>)\<rparr>)"
    by (rule Handle [where w = w]) (simp_all add: started_demo h)
  ultimately show ?thesis by (blast intro: coned_trace.intros)
qed

section \<open>A locked and a poisoned daemon\<close>

interpretation locked: quiet_daemon lib json known daemon_locked locked_response locked_answer
  for lib json known
proof unfold_locales
  show "keeps daemon_locked (dispatch lib known w p rq)" for w p rq by (rule locked_keeps)
  show "keeps daemon_locked (respond lib w msg)" for w msg
    by (rule respond_keeps) (simp add: daemon_locked_def)
  show "locked_response resp" if "daemon_locked d" "fst (dispatch lib known w p rq d) = Ok resp" for d w p rq resp
    using locked_reveals_nothing [OF that] by (simp add: locked_response_def)
  show "locked_answer bs" if "daemon_locked d" "fst (respond lib w msg d) = Ok bs" for d w msg bs
    using that unfolding daemon_locked_def by (blast intro: locked_respond)
qed (simp_all add: daemon_locked_def locked_response_def)

interpretation poisoned: quiet_daemon lib json known daemon_poisoned poisoned_response "\<lambda>bs. bs = [SSH_AGENT_FAILURE]"
  for lib json known
proof unfold_locales
  show "keeps daemon_poisoned (dispatch lib known w p rq)" for w p rq by (rule poisoned_keeps)
  show "keeps daemon_poisoned (respond lib w msg)" for w msg
    by (rule respond_keeps) (simp add: daemon_poisoned_def)
  show "poisoned_response resp" if "daemon_poisoned d" "fst (dispatch lib known w p rq d) = Ok resp" for d w p rq resp
    using that poisoned_dispatch by (auto simp: daemon_poisoned_def poisoned_response_def)
  show "bs = [SSH_AGENT_FAILURE]" if "daemon_poisoned d" "fst (respond lib w msg d) = Ok bs" for d w msg bs
    using that unfolding daemon_poisoned_def by (blast intro: poisoned_respond(2))
qed (simp_all add: daemon_poisoned_def poisoned_response_def)

text \<open>
  C10. A locked daemon stays locked and discloses nothing, whatever the two threads do and in
  whatever order: after any trace the store is locked, the IPC server has sent on each connection at
  most one response, which is a pong, the status with no certificates, an acknowledgement or an
  error, and the agent has answered each message with a failure or an empty list.
\<close>

theorem locked_for_good:
  assumes "coned_trace lib json known c es c'" and "daemon_locked (cd_daemon c)"
  shows "daemon_locked (cd_daemon c') \<and> list_all (sends_only (encodes json locked_response) locked_answer) es"
  using assms by (rule locked.trace_quiet)

theorem locked_for_good_witness:
  "\<exists>c'. daemon_locked (cd_daemon c') \<and> coned_trace demo_lib demo_json demo_known
      (started demo_os demo_os (demo_daemon\<lparr>dm_store := lock demo_store\<rparr>))
      [AgentAccepted (opened (frame [11])),
       AgentHandled (opened (frame [11])) (opened []\<lparr>sm_out := frame [12, 0, 0, 0, 0]\<rparr>)] c'"
proof -
  let ?d = "demo_daemon\<lparr>dm_store := lock demo_store\<rparr>"
  have "fst (respond demo_lib demo_host [11] ?d) = Ok [12, 0, 0, 0, 0]"
    by (simp add: respond_def SSH_AGENTC_REQUEST_IDENTITIES_def handle_request_identities_def with_store_def
        locked_list_ssh_keys SSH_AGENT_IDENTITIES_ANSWER_def to_be_bytes_def)
  from demo_exchange [OF this] obtain c' where t: "coned_trace demo_lib demo_json demo_known (started demo_os demo_os ?d)
      [AgentAccepted (opened (frame [11])),
       AgentHandled (opened (frame [11])) (opened []\<lparr>sm_out := frame [12, 0, 0, 0, 0]\<rparr>)] c'"
    by (auto simp: frame_fits_def MAX_SSH_def)
  with locked_for_good [OF t] show ?thesis
    by (auto simp: started_def daemon_locked_def new_monitor_def monitor_ok_def)
qed

text \<open>
  C40. A panic of one thread under the store's mutex silences the other for good: once the mutex is
  poisoned it stays so, the IPC server sends nothing but pongs and errors and the agent nothing but
  failures, in any order of events.
\<close>

theorem poisoned_for_good:
  assumes "coned_trace lib json known c es c'" and "daemon_poisoned (cd_daemon c)"
  shows "daemon_poisoned (cd_daemon c') \<and>
    list_all (sends_only (encodes json poisoned_response) (\<lambda>bs. bs = [SSH_AGENT_FAILURE])) es"
  using assms by (rule poisoned.trace_quiet)

theorem poisoned_for_good_witness:
  "\<exists>c'. daemon_poisoned (cd_daemon c') \<and> coned_trace demo_lib demo_json demo_known
      (started demo_os demo_os (demo_daemon\<lparr>dm_poisoned := True\<rparr>))
      [AgentAccepted (opened (frame [1])),
       AgentHandled (opened (frame [1])) (opened []\<lparr>sm_out := frame [5]\<rparr>)] c'"
proof -
  let ?d = "demo_daemon\<lparr>dm_poisoned := True\<rparr>"
  have "fst (respond demo_lib demo_host [1] ?d) = Ok [5]"
    by (simp add: respond_def SSH_AGENTC_REQUEST_IDENTITIES_def SSH_AGENTC_SIGN_REQUEST_def SSH_AGENT_FAILURE_def)
  from demo_exchange [OF this] obtain c' where t: "coned_trace demo_lib demo_json demo_known (started demo_os demo_os ?d)
      [AgentAccepted (opened (frame [1])),
       AgentHandled (opened (frame [1])) (opened []\<lparr>sm_out := frame [5]\<rparr>)] c'"
    by (auto simp: frame_fits_def MAX_SSH_def)
  with poisoned_for_good [OF t] show ?thesis
    by (auto simp: started_def daemon_poisoned_def new_monitor_def monitor_ok_def)
qed

text \<open>When both threads have ended nothing happens any more.\<close>

lemma shut_down_final: "shut_down c \<Longrightarrow> \<not> coned_step lib json known c e c'"
  by (auto simp: shut_down_def elim: coned_stepE)

end
