(* ===== verification/Startup.thy ===== *)
theory Startup
  imports Ssh_Agent
begin

text \<open>
  \<open>crates/coned/src/hardening.rs\<close> and \<open>main\<close> of \<open>crates/coned/src/main.rs\<close>: the sequence of
  checks that the daemon passes before it serves anyone.
\<close>

section \<open>Hardening\<close>

definition DANGEROUS :: "string list" where
  "DANGEROUS = [''LD_PRELOAD'', ''LD_AUDIT'', ''LD_DEBUG'', ''LD_PROFILE'', ''DYLD_INSERT_LIBRARIES'']"

text \<open>\<open>std::env::var(var).is_ok()\<close> is false for a variable whose value is not valid Unicode.\<close>

fun check_variables :: "string list \<Rightarrow> world \<Rightarrow> (unit, coned_error) res" where
  "check_variables [] w = Ok ()"
| "check_variables (var # vars) w =
     (if env_var var w \<noteq> None
      then Err (Message (''Traffic Cone refuses to start: '' @ var @ '' is set in the environment.'' @ [newline]
             @ ''Dynamic linker overrides allow code injection and cannot be permitted in a process ''
             @ ''that handles private key material.'' @ [newline] @ ''Unset '' @ var @ '' and try again.''))
      else check_variables vars w)"

definition check_environment :: "world \<Rightarrow> (unit, coned_error) res" where
  "check_environment w = check_variables DANGEROUS w"

definition check_not_root :: "world \<Rightarrow> (unit, coned_error) res" where
  "check_not_root w =
     (if w_uid w = 0
      then Err (Message (''Traffic Cone refuses to start as root.'' @ [newline]
             @ ''coned is a user service and must run as a normal user.'' @ [newline]
             @ ''Check your systemd service configuration.''))
      else Ok ())"

text \<open>
  The process and what surrounds it: the world, the dumpable flag of \<open>prctl\<close>, the answer of
  \<open>prctl\<close> itself and that of the interactive prompt.
\<close>

record boot =
  bt_world :: world
  bt_dumpable :: bool

record boot_calls =
  set_dumpable :: "(unit, string) res"
  read_password :: "(string, io_error) res"
  create_dir_all :: "string \<Rightarrow> (unit, io_error) res"

definition harden_process :: "boot_calls \<Rightarrow> (boot, unit, coned_error) oper" where
  "harden_process os = (\<lambda>b. case set_dumpable os of
      Ok _ \<Rightarrow> (Ok (), b\<lparr>bt_dumpable := False\<rparr>)
    | Err e \<Rightarrow> (Err (Message (''prctl(PR_SET_DUMPABLE, 0) failed: '' @ e @ '' '' @ em_dash
             @ '' coned cannot run without this protection'')), b)
    | Panic \<Rightarrow> (Panic, b))"

text \<open>\<open>mlock\<close> is an argument; an address of 0 is the null pointer.\<close>

definition lock_memory_pages :: "(nat \<Rightarrow> nat \<Rightarrow> (unit, string) res) \<Rightarrow> nat \<Rightarrow> nat \<Rightarrow> (unit, coned_error) res"
  where
  "lock_memory_pages mlock ptr len =
     (if ptr = 0 then Err (Message ''mlock called with null pointer'')
      else map_err (\<lambda>e. Message (''mlock failed: '' @ e)) (mlock ptr len))"

section \<open>The main function\<close>

definition get_store_path :: "boot_calls \<Rightarrow> world \<Rightarrow> (string, coned_error) res" where
  "get_store_path os w =
     (let data_home = (case env_var ''XDG_DATA_HOME'' w of
            Some d \<Rightarrow> d
          | None \<Rightarrow>
              (let home = (case env_var ''HOME'' w of Some h \<Rightarrow> h | None \<Rightarrow> ''/tmp'')
               in home @ ''/.local/share''));
          dir = data_home @ ''/cone''
      in rbind (with_context ''Failed to create store directory'' (map_err FromIo (create_dir_all os dir)))
           (\<lambda>_. Ok (dir @ ''/store.db'')))"

definition prompt_passphrase :: "boot_calls \<Rightarrow> world \<Rightarrow> (string, coned_error) res" where
  "prompt_passphrase os w = (case env_var ''CONE_PASSPHRASE'' w of
      Some pass \<Rightarrow> Ok pass
    | None \<Rightarrow> with_context ''Failed to read passphrase'' (map_err FromIo (read_password os)))"

text \<open>How the sequence ends: the servers start, or the process exits with a code.\<close>

datatype outcome = Ready daemon known_hashes | ExitCode nat

definition on_world :: "(world, 'a, 'e) oper \<Rightarrow> (boot, 'a, 'e) oper" where
  "on_world m = (\<lambda>b. case m (bt_world b) of (r, w) \<Rightarrow> (r, b\<lparr>bt_world := w\<rparr>))"

text \<open>Steps 4 to 7, after the process has been hardened.\<close>

definition open_and_serve :: "daemon_lib \<Rightarrow> boot_calls \<Rightarrow> (world, outcome, coned_error) oper" where
  "open_and_serve lib os =
     obind (reading (get_store_path os)) (\<lambda>store_path.
     obind (reading (prompt_passphrase os)) (\<lambda>passphrase w.
       let store = store_open store_path in
       (case unlock (dl_crypto lib) (as_bytes passphrase) (store, w) of
          (Panic, _, w1) \<Rightarrow> (Panic, w1)
        | (Err e, _, w1) \<Rightarrow>
            (Err (WithContext (''Failed to unlock store '' @ em_dash @ '' wrong passphrase?'') (FromStore e)), w1)
        | (Ok _, store1, w1) \<Rightarrow>
            (case verify_all (dl_crypto lib) store1 w1 of
               (Panic, w2) \<Rightarrow> (Panic, w2)
             | (Err e, w2) \<Rightarrow> (Ok (ExitCode 1), w2)
             | (Ok _, w2) \<Rightarrow>
                 (rbind (with_context ''Failed to load integrity records from store''
                    (load_known_hashes lib store1 w2)) (\<lambda>known.
                  Ok (Ready \<lparr>dm_store = store1, dm_poisoned = False, dm_monitor = new_monitor\<rparr> known)),
                  w2)))))"

definition coned_main :: "daemon_lib \<Rightarrow> boot_calls \<Rightarrow> (boot, outcome, coned_error) oper" where
  "coned_main lib os =
     obind (reading (\<lambda>b. with_context ''Environment check failed'' (check_environment (bt_world b)))) (\<lambda>_.
     obind (reading (\<lambda>b. with_context ''Root check failed'' (check_not_root (bt_world b)))) (\<lambda>_.
     obind (\<lambda>b. case harden_process os b of (r, b') \<Rightarrow> (with_context ''Process hardening failed'' r, b')) (\<lambda>_.
     on_world (open_and_serve lib os))))"

section \<open>Facts\<close>

lemma with_context_iff [res_simps]: "with_context m r = Ok x \<longleftrightarrow> r = Ok x"
  by (simp add: with_context_def map_err_Ok_iff)

lemma check_variables_Ok_iff: "check_variables vs w = Ok () \<longleftrightarrow> (\<forall>v\<in>set vs. env_var v w = None)"
  by (induction vs) auto

lemma open_and_serve_Ready:
  assumes "open_and_serve lib os w = (Ok (Ready d known), w2)"
  shows "\<exists>pass path w1 t. prompt_passphrase os w = Ok pass \<and> get_store_path os w = Ok path \<and>
    st_state (dm_store d) = Unlocked path (as_bytes pass) \<and> \<not> dm_poisoned d \<and> dm_monitor d = new_monitor \<and>
    store_tables (dm_store d) w1 = Ok t \<and> verify_all (dl_crypto lib) (dm_store d) w1 = (Ok (), w2) \<and>
    load_known_hashes lib (dm_store d) w2 = Ok known"
proof -
  from assms obtain path pass where u: "get_store_path os w = Ok path" "prompt_passphrase os w = Ok pass"
    by (auto simp: open_and_serve_def obind_Ok_iff)
  obtain r s1 w1 where k: "unlock (dl_crypto lib) (as_bytes pass) (store_open path, w) = (r, s1, w1)"
    by (rule prod_cases3)
  obtain r' w3 where v': "verify_all (dl_crypto lib) s1 w1 = (r', w3)" by force
  have "r = Ok ()" "r' = Ok ()" "w3 = w2" "load_known_hashes lib s1 w2 = Ok known"
    and d: "d = \<lparr>dm_store = s1, dm_poisoned = False, dm_monitor = new_monitor\<rparr>"
    using assms u k v'
    by (auto simp: open_and_serve_def obind_apply Let_def res_simps split: res.splits)
  with k v' have u3: "unlock (dl_crypto lib) (as_bytes pass) (store_open path, w) = (Ok (), s1, w1)"
    and v: "verify_all (dl_crypto lib) s1 w1 = (Ok (), w2)" "load_known_hashes lib s1 w2 = Ok known"
    by simp_all
  from v(1) obtain rs where "list_integrity s1 w1 = Ok rs"
    by (auto simp: verify_all_def obind_Ok_iff)
  then obtain t where "store_tables s1 w1 = Ok t" by (auto simp: list_integrity_def res_simps)
  with u v d unlock_Ok [OF u3] show ?thesis by (auto simp: store_open_def)
qed

lemma coned_main_Ready:
  assumes "coned_main lib os b = (Ok (Ready d known), b')"
  shows "check_environment (bt_world b) = Ok () \<and> check_not_root (bt_world b) = Ok () \<and> \<not> bt_dumpable b' \<and>
    open_and_serve lib os (bt_world b) = (Ok (Ready d known), bt_world b')"
  using assms
  by (auto simp: coned_main_def obind_Ok_iff on_world_def harden_process_def res_simps
      split: prod.splits res.splits)

section \<open>Properties\<close>

text \<open>
  C5. When the daemon starts serving, every check has passed: no dangerous variable has a
  readable value, the user is not root, the process cannot be traced or dumped, the store is
  unlocked under the passphrase given, every recorded binary was intact, and no connection can
  be accepted from an executable whose content differed from its record.
\<close>

theorem startup_safe:
  assumes "coned_main lib os b = (Ok (Ready d known), b')"
  shows "(\<forall>v\<in>set DANGEROUS. env_var v (bt_world b) = None) \<and> w_uid (bt_world b) \<noteq> 0 \<and> \<not> bt_dumpable b' \<and>
    (\<exists>pass. prompt_passphrase os (bt_world b) = Ok pass \<and> store_passphrase (dm_store d) = Ok (as_bytes pass)) \<and>
    (\<forall>p h. known p = Some h \<longrightarrow> (\<exists>bs. fs_read p (bt_world b') = Ok bs \<and> hash_bytes (dl_crypto lib) bs = h))"
proof -
  note m = coned_main_Ready [OF assms]
  obtain pass path w1 t where o: "prompt_passphrase os (bt_world b) = Ok pass"
    "st_state (dm_store d) = Unlocked path (as_bytes pass)" "store_tables (dm_store d) w1 = Ok t"
    "verify_all (dl_crypto lib) (dm_store d) w1 = (Ok (), bt_world b')"
    "load_known_hashes lib (dm_store d) (bt_world b') = Ok known"
    using open_and_serve_Ready m by blast
  note v = verify_all_intact [OF o(3,4)]
  then obtain t2 where t2: "store_tables (dm_store d) (bt_world b') = Ok t2"
    "integrity t2 = map (\<lambda>i. i\<lparr>ir_verified_at := Some (w_clock w1)\<rparr>) (integrity t)"
    by blast
  have "\<forall>r\<in>set (integrity t2). intact (dl_crypto lib) w1 r" using v t2 by (auto simp: intact_def)
  moreover have "fs_read p (bt_world b') = fs_read p w1" for p
    using verify_all_reads [OF o(3), of p "dl_crypto lib"] o(4) by simp
  ultimately have "\<forall>p h. known p = Some h \<longrightarrow>
      (\<exists>bs. fs_read p (bt_world b') = Ok bs \<and> hash_bytes (dl_crypto lib) bs = h)"
    using known_intact [OF o(5) t2(1)] by metis
  moreover have "store_passphrase (dm_store d) = Ok (as_bytes pass)" using o(2) by simp
  ultimately show ?thesis
    using m o(1) check_variables_Ok_iff [of DANGEROUS "bt_world b"]
    by (auto simp: check_environment_def check_not_root_def)
qed

definition demo_boot_world :: world where
  "demo_boot_world = bare_world\<lparr>w_env := [''CONE_PASSPHRASE'' \<mapsto> as_bytes ''pw'']\<rparr>"

definition demo_calls :: boot_calls where
  "demo_calls = \<lparr>set_dumpable = Ok (), read_password = Err InvalidData, create_dir_all = (\<lambda>_. Ok ())\<rparr>"

lemma demo_env:
  "env_var v demo_boot_world = (if v = ''CONE_PASSPHRASE'' then Some ''pw'' else None)"
  using to_str_ascii [of "''pw''"] by (auto simp: env_var_def demo_boot_world_def bare_world_def)

lemma demo_unlocks:
  obtains s w where "unlock plain_crypto (as_bytes ''pw'') (store_open ''/tmp/.local/share/cone/store.db'', demo_boot_world) = (Ok (), s, w)"
    and "store_tables s w = Ok no_rows"
proof -
  let ?s = "store_open ''/tmp/.local/share/cone/store.db''"
  obtain key where "derive_key plain_crypto (as_bytes ''pw'') (fresh_salt plain_crypto demo_boot_world) = Ok key"
    by (simp add: derive_key_def plain_crypto_def)
  from unlock_fresh [OF _ _ _ _ this, of ?s] obtain w where
    "unlock plain_crypto (as_bytes ''pw'') (?s, demo_boot_world) =
      (Ok (), ?s\<lparr>st_state := Unlocked (st_path ?s) (as_bytes ''pw'')\<rparr>, w)"
    "conn_tables (st_path ?s) w = Ok no_rows"
    by (auto simp: demo_boot_world_def bare_world_def)
  then show thesis using that by (auto simp: store_tables_Ok_iff)
qed

theorem startup_safe_witness:
  "\<exists>d known b'. coned_main demo_lib demo_calls \<lparr>bt_world = demo_boot_world, bt_dumpable = True\<rparr> =
     (Ok (Ready d known), b') \<and> \<not> bt_dumpable b' \<and> store_passphrase (dm_store d) = Ok (as_bytes ''pw'')"
proof -
  let ?b = "\<lparr>bt_world = demo_boot_world, bt_dumpable = True\<rparr>"
  have crypto: "dl_crypto demo_lib = plain_crypto" by (simp add: demo_lib_def)
  obtain s w where u: "unlock plain_crypto (as_bytes ''pw'') (store_open ''/tmp/.local/share/cone/store.db'', demo_boot_world) = (Ok (), s, w)"
    and t: "store_tables s w = Ok no_rows" by (rule demo_unlocks)
  obtain w2 where v: "verify_all plain_crypto s w = (Ok (), w2)"
    by (simp add: verify_all_apply [OF t] no_rows_def)
  then obtain t2 where "store_tables s w2 = Ok t2" using verify_all_intact [OF t v] by blast
  then obtain known where k: "load_known_hashes demo_lib s w2 = Ok known"
    by (simp add: load_known_hashes_def list_integrity_def)
  have "check_environment demo_boot_world = Ok ()"
    by (simp add: check_environment_def check_variables_Ok_iff demo_env DANGEROUS_def)
  moreover have "check_not_root demo_boot_world = Ok ()"
    by (simp add: check_not_root_def demo_boot_world_def bare_world_def)
  ultimately obtain d b' where r: "coned_main demo_lib demo_calls ?b = (Ok (Ready d known), b')"
    using u v k by (simp add: coned_main_def obind_apply with_context_def harden_process_def demo_calls_def
        on_world_def open_and_serve_def get_store_path_def prompt_passphrase_def demo_env crypto Let_def)
  have "prompt_passphrase demo_calls demo_boot_world = Ok ''pw''" by (simp add: prompt_passphrase_def demo_env)
  then have "\<not> bt_dumpable b' \<and> store_passphrase (dm_store d) = Ok (as_bytes ''pw'')"
    using startup_safe [OF r] by simp
  with r show ?thesis by blast
qed

text \<open>
  The order of the first steps: when the environment check or the root check fails, the
  process state is exactly as before. No database, salt or key has been touched.
\<close>

theorem early_checks_touch_nothing:
  assumes "check_environment (bt_world b) \<noteq> Ok () \<or> check_not_root (bt_world b) \<noteq> Ok ()"
  shows "snd (coned_main lib os b) = b \<and> (\<forall>x. fst (coned_main lib os b) \<noteq> Ok x)"
  using assms by (auto simp: coned_main_def obind_apply with_context_def map_err_Ok_iff split: res.splits)

theorem early_checks_touch_nothing_witness:
  "snd (coned_main demo_lib demo_calls \<lparr>bt_world = bare_world\<lparr>w_uid := 0\<rparr>, bt_dumpable = True\<rparr>) =
     \<lparr>bt_world = bare_world\<lparr>w_uid := 0\<rparr>, bt_dumpable = True\<rparr>"
  using early_checks_touch_nothing [of "\<lparr>bt_world = bare_world\<lparr>w_uid := 0\<rparr>, bt_dumpable = True\<rparr>" demo_lib demo_calls]
  by (simp add: check_not_root_def)

text \<open>
  The environment check looks only at values that are valid UTF-8. With \<open>LD_PRELOAD\<close> set to
  any other byte string, a path the dynamic linker would happily load, it passes.
\<close>

theorem check_environment_misses_non_utf8:
  assumes "w_env w ''LD_PRELOAD'' = Some bs" and "\<not> utf8_valid bs"
    and "\<forall>v\<in>set DANGEROUS. v \<noteq> ''LD_PRELOAD'' \<longrightarrow> w_env w v = None"
  shows "check_environment w = Ok ()"
proof -
  have "env_var v w = None" if "v \<in> set DANGEROUS" for v
    using assms that by (cases "v = ''LD_PRELOAD''") (auto simp: env_var_def to_str_def)
  then show ?thesis by (simp add: check_environment_def check_variables_Ok_iff)
qed

theorem check_environment_misses_non_utf8_witness:
  "check_environment (bare_world\<lparr>w_env := [''LD_PRELOAD'' \<mapsto> as_bytes ''/tmp/x'' @ [255]]\<rparr>) = Ok ()"
  by (rule check_environment_misses_non_utf8 [where bs = "as_bytes ''/tmp/x'' @ [255]"])
    (simp_all add: DANGEROUS_def as_bytes_def byte_of_def in_range_def)

end
