(* ===== verification/Vault.thy ===== *)
theory Vault
  imports Samples
begin

text \<open>
  What the store promises its users: key material survives encryption, the passphrase opens the
  store and nothing else does, a locked store answers nothing, deletion is exact.
\<close>

text \<open>
  C6. Key material survives storage: what \<open>encrypt_key\<close> returns under a passphrase decrypts
  under the same passphrase to the bytes encrypted, provided the AEAD decrypts what it
  encrypted.
\<close>

theorem key_round_trip:
  assumes "gcm_correct lib" and "encrypt_key lib key_bytes pass w = (Ok (ct, salt, nonce), w')"
  shows "decrypt_key lib ct salt nonce pass = Ok key_bytes \<and> length salt = 32 \<and> length nonce = 12"
  using decrypt_encrypt [OF assms] assms(2) by (auto simp: encrypt_key_Ok_iff)

theorem key_round_trip_witness:
  "\<exists>ct salt nonce. fst (encrypt_key plain_crypto [1, 2] [7] bare_world) = Ok (ct, salt, nonce) \<and>
     decrypt_key plain_crypto ct salt nonce [7] = Ok [1, 2]"
proof -
  obtain ct salt nonce w where e: "encrypt_key plain_crypto [1, 2] [7] bare_world = (Ok (ct, salt, nonce), w)"
    by (simp add: encrypt_key_def random_salt_def random_nonce_def NONCE_LEN_def nonce_from_slice_def
        derive_key_def plain_crypto_def)
  with key_round_trip [OF plain_crypto_correct(1) e] show ?thesis by simp
qed

text \<open>
  C13. Locking and unlocking with the same passphrase is the identity: the store is open on the
  same database, and nothing in the world changes, no new salt and no second migration.
\<close>

theorem unlock_lock_unlock:
  assumes "unlock lib pass (s, w) = (Ok (), s1, w1)"
    and "\<not> w_unreadable w1 (st_path s @ ''.salt'')" and "\<not> w_unreadable w1 (st_path s)"
  shows "unlock lib pass (lock s1, w1) = (Ok (), s1, w1)"
proof -
  obtain salt key f where u: "s1 = s\<lparr>st_state := Unlocked (st_path s) pass\<rparr>"
    "w_files w1 (st_path s @ ''.salt'') = Some salt" "derive_key lib pass salt = Ok key"
    "w_dbs w1 (st_path s) = Some (migrate f)" "df_key f = hex_encode lib key"
    using unlock_Ok [OF assms(1)] by blast
  then have "load_or_create_db_salt lib (lock s1) w1 = (Ok salt, w1)"
    using assms(2) by (intro load_salt_old) (simp_all add: lock_def)
  moreover have "w1\<lparr>w_dbs := (w_dbs w1)(st_path s \<mapsto> migrate f)\<rparr> = w1" using u(4) by (simp add: map_upd_triv)
  then have "db_open (st_path s) (hex_encode lib key) w1 = (Ok (st_path s), w1)"
    using u assms(3) by (simp add: db_open_def)
  ultimately show ?thesis using u by (simp add: unlock_apply lock_def)
qed

lemma demo_fresh_unlock:
  "\<exists>w1. unlock plain_crypto [7] (store_open ''/v'', bare_world) =
     (Ok (), (store_open ''/v'')\<lparr>st_state := Unlocked ''/v'' [7]\<rparr>, w1) \<and>
     w_unreadable w1 = (\<lambda>_. False) \<and> w_unwritable w1 = (\<lambda>_. False)"
proof -
  have k: "derive_key plain_crypto [7] (fresh_salt plain_crypto bare_world) =
      Ok (take 32 ([7] @ fresh_salt plain_crypto bare_world))"
    by (simp add: derive_key_def plain_crypto_def KEY_LEN_def)
  have "load_or_create_db_salt plain_crypto (store_open ''/v'') bare_world = (Ok (fresh_salt plain_crypto bare_world),
      bare_world\<lparr>w_draws := Suc (w_draws bare_world), w_files := (w_files bare_world)
        (st_path (store_open ''/v'') @ ''.salt'' \<mapsto> fresh_salt plain_crypto bare_world)\<rparr>)"
    by (rule load_salt_new) (simp_all add: bare_world_def)
  from unlock_apply [OF this k] show ?thesis
    by (simp add: db_open_def bare_world_def store_open_def)
qed

theorem unlock_lock_unlock_witness:
  "\<exists>s1 w1. unlock plain_crypto [7] (lock s1, w1) = (Ok (), s1, w1) \<and> is_unlocked s1"
proof -
  obtain w1 where u: "unlock plain_crypto [7] (store_open ''/v'', bare_world) =
     (Ok (), (store_open ''/v'')\<lparr>st_state := Unlocked ''/v'' [7]\<rparr>, w1)" "w_unreadable w1 = (\<lambda>_. False)"
    using demo_fresh_unlock by blast
  from unlock_lock_unlock [OF u(1)] u(2) show ?thesis
    by (intro exI [of _ "(store_open ''/v'')\<lparr>st_state := Unlocked ''/v'' [7]\<rparr>"] exI [of _ w1])
      (simp add: is_unlocked_def)
qed

text \<open>
  C37. A passphrase that derives another key is refused: the store stays locked and the world
  is unchanged.
\<close>

theorem wrong_passphrase_refused:
  assumes "unlock lib pass (s, w) = (Ok (), s1, w1)"
    and "\<not> w_unreadable w1 (st_path s @ ''.salt'')"
    and "\<And>salt k k'. derive_key lib pass salt = Ok k \<Longrightarrow> derive_key lib bad salt = Ok k' \<Longrightarrow>
      hex_encode lib k \<noteq> hex_encode lib k'"
    and "\<And>salt. \<exists>k. derive_key lib bad salt = Ok k"
  shows "\<exists>e. unlock lib bad (lock s1, w1) = (Err (Database e), lock s1, w1)"
proof -
  obtain salt key f where u: "s1 = s\<lparr>st_state := Unlocked (st_path s) pass\<rparr>"
    "w_files w1 (st_path s @ ''.salt'') = Some salt" "derive_key lib pass salt = Ok key"
    "w_dbs w1 (st_path s) = Some (migrate f)" "df_key f = hex_encode lib key"
    using unlock_Ok [OF assms(1)] by blast
  obtain k' where k': "derive_key lib bad salt = Ok k'" using assms(4) by blast
  have "load_or_create_db_salt lib (lock s1) w1 = (Ok salt, w1)"
    using assms(2) u by (intro load_salt_old) (simp_all add: lock_def)
  moreover have "\<exists>e. db_open (st_path s) (hex_encode lib k') w1 = (Err (Database e), w1)"
    using u assms(3) [OF u(3) k'] by (simp add: db_open_def)
  ultimately show ?thesis using u k' by (auto simp: unlock_apply lock_def)
qed

theorem wrong_passphrase_refused_witness:
  "\<exists>s1 w1 e. unlock plain_crypto [7] (store_open ''/v'', bare_world) = (Ok (), s1, w1) \<and>
     unlock plain_crypto [8] (lock s1, w1) = (Err (Database e), lock s1, w1)"
proof -
  obtain w1 where u: "unlock plain_crypto [7] (store_open ''/v'', bare_world) =
     (Ok (), (store_open ''/v'')\<lparr>st_state := Unlocked ''/v'' [7]\<rparr>, w1)" "w_unreadable w1 = (\<lambda>_. False)"
    using demo_fresh_unlock by blast
  have d: "derive_key plain_crypto (b # p) salt = Ok (b # take 31 (p @ salt))" for b p salt
    by (simp add: derive_key_def plain_crypto_def KEY_LEN_def)
  have h: "hex_encode plain_crypto k = hex_encode plain_crypto k' \<longleftrightarrow> k = k'" for k k'
    by (simp add: plain_crypto_def) (metis as_bytes_of_bytes)
  have "\<exists>e. unlock plain_crypto [8] (lock ((store_open ''/v'')\<lparr>st_state := Unlocked ''/v'' [7]\<rparr>), w1) =
      (Err (Database e), lock ((store_open ''/v'')\<lparr>st_state := Unlocked ''/v'' [7]\<rparr>), w1)"
    by (rule wrong_passphrase_refused [OF u(1)]) (auto simp: u(2) d h)
  with u(1) show ?thesis by blast
qed

text \<open>
  When the salt file is gone, the right passphrase no longer opens the database: \<open>unlock\<close>
  writes a fresh salt in its place, derives another key from it and is refused, and so is every
  later attempt with that passphrase.
\<close>

theorem lost_salt_locks_out:
  assumes "w_files w (st_path s @ ''.salt'') = None" and "\<not> w_unwritable w (st_path s @ ''.salt'')"
    and "\<not> w_unreadable w (st_path s @ ''.salt'')"
    and "w_dbs w (st_path s) = Some f" and "derive_key lib pass (fresh_salt lib w) = Ok key"
    and "hex_encode lib key \<noteq> df_key f"
  shows "\<exists>e w1. unlock lib pass (s, w) = (Err (Database e), s, w1) \<and>
    w_files w1 (st_path s @ ''.salt'') = Some (fresh_salt lib w) \<and>
    unlock lib pass (s, w1) = (Err (Database e), s, w1)"
proof -
  let ?w1 = "w\<lparr>w_draws := Suc (w_draws w), w_files := (w_files w)(st_path s @ ''.salt'' \<mapsto> fresh_salt lib w)\<rparr>"
  have "\<exists>e. db_open (st_path s) (hex_encode lib key) ?w1 = (Err (Database e), ?w1)"
    using assms(4,6) by (auto simp: db_open_def)
  then obtain e where e: "db_open (st_path s) (hex_encode lib key) ?w1 = (Err (Database e), ?w1)" by blast
  have "load_or_create_db_salt lib s ?w1 = (Ok (fresh_salt lib w), ?w1)"
    using assms(3) by (intro load_salt_old) simp_all
  with e load_salt_new [OF assms(1,2), of lib] assms(5) show ?thesis
    by (intro exI [of _ e] exI [of _ ?w1]) (simp add: unlock_apply)
qed

theorem lost_salt_locks_out_witness:
  "\<exists>e w1. unlock plain_crypto [7] (lock demo_store, demo_world no_rows) = (Err (Database e), lock demo_store, w1)"
proof -
  have k: "derive_key plain_crypto [7] (fresh_salt plain_crypto (demo_world no_rows)) =
      Ok (take 32 ([7] @ fresh_salt plain_crypto (demo_world no_rows)))"
    by (simp add: derive_key_def plain_crypto_def KEY_LEN_def)
  have "length (hex_encode plain_crypto (take 32 ([7] @ fresh_salt plain_crypto (demo_world no_rows)))) = 32"
    by (simp add: plain_crypto_def fresh_salt_def)
  then have n: "hex_encode plain_crypto (take 32 ([7] @ fresh_salt plain_crypto (demo_world no_rows))) \<noteq> ''key''"
    by auto
  show ?thesis
    using lost_salt_locks_out [OF _ _ _ _ k, of "lock demo_store" "demo_db no_rows"] n
    by (auto simp: demo_world_def bare_world_def demo_store_def demo_db_def lock_def)
qed



text \<open>
  C15. Deleting a certificate by its label removes that certificate, its keys and its routes and
  nothing else, and appends one entry to the audit log.
\<close>

theorem delete_cert_exact:
  assumes "store_tables s w = Ok t" and "find (\<lambda>c. c_label c = label) (certs t) = Some c"
    and "\<forall>e\<in>set (audit_log t). au_id e \<noteq> hex_encode lib (map (os_rng lib (w_draws w)) [0..<16])"
  shows "\<exists>w' e. delete_cert lib s label w = (Ok (), w') \<and> store_tables s w' = Ok (t\<lparr>
      certs := filter (\<lambda>x. c_id x \<noteq> c_id c) (certs t), keys := filter (\<lambda>k. k_cert_id k \<noteq> c_id c) (keys t),
      routes := filter (\<lambda>r. r_cert_id r \<noteq> c_id c) (routes t), audit_log := audit_log t @ [e]\<rparr>) \<and>
    au_event_type e = ''cert_deleted'' \<and> au_cert_id e = Some (c_id c) \<and> au_occurred_at e = w_clock w"
proof -
  let ?i = "hex_encode lib (map (os_rng lib (w_draws w)) [0..<16])"
  let ?e = "\<lparr>au_id = ?i, au_event_type = ''cert_deleted'', au_cert_id = Some (c_id c), au_ssh_key_id = None,
    au_app_id = None, au_detail = Some (''Deleted cert: '' @ label), au_occurred_at = w_clock w\<rparr>"
  obtain conn p where c: "st_state s = Unlocked conn p" "conn_tables conn w = Ok t"
    using assms(1) by (auto simp: store_tables_Ok_iff)
  have "c \<in> set (certs t)" using find_SomeD [OF assms(2)] by simp
  then have h: "has_cert (c_id c) t" by (simp add: has_cert_def)
  let ?t1 = "t\<lparr>certs := filter (\<lambda>x. c_id x \<noteq> c_id c) (certs t),
    keys := filter (\<lambda>k. k_cert_id k \<noteq> c_id c) (keys t), routes := filter (\<lambda>r. r_cert_id r \<noteq> c_id c) (routes t)\<rparr>"
  have d: "delete_certs_by_id (c_id c) t = Ok ?t1" using h by (simp add: delete_certs_by_id_def)
  have a: "insert_audit ?e ?t1 = Ok (?t1\<lparr>audit_log := audit_log t @ [?e]\<rparr>)"
    using assms(3) by (auto simp: insert_audit_def insert_row_def audit_conflict_def)
  show ?thesis
    using c a assms(2)
    by (auto simp: delete_cert_def obind_apply get_cert_by_label_def query_row_def conn_execute_eq d
        new_id_apply store_tables_Ok_iff intro!: exI [of _ ?e])
qed

theorem delete_cert_exact_witness:
  "\<exists>w' t'. delete_cert plain_crypto demo_store ''work'' (demo_world demo_tables) = (Ok (), w') \<and>
     store_tables demo_store w' = Ok t' \<and> map c_label (certs t') = [''bank''] \<and> keys t' = []"
proof -
  have f: "find (\<lambda>c. c_label c = ''work'') (certs demo_tables) = Some (demo_cert ''c1'' ''work'')"
    by (simp add: demo_tables_def demo_cert_def)
  have "audit_log demo_tables = []" by (simp add: demo_tables_def no_rows_def)
  with delete_cert_exact [OF demo_store_tables f, of plain_crypto] show ?thesis
    by (auto simp: demo_tables_def demo_cert_def demo_key_def)
qed

end
