(* ===== verification/Client.thy ===== *)
theory Client
  imports Wire
begin

text \<open>
  What the two clients of the daemon share, the command line tool and the PKCS#11 module:
  connecting to a socket by name, and the contract of a client that sends one framed request and
  reads one framed response.
\<close>

section \<open>Connecting\<close>

text \<open>
  \<open>UnixStream::connect\<close> on a path: the standard library refuses a path with a NUL byte and one that
  does not fit into \<open>sun_path\<close> before it makes the system call. Abstract names have a NUL byte in
  front and need another function.
\<close>

definition unix_connect :: "(string \<Rightarrow> (stream, io_error) res) \<Rightarrow> string \<Rightarrow> (stream, io_error) res" where
  "unix_connect sys_connect path =
     (if CHR 0x00 \<in> set path \<or> 108 \<le> length path then Err InvalidInput else sys_connect path)"

lemma unix_connect_abstract: "unix_connect sys (CHR 0x00 # name) = Err InvalidInput"
  by (simp add: unix_connect_def)

section \<open>The contract of a client\<close>

text \<open>
  A client's state holds a stream; \<open>send\<close> writes the frame of the encoded request, \<open>recv\<close> reads a
  frame without limit and decodes it. \<open>eof\<close>, \<open>broken\<close> and \<open>garbled\<close> are what the client makes of an
  end of input, a failing write and a body that is not a response.
\<close>

locale rpc_client =
  fixes the_stream :: "'s \<Rightarrow> stream"
    and put_stream :: "stream \<Rightarrow> 's \<Rightarrow> 's"
    and connected :: "'s \<Rightarrow> bool"
    and send :: "'q \<Rightarrow> ('s, unit, 'e) oper"
    and recv :: "('s, 'r, 'e) oper"
    and encode :: "'q \<Rightarrow> (bytes, string) res"
    and decode :: "bytes \<Rightarrow> ('r, string) res"
    and eof broken :: 'e
    and garbled :: "string \<Rightarrow> 'e"
  assumes put_get: "connected s \<Longrightarrow> the_stream (put_stream st s) = st"
    and put_put: "put_stream st' (put_stream st s) = put_stream st' s"
    and put_connected: "connected s \<Longrightarrow> connected (put_stream st s)"
    and send_ok: "connected s \<Longrightarrow> encode q = Ok body \<Longrightarrow> \<not> sm_broken (the_stream s) \<Longrightarrow>
      send q s = (Ok (), put_stream ((the_stream s)\<lparr>sm_out := sm_out (the_stream s) @ frame body\<rparr>) s)"
    and send_broken: "connected s \<Longrightarrow> encode q = Ok body \<Longrightarrow> sm_broken (the_stream s) \<Longrightarrow>
      send q s = (Err broken, s)"
    and recv_ok: "connected s \<Longrightarrow> sm_in (the_stream s) = frame body @ rest \<Longrightarrow> length body < 2 ^ 32 \<Longrightarrow>
      decode body = Ok r \<Longrightarrow> recv s = (Ok r, put_stream ((the_stream s)\<lparr>sm_in := rest\<rparr>) s)"
    and recv_garbled: "connected s \<Longrightarrow> sm_in (the_stream s) = frame body @ rest \<Longrightarrow> length body < 2 ^ 32 \<Longrightarrow>
      decode body = Err e \<Longrightarrow> recv s = (Err (garbled e), put_stream ((the_stream s)\<lparr>sm_in := rest\<rparr>) s)"
    and recv_eof: "connected s \<Longrightarrow> sm_in (the_stream s) = [] \<Longrightarrow> recv s = (Err eof, put_stream ((the_stream s)\<lparr>sm_in := []\<rparr>) s)"
begin

definition call :: "'q \<Rightarrow> ('s, 'r, 'e) oper" where
  "call q = obind (send q) (\<lambda>_. recv)"

lemma call_ok:
  assumes "connected s" and "\<not> sm_broken (the_stream s)" and "encode q = Ok body"
    and "sm_in (the_stream s) = frame answer @ rest" and "length answer < 2 ^ 32" and "decode answer = Ok r"
  shows "call q s = (Ok r, put_stream ((the_stream s)\<lparr>sm_out := sm_out (the_stream s) @ frame body, sm_in := rest\<rparr>) s)"
  using assms by (simp add: call_def send_ok recv_ok put_get put_put put_connected)

lemma call_garbled:
  assumes "connected s" and "\<not> sm_broken (the_stream s)" and "encode q = Ok body"
    and "sm_in (the_stream s) = frame answer @ rest" and "length answer < 2 ^ 32" and "decode answer = Err e"
  shows "fst (call q s) = Err (garbled e)"
  using assms by (simp add: call_def send_ok recv_garbled put_get put_put put_connected)

text \<open>A peer that has answered once and closed leaves a connection on which every call fails.\<close>

lemma call_closed:
  assumes "connected s" and "sm_in (the_stream s) = []" and "encode q = Ok body"
  shows "fst (call q s) \<in> {Err eof, Err broken}" "connected (snd (call q s))"
    "sm_in (the_stream (snd (call q s))) = []"
  using assms by (cases "sm_broken (the_stream s)";
      simp add: call_def send_ok send_broken recv_eof put_get put_put put_connected)+

end

end
