(* ===== verification/P11_Ipc.thy ===== *)
theory P11_Ipc
  imports Client
begin

text \<open>
  \<open>crates/cone-p11/src/ipc.rs\<close>: the connection of the PKCS#11 module to the daemon, kept in a
  static variable, and the two requests that the module makes. The state is that of the whole
  module, whose other statics belong to \<open>pkcs11_impl.rs\<close>.
\<close>

section \<open>State and messages\<close>

type_synonym ck_ulong = u64

record p11_cert =
  pc_id :: bytes
  pc_label :: string
  pc_cert_der :: bytes
  pc_fingerprint :: string

record p11_module =
  md_initialised :: bool
  md_certs :: "p11_cert list"
  md_sign_handle :: "ck_ulong option"
  md_find_position :: nat
  md_connection :: "stream option"

datatype p11_request = P11ListCerts | P11Sign u32 bytes

record cert_info =
  ci_id :: string
  ci_label :: string
  ci_cert_der :: bytes
  ci_fingerprint :: string

datatype p11_response = P11Certs "cert_info list" | P11Signature string bytes | P11ErrorResponse string
  | P11Pong | P11Ok | P11Status bool nat

datatype p11_error = Unavailable | Protocol | DaemonError string

text \<open>The system around the module: the system call, the process, \<open>serde_json\<close>.\<close>

record p11_env =
  pe_connect :: "string \<Rightarrow> (stream, io_error) res"
  pe_process_id :: u32
  pe_request_to_vec :: "p11_request \<Rightarrow> (bytes, string) res"
  pe_response_from_slice :: "bytes \<Rightarrow> (p11_response, string) res"

definition P11_SOCKET_NAME :: string where
  "P11_SOCKET_NAME = CHR 0x00 # ''traffic-cone-daemon''"

section \<open>Operations\<close>

definition get_connection :: "p11_env \<Rightarrow> (p11_module, unit, p11_error) oper" where
  "get_connection env = (\<lambda>m. case md_connection m of
      Some st \<Rightarrow> (Ok (), m)
    | None \<Rightarrow> (case unix_connect (pe_connect env) P11_SOCKET_NAME of
        Ok st \<Rightarrow> (Ok (), m\<lparr>md_connection := Some st\<rparr>)
      | Err e \<Rightarrow> (Err Unavailable, m)
      | Panic \<Rightarrow> (Panic, m)))"

definition disconnect :: "p11_module \<Rightarrow> p11_module" where
  "disconnect m = m\<lparr>md_connection := None\<rparr>"

text \<open>\<open>guard.as_mut().ok_or(Unavailable)?\<close>, then an operation whose errors all become \<open>Unavailable\<close>.\<close>

definition on_connection :: "(stream, 'a, coned_error) oper \<Rightarrow> (p11_module, 'a, p11_error) oper" where
  "on_connection f = (\<lambda>m. case md_connection m of
      None \<Rightarrow> (Err Unavailable, m)
    | Some st \<Rightarrow> (case f st of (r, st') \<Rightarrow> (map_err (\<lambda>_. Unavailable) r, m\<lparr>md_connection := Some st'\<rparr>)))"

definition p11_send_request :: "p11_env \<Rightarrow> p11_request \<Rightarrow> (p11_module, unit, p11_error) oper" where
  "p11_send_request env req =
     obind (get_connection env) (\<lambda>_.
     obind (on_connection (ret ())) (\<lambda>_.
     obind (lift_res (map_err (\<lambda>_. Protocol) (pe_request_to_vec env req))) (\<lambda>json.
     obind (on_connection (stream_write_all (len_prefix json))) (\<lambda>_.
     on_connection (stream_write_all json)))))"

definition p11_recv_response :: "p11_env \<Rightarrow> (p11_module, p11_response, p11_error) oper" where
  "p11_recv_response env =
     obind (on_connection (stream_read_exact 4)) (\<lambda>len_buf.
     obind (on_connection (stream_read_exact (unat (from_be_bytes len_buf)))) (\<lambda>buf.
     lift_res (map_err (\<lambda>_. Protocol) (pe_response_from_slice env buf))))"

text \<open>\<open>enumerate\<close>, with the index cast to \<open>u8\<close>.\<close>

definition p11_cert_of :: "nat \<Rightarrow> cert_info \<Rightarrow> p11_cert" where
  "p11_cert_of i c = \<lparr>pc_id = [of_nat i], pc_label = ci_label c, pc_cert_der = ci_cert_der c,
     pc_fingerprint = ci_fingerprint c\<rparr>"

definition p11_list_certs :: "p11_env \<Rightarrow> (p11_module, p11_cert list, p11_error) oper" where
  "p11_list_certs env =
     obind (p11_send_request env P11ListCerts) (\<lambda>_.
     obind (p11_recv_response env) (\<lambda>resp. case resp of
       P11Certs cs \<Rightarrow> ret (map2 p11_cert_of [0..<length cs] cs)
     | P11ErrorResponse message \<Rightarrow> lift_res (Err (DaemonError message))
     | _ \<Rightarrow> lift_res (Err Protocol)))"

definition p11_sign :: "p11_env \<Rightarrow> u32 \<Rightarrow> bytes \<Rightarrow> (p11_module, bytes, p11_error) oper" where
  "p11_sign env pid data =
     obind (p11_send_request env (P11Sign pid data)) (\<lambda>_.
     obind (p11_recv_response env) (\<lambda>resp. case resp of
       P11Signature cert_id signature \<Rightarrow> ret signature
     | P11ErrorResponse message \<Rightarrow> lift_res (Err (DaemonError message))
     | _ \<Rightarrow> lift_res (Err Protocol)))"

section \<open>The module as a client\<close>

lemma p11_send_connected:
  "md_connection m = Some st \<Longrightarrow> pe_request_to_vec env q = Ok body \<Longrightarrow>
   p11_send_request env q m = (if sm_broken st then (Err Unavailable, m)
     else (Ok (), m\<lparr>md_connection := Some (st\<lparr>sm_out := sm_out st @ frame body\<rparr>)\<rparr>))"
  by (cases m) (simp add: p11_send_request_def get_connection_def on_connection_def obind_apply frame_def ret_def)

lemma p11_recv_frame:
  "md_connection m = Some st \<Longrightarrow> sm_in st = frame body @ rest \<Longrightarrow> length body < 2 ^ 32 \<Longrightarrow>
   p11_recv_response env m = (map_err (\<lambda>_. Protocol) (pe_response_from_slice env body),
     m\<lparr>md_connection := Some (st\<lparr>sm_in := rest\<rparr>)\<rparr>)"
  by (simp add: p11_recv_response_def on_connection_def obind_apply frame_def)

lemma p11_recv_eof:
  "md_connection m = Some st \<Longrightarrow> sm_in st = [] \<Longrightarrow>
   p11_recv_response env m = (Err Unavailable, m\<lparr>md_connection := Some (st\<lparr>sm_in := []\<rparr>)\<rparr>)"
  by (simp add: p11_recv_response_def on_connection_def obind_apply stream_read_exact_def read_exact_def)

interpretation p11: rpc_client "\<lambda>m. the (md_connection m)" "\<lambda>st m. m\<lparr>md_connection := Some st\<rparr>"
  "\<lambda>m. md_connection m \<noteq> None" "p11_send_request env" "p11_recv_response env" "pe_request_to_vec env"
  "pe_response_from_slice env" Unavailable Unavailable "\<lambda>_. Protocol" for env
  by unfold_locales (auto simp: p11_send_connected p11_recv_frame p11_recv_eof)

lemma p11_list_certs_call:
  "p11_list_certs env = obind (p11.call env P11ListCerts) (\<lambda>resp. case resp of
       P11Certs cs \<Rightarrow> ret (map2 p11_cert_of [0..<length cs] cs)
     | P11ErrorResponse message \<Rightarrow> lift_res (Err (DaemonError message))
     | _ \<Rightarrow> lift_res (Err Protocol))"
  by (rule ext) (simp add: p11_list_certs_def p11.call_def obind_apply split: res.splits)

lemma p11_sign_call:
  "p11_sign env pid data = obind (p11.call env (P11Sign pid data)) (\<lambda>resp. case resp of
       P11Signature cert_id signature \<Rightarrow> ret signature
     | P11ErrorResponse message \<Rightarrow> lift_res (Err (DaemonError message))
     | _ \<Rightarrow> lift_res (Err Protocol))"
  by (rule ext) (simp add: p11_sign_def p11.call_def obind_apply split: res.splits)

end
