(* ===== verification/P11_Module.thy ===== *)
theory P11_Module
  imports P11_Ipc
begin

text \<open>
  \<open>crates/cone-p11/src/pkcs11_impl.rs\<close>: the PKCS#11 functions as the TLS stack calls them. A
  pointer argument that is only written is given as whether it is null; what a function writes
  through it is part of its result. No function panics while it holds a mutex, so the branches for
  a poisoned mutex are not modelled.
\<close>

section \<open>Return values and the function list\<close>

type_synonym ck_rv = ck_ulong

definition CKR_OK :: ck_rv where "CKR_OK = 0"

definition CKR_GENERAL_ERROR :: ck_rv where "CKR_GENERAL_ERROR = 0x05"

definition CKR_ARGUMENTS_BAD :: ck_rv where "CKR_ARGUMENTS_BAD = 0x07"

definition CKR_FUNCTION_NOT_SUPPORTED :: ck_rv where "CKR_FUNCTION_NOT_SUPPORTED = 0x54"

definition CKR_OBJECT_HANDLE_INVALID :: ck_rv where "CKR_OBJECT_HANDLE_INVALID = 0x82"

lemmas ckr_defs = CKR_OK_def CKR_GENERAL_ERROR_def CKR_ARGUMENTS_BAD_def CKR_FUNCTION_NOT_SUPPORTED_def
  CKR_OBJECT_HANDLE_INVALID_def

text \<open>The fields of the function list in their order, and the table's entry for each: a pointer or null.\<close>

definition CK_FUNCTION_LIST :: "string list" where
  "CK_FUNCTION_LIST = [''C_Initialize'', ''C_Finalize'', ''C_GetInfo'', ''C_GetFunctionList'', ''C_GetSlotList'',
    ''C_GetSlotInfo'', ''C_GetTokenInfo'', ''C_GetMechanismList'', ''C_GetMechanismInfo'',
    ''C_InitToken'', ''C_InitPIN'', ''C_SetPIN'', ''C_OpenSession'', ''C_CloseSession'',
    ''C_CloseAllSessions'', ''C_GetSessionInfo'', ''C_GetOperationState'', ''C_SetOperationState'',
    ''C_Login'', ''C_Logout'', ''C_CreateObject'', ''C_CopyObject'', ''C_DestroyObject'',
    ''C_GetObjectSize'', ''C_GetAttributeValue'', ''C_SetAttributeValue'', ''C_FindObjectsInit'',
    ''C_FindObjects'', ''C_FindObjectsFinal'', ''C_EncryptInit'', ''C_Encrypt'', ''C_EncryptUpdate'',
    ''C_EncryptFinal'', ''C_DecryptInit'', ''C_Decrypt'', ''C_DecryptUpdate'', ''C_DecryptFinal'',
    ''C_DigestInit'', ''C_Digest'', ''C_DigestUpdate'', ''C_DigestKey'', ''C_DigestFinal'',
    ''C_SignInit'', ''C_Sign'', ''C_SignUpdate'', ''C_SignFinal'', ''C_SignRecoverInit'',
    ''C_SignRecover'', ''C_VerifyInit'', ''C_Verify'', ''C_VerifyUpdate'', ''C_VerifyFinal'',
    ''C_VerifyRecoverInit'', ''C_VerifyRecover'', ''C_DigestEncryptUpdate'', ''C_DecryptDigestUpdate'',
    ''C_SignEncryptUpdate'', ''C_DecryptVerifyUpdate'', ''C_GenerateKey'', ''C_GenerateKeyPair'',
    ''C_WrapKey'', ''C_UnwrapKey'', ''C_DeriveKey'', ''C_SeedRandom'', ''C_GenerateRandom'',
    ''C_GetFunctionStatus'', ''C_CancelFunction'', ''C_WaitForSlotEvent'']"

definition FUNCTION_LIST :: "(string \<times> bool) list" where
  "FUNCTION_LIST = [(''C_Initialize'', True), (''C_Finalize'', True), (''C_GetInfo'', True),
    (''C_GetFunctionList'', True), (''C_GetSlotList'', True), (''C_GetSlotInfo'', True),
    (''C_GetTokenInfo'', True), (''C_GetMechanismList'', True), (''C_GetMechanismInfo'', True),
    (''C_InitToken'', False), (''C_InitPIN'', False), (''C_SetPIN'', False), (''C_OpenSession'', True),
    (''C_CloseSession'', True), (''C_CloseAllSessions'', True), (''C_GetSessionInfo'', True),
    (''C_GetOperationState'', False), (''C_SetOperationState'', False), (''C_Login'', True),
    (''C_Logout'', True), (''C_CreateObject'', True), (''C_CopyObject'', False),
    (''C_DestroyObject'', True), (''C_GetObjectSize'', False), (''C_GetAttributeValue'', True),
    (''C_SetAttributeValue'', False), (''C_FindObjectsInit'', True), (''C_FindObjects'', True),
    (''C_FindObjectsFinal'', True), (''C_EncryptInit'', True), (''C_Encrypt'', True),
    (''C_EncryptUpdate'', False), (''C_EncryptFinal'', False), (''C_DecryptInit'', True),
    (''C_Decrypt'', True), (''C_DecryptUpdate'', False), (''C_DecryptFinal'', False),
    (''C_DigestInit'', True), (''C_Digest'', True), (''C_DigestUpdate'', False),
    (''C_DigestKey'', False), (''C_DigestFinal'', False), (''C_SignInit'', True), (''C_Sign'', True),
    (''C_SignUpdate'', False), (''C_SignFinal'', False), (''C_SignRecoverInit'', False),
    (''C_SignRecover'', False), (''C_VerifyInit'', True), (''C_Verify'', True),
    (''C_VerifyUpdate'', False), (''C_VerifyFinal'', False), (''C_VerifyRecoverInit'', False),
    (''C_VerifyRecover'', False), (''C_DigestEncryptUpdate'', False),
    (''C_DecryptDigestUpdate'', False), (''C_SignEncryptUpdate'', False),
    (''C_DecryptVerifyUpdate'', False), (''C_GenerateKey'', True), (''C_GenerateKeyPair'', True),
    (''C_WrapKey'', True), (''C_UnwrapKey'', True), (''C_DeriveKey'', True), (''C_SeedRandom'', True),
    (''C_GenerateRandom'', True), (''C_GetFunctionStatus'', False), (''C_CancelFunction'', False),
    (''C_WaitForSlotEvent'', False)]"

definition UNSUPPORTED_STUBS :: "string list" where
  "UNSUPPORTED_STUBS = [''C_Login'', ''C_Logout'', ''C_CreateObject'', ''C_DestroyObject'', ''C_EncryptInit'',
    ''C_Encrypt'', ''C_DecryptInit'', ''C_Decrypt'', ''C_DigestInit'', ''C_Digest'', ''C_VerifyInit'',
    ''C_Verify'', ''C_GenerateKey'', ''C_GenerateKeyPair'', ''C_WrapKey'', ''C_UnwrapKey'',
    ''C_DeriveKey'', ''C_SeedRandom'', ''C_GenerateRandom'']"

text \<open>The body of each of these stubs, and the entry point: the list through a pointer that is not null.\<close>

definition unsupported_stub :: ck_rv where
  "unsupported_stub = CKR_FUNCTION_NOT_SUPPORTED"

definition C_GetFunctionList :: "bool \<Rightarrow> ck_rv \<times> (string \<times> bool) list option" where
  "C_GetFunctionList pp_null = (if pp_null then (CKR_ARGUMENTS_BAD, None) else (CKR_OK, Some FUNCTION_LIST))"

section \<open>Slot, token and session\<close>

definition C_GetInfo :: ck_rv where "C_GetInfo = CKR_OK"

text \<open>\<open>pul_count\<close> is the value at the count pointer; the result has what is written to both pointers.\<close>

definition C_GetSlotList :: "bool \<Rightarrow> ck_ulong option \<Rightarrow> ck_rv \<times> ck_ulong option \<times> ck_ulong option" where
  "C_GetSlotList slot_list_null pul_count = (case pul_count of
      None \<Rightarrow> (CKR_ARGUMENTS_BAD, None, None)
    | Some n \<Rightarrow>
        if slot_list_null then (CKR_OK, None, Some 1)
        else if n \<ge> 1 then (CKR_OK, Some 0, Some 1)
        else (CKR_ARGUMENTS_BAD, None, None))"

definition C_GetSlotInfo :: ck_rv where "C_GetSlotInfo = CKR_OK"

record ck_token_info =
  ti_label :: bytes
  ti_manufacturer_id :: bytes
  ti_model :: bytes
  ti_serial_number :: bytes
  ti_flags :: ck_ulong
  ti_max_session_count :: ck_ulong
  ti_session_count :: ck_ulong
  ti_max_rw_session_count :: ck_ulong
  ti_rw_session_count :: ck_ulong
  ti_max_pin_len :: ck_ulong
  ti_min_pin_len :: ck_ulong
  ti_total_public_memory :: ck_ulong
  ti_free_public_memory :: ck_ulong
  ti_total_private_memory :: ck_ulong
  ti_free_private_memory :: ck_ulong
  ti_hardware_version :: bytes
  ti_firmware_version :: bytes
  ti_utc_time :: bytes

definition pad32 :: "string \<Rightarrow> bytes" where
  "pad32 s = (let b = as_bytes s; len = min (length b) 32 in take len b @ replicate (32 - len) 0x20)"

definition pad16 :: "string \<Rightarrow> bytes" where
  "pad16 s = (let b = as_bytes s; len = min (length b) 16 in take len b @ replicate (16 - len) 0x20)"

definition C_GetTokenInfo :: "bool \<Rightarrow> ck_rv \<times> ck_token_info option" where
  "C_GetTokenInfo info_null =
     (if info_null then (CKR_ARGUMENTS_BAD, None)
      else (CKR_OK, Some
        \<lparr>ti_label = pad32 ''Traffic Cone'', ti_manufacturer_id = pad32 ''Traffic Cone Project'',
         ti_model = pad16 ''cone'', ti_serial_number = pad16 ''1'', ti_flags = 0x0400,
         ti_max_session_count = 0xFFFFFFFF, ti_session_count = 0, ti_max_rw_session_count = 0xFFFFFFFF,
         ti_rw_session_count = 0, ti_max_pin_len = 256, ti_min_pin_len = 0,
         ti_total_public_memory = 0xFFFFFFFF, ti_free_public_memory = 0xFFFFFFFF,
         ti_total_private_memory = 0xFFFFFFFF, ti_free_private_memory = 0xFFFFFFFF,
         ti_hardware_version = [0, 1], ti_firmware_version = [0, 1], ti_utc_time = replicate 16 0x20\<rparr>))"

definition C_GetMechanismList :: "bool \<Rightarrow> ck_rv \<times> ck_ulong option" where
  "C_GetMechanismList count_null = (if count_null then (CKR_ARGUMENTS_BAD, None) else (CKR_OK, Some 2))"

definition C_GetMechanismInfo :: ck_rv where "C_GetMechanismInfo = CKR_OK"

definition C_OpenSession :: "bool \<Rightarrow> ck_rv \<times> ck_ulong option" where
  "C_OpenSession session_null = (if session_null then (CKR_ARGUMENTS_BAD, None) else (CKR_OK, Some 1))"

definition C_CloseSession :: ck_rv where "C_CloseSession = CKR_OK"

definition C_CloseAllSessions :: ck_rv where "C_CloseAllSessions = CKR_OK"

definition C_GetSessionInfo :: ck_rv where "C_GetSessionInfo = CKR_FUNCTION_NOT_SUPPORTED"

definition C_FindObjectsFinal :: ck_rv where "C_FindObjectsFinal = CKR_OK"

section \<open>Functions on the module's state\<close>

text \<open>The statics as the library is loaded.\<close>

definition p11_start :: p11_module where
  "p11_start = \<lparr>md_initialised = False, md_certs = [], md_sign_handle = None, md_find_position = 0,
     md_connection = None\<rparr>"

definition unwrap_or :: "'a \<Rightarrow> ('s, 'a, 'e) oper \<Rightarrow> ('s, 'a, 'e) oper" where
  "unwrap_or d f = (\<lambda>s. case f s of (Err e, s') \<Rightarrow> (Ok d, s') | r \<Rightarrow> r)"

definition C_Initialize :: "p11_env \<Rightarrow> (p11_module, ck_rv, p11_error) oper" where
  "C_Initialize env = obind (unwrap_or [] (p11_list_certs env)) (\<lambda>cs m.
     (Ok CKR_OK, m\<lparr>md_certs := cs, md_initialised := True\<rparr>))"

definition C_Finalize :: "(p11_module, ck_rv, p11_error) oper" where
  "C_Finalize = (\<lambda>m. (Ok CKR_OK, (disconnect m)\<lparr>md_initialised := False, md_certs := []\<rparr>))"

definition C_FindObjectsInit :: "p11_env \<Rightarrow> (p11_module, ck_rv, p11_error) oper" where
  "C_FindObjectsInit env = obind (unwrap_or [] (p11_list_certs env)) (\<lambda>cs m.
     (Ok CKR_OK, m\<lparr>md_certs := cs, md_find_position := 0\<rparr>))"

text \<open>The loop: the handles written, one for each turn.\<close>

function find_loop :: "nat \<Rightarrow> nat \<Rightarrow> nat \<Rightarrow> nat \<Rightarrow> ck_ulong list" where
  "find_loop limit available count pos =
     (if count < limit \<and> pos < available then of_nat pos # find_loop limit available (Suc count) (Suc pos) else [])"
  by pat_completeness auto
termination by (relation "measure (\<lambda>(limit, available, count, pos). available - pos)") auto

declare find_loop.simps [simp del]

definition C_FindObjects ::
  "bool \<Rightarrow> ck_ulong \<Rightarrow> bool \<Rightarrow> (p11_module, ck_rv \<times> ck_ulong list \<times> ck_ulong option, p11_error) oper" where
  "C_FindObjects object_null ul_max count_null = (\<lambda>m.
     if object_null \<or> count_null then (Ok (CKR_ARGUMENTS_BAD, [], None), m)
     else
       let hs = find_loop (unat ul_max) (length (md_certs m) * 2) 0 (md_find_position m) in
       (Ok (CKR_OK, hs, Some (of_nat (length hs))), m\<lparr>md_find_position := md_find_position m + length hs\<rparr>))"

text \<open>\<open>state.certs.get((h / 2) as usize)\<close>.\<close>

definition cert_at :: "p11_module \<Rightarrow> ck_ulong \<Rightarrow> p11_cert option" where
  "cert_at m h = (let i = unat (h div 2) in if i < length (md_certs m) then Some (md_certs m ! i) else None)"

definition C_GetAttributeValue :: "ck_ulong \<Rightarrow> (p11_module, ck_rv, p11_error) oper" where
  "C_GetAttributeValue h = (\<lambda>m. (Ok (if cert_at m h = None then CKR_OBJECT_HANDLE_INVALID else CKR_OK), m))"

definition C_SignInit :: "ck_ulong \<Rightarrow> (p11_module, ck_rv, p11_error) oper" where
  "C_SignInit h_key = (\<lambda>m.
     if cert_at m h_key = None then (Ok CKR_OBJECT_HANDLE_INVALID, m)
     else (Ok CKR_OK, m\<lparr>md_sign_handle := Some h_key\<rparr>))"

text \<open>
  \<open>p_data\<close> is the data or null, \<open>len_in\<close> the value at the length pointer or null. The result has the
  bytes copied to the signature buffer, if any, and the length written back, if any.
\<close>

definition C_Sign ::
  "p11_env \<Rightarrow> bytes option \<Rightarrow> bool \<Rightarrow> ck_ulong option \<Rightarrow>
   (p11_module, ck_rv \<times> bytes option \<times> ck_ulong option, p11_error) oper" where
  "C_Sign env p_data signature_null len_in = (\<lambda>m. case (p_data, len_in) of
      (Some data, Some len) \<Rightarrow>
        if md_sign_handle m = None then (Ok (CKR_GENERAL_ERROR, None, None), m)
        else (case p11_sign env (pe_process_id env) data m of
            (Ok signature, m') \<Rightarrow>
              (if signature_null then (Ok (CKR_OK, None, Some (of_nat (length signature))), m')
               else if len \<ge> of_nat (length signature)
               then (Ok (CKR_OK, Some signature, Some (of_nat (length signature))), m')
               else (Ok (CKR_ARGUMENTS_BAD, None, None), m'))
          | (Err e, m') \<Rightarrow> (Ok (CKR_GENERAL_ERROR, None, None), m')
          | (Panic, m') \<Rightarrow> (Panic, m'))
    | _ \<Rightarrow> (Ok (CKR_ARGUMENTS_BAD, None, None), m))"

section \<open>The module as a state machine\<close>

datatype p11_call = Initialize | Finalize | FindObjectsInit | FindObjects bool ck_ulong bool
  | GetAttributeValue ck_ulong | SignInit ck_ulong | SignData "bytes option" bool "ck_ulong option"

datatype p11_return = Returned ck_rv | Found ck_rv "ck_ulong list" "ck_ulong option"
  | Signed ck_rv "bytes option" "ck_ulong option"

inductive p11_step :: "p11_env \<Rightarrow> p11_module \<Rightarrow> p11_call \<Rightarrow> p11_return \<Rightarrow> p11_module \<Rightarrow> bool" for env where
  Initialize: "C_Initialize env m = (Ok rv, m') \<Longrightarrow> p11_step env m Initialize (Returned rv) m'"
| Finalize: "C_Finalize m = (Ok rv, m') \<Longrightarrow> p11_step env m Finalize (Returned rv) m'"
| FindObjectsInit: "C_FindObjectsInit env m = (Ok rv, m') \<Longrightarrow> p11_step env m FindObjectsInit (Returned rv) m'"
| FindObjects: "C_FindObjects on n cn m = (Ok (rv, hs, c), m') \<Longrightarrow> p11_step env m (FindObjects on n cn) (Found rv hs c) m'"
| GetAttributeValue: "C_GetAttributeValue h m = (Ok rv, m') \<Longrightarrow> p11_step env m (GetAttributeValue h) (Returned rv) m'"
| SignInit: "C_SignInit h m = (Ok rv, m') \<Longrightarrow> p11_step env m (SignInit h) (Returned rv) m'"
| SignData: "C_Sign env d sn l m = (Ok (rv, s, n), m') \<Longrightarrow> p11_step env m (SignData d sn l) (Signed rv s n) m'"

inductive p11_trace :: "p11_env \<Rightarrow> p11_module \<Rightarrow> (p11_call \<times> p11_return) list \<Rightarrow> p11_module \<Rightarrow> bool" for env where
  Done: "p11_trace env m [] m"
| Call: "p11_step env m c r m' \<Longrightarrow> p11_trace env m' cs m'' \<Longrightarrow> p11_trace env m ((c, r) # cs) m''"

inductive_cases initialize_step: "p11_step env m Initialize r m'"
inductive_cases find_init_step: "p11_step env m FindObjectsInit r m'"
inductive_cases find_step: "p11_step env m (FindObjects on n cn) r m'"
inductive_cases sign_step: "p11_step env m (SignData d sn l) r m'"
inductive_cases trace_Cons: "p11_trace env m ((c, r) # cs) m''"

end
