(* ===== verification/P11_Facts.thy ===== *)
theory P11_Facts
  imports P11_Module
begin

text \<open>
  The PKCS#11 module against what its callers expect: enumeration of all objects, the buffer
  protocol of signing, and what the cached connection and the socket's name do to both.
\<close>

section \<open>Enumeration\<close>

lemma find_loop_eq:
  "find_loop limit n count pos = map of_nat [pos..<min n (pos + (limit - count))]"
proof (induction limit n count pos rule: find_loop.induct)
  case (1 limit n count pos)
  show ?case
  proof (cases "count < limit \<and> pos < n")
    case True
    then have "limit - count = Suc (limit - Suc count)" "pos < min n (pos + (limit - count))" by auto
    with 1 True show ?thesis by (subst find_loop.simps) (simp add: upt_conv_Cons)
  next
    case False
    then show ?thesis by (subst find_loop.simps) auto
  qed
qed

definition is_find :: "p11_call \<Rightarrow> bool" where
  "is_find c \<longleftrightarrow> (\<exists>n. c = FindObjects False n False)"

text \<open>How many objects a sequence of calls asks for, and which handles it is given.\<close>

definition asked :: "(p11_call \<times> p11_return) list \<Rightarrow> nat" where
  "asked cs = sum_list (map (\<lambda>(c, r). case c of FindObjects on n cn \<Rightarrow> unat n | _ \<Rightarrow> 0) cs)"

definition handles :: "(p11_call \<times> p11_return) list \<Rightarrow> ck_ulong list" where
  "handles cs = concat (map (\<lambda>(c, r). case r of Found rv hs n \<Rightarrow> hs | _ \<Rightarrow> []) cs)"

lemma find_step_eq:
  assumes "p11_step env m (FindObjects False n False) r m'"
  shows "\<exists>c. r = Found CKR_OK (map of_nat [md_find_position m..<min (length (md_certs m) * 2) (md_find_position m + unat n)]) c \<and>
    m' = m\<lparr>md_find_position := md_find_position m +
      (min (length (md_certs m) * 2) (md_find_position m + unat n) - md_find_position m)\<rparr>"
  using assms by (auto simp: C_FindObjects_def find_loop_eq Let_def elim: find_step)

lemma upt_split: "i \<le> j \<Longrightarrow> j \<le> k \<Longrightarrow> [i..<j] @ [j..<k] = [i..<k]"
  using upt_add_eq_append [of i j "k - j"] by simp

lemma finds_enumerate:
  "p11_trace env m cs m' \<Longrightarrow> \<forall>c\<in>fst ` set cs. is_find c \<Longrightarrow> md_find_position m \<le> length (md_certs m) * 2 \<Longrightarrow>
   md_certs m' = md_certs m \<and>
   handles cs = map of_nat [md_find_position m..<min (length (md_certs m) * 2) (md_find_position m + asked cs)]"
proof (induction rule: p11_trace.induct)
  case (Done m)
  then show ?case by (simp add: handles_def asked_def)
next
  case (Call m c r m' cs m'')
  from Call.prems obtain n where "c = FindObjects False n False" by (auto simp: is_find_def)
  with Call.hyps(1) obtain k where c: "c = FindObjects False n False"
    "r = Found CKR_OK (map of_nat [md_find_position m..<min (length (md_certs m) * 2) (md_find_position m + unat n)]) k"
    "m' = m\<lparr>md_find_position := md_find_position m +
      (min (length (md_certs m) * 2) (md_find_position m + unat n) - md_find_position m)\<rparr>"
    using find_step_eq by blast
  let ?p = "md_find_position m" and ?N = "length (md_certs m) * 2"
  have p': "md_find_position m' = min ?N (?p + unat n)" "md_certs m' = md_certs m"
    using Call.prems(2) by (auto simp: c)
  have IH: "md_certs m'' = md_certs m" "handles cs = map of_nat [min ?N (?p + unat n)..<min ?N (min ?N (?p + unat n) + asked cs)]"
    using Call.IH Call.prems(1) by (simp_all add: p')
  have "[?p..<min ?N (?p + unat n)] @ [min ?N (?p + unat n)..<min ?N (min ?N (?p + unat n) + asked cs)] =
      [?p..<min ?N (?p + (unat n + asked cs))]"
    using Call.prems(2) by (subst upt_split) (auto simp: min_def add.assoc)
  then have "map of_nat [?p..<min ?N (?p + unat n)] @ handles cs = map of_nat [?p..<min ?N (?p + (unat n + asked cs))]"
    unfolding IH(2) map_append [symmetric] by simp
  then show ?case using IH(1) by (simp add: c handles_def asked_def)
qed

text \<open>A handle below twice the number of certificates names a certificate.\<close>

lemma cert_at_handle:
  assumes "i < length (md_certs m) * 2" and "length (md_certs m) * 2 \<le> 2 ^ 64"
  shows "cert_at m (of_nat i) = Some (md_certs m ! (i div 2))"
proof -
  have "unat (of_nat i :: ck_ulong) = i" using assms by (simp add: unat_of_nat)
  then have "unat ((of_nat i :: ck_ulong) div 2) = i div 2" by (simp add: unat_div)
  moreover have "i div 2 < length (md_certs m)" using assms(1) by simp
  ultimately show ?thesis by (simp add: cert_at_def)
qed

section \<open>A module that is never connected\<close>

lemma get_connection_fails:
  "md_connection m = None \<Longrightarrow> get_connection env m = (Err Unavailable, m)"
  by (simp add: get_connection_def P11_SOCKET_NAME_def unix_connect_abstract)

lemma disconnected_calls:
  assumes "md_connection m = None"
  shows "p11_list_certs env m = (Err Unavailable, m)" "p11_sign env pid data m = (Err Unavailable, m)"
  using assms by (simp_all add: p11_list_certs_def p11_sign_def p11_send_request_def get_connection_fails)

definition bare_module :: "p11_module \<Rightarrow> bool" where
  "bare_module m \<longleftrightarrow> md_connection m = None \<and> md_certs m = [] \<and> md_sign_handle m = None"

text \<open>What a caller of such a module can be told.\<close>

definition gives_nothing :: "p11_return \<Rightarrow> bool" where
  "gives_nothing r = (case r of
      Returned rv \<Rightarrow> True
    | Found rv hs n \<Rightarrow> hs = []
    | Signed rv s n \<Rightarrow> rv \<noteq> CKR_OK \<and> s = None)"

lemma bare_step:
  assumes "p11_step env m c r m'" and "bare_module m"
  shows "bare_module m' \<and> gives_nothing r"
  using assms
  by (cases rule: p11_step.cases)
    (auto simp: bare_module_def gives_nothing_def C_Initialize_def C_Finalize_def disconnect_def
      C_FindObjectsInit_def unwrap_or_def disconnected_calls C_FindObjects_def find_loop_eq Let_def
      C_GetAttributeValue_def C_SignInit_def cert_at_def C_Sign_def ckr_defs
      split: if_splits option.splits)

lemma bare_trace:
  "p11_trace env m cs m' \<Longrightarrow> bare_module m \<Longrightarrow> bare_module m' \<and> (\<forall>r\<in>snd ` set cs. gives_nothing r)"
  by (induction rule: p11_trace.induct) (auto dest: bare_step)

section \<open>Signing\<close>

text \<open>The key chosen by \<open>C_SignInit\<close> plays no part in the exchange with the daemon.\<close>

abbreviation with_key :: "ck_ulong option \<Rightarrow> p11_module \<Rightarrow> p11_module" where
  "with_key h m \<equiv> m\<lparr>md_sign_handle := h\<rparr>"

lemma with_key_commutes:
  "get_connection env (with_key h m) = apsnd (with_key h) (get_connection env m)"
  "on_connection f (with_key h m) = apsnd (with_key h) (on_connection f m)"
  by (auto simp: get_connection_def on_connection_def split: option.splits res.splits prod.splits)

lemma obind_with_key:
  assumes "\<And>m. f (with_key h m) = apsnd (with_key h) (f m)"
    and "\<And>x m. g x (with_key h m) = apsnd (with_key h) (g x m)"
  shows "obind f g (with_key h m) = apsnd (with_key h) (obind f g m)"
  using assms(2) by (cases "f m"; cases "fst (f m)") (simp_all add: obind_def assms(1))

lemma p11_sign_with_key: "p11_sign env pid data (with_key h m) = apsnd (with_key h) (p11_sign env pid data m)"
  unfolding p11_sign_def p11_send_request_def p11_recv_response_def
  by (intro obind_with_key) (auto simp: with_key_commutes split: p11_response.splits)

lemma p11_sign_Ok:
  assumes "p11_sign env pid data m = (Ok sig, m')"
  shows "\<exists>body cid. pe_response_from_slice env body = Ok (P11Signature cid sig) \<and> length body < 2 ^ 32"
proof -
  from assms obtain m1 m2 x where r: "p11_recv_response env m1 = (Ok x, m2)"
    "(case x of P11Signature cid s \<Rightarrow> ret s | P11ErrorResponse e \<Rightarrow> lift_res (Err (DaemonError e))
       | _ \<Rightarrow> lift_res (Err Protocol)) m2 = (Ok sig, m')"
    by (auto simp: p11_sign_def obind_Ok_iff)
  then obtain cid where "x = P11Signature cid sig" by (cases x) auto
  with r(1) have "p11_recv_response env m1 = (Ok (P11Signature cid sig), m2)" by simp
  then obtain len_buf buf m3 m4 where b: "on_connection (stream_read_exact (unat (from_be_bytes len_buf))) m3 = (Ok buf, m4)"
    "pe_response_from_slice env buf = Ok (P11Signature cid sig)"
    by (auto simp: p11_recv_response_def obind_Ok_iff map_err_Ok_iff)
  from b(1) have "length buf = unat (from_be_bytes len_buf)"
    by (auto simp: on_connection_def map_err_Ok_iff stream_read_exact_Ok_iff split: option.splits prod.splits)
  then have "length buf < 2 ^ 32" using unsigned_less [of "from_be_bytes len_buf"] by simp
  with b(2) show ?thesis by blast
qed

text \<open>A byte array in JSON takes at least one byte for each element.\<close>

definition json_no_shorter :: "p11_env \<Rightarrow> bool" where
  "json_no_shorter env \<longleftrightarrow> (\<forall>body cid sig. pe_response_from_slice env body = Ok (P11Signature cid sig) \<longrightarrow> length sig \<le> length body)"

lemma p11_sign_length:
  "json_no_shorter env \<Longrightarrow> p11_sign env pid data m = (Ok sig, m') \<Longrightarrow> length sig < 2 ^ 32"
  by (fastforce simp: json_no_shorter_def dest: p11_sign_Ok)

section \<open>A connection that the daemon has closed\<close>

definition spent :: "p11_env \<Rightarrow> p11_module \<Rightarrow> bool" where
  "spent env m \<longleftrightarrow> (\<exists>st. md_connection m = Some st \<and> sm_in st = [])"

definition json_total :: "p11_env \<Rightarrow> bool" where
  "json_total env \<longleftrightarrow> (\<forall>q. \<exists>body. pe_request_to_vec env q = Ok body)"

lemma spent_calls:
  assumes "spent env m" and "json_total env"
  shows "\<exists>m'. p11_list_certs env m = (Err Unavailable, m') \<and> spent env m'"
    and "\<exists>m'. p11_sign env pid data m = (Err Unavailable, m') \<and> spent env m'"
proof -
  have c: "\<exists>m'. p11.call env q m = (Err Unavailable, m') \<and> spent env m'" for q
  proof -
    obtain body where "pe_request_to_vec env q = Ok body" using assms(2) by (auto simp: json_total_def)
    then show ?thesis
      using assms(1) p11.call_closed [of m env q body]
      by (cases "p11.call env q m") (auto simp: spent_def)
  qed
  show "\<exists>m'. p11_list_certs env m = (Err Unavailable, m') \<and> spent env m'"
    using c [of P11ListCerts] by (auto simp: p11_list_certs_call)
  show "\<exists>m'. p11_sign env pid data m = (Err Unavailable, m') \<and> spent env m'"
    using c [of "P11Sign pid data"] by (auto simp: p11_sign_call)
qed

lemma spent_sign:
  assumes "spent env m" and "json_total env"
  shows "\<exists>rv m'. C_Sign env d sn l m = (Ok (rv, None, None), m') \<and> rv \<noteq> CKR_OK \<and> spent env m'"
proof (cases "d = None \<or> l = None \<or> md_sign_handle m = None")
  case True
  with assms(1) show ?thesis by (auto simp: C_Sign_def ckr_defs split: option.splits)
next
  case False
  then obtain data len h where d: "d = Some data" "l = Some len" "md_sign_handle m = Some h" by auto
  obtain m2 where "p11_sign env (pe_process_id env) data m = (Err Unavailable, m2)" "spent env m2"
    using spent_calls(2) [OF assms] by blast
  with d show ?thesis by (simp add: C_Sign_def ckr_defs)
qed

lemma spent_step:
  assumes "p11_step env m c r m'" and "spent env m" and "json_total env" and "c \<noteq> Finalize"
  shows "spent env m' \<and> (\<forall>rv s n. r = Signed rv s n \<longrightarrow> rv \<noteq> CKR_OK \<and> s = None)"
proof -
  obtain m1 where m1: "p11_list_certs env m = (Err Unavailable, m1)" "spent env m1"
    using spent_calls(1) [OF assms(2,3)] by blast
  have keep: "spent env (k\<lparr>md_certs := cs, md_initialised := b\<rparr>)" "spent env (k\<lparr>md_certs := cs, md_find_position := p\<rparr>)"
    "spent env (k\<lparr>md_find_position := p\<rparr>)" "spent env (k\<lparr>md_sign_handle := h\<rparr>)" if "spent env k" for k cs b p h
    using that by (simp_all add: spent_def)
  from assms(1) show ?thesis
  proof cases
    case (SignData d sn l rv s n)
    obtain rv' m2 where "C_Sign env d sn l m = (Ok (rv', None, None), m2)" "rv' \<noteq> CKR_OK" "spent env m2"
      using spent_sign [OF assms(2,3)] by blast
    with SignData show ?thesis by simp
  next
    case (Initialize rv)
    then show ?thesis using m1 keep(1) by (simp add: C_Initialize_def unwrap_or_def obind_def) auto
  next
    case (FindObjectsInit rv)
    then show ?thesis using m1 keep(2) by (simp add: C_FindObjectsInit_def unwrap_or_def obind_def) auto
  next
    case (FindObjects on n cn rv hs c)
    then show ?thesis using assms(2) keep(3) by (simp add: C_FindObjects_def Let_def split: if_splits) auto
  next
    case (GetAttributeValue h rv)
    then show ?thesis using assms(2) by (simp add: C_GetAttributeValue_def)
  next
    case (SignInit h rv)
    then show ?thesis using assms(2) keep(4) by (simp add: C_SignInit_def split: if_splits) auto
  qed (use assms(4) in simp)
qed

lemma spent_trace:
  "p11_trace env m cs m' \<Longrightarrow> spent env m \<Longrightarrow> json_total env \<Longrightarrow> Finalize \<notin> fst ` set cs \<Longrightarrow>
   \<forall>rv s n. Signed rv s n \<in> snd ` set cs \<longrightarrow> rv \<noteq> CKR_OK \<and> s = None"
proof (induction rule: p11_trace.induct)
  case (Call m c r m' cs m'')
  have "c \<noteq> Finalize" using Call.prems(3) by auto
  note step = spent_step [OF Call.hyps(1) Call.prems(1,2) this]
  have rest: "\<forall>rv s n. Signed rv s n \<in> snd ` set cs \<longrightarrow> rv \<noteq> CKR_OK \<and> s = None"
    using Call.IH step Call.prems(2,3) by simp
  show ?case
  proof (intro allI impI)
    fix rv s n
    assume "Signed rv s n \<in> snd ` set ((c, r) # cs)"
    then consider "r = Signed rv s n" | "Signed rv s n \<in> snd ` set cs" by auto
    then show "rv \<noteq> CKR_OK \<and> s = None" using step rest by cases blast+
  qed
qed simp

lemma exchange_spends:
  assumes "md_connection m = Some st" and "sm_in st = frame body" and "length body < 2 ^ 32"
    and "pe_request_to_vec env P11ListCerts = Ok q" and "pe_response_from_slice env body \<noteq> Panic"
  shows "spent env (snd (p11_list_certs env m)) \<or> sm_broken st"
proof (cases "sm_broken st")
  case False
  let ?m = "m\<lparr>md_connection := Some (st\<lparr>sm_out := sm_out st @ frame q\<rparr>)\<rparr>"
  have s: "p11_send_request env P11ListCerts m = (Ok (), ?m)"
    using assms(1,4) False by (simp add: p11_send_connected)
  have "p11_recv_response env ?m = (map_err (\<lambda>_. Protocol) (pe_response_from_slice env body),
      ?m\<lparr>md_connection := Some (st\<lparr>sm_out := sm_out st @ frame q, sm_in := []\<rparr>)\<rparr>)"
    using assms(2,3) by (subst p11_recv_frame [of _ "st\<lparr>sm_out := sm_out st @ frame q\<rparr>" body "[]"]) simp_all
  with s show ?thesis
    by (cases "pe_response_from_slice env body")
      (auto simp: p11_list_certs_def obind_def spent_def split: p11_response.splits)
qed simp

section \<open>A sample environment\<close>

definition demo_info :: "string \<Rightarrow> cert_info" where
  "demo_info i = \<lparr>ci_id = i, ci_label = i, ci_cert_der = [], ci_fingerprint = i\<rparr>"

definition demo_p11 :: p11_env where
  "demo_p11 = \<lparr>pe_connect = (\<lambda>name. Ok \<lparr>sm_in = [], sm_out = [], sm_broken = False\<rparr>), pe_process_id = 7,
     pe_request_to_vec = (\<lambda>q. Ok [1]),
     pe_response_from_slice = (\<lambda>b. Ok (if b = [] then P11Certs [demo_info ''c1'', demo_info ''c2'']
        else P11Signature ''c1'' b))\<rparr>"

text \<open>The module with a connection on which the daemon answers as given.\<close>

definition demo_module :: "bytes \<Rightarrow> p11_module" where
  "demo_module answer = p11_start\<lparr>md_connection := Some \<lparr>sm_in = answer, sm_out = [], sm_broken = False\<rparr>\<rparr>"

definition demo_listed :: p11_module where
  "demo_listed = (demo_module [])\<lparr>md_connection := Some \<lparr>sm_in = [], sm_out = frame [1], sm_broken = False\<rparr>,
     md_certs := [p11_cert_of 0 (demo_info ''c1''), p11_cert_of 1 (demo_info ''c2'')]\<rparr>"

lemma demo_list:
  "p11_list_certs demo_p11 (demo_module (frame [])) = (Ok (md_certs demo_listed), demo_listed\<lparr>md_certs := []\<rparr>)"
proof -
  let ?st = "\<lparr>sm_in = frame [], sm_out = [], sm_broken = False\<rparr>"
  have s: "p11_send_request demo_p11 P11ListCerts (demo_module (frame [])) =
      (Ok (), p11_start\<lparr>md_connection := Some (?st\<lparr>sm_out := frame [1]\<rparr>)\<rparr>)"
    by (subst p11_send_connected [of _ ?st _ _ "[1]"]) (simp_all add: demo_module_def demo_p11_def)
  have r: "p11_recv_response demo_p11 (p11_start\<lparr>md_connection := Some (?st\<lparr>sm_out := frame [1]\<rparr>)\<rparr>) =
      (Ok (P11Certs [demo_info ''c1'', demo_info ''c2'']),
       p11_start\<lparr>md_connection := Some \<lparr>sm_in = [], sm_out = frame [1], sm_broken = False\<rparr>\<rparr>)"
    by (subst p11_recv_frame [of _ "?st\<lparr>sm_out := frame [1]\<rparr>" "[]" "[]"]) (simp_all add: demo_p11_def)
  show ?thesis
    unfolding p11_list_certs_def obind_def s prod.case res.case r p11_response.case
    by (simp add: demo_listed_def demo_module_def upt_rec p11_start_def)
qed

lemma demo_init: "p11_step demo_p11 (demo_module (frame [])) FindObjectsInit (Returned CKR_OK) demo_listed"
  by (rule p11_step.FindObjectsInit)
    (simp add: C_FindObjectsInit_def unwrap_or_def obind_def demo_list, simp add: demo_listed_def demo_module_def p11_start_def)

section \<open>Properties\<close>

text \<open>
  C21. Every object is found: after \<open>C_FindObjectsInit\<close>, the calls of \<open>C_FindObjects\<close>, however many
  objects each of them asks for, together return the handles from 0 on without gap or repetition,
  two for each certificate and all of them once enough are asked for, and every handle is accepted
  by \<open>C_SignInit\<close>.
\<close>

theorem find_enumerates:
  assumes "p11_trace env m ((FindObjectsInit, r) # cs) m'" and "\<forall>c\<in>fst ` set cs. is_find c"
    and "length (md_certs m') * 2 \<le> 2 ^ 64"
  shows "handles cs = map of_nat [0..<min (length (md_certs m') * 2) (asked cs)] \<and> distinct (handles cs) \<and>
    (\<forall>h\<in>set (handles cs). fst (C_SignInit h m') = Ok CKR_OK) \<and>
    (length (md_certs m') * 2 \<le> asked cs \<longrightarrow>
       (\<forall>c\<in>set (md_certs m'). \<exists>h\<in>set (handles cs). cert_at m' h = Some c))"
proof -
  from assms(1) obtain m1 where m1: "p11_step env m FindObjectsInit r m1" "p11_trace env m1 cs m'"
    by (auto elim: trace_Cons)
  then have "md_find_position m1 = 0"
    by (auto elim!: find_init_step simp: C_FindObjectsInit_def obind_Ok_iff)
  with finds_enumerate [OF m1(2) assms(2)]
  have h: "handles cs = map of_nat [0..<min (length (md_certs m') * 2) (asked cs)]" by simp
  have u: "unat (of_nat i :: ck_ulong) = i" if "i < length (md_certs m') * 2" for i
    using that assms(3) by (simp add: unat_of_nat)
  have "inj_on (of_nat :: nat \<Rightarrow> ck_ulong) {0..<min (length (md_certs m') * 2) (asked cs)}"
    by (rule inj_on_inverseI [of _ unat]) (simp add: u)
  then have "distinct (handles cs)" by (simp add: h distinct_map)
  moreover have at: "cert_at m' (of_nat i) = Some (md_certs m' ! (i div 2))" if "i < length (md_certs m') * 2" for i
    using that assms(3) by (rule cert_at_handle)
  then have "\<forall>h\<in>set (handles cs). fst (C_SignInit h m') = Ok CKR_OK" by (auto simp: h C_SignInit_def)
  moreover have "\<exists>h\<in>set (handles cs). cert_at m' h = Some c"
    if "c \<in> set (md_certs m')" "length (md_certs m') * 2 \<le> asked cs" for c
  proof -
    note c = that
    obtain i where "i < length (md_certs m')" "c = md_certs m' ! i" using c(1) by (auto simp: in_set_conv_nth)
    moreover from this c(2) have "(of_nat (2 * i) :: ck_ulong) \<in> set (handles cs)"
      unfolding h set_map by (intro imageI) simp
    ultimately show ?thesis using at [of "2 * i"] by (intro bexI [of _ "of_nat (2 * i)"]) simp_all
  qed
  ultimately show ?thesis using h by blast
qed

theorem find_enumerates_witness:
  "\<exists>m' c d. p11_trace demo_p11 (demo_module (frame [])) ((FindObjectsInit, Returned CKR_OK) #
       [(FindObjects False 3 False, Found CKR_OK [0, 1, 2] c), (FindObjects False 3 False, Found CKR_OK [3] d)]) m' \<and>
     handles [(FindObjects False 3 False, Found CKR_OK [0, 1, 2] c), (FindObjects False 3 False, Found CKR_OK [3] d)] = [0, 1, 2, 3] \<and>
     (\<forall>h\<in>{0, 1, 2, 3}. fst (C_SignInit h m') = Ok CKR_OK)"
proof -
  let ?m1 = "demo_listed\<lparr>md_find_position := 3\<rparr>" and ?m2 = "demo_listed\<lparr>md_find_position := 4\<rparr>"
  let ?cs = "[(FindObjects False 3 False, Found CKR_OK [0, 1, 2] (Some 3)), (FindObjects False 3 False, Found CKR_OK [3] (Some 1))]"
  have c: "length (md_certs demo_listed) = 2" "md_find_position demo_listed = 0"
    by (simp_all add: demo_listed_def demo_module_def p11_start_def)
  have f: "p11_step demo_p11 demo_listed (FindObjects False 3 False) (Found CKR_OK [0, 1, 2] (Some 3)) ?m1"
    "p11_step demo_p11 ?m1 (FindObjects False 3 False) (Found CKR_OK [3] (Some 1)) ?m2"
    by (rule p11_step.FindObjects, simp add: C_FindObjects_def find_loop_eq Let_def c upt_rec)+
  note t = p11_trace.Call [OF demo_init p11_trace.Call [OF f(1) p11_trace.Call [OF f(2) p11_trace.Done]]]
  have "handles ?cs = [0, 1, 2, 3]" by (simp add: handles_def)
  with find_enumerates [OF t] t show ?thesis
    by (intro exI [of _ ?m2] exI [of _ "Some 3"] exI [of _ "Some 1"]) (simp add: c is_find_def)
qed

text \<open>
  C33. The module never reaches the daemon: the name of the socket starts with a NUL byte, which
  \<open>UnixStream::connect\<close> refuses, so whatever a process does with a freshly loaded module, in whatever
  environment, no search finds an object and no data is signed.
\<close>

theorem module_never_connects:
  assumes "p11_trace env p11_start cs m" and "(c, r) \<in> set cs"
  shows "gives_nothing r"
proof -
  have "bare_module p11_start" by (simp add: bare_module_def p11_start_def)
  from bare_trace [OF assms(1) this] assms(2) show ?thesis by force
qed

theorem module_never_connects_witness:
  "\<exists>m. p11_trace demo_p11 p11_start [(Initialize, Returned CKR_OK), (FindObjects False 9 False, Found CKR_OK [] (Some 0))] m \<and>
     gives_nothing (Found CKR_OK [] (Some 0))"
proof -
  let ?m = "p11_start\<lparr>md_certs := [], md_initialised := True\<rparr>"
  have a: "p11_step demo_p11 p11_start Initialize (Returned CKR_OK) ?m"
    by (rule p11_step.Initialize) (simp add: C_Initialize_def unwrap_or_def disconnected_calls p11_start_def obind_def)
  have b: "p11_step demo_p11 ?m (FindObjects False 9 False) (Found CKR_OK [] (Some 0)) ?m"
    by (rule p11_step.FindObjects) (simp add: C_FindObjects_def find_loop_eq Let_def p11_start_def)
  note t = p11_trace.Call [OF a p11_trace.Call [OF b p11_trace.Done]]
  from module_never_connects [OF t] t show ?thesis by auto
qed

text \<open>
  C34. Signing respects the caller's buffer: a call succeeds exactly when the daemon returned a
  signature for this data and either no buffer was given or the signature fits into it; then the
  length written back is the signature's, and the buffer receives the whole signature. In every
  other case neither is touched.
\<close>

theorem sign_fits_buffer:
  assumes "json_no_shorter env" and "p11_step env m (SignData d signature_null len_in) (Signed rv s n) m'"
  shows "(rv = CKR_OK \<and> (\<exists>data len sig. d = Some data \<and> len_in = Some len \<and> md_sign_handle m \<noteq> None \<and>
        p11_sign env (pe_process_id env) data m = (Ok sig, m') \<and> n = Some (of_nat (length sig)) \<and>
        unat (of_nat (length sig) :: ck_ulong) = length sig \<and>
        s = (if signature_null then None else Some sig) \<and> (signature_null \<or> length sig \<le> unat len))) \<or>
    (rv \<noteq> CKR_OK \<and> s = None \<and> n = None)"
proof (cases "d = None \<or> len_in = None \<or> md_sign_handle m = None")
  case True
  with assms(2) show ?thesis
    by (auto elim!: sign_step simp: C_Sign_def ckr_defs split: option.splits)
next
  case False
  then obtain data len h where d: "d = Some data" "len_in = Some len" "md_sign_handle m = Some h" by auto
  obtain r m2 where s: "p11_sign env (pe_process_id env) data m = (r, m2)" by force
  show ?thesis
  proof (cases r)
    case (Ok sig)
    have small: "length sig < 2 ^ 64" using p11_sign_length [OF assms(1) s [unfolded Ok]] by simp
    then have "unat (of_nat (length sig) :: ck_ulong) = length sig" by (simp add: unat_of_nat)
    then have "of_nat (length sig) \<le> len \<longleftrightarrow> length sig \<le> unat len" by (simp add: word_le_nat_alt)
    with assms(2) d s Ok \<open>unat _ = _\<close> show ?thesis
      by (auto elim!: sign_step simp: C_Sign_def ckr_defs split: if_splits)
  qed (use assms(2) d s in \<open>auto elim!: sign_step simp: C_Sign_def ckr_defs\<close>)
qed

lemma demo_sign:
  "p11_step demo_p11 ((demo_module (frame [5, 6]))\<lparr>md_sign_handle := Some 1\<rparr>) (SignData (Some [9]) False (Some 2))
     (Signed CKR_OK (Some [5, 6]) (Some 2)) ((demo_module [])\<lparr>md_sign_handle := Some 1,
       md_connection := Some \<lparr>sm_in = [], sm_out = frame [1], sm_broken = False\<rparr>\<rparr>)"
proof -
  let ?st = "\<lparr>sm_in = frame [5, 6], sm_out = [], sm_broken = False\<rparr>"
  let ?m = "(demo_module (frame [5, 6]))\<lparr>md_sign_handle := Some 1\<rparr>"
  have c: "md_connection ?m = Some ?st" by (simp add: demo_module_def)
  have "p11.call demo_p11 (P11Sign 7 [9]) ?m = (Ok (P11Signature ''c1'' [5, 6]),
      ?m\<lparr>md_connection := Some (?st\<lparr>sm_out := frame [1], sm_in := []\<rparr>)\<rparr>)"
    using p11.call_ok [of ?m demo_p11 "P11Sign 7 [9]" "[1]" "[5, 6]" "[]"] c by (simp add: demo_p11_def)
  then have "p11_sign demo_p11 7 [9] ?m = (Ok [5, 6], ?m\<lparr>md_connection := Some (?st\<lparr>sm_out := frame [1], sm_in := []\<rparr>)\<rparr>)"
    by (simp add: p11_sign_call)
  then show ?thesis
    by (intro p11_step.SignData) (simp add: C_Sign_def demo_p11_def demo_module_def)
qed

theorem sign_fits_buffer_witness:
  "json_no_shorter demo_p11 \<and> (\<exists>m m' s n. p11_step demo_p11 m (SignData (Some [9]) False (Some 2)) (Signed CKR_OK (Some s) n) m' \<and>
     length s \<le> 2)"
proof -
  have j: "json_no_shorter demo_p11" by (auto simp: json_no_shorter_def demo_p11_def split: if_splits)
  from sign_fits_buffer [OF j demo_sign] j demo_sign show ?thesis by (auto intro!: exI)
qed

text \<open>
  The key does not matter: \<open>C_Sign\<close> gives the same answer whichever object \<open>C_SignInit\<close> was
  called for. The request carries only the process identifier and the data, and the identifier of
  the certificate in the daemon's answer is dropped, so the signature may belong to another
  certificate than the one the TLS stack selected.
\<close>

theorem sign_ignores_key:
  "fst (C_Sign env d signature_null len_in (m\<lparr>md_sign_handle := Some h\<rparr>)) =
   fst (C_Sign env d signature_null len_in (m\<lparr>md_sign_handle := Some h'\<rparr>))"
  by (cases d; cases len_in; cases "p11_sign env (pe_process_id env) (the d) m"; cases "fst (p11_sign env (pe_process_id env) (the d) m)")
    (auto simp: C_Sign_def p11_sign_with_key)



end
