(* ===== verification/Cli_Client.thy ===== *)
theory Cli_Client
  imports Client Ipc
begin

text \<open>
  \<open>crates/cone-cli/src/client.rs\<close>: the command line tool's connection to the daemon. Its messages
  are types of their own, with the constructors and fields of the daemon's.
\<close>

section \<open>Messages\<close>

datatype cli_request = CliPing | CliSign u32 bytes | CliListCerts | CliStatusRequest | CliLockRequest

record cli_cert_summary =
  cc_id :: string
  cc_label :: string
  cc_fingerprint :: string
  cc_subject :: string
  cc_not_after :: int

datatype cli_response = CliPong | CliSignature string bytes | CliCerts "cli_cert_summary list"
  | CliStatus bool nat | CliOk | CliError string

record daemon_status =
  ds_locked :: bool
  ds_cert_count :: nat

text \<open>\<open>serde_json\<close> on the two types.\<close>

record client_json =
  cli_request_to_vec :: "cli_request \<Rightarrow> (bytes, string) res"
  cli_response_from_slice :: "bytes \<Rightarrow> (cli_response, string) res"

subsection \<open>Derived \<open>Debug\<close>\<close>

text \<open>
  \<open>format!("{:?}", ..)\<close> of a string, a list and a response. Of the characters that a string escapes,
  quotes, backslashes, tabs and line ends are translated.
\<close>

definition debug_char :: "char \<Rightarrow> string" where
  "debug_char c =
     (if c = CHR 0x22 \<or> c = CHR 0x5C then [CHR 0x5C, c]
      else if c = CHR 0x0A then [CHR 0x5C, CHR ''n'']
      else if c = CHR 0x0D then [CHR 0x5C, CHR ''r'']
      else if c = CHR 0x09 then [CHR 0x5C, CHR ''t''] else [c])"

definition debug_str :: "string \<Rightarrow> string" where
  "debug_str s = CHR 0x22 # concat (map debug_char s) @ [CHR 0x22]"

fun commas :: "string list \<Rightarrow> string" where
  "commas [] = []"
| "commas [s] = s"
| "commas (s # ss) = s @ '', '' @ commas ss"

definition debug_list :: "string list \<Rightarrow> string" where
  "debug_list ss = ''['' @ commas ss @ '']''"

definition debug_cert_summary :: "cli_cert_summary \<Rightarrow> string" where
  "debug_cert_summary c = ''CertSummary { id: '' @ debug_str (cc_id c) @ '', label: '' @ debug_str (cc_label c)
     @ '', fingerprint: '' @ debug_str (cc_fingerprint c) @ '', subject: '' @ debug_str (cc_subject c)
     @ '', not_after: '' @ show_int (cc_not_after c) @ '' }''"

fun debug_response :: "cli_response \<Rightarrow> string" where
  "debug_response CliPong = ''Pong''"
| "debug_response (CliSignature cid sig) = ''Signature { cert_id: '' @ debug_str cid @ '', signature: ''
     @ debug_list (map (\<lambda>b. dec (unat b)) sig) @ '' }''"
| "debug_response (CliCerts cs) = ''Certs { certs: '' @ debug_list (map debug_cert_summary cs) @ '' }''"
| "debug_response (CliStatus locked n) = ''Status { locked: '' @ (if locked then ''true'' else ''false'')
     @ '', cert_count: '' @ dec n @ '' }''"
| "debug_response CliOk = ''Ok''"
| "debug_response (CliError m) = ''Error { message: '' @ debug_str m @ '' }''"

section \<open>The client\<close>

record ipc_client =
  ic_stream :: stream

definition CLI_SOCKET_NAME :: string where
  "CLI_SOCKET_NAME = CHR 0x00 # ''traffic-cone-daemon''"

definition ipc_connect :: "(string \<Rightarrow> (stream, io_error) res) \<Rightarrow> (ipc_client, coned_error) res" where
  "ipc_connect sys_connect =
     rbind (with_context (''Failed to connect to coned. Is the Traffic Cone daemon running?'' @ [newline]
         @ ''Start it with: systemctl --user start coned'')
       (map_err FromIo (unix_connect sys_connect CLI_SOCKET_NAME)))
     (\<lambda>st. Ok \<lparr>ic_stream = st\<rparr>)"

definition on_client :: "(stream, 'a, coned_error) oper \<Rightarrow> (ipc_client, 'a, coned_error) oper" where
  "on_client f = (\<lambda>c. case f (ic_stream c) of (r, st) \<Rightarrow> (r, c\<lparr>ic_stream := st\<rparr>))"

definition cli_send :: "client_json \<Rightarrow> cli_request \<Rightarrow> (ipc_client, unit, coned_error) oper" where
  "cli_send js request =
     obind (lift_res (map_err JsonError (cli_request_to_vec js request))) (\<lambda>json.
     obind (on_client (stream_write_all (len_prefix json))) (\<lambda>_.
     on_client (stream_write_all json)))"

definition cli_recv :: "client_json \<Rightarrow> (ipc_client, cli_response, coned_error) oper" where
  "cli_recv js =
     obind (on_client (stream_read_exact 4)) (\<lambda>len_buf.
     obind (on_client (stream_read_exact (unat (from_be_bytes len_buf)))) (\<lambda>buf.
     lift_res (with_context ''Failed to parse daemon response'' (map_err JsonError (cli_response_from_slice js buf)))))"

definition ping :: "client_json \<Rightarrow> (ipc_client, unit, coned_error) oper" where
  "ping js =
     obind (cli_send js CliPing) (\<lambda>_.
     obind (cli_recv js) (\<lambda>resp. case resp of
       CliPong \<Rightarrow> ret ()
     | other \<Rightarrow> lift_res (Err (Message (''Unexpected response to ping: '' @ debug_response other)))))"

definition unexpected :: "cli_response \<Rightarrow> (ipc_client, 'a, coned_error) oper" where
  "unexpected resp = lift_res (Err (Message (case resp of
      CliError message \<Rightarrow> ''Daemon error: '' @ message
    | other \<Rightarrow> ''Unexpected response: '' @ debug_response other)))"

definition status :: "client_json \<Rightarrow> (ipc_client, daemon_status, coned_error) oper" where
  "status js =
     obind (cli_send js CliStatusRequest) (\<lambda>_.
     obind (cli_recv js) (\<lambda>resp. case resp of
       CliStatus locked n \<Rightarrow> ret \<lparr>ds_locked = locked, ds_cert_count = n\<rparr>
     | other \<Rightarrow> unexpected other))"

definition cli_lock :: "client_json \<Rightarrow> (ipc_client, unit, coned_error) oper" where
  "cli_lock js =
     obind (cli_send js CliLockRequest) (\<lambda>_.
     obind (cli_recv js) (\<lambda>resp. case resp of
       CliOk \<Rightarrow> ret ()
     | other \<Rightarrow> unexpected other))"

definition cli_list_certs :: "client_json \<Rightarrow> (ipc_client, cli_cert_summary list, coned_error) oper" where
  "cli_list_certs js =
     obind (cli_send js CliListCerts) (\<lambda>_.
     obind (cli_recv js) (\<lambda>resp. case resp of
       CliCerts cs \<Rightarrow> ret cs
     | other \<Rightarrow> unexpected other))"

section \<open>The tool as a client\<close>

lemma cli_send_apply:
  "cli_request_to_vec js q = Ok body \<Longrightarrow>
   cli_send js q c = (if sm_broken (ic_stream c) then (Err (FromIo BrokenPipe), c)
     else (Ok (), c\<lparr>ic_stream := (ic_stream c)\<lparr>sm_out := sm_out (ic_stream c) @ frame body\<rparr>\<rparr>))"
  by (cases c) (simp add: cli_send_def on_client_def obind_apply frame_def)

lemma cli_recv_frame:
  "sm_in (ic_stream c) = frame body @ rest \<Longrightarrow> length body < 2 ^ 32 \<Longrightarrow>
   cli_recv js c = (with_context ''Failed to parse daemon response'' (map_err JsonError (cli_response_from_slice js body)),
     c\<lparr>ic_stream := (ic_stream c)\<lparr>sm_in := rest\<rparr>\<rparr>)"
  by (simp add: cli_recv_def on_client_def obind_apply frame_def)

lemma cli_recv_eof:
  "sm_in (ic_stream c) = [] \<Longrightarrow> cli_recv js c = (Err EofError, c\<lparr>ic_stream := (ic_stream c)\<lparr>sm_in := []\<rparr>\<rparr>)"
  by (simp add: cli_recv_def on_client_def obind_apply stream_read_exact_def read_exact_def)

interpretation cli: rpc_client ic_stream "\<lambda>st c. c\<lparr>ic_stream := st\<rparr>" "\<lambda>_. True" "cli_send js" "cli_recv js"
  "cli_request_to_vec js" "cli_response_from_slice js" EofError "FromIo BrokenPipe"
  "\<lambda>e. WithContext ''Failed to parse daemon response'' (JsonError e)" for js
  by unfold_locales (auto simp: cli_send_apply cli_recv_frame cli_recv_eof with_context_def)

lemma client_calls:
  "status js = obind (cli.call js CliStatusRequest) (\<lambda>resp. case resp of
       CliStatus locked n \<Rightarrow> ret \<lparr>ds_locked = locked, ds_cert_count = n\<rparr> | other \<Rightarrow> unexpected other)"
  "cli_lock js = obind (cli.call js CliLockRequest) (\<lambda>resp. case resp of CliOk \<Rightarrow> ret () | other \<Rightarrow> unexpected other)"
  "cli_list_certs js = obind (cli.call js CliListCerts) (\<lambda>resp. case resp of
       CliCerts cs \<Rightarrow> ret cs | other \<Rightarrow> unexpected other)"
  by (rule ext, simp add: status_def cli_lock_def cli_list_certs_def cli.call_def obind_apply split: res.splits)+

lemma ipc_connect_fails:
  "ipc_connect sys = Err (WithContext (''Failed to connect to coned. Is the Traffic Cone daemon running?'' @ [newline]
     @ ''Start it with: systemctl --user start coned'') (FromIo InvalidInput))"
  by (simp add: ipc_connect_def CLI_SOCKET_NAME_def unix_connect_abstract with_context_def)

end
