(* ===== verification/Protocol.thy ===== *)
theory Protocol
  imports Cli_Client P11_Ipc
begin

text \<open>
  The messages of the daemon and of its two clients as JSON values, as \<open>serde\<close>'s derived code builds
  and reads them from the attributes of the types in \<open>coned/src/ipc.rs\<close>, \<open>cone-cli/src/client.rs\<close> and
  \<open>cone-p11/src/ipc.rs\<close>. The text form of a JSON value belongs to \<open>serde_json\<close> and is an argument.
\<close>

section \<open>JSON values\<close>

datatype json = JNull | JBool bool | JNum int | JStr string | JArr "json list" | JObj "(string \<times> json) list"

datatype json_error = MissingField string | DuplicateField string | UnknownVariant string | InvalidType
  | OutOfRange

record json_text =
  json_print :: "json \<Rightarrow> bytes"
  json_parse :: "bytes \<Rightarrow> (json, string) res"
  json_error_text :: "json_error \<Rightarrow> string"

text \<open>A value whose text \<open>serde_json\<close> reads back as that value.\<close>

definition reads_back :: "json_text \<Rightarrow> json \<Rightarrow> bool" where
  "reads_back tx j \<longleftrightarrow> json_parse tx (json_print tx j) = Ok j"

section \<open>Reading\<close>

text \<open>
  A derived struct reader takes each of its fields once, ignores fields it does not know and reports
  those that are missing; a derived reader of an enum with a tag reads the tag first.
\<close>

definition field :: "string \<Rightarrow> (string \<times> json) list \<Rightarrow> (json, json_error) res" where
  "field k fs = (case filter (\<lambda>f. fst f = k) fs of
      [] \<Rightarrow> Err (MissingField k)
    | [f] \<Rightarrow> Ok (snd f)
    | _ \<Rightarrow> Err (DuplicateField k))"

fun read_str :: "json \<Rightarrow> (string, json_error) res" where
  "read_str (JStr s) = Ok s"
| "read_str _ = Err InvalidType"

fun read_bool :: "json \<Rightarrow> (bool, json_error) res" where
  "read_bool (JBool b) = Ok b"
| "read_bool _ = Err InvalidType"

fun read_int :: "int \<Rightarrow> int \<Rightarrow> json \<Rightarrow> (int, json_error) res" where
  "read_int lo hi (JNum n) = (if lo \<le> n \<and> n < hi then Ok n else Err OutOfRange)"
| "read_int lo hi _ = Err InvalidType"

definition read_u8 :: "json \<Rightarrow> (byte, json_error) res" where
  "read_u8 j = rbind (read_int 0 256 j) (\<lambda>n. Ok (of_int n))"

definition read_u32_json :: "json \<Rightarrow> (u32, json_error) res" where
  "read_u32_json j = rbind (read_int 0 (2 ^ 32) j) (\<lambda>n. Ok (of_int n))"

definition read_i64 :: "json \<Rightarrow> (int, json_error) res" where
  "read_i64 j = read_int (- (2 ^ 63)) (2 ^ 63) j"

definition read_usize :: "json \<Rightarrow> (nat, json_error) res" where
  "read_usize j = rbind (read_int 0 (2 ^ 64) j) (\<lambda>n. Ok (nat n))"

fun read_all :: "(json \<Rightarrow> ('a, json_error) res) \<Rightarrow> json list \<Rightarrow> ('a list, json_error) res" where
  "read_all f [] = Ok []"
| "read_all f (j # js) = rbind (f j) (\<lambda>x. rbind (read_all f js) (\<lambda>xs. Ok (x # xs)))"

fun read_vec :: "(json \<Rightarrow> ('a, json_error) res) \<Rightarrow> json \<Rightarrow> ('a list, json_error) res" where
  "read_vec f (JArr js) = read_all f js"
| "read_vec f _ = Err InvalidType"

definition at_field :: "string \<Rightarrow> (json \<Rightarrow> ('a, json_error) res) \<Rightarrow> (string \<times> json) list \<Rightarrow> ('a, json_error) res" where
  "at_field k f fs = rbind (field k fs) f"

fun fields_of :: "json \<Rightarrow> ((string \<times> json) list, json_error) res" where
  "fields_of (JObj fs) = Ok fs"
| "fields_of _ = Err InvalidType"

definition tagged :: "(string \<Rightarrow> (string \<times> json) list \<Rightarrow> ('a, json_error) res) \<Rightarrow> json \<Rightarrow> ('a, json_error) res" where
  "tagged f j = rbind (fields_of j) (\<lambda>fs. rbind (at_field ''type'' read_str fs) (\<lambda>tag.
     f tag (filter (\<lambda>x. fst x \<noteq> ''type'') fs)))"

section \<open>Writing\<close>

definition json_bytes :: "bytes \<Rightarrow> json" where
  "json_bytes bs = JArr (map (\<lambda>b. JNum (uint b)) bs)"

definition json_tagged :: "string \<Rightarrow> (string \<times> json) list \<Rightarrow> json" where
  "json_tagged tag fs = JObj ((''type'', JStr tag) # fs)"

section \<open>The daemon's messages\<close>

definition request_of_json :: "json \<Rightarrow> (request, json_error) res" where
  "request_of_json = tagged (\<lambda>tag fs.
     if tag = ''Ping'' then Ok Ping
     else if tag = ''Sign'' then rbind (at_field ''pid'' read_u32_json fs) (\<lambda>pid.
       rbind (at_field ''data'' (read_vec read_u8) fs) (\<lambda>data. Ok (Sign pid data)))
     else if tag = ''ListCerts'' then Ok ListCerts
     else if tag = ''Status'' then Ok StatusRequest
     else if tag = ''Lock'' then Ok LockRequest
     else Err (UnknownVariant tag))"

definition json_of_cert_summary :: "cert_summary \<Rightarrow> json" where
  "json_of_cert_summary c = JObj [(''id'', JStr (cs_id c)), (''label'', JStr (cs_label c)),
     (''fingerprint'', JStr (cs_fingerprint c)), (''subject'', JStr (cs_subject c)),
     (''not_after'', JNum (cs_not_after c))]"

fun json_of_response :: "response \<Rightarrow> json" where
  "json_of_response Pong = json_tagged ''Pong'' []"
| "json_of_response (Signature cid sig) =
     json_tagged ''Signature'' [(''cert_id'', JStr cid), (''signature'', json_bytes sig)]"
| "json_of_response (Certs cs) = json_tagged ''Certs'' [(''certs'', JArr (map json_of_cert_summary cs))]"
| "json_of_response (Status locked n) =
     json_tagged ''Status'' [(''locked'', JBool locked), (''cert_count'', JNum (int n))]"
| "json_of_response OkResponse = json_tagged ''Ok'' []"
| "json_of_response (Error m) = json_tagged ''Error'' [(''message'', JStr m)]"

definition coned_json :: "json_text \<Rightarrow> server_json" where
  "coned_json tx = \<lparr>
     request_from_slice = (\<lambda>bs. rbind (json_parse tx bs) (\<lambda>j. map_err (json_error_text tx) (request_of_json j))),
     response_to_vec = (\<lambda>r. Ok (json_print tx (json_of_response r)))\<rparr>"

section \<open>The command line tool's messages\<close>

fun json_of_cli_request :: "cli_request \<Rightarrow> json" where
  "json_of_cli_request CliPing = json_tagged ''Ping'' []"
| "json_of_cli_request (CliSign pid data) =
     json_tagged ''Sign'' [(''pid'', JNum (uint pid)), (''data'', json_bytes data)]"
| "json_of_cli_request CliListCerts = json_tagged ''ListCerts'' []"
| "json_of_cli_request CliStatusRequest = json_tagged ''Status'' []"
| "json_of_cli_request CliLockRequest = json_tagged ''Lock'' []"

definition cli_cert_summary_of_json :: "json \<Rightarrow> (cli_cert_summary, json_error) res" where
  "cli_cert_summary_of_json j = rbind (fields_of j) (\<lambda>fs.
     rbind (at_field ''id'' read_str fs) (\<lambda>i.
     rbind (at_field ''label'' read_str fs) (\<lambda>label.
     rbind (at_field ''fingerprint'' read_str fs) (\<lambda>fingerprint.
     rbind (at_field ''subject'' read_str fs) (\<lambda>subject.
     rbind (at_field ''not_after'' read_i64 fs) (\<lambda>not_after.
     Ok \<lparr>cc_id = i, cc_label = label, cc_fingerprint = fingerprint, cc_subject = subject,
         cc_not_after = not_after\<rparr>))))))"

definition cli_response_of_json :: "json \<Rightarrow> (cli_response, json_error) res" where
  "cli_response_of_json = tagged (\<lambda>tag fs.
     if tag = ''Pong'' then Ok CliPong
     else if tag = ''Signature'' then rbind (at_field ''cert_id'' read_str fs) (\<lambda>cid.
       rbind (at_field ''signature'' (read_vec read_u8) fs) (\<lambda>sig. Ok (CliSignature cid sig)))
     else if tag = ''Certs'' then
       rbind (at_field ''certs'' (read_vec cli_cert_summary_of_json) fs) (\<lambda>cs. Ok (CliCerts cs))
     else if tag = ''Status'' then rbind (at_field ''locked'' read_bool fs) (\<lambda>locked.
       rbind (at_field ''cert_count'' read_usize fs) (\<lambda>n. Ok (CliStatus locked n)))
     else if tag = ''Ok'' then Ok CliOk
     else if tag = ''Error'' then rbind (at_field ''message'' read_str fs) (\<lambda>m. Ok (CliError m))
     else Err (UnknownVariant tag))"

definition cone_json :: "json_text \<Rightarrow> client_json" where
  "cone_json tx = \<lparr>
     cli_request_to_vec = (\<lambda>q. Ok (json_print tx (json_of_cli_request q))),
     cli_response_from_slice = (\<lambda>bs. rbind (json_parse tx bs) (\<lambda>j.
       map_err (json_error_text tx) (cli_response_of_json j)))\<rparr>"

section \<open>The PKCS\#11 module's messages\<close>

fun json_of_p11_request :: "p11_request \<Rightarrow> json" where
  "json_of_p11_request P11ListCerts = json_tagged ''ListCerts'' []"
| "json_of_p11_request (P11Sign pid data) =
     json_tagged ''Sign'' [(''pid'', JNum (uint pid)), (''data'', json_bytes data)]"

definition cert_info_of_json :: "json \<Rightarrow> (cert_info, json_error) res" where
  "cert_info_of_json j = rbind (fields_of j) (\<lambda>fs.
     rbind (at_field ''id'' read_str fs) (\<lambda>i.
     rbind (at_field ''label'' read_str fs) (\<lambda>label.
     rbind (at_field ''cert_der'' (read_vec read_u8) fs) (\<lambda>cert_der.
     rbind (at_field ''fingerprint'' read_str fs) (\<lambda>fingerprint.
     Ok \<lparr>ci_id = i, ci_label = label, ci_cert_der = cert_der, ci_fingerprint = fingerprint\<rparr>)))))"

definition p11_response_of_json :: "json \<Rightarrow> (p11_response, json_error) res" where
  "p11_response_of_json = tagged (\<lambda>tag fs.
     if tag = ''Certs'' then
       rbind (at_field ''certs'' (read_vec cert_info_of_json) fs) (\<lambda>cs. Ok (P11Certs cs))
     else if tag = ''Signature'' then rbind (at_field ''cert_id'' read_str fs) (\<lambda>cid.
       rbind (at_field ''signature'' (read_vec read_u8) fs) (\<lambda>sig. Ok (P11Signature cid sig)))
     else if tag = ''Error'' then rbind (at_field ''message'' read_str fs) (\<lambda>m. Ok (P11ErrorResponse m))
     else if tag = ''Pong'' then Ok P11Pong
     else if tag = ''Ok'' then Ok P11Ok
     else if tag = ''Status'' then rbind (at_field ''locked'' read_bool fs) (\<lambda>locked.
       rbind (at_field ''cert_count'' read_usize fs) (\<lambda>n. Ok (P11Status locked n)))
     else Err (UnknownVariant tag))"

end
