(* ===== verification/Protocol_Facts.thy ===== *)
theory Protocol_Facts
  imports Protocol
begin

text \<open>
  That the daemon and its two clients, which declare their messages separately, understand each
  other: what each request and each response is read as at the other end, and whole exchanges.
\<close>

section \<open>What a message means at the other end\<close>

fun request_of_cli :: "cli_request \<Rightarrow> request" where
  "request_of_cli CliPing = Ping"
| "request_of_cli (CliSign pid data) = Sign pid data"
| "request_of_cli CliListCerts = ListCerts"
| "request_of_cli CliStatusRequest = StatusRequest"
| "request_of_cli CliLockRequest = LockRequest"

fun request_of_p11 :: "p11_request \<Rightarrow> request" where
  "request_of_p11 P11ListCerts = ListCerts"
| "request_of_p11 (P11Sign pid data) = Sign pid data"

definition cli_cert_summary_of :: "cert_summary \<Rightarrow> cli_cert_summary" where
  "cli_cert_summary_of c = \<lparr>cc_id = cs_id c, cc_label = cs_label c, cc_fingerprint = cs_fingerprint c,
     cc_subject = cs_subject c, cc_not_after = cs_not_after c\<rparr>"

fun cli_response_of :: "response \<Rightarrow> cli_response" where
  "cli_response_of Pong = CliPong"
| "cli_response_of (Signature cid sig) = CliSignature cid sig"
| "cli_response_of (Certs cs) = CliCerts (map cli_cert_summary_of cs)"
| "cli_response_of (Status locked n) = CliStatus locked n"
| "cli_response_of OkResponse = CliOk"
| "cli_response_of (Error m) = CliError m"

fun p11_response_of :: "response \<Rightarrow> (p11_response, json_error) res" where
  "p11_response_of Pong = Ok P11Pong"
| "p11_response_of (Signature cid sig) = Ok (P11Signature cid sig)"
| "p11_response_of (Certs cs) = (if cs = [] then Ok (P11Certs []) else Err (MissingField ''cert_der''))"
| "p11_response_of (Status locked n) = Ok (P11Status locked n)"
| "p11_response_of OkResponse = Ok P11Ok"
| "p11_response_of (Error m) = Ok (P11ErrorResponse m)"

text \<open>The ranges of \<open>i64\<close> and \<open>usize\<close>, which the model's numbers do not have by themselves.\<close>

fun in_ranges :: "response \<Rightarrow> bool" where
  "in_ranges (Certs cs) \<longleftrightarrow> (\<forall>c\<in>set cs. - (2 ^ 63) \<le> cs_not_after c \<and> cs_not_after c < 2 ^ 63)"
| "in_ranges (Status locked n) \<longleftrightarrow> n < 2 ^ 64"
| "in_ranges _ \<longleftrightarrow> True"

section \<open>Reading what was written\<close>

lemma field_hit [simp]: "field k ((k, j) # fs) = (if \<exists>j'. (k, j') \<in> set fs then Err (DuplicateField k) else Ok j)"
  by (auto simp: field_def filter_empty_conv split: list.splits)
    (metis (mono_tags, lifting) filter_eq_Cons_iff in_set_conv_decomp prod.collapse)+

lemma field_miss [simp]: "k \<noteq> k' \<Longrightarrow> field k ((k', j) # fs) = field k fs"
  by (simp add: field_def)

lemma field_Nil [simp]: "field k [] = Err (MissingField k)"
  by (simp add: field_def)

lemma at_field_simps [simp]: "field k fs = Ok j \<Longrightarrow> at_field k f fs = f j"
  "field k fs = Err e \<Longrightarrow> at_field k f fs = Err e"
  by (simp_all add: at_field_def)

lemma tagged_json_tagged [simp]:
  "\<forall>x\<in>set fs. fst x \<noteq> ''type'' \<Longrightarrow> tagged f (json_tagged tag fs) = f tag fs"
proof -
  assume a: "\<forall>x\<in>set fs. fst x \<noteq> ''type''"
  then have "\<not> (\<exists>j. (''type'', j) \<in> set fs)" by auto
  with a show ?thesis by (simp add: tagged_def json_tagged_def filter_id_conv)
qed

lemma read_all_map: "(\<And>x. x \<in> set xs \<Longrightarrow> f (g x) = Ok (h x)) \<Longrightarrow> read_all f (map g xs) = Ok (map h xs)"
  by (induction xs) auto

lemma read_bytes [simp]: "read_vec read_u8 (json_bytes bs) = Ok bs"
proof -
  have "read_u8 (JNum (uint b)) = Ok b" for b :: byte
  proof -
    have "uint b < 2 ^ LENGTH(8)" by (rule unsigned_less)
    then show ?thesis by (simp add: read_u8_def)
  qed
  then show ?thesis by (simp add: json_bytes_def read_all_map [where h = "\<lambda>b. b"])
qed

lemma read_pid [simp]: "read_u32_json (JNum (uint pid)) = Ok pid"
proof -
  have "uint pid < 2 ^ LENGTH(32)" by (rule unsigned_less)
  then show ?thesis by (simp add: read_u32_json_def)
qed

lemma read_count [simp]: "n < 2 ^ 64 \<Longrightarrow> read_usize (JNum (int n)) = Ok n"
  by (simp add: read_usize_def)

lemma cli_request_read: "request_of_json (json_of_cli_request q) = Ok (request_of_cli q)"
  by (cases q) (simp_all add: request_of_json_def)

lemma p11_request_read: "request_of_json (json_of_p11_request q) = Ok (request_of_p11 q)"
  by (cases q) (simp_all add: request_of_json_def)

lemma cert_summary_read:
  "- (2 ^ 63) \<le> cs_not_after c \<Longrightarrow> cs_not_after c < 2 ^ 63 \<Longrightarrow>
   cli_cert_summary_of_json (json_of_cert_summary c) = Ok (cli_cert_summary_of c)"
  by (simp add: cli_cert_summary_of_json_def json_of_cert_summary_def cli_cert_summary_of_def read_i64_def)

lemma response_read: "in_ranges r \<Longrightarrow> cli_response_of_json (json_of_response r) = Ok (cli_response_of r)"
proof (cases r)
  case (Certs cs)
  assume "in_ranges r"
  with Certs show ?thesis
    by (simp add: cli_response_of_json_def read_all_map [where h = cli_cert_summary_of] cert_summary_read)
qed (simp_all add: cli_response_of_json_def)

lemma cert_info_missing: "cert_info_of_json (json_of_cert_summary c) = Err (MissingField ''cert_der'')"
  by (simp add: cert_info_of_json_def json_of_cert_summary_def)

lemma p11_response_read: "in_ranges r \<Longrightarrow> p11_response_of_json (json_of_response r) = p11_response_of r"
proof (cases r)
  case (Certs cs)
  then show ?thesis by (cases cs) (simp_all add: p11_response_of_json_def cert_info_missing)
qed (simp_all add: p11_response_of_json_def)

text \<open>The daemon's and the tool's codecs, composed.\<close>

lemma coned_reads_cli:
  "reads_back tx (json_of_cli_request q) \<Longrightarrow> cli_request_to_vec (cone_json tx) q = Ok body \<Longrightarrow>
   request_from_slice (coned_json tx) body = Ok (request_of_cli q)"
  by (auto simp: cone_json_def coned_json_def reads_back_def cli_request_read)

lemma cli_reads_coned:
  "reads_back tx (json_of_response r) \<Longrightarrow> in_ranges r \<Longrightarrow> response_to_vec (coned_json tx) r = Ok body \<Longrightarrow>
   cli_response_from_slice (cone_json tx) body = Ok (cli_response_of r)"
  by (auto simp: cone_json_def coned_json_def reads_back_def response_read)

text \<open>The module's codec, of which its environment is an argument.\<close>

definition cone_p11_json :: "json_text \<Rightarrow> p11_env \<Rightarrow> p11_env" where
  "cone_p11_json tx env = env\<lparr>pe_request_to_vec := (\<lambda>q. Ok (json_print tx (json_of_p11_request q))),
     pe_response_from_slice := (\<lambda>bs. rbind (json_parse tx bs) (\<lambda>j.
       map_err (json_error_text tx) (p11_response_of_json j)))\<rparr>"

section \<open>Properties\<close>

text \<open>
  C24. The command line tool and the daemon declare the protocol separately and agree on it: every
  request that the tool writes is read by the daemon as that request, and every response that
  the daemon writes is read by the tool as that response with the same fields.
\<close>

theorem cli_protocol:
  assumes "reads_back tx (json_of_cli_request q)" and "reads_back tx (json_of_response r)" and "in_ranges r"
  shows "rbind (cli_request_to_vec (cone_json tx) q) (request_from_slice (coned_json tx)) = Ok (request_of_cli q) \<and>
    rbind (response_to_vec (coned_json tx) r) (cli_response_from_slice (cone_json tx)) = Ok (cli_response_of r)"
  using coned_reads_cli [OF assms(1)] cli_reads_coned [OF assms(2,3)]
  by (simp add: cone_json_def coned_json_def)

text \<open>A text form of the messages of one exchange.\<close>

definition demo_text :: "json \<Rightarrow> json \<Rightarrow> json_text" where
  "demo_text request response = \<lparr>json_print = (\<lambda>j. if j = request then [1] else if j = response then [2] else []),
     json_parse = (\<lambda>bs. if bs = [1] then Ok request else if bs = [2] then Ok response else Err ''unexpected''),
     json_error_text = (\<lambda>e. case e of MissingField f \<Rightarrow> ''missing field '' @ f | _ \<Rightarrow> ''invalid'')\<rparr>"

lemma demo_text_reads_back: "reads_back (demo_text a b) a" "reads_back (demo_text a b) b"
  by (simp_all add: reads_back_def demo_text_def)

definition demo_summary :: cert_summary where
  "demo_summary = cert_summary_of (demo_cert ''c1'' ''work'')"

theorem cli_protocol_witness:
  "let tx = demo_text (json_of_cli_request CliListCerts) (json_of_response (Certs [demo_summary])) in
   rbind (cli_request_to_vec (cone_json tx) CliListCerts) (request_from_slice (coned_json tx)) = Ok ListCerts \<and>
   rbind (response_to_vec (coned_json tx) (Certs [demo_summary])) (cli_response_from_slice (cone_json tx)) =
     Ok (CliCerts [cli_cert_summary_of demo_summary])"
  using cli_protocol [OF demo_text_reads_back [of "json_of_cli_request CliListCerts" "json_of_response (Certs [demo_summary])"]]
  by (simp add: Let_def demo_summary_def cert_summary_of_def demo_cert_def)

text \<open>
  C25. The PKCS\#11 module's requests are understood, and so are a signature and an error, but its
  certificate type has a required field that the daemon's does not have: against this daemon
  \<open>list_certs\<close> succeeds only when the store holds no certificate, and any other list is a
  \<open>Protocol\<close> error.
\<close>

theorem p11_protocol:
  assumes "reads_back tx (json_of_p11_request q)" and "reads_back tx (json_of_response r)" and "in_ranges r"
    and "md_connection m = Some st" and "\<not> sm_broken st" and "length (json_print tx (json_of_response r)) < 2 ^ 32"
    and "sm_in st = frame (json_print tx (json_of_response r))"
  shows "rbind (pe_request_to_vec (cone_p11_json tx env) q) (request_from_slice (coned_json tx)) = Ok (request_of_p11 q) \<and>
    fst (p11_sign (cone_p11_json tx env) pid data m) = (case r of
        Signature cid sig \<Rightarrow> Ok sig | Error message \<Rightarrow> Err (DaemonError message) | _ \<Rightarrow> Err Protocol) \<and>
    fst (p11_list_certs (cone_p11_json tx env) m) = (case r of
        Certs cs \<Rightarrow> if cs = [] then Ok [] else Err Protocol
      | Error message \<Rightarrow> Err (DaemonError message) | _ \<Rightarrow> Err Protocol)"
proof -
  let ?env = "cone_p11_json tx env" and ?st = "the (md_connection m)"
  have q: "pe_request_to_vec ?env q = Ok (json_print tx (json_of_p11_request q))" for q
    by (simp add: cone_p11_json_def)
  have d: "pe_response_from_slice ?env (json_print tx (json_of_response r)) = map_err (json_error_text tx) (p11_response_of r)"
    using assms(2,3) by (simp add: cone_p11_json_def reads_back_def p11_response_read)
  have i: "sm_in ?st = frame (json_print tx (json_of_response r)) @ []" "md_connection m \<noteq> None" "\<not> sm_broken ?st"
    using assms(4,5,7) by simp_all
  have c: "fst (p11.call ?env q m) = map_err (\<lambda>_. Protocol) (p11_response_of r)" for q
  proof (cases "p11_response_of r")
    case (Ok x)
    then show ?thesis using p11.call_ok [OF i(2,3) q i(1) assms(6), of x] d by simp
  next
    case (Err e)
    then show ?thesis using p11.call_garbled [OF i(2,3) q i(1) assms(6)] d by simp
  qed (cases r, simp_all split: if_splits)
  have f: "fst (obind op f m) = (case fst (op m) of Ok x \<Rightarrow> fst (f x (snd (op m))) | Err e \<Rightarrow> Err e | Panic \<Rightarrow> Panic)"
    for op :: "(p11_module, p11_response, p11_error) oper" and f :: "p11_response \<Rightarrow> (p11_module, 'x, p11_error) oper"
    by (simp add: obind_apply split_beta split: res.splits)
  have "request_from_slice (coned_json tx) (json_print tx (json_of_p11_request q)) = Ok (request_of_p11 q)"
    using assms(1) by (simp add: coned_json_def reads_back_def p11_request_read)
  then show ?thesis
    by (cases r) (simp_all add: p11_sign_call p11_list_certs_call f c q)
qed

definition demo_env :: p11_env where
  "demo_env = \<lparr>pe_connect = (\<lambda>_. Err NotFoundIo), pe_process_id = 7, pe_request_to_vec = (\<lambda>_. Ok []),
     pe_response_from_slice = (\<lambda>_. Err ''unexpected'')\<rparr>"

theorem p11_protocol_witness:
  "fst (p11_list_certs (cone_p11_json (demo_text (json_of_p11_request P11ListCerts)
      (json_of_response (Certs [demo_summary]))) demo_env)
     \<lparr>md_initialised = True, md_certs = [], md_sign_handle = None, md_find_position = 0,
      md_connection = Some (opened (frame [2]))\<rparr>) = Err Protocol"
proof -
  let ?r = "Certs [demo_summary]" and ?q = "P11ListCerts"
  have ne: "json_of_response ?r \<noteq> json_of_p11_request ?q" by (simp add: json_tagged_def)
  let ?m = "\<lparr>md_initialised = True, md_certs = [], md_sign_handle = None, md_find_position = 0,
    md_connection = Some (opened (frame [2]))\<rparr> :: p11_module"
  have "in_ranges ?r" by (simp add: demo_summary_def cert_summary_of_def demo_cert_def)
  with p11_protocol [OF demo_text_reads_back [of "json_of_p11_request ?q" "json_of_response ?r"],
      of ?m "opened (frame [2])" demo_env] ne
  show ?thesis by (simp add: opened_def demo_text_def)
qed

text \<open>
  C12. One exchange between the tool and the daemon, over a connected stream and with an authorised
  peer: when the daemon reads what the tool wrote and the tool reads what the daemon wrote, the
  tool's call returns the daemon's answer to its request, and the daemon is left as that
  request leaves it.
\<close>

theorem conversation:
  assumes "verify_traffic_cone_binary lib w pid uid known (dm_monitor d) = (Ok process, m)"
    and "dispatch lib known w pid (request_of_cli q) (d\<lparr>dm_monitor := m\<rparr>) = (Ok resp, d')"
    and "reads_back tx (json_of_cli_request q)" and "reads_back tx (json_of_response resp)" and "in_ranges resp"
    and "length (json_print tx (json_of_cli_request q)) \<le> MAX_REQUEST"
    and "length (json_print tx (json_of_response resp)) < 2 ^ 32"
  shows "\<exists>answer st client.
    obind (cli_send (cone_json tx) q) (\<lambda>_. cli_recv (cone_json tx)) \<lparr>ic_stream = opened answer\<rparr> =
      (Ok (cli_response_of resp), client) \<and>
    serve lib (coned_json tx) known w (Accepted (opened (sm_out (ic_stream client))) (Some (pid, uid))) d =
      (Ok (Some st), d') \<and> sm_out st = answer"
proof -
  let ?body = "json_print tx (json_of_cli_request q)" and ?out = "json_print tx (json_of_response resp)"
  let ?c = "\<lparr>ic_stream = opened (frame ?out)\<rparr>"
  let ?st = "(opened (frame ?body))\<lparr>sm_in := [], sm_out := frame ?out\<rparr>"
  have q: "cli_request_to_vec (cone_json tx) q = Ok ?body" by (simp add: cone_json_def)
  have r: "response_to_vec (coned_json tx) resp = Ok ?out" by (simp add: coned_json_def)
  have i: "sm_in (ic_stream ?c) = frame ?out @ []" "\<not> sm_broken (ic_stream ?c)" by (simp_all add: opened_def)
  have c: "cli.call (cone_json tx) q ?c = (Ok (cli_response_of resp), \<lparr>ic_stream = opened (frame ?out)
      \<lparr>sm_out := frame ?body, sm_in := []\<rparr>\<rparr>)"
    using cli.call_ok [OF TrueI i(2) q i(1) assms(7) cli_reads_coned [OF assms(4,5) r]] by (simp add: opened_def)
  have "frame_fits MAX_REQUEST ?body" using assms(6) by (simp add: frame_fits_def MAX_REQUEST_def)
  then have f: "get_frame too_large MAX_REQUEST (frame ?body) = Ok (?body, [])"
    using framed.get_put [of MAX_REQUEST ?body too_large "[]"] by simp
  have "fst (read_request (coned_json tx) (opened (frame ?body))) = Ok (request_of_cli q)"
    using f coned_reads_cli [OF assms(3) q] by (simp add: read_request_frame opened_def)
  moreover have "snd (read_request (coned_json tx) (opened (frame ?body))) = opened []"
    using f by (simp add: read_request_rest opened_def)
  ultimately have rr: "read_request (coned_json tx) (opened (frame ?body)) = (Ok (request_of_cli q), opened [])"
    by (metis prod.collapse)
  have "send_response (coned_json tx) resp (opened []) = (Ok (), ?st)"
    using r by (simp add: send_response_apply opened_def)
  then have "serve lib (coned_json tx) known w (Accepted (opened (frame ?body)) (Some (pid, uid))) d =
      (Ok (Some ?st), d')"
    using assms(1,2) rr by (simp add: get_peer_credentials_def handle_connection_apply)
  with c show ?thesis
    by (intro exI [of _ "frame ?out"] exI [of _ ?st]
        exI [of _ "\<lparr>ic_stream = opened (frame ?out)\<lparr>sm_out := frame ?body, sm_in := []\<rparr>\<rparr>"])
      (simp del: serve.simps add: cli.call_def opened_def)
qed

theorem conversation_witness:
  "\<exists>answer st client d'.
    obind (cli_send (cone_json (demo_text (json_of_cli_request CliLockRequest) (json_of_response OkResponse))) CliLockRequest)
      (\<lambda>_. cli_recv (cone_json (demo_text (json_of_cli_request CliLockRequest) (json_of_response OkResponse))))
      \<lparr>ic_stream = opened answer\<rparr> = (Ok CliOk, client) \<and>
    serve demo_lib (coned_json (demo_text (json_of_cli_request CliLockRequest) (json_of_response OkResponse))) demo_known
      demo_host (Accepted (opened (sm_out (ic_stream client))) (Some (7, 1000))) demo_daemon =
      (Ok (Some st), d') \<and> sm_out st = answer \<and> \<not> is_unlocked (dm_store d')"
proof -
  obtain m where v: "verify_traffic_cone_binary demo_lib demo_host 7 1000 demo_known (dm_monitor demo_daemon)
      = (Ok demo_peer, m)"
    using demo_verified by auto
  let ?d = "demo_daemon\<lparr>dm_monitor := m, dm_store := lock demo_store\<rparr>"
  have x: "dispatch demo_lib demo_known demo_host 7 (request_of_cli CliLockRequest) (demo_daemon\<lparr>dm_monitor := m\<rparr>) =
      (Ok OkResponse, ?d)"
    by (simp add: with_store_def)
  have n: "json_of_response OkResponse \<noteq> json_of_cli_request CliLockRequest" by (simp add: json_tagged_def)
  let ?tx = "demo_text (json_of_cli_request CliLockRequest) (json_of_response OkResponse)"
  have l: "length (json_print ?tx (json_of_cli_request CliLockRequest)) \<le> MAX_REQUEST"
    "length (json_print ?tx (json_of_response OkResponse)) < 2 ^ 32"
    using n by (simp_all add: demo_text_def MAX_REQUEST_def)
  have "in_ranges OkResponse" by simp
  from conversation [OF v x demo_text_reads_back this l] obtain answer st client
    where "obind (cli_send (cone_json ?tx) CliLockRequest) (\<lambda>_. cli_recv (cone_json ?tx)) \<lparr>ic_stream = opened answer\<rparr> =
        (Ok CliOk, client)"
      "serve demo_lib (coned_json ?tx) demo_known demo_host (Accepted (opened (sm_out (ic_stream client)))
        (Some (7, 1000))) demo_daemon = (Ok (Some st), ?d)" "sm_out st = answer"
    by auto
  moreover have "\<not> is_unlocked (dm_store ?d)" by simp
  ultimately show ?thesis by blast
qed

end
