(* ===== verification/Export.thy ===== *)
theory Export
  imports Import
begin

text \<open>
  \<open>crates/cone-store/src/export.rs\<close>: export of one certificate as a PFX file, and the encrypted
  backup of the whole store with its restoration. The PKCS#12 writer, \<open>age\<close> and \<open>serde_json\<close> are
  third-party crates and arguments of the model; what is random in them takes the number of the
  draw.
\<close>

section \<open>The payload\<close>

record backup_cert =
  bc_id :: string
  bc_label :: string
  bc_cert_der :: string
  bc_fingerprint :: string
  bc_subject :: string
  bc_issuer :: string
  bc_not_before :: int
  bc_not_after :: int
  bc_created_at :: int
  bc_key_enc :: string
  bc_key_salt :: string
  bc_key_nonce :: string
  bc_key_algorithm :: string

record backup_ssh_key =
  bk_id :: string
  bk_label :: string
  bk_public_key :: string
  bk_algorithm :: string
  bk_key_enc :: string
  bk_key_salt :: string
  bk_key_nonce :: string
  bk_created_at :: int

record backup_ca_cert =
  ba_id :: string
  ba_label :: string
  ba_cert_pem :: string
  ba_fingerprint :: string
  ba_subject :: string
  ba_not_after :: int
  ba_created_at :: int

record backup_app =
  bp_id :: string
  bp_label :: string
  bp_exe_path :: string
  bp_exe_hash :: string
  bp_registered_at :: int

record backup_route =
  br_id :: string
  br_cert_id :: string
  br_app_id :: "string option"
  br_match_type :: string
  br_pattern :: "string option"
  br_require_both :: bool
  br_priority :: int
  br_created_at :: int

record backup_ssh_route =
  bq_id :: string
  bq_ssh_key_id :: string
  bq_app_id :: "string option"
  bq_host_pattern :: "string option"
  bq_created_at :: int

record backup_payload =
  pl_version :: u32
  pl_exported_at :: int
  pl_certs :: "backup_cert list"
  pl_ssh_keys :: "backup_ssh_key list"
  pl_ca_certs :: "backup_ca_cert list"
  pl_apps :: "backup_app list"
  pl_routes :: "backup_route list"
  pl_ssh_routes :: "backup_ssh_route list"

section \<open>The external crates\<close>

datatype age_decryptor = ByPassphrase bytes | ByRecipients bytes

text \<open>
  \<open>p12_write\<close> is the writer with HMAC-SHA-256 and PBES2 with AES-256 on a key store of one chain: a
  key, its local identifier and its certificates. Readers and writers of \<open>age\<close> are opaque bytes.
\<close>

record export_lib =
  p12_cert_from_der :: "bytes \<Rightarrow> (bytes, string) res"
  p12_write :: "nat \<Rightarrow> string \<Rightarrow> bytes \<times> bytes \<times> bytes list \<Rightarrow> (bytes, string) res"
  payload_to_vec_pretty :: "backup_payload \<Rightarrow> (bytes, string) res"
  payload_from_slice :: "bytes \<Rightarrow> (backup_payload, string) res"
  age_wrap_output :: "nat \<Rightarrow> string \<Rightarrow> (bytes, string) res"
  age_write_all :: "bytes \<Rightarrow> bytes \<Rightarrow> (bytes, string) res"
  age_finish :: "bytes \<Rightarrow> (bytes, string) res"
  age_decryptor_new :: "bytes \<Rightarrow> (age_decryptor, string) res"
  age_passphrase_decrypt :: "bytes \<Rightarrow> string \<Rightarrow> (bytes, string) res"
  age_read_to_end :: "bytes \<Rightarrow> (bytes, string) res"

text \<open>A call that consumes one draw of randomness.\<close>

definition drawing :: "(nat \<Rightarrow> ('a, 'e) res) \<Rightarrow> (world, 'a, 'e) oper" where
  "drawing f = (\<lambda>w. (f (w_draws w), w\<lparr>w_draws := Suc (w_draws w)\<rparr>))"

section \<open>Export of one certificate\<close>

definition export_pfx ::
  "crypto_lib \<Rightarrow> export_lib \<Rightarrow> store \<Rightarrow> string \<Rightarrow> string \<Rightarrow> (world, bytes, store_error) oper" where
  "export_pfx lib x s cid export_password =
     obind (lift_res (store_conn s)) (\<lambda>conn.
     obind (reading (\<lambda>w. map_err (\<lambda>_. NotFound (''certificate '' @ cid @ '' not found''))
       (rbind (conn_tables conn w) (\<lambda>t. query_row (\<lambda>c. c_id c = cid) (certs t))))) (\<lambda>cert_row.
     obind (reading (\<lambda>w. map_err (\<lambda>_. NotFound (''private key for cert '' @ cid @ '' not found''))
       (rbind (conn_tables conn w) (\<lambda>t. query_row (\<lambda>k. k_cert_id k = cid) (keys t))))) (\<lambda>k.
     obind (lift_res (store_passphrase s)) (\<lambda>master.
     obind (lift_res (decrypt_key lib (k_enc k) (k_salt k) (k_nonce k) master)) (\<lambda>key_plaintext.
     obind (lift_res (map_err (\<lambda>e. Crypto (''failed to parse stored certificate: '' @ e))
       (p12_cert_from_der x (c_der cert_row)))) (\<lambda>cert.
     obind (drawing (\<lambda>n. map_err (\<lambda>e. Crypto (''failed to write PFX: '' @ e))
       (p12_write x n export_password (key_plaintext, as_bytes ''traffic-cone'', [cert])))) (\<lambda>pfx_bytes.
     obind unix_now (\<lambda>now.
     obind (new_id lib) (\<lambda>i.
     obind (conn_execute conn (insert_audit
       \<lparr>au_id = i, au_event_type = ''cert_exported'', au_cert_id = Some cid, au_ssh_key_id = None,
        au_app_id = None, au_detail = Some ''Exported as PFX'', au_occurred_at = now\<rparr>)) (\<lambda>_.
     ret pfx_bytes))))))))))"

section \<open>Backup\<close>

text \<open>
  \<open>certs c JOIN keys k ON k.cert_id = c.id\<close>: a certificate occurs once for each of its keys, and not
  at all without one. SQLite scans the keys and finds the certificate by its primary key.
\<close>

definition join_rows :: "tables \<Rightarrow> (cert \<times> key_row) list" where
  "join_rows t = concat (map (\<lambda>k. map (\<lambda>c. (c, k)) (filter (\<lambda>c. c_id c = k_cert_id k) (certs t))) (keys t))"

definition backup_cert_of :: "crypto_lib \<Rightarrow> cert \<times> key_row \<Rightarrow> backup_cert" where
  "backup_cert_of lib ck = (case ck of (c, k) \<Rightarrow>
     \<lparr>bc_id = c_id c, bc_label = c_label c, bc_cert_der = hex_encode lib (c_der c),
      bc_fingerprint = c_fingerprint c, bc_subject = c_subject c, bc_issuer = c_issuer c,
      bc_not_before = c_not_before c, bc_not_after = c_not_after c, bc_created_at = c_created_at c,
      bc_key_enc = hex_encode lib (k_enc k), bc_key_salt = hex_encode lib (k_salt k),
      bc_key_nonce = hex_encode lib (k_nonce k), bc_key_algorithm = k_algorithm k\<rparr>)"

definition backup_ssh_key_of :: "crypto_lib \<Rightarrow> ssh_key_row \<Rightarrow> backup_ssh_key" where
  "backup_ssh_key_of lib k =
     \<lparr>bk_id = s_id k, bk_label = s_label k, bk_public_key = s_public_key k, bk_algorithm = s_algorithm k,
      bk_key_enc = hex_encode lib (s_enc k), bk_key_salt = hex_encode lib (s_salt k),
      bk_key_nonce = hex_encode lib (s_nonce k), bk_created_at = s_created_at k\<rparr>"

definition backup_ca_cert_of :: "ca_cert \<Rightarrow> backup_ca_cert" where
  "backup_ca_cert_of c =
     \<lparr>ba_id = ca_id c, ba_label = ca_label c, ba_cert_pem = ca_pem c, ba_fingerprint = ca_fingerprint c,
      ba_subject = ca_subject c, ba_not_after = ca_not_after c, ba_created_at = ca_created_at c\<rparr>"

definition backup_app_of :: "app \<Rightarrow> backup_app" where
  "backup_app_of a =
     \<lparr>bp_id = app_id a, bp_label = app_label a, bp_exe_path = app_exe_path a,
      bp_exe_hash = app_exe_hash a, bp_registered_at = app_registered_at a\<rparr>"

definition backup_route_of :: "route_row \<Rightarrow> backup_route" where
  "backup_route_of r =
     \<lparr>br_id = r_id r, br_cert_id = r_cert_id r, br_app_id = r_app_id r, br_match_type = r_match_type r,
      br_pattern = r_pattern r, br_require_both = (r_require_both r \<noteq> 0), br_priority = r_priority r,
      br_created_at = r_created_at r\<rparr>"

definition backup_ssh_route_of :: "ssh_route \<Rightarrow> backup_ssh_route" where
  "backup_ssh_route_of r =
     \<lparr>bq_id = sr_id r, bq_ssh_key_id = sr_ssh_key_id r, bq_app_id = sr_app_id r,
      bq_host_pattern = sr_host_pattern r, bq_created_at = sr_created_at r\<rparr>"

definition payload_of :: "crypto_lib \<Rightarrow> int \<Rightarrow> tables \<Rightarrow> backup_payload" where
  "payload_of lib now t =
     \<lparr>pl_version = 1, pl_exported_at = now, pl_certs = map (backup_cert_of lib) (join_rows t),
      pl_ssh_keys = map (backup_ssh_key_of lib) (ssh_keys t), pl_ca_certs = map backup_ca_cert_of (ca_certs t),
      pl_apps = map backup_app_of (apps t), pl_routes = map backup_route_of (routes t),
      pl_ssh_routes = map backup_ssh_route_of (ssh_routes t)\<rparr>"

definition collect_backup_payload :: "crypto_lib \<Rightarrow> store \<Rightarrow> (world, backup_payload, store_error) oper" where
  "collect_backup_payload lib s =
     obind (lift_res (store_conn s)) (\<lambda>conn.
     obind (reading (\<lambda>w. map_err Database (conn_tables conn w))) (\<lambda>t.
     obind unix_now (\<lambda>now.
     ret (payload_of lib now t))))"

definition age_encrypt :: "export_lib \<Rightarrow> bytes \<Rightarrow> string \<Rightarrow> (world, bytes, store_error) oper" where
  "age_encrypt x plaintext passphrase =
     obind (drawing (\<lambda>n. map_err (\<lambda>e. Crypto (''age encrypt error: '' @ e)) (age_wrap_output x n passphrase)))
       (\<lambda>writer.
     obind (lift_res (map_err (\<lambda>e. Crypto (''age write error: '' @ e)) (age_write_all x writer plaintext)))
       (\<lambda>writer.
     lift_res (map_err (\<lambda>e. Crypto (''age finish error: '' @ e)) (age_finish x writer))))"

definition age_decrypt :: "export_lib \<Rightarrow> bytes \<Rightarrow> string \<Rightarrow> (bytes, store_error) res" where
  "age_decrypt x ciphertext passphrase =
     rbind (map_err (\<lambda>e. Crypto (''age decrypt init error: '' @ e)) (age_decryptor_new x ciphertext)) (\<lambda>decryptor.
     case decryptor of
       ByRecipients d \<Rightarrow> Err (Crypto ''backup was not encrypted with a passphrase'')
     | ByPassphrase d \<Rightarrow>
         rbind (map_err (\<lambda>e. Crypto (''backup decryption failed '' @ em_dash @ '' wrong passphrase?: '' @ e))
           (age_passphrase_decrypt x d passphrase)) (\<lambda>reader.
         map_err (\<lambda>e. Crypto (''age read error: '' @ e)) (age_read_to_end x reader)))"

definition create_backup ::
  "crypto_lib \<Rightarrow> export_lib \<Rightarrow> store \<Rightarrow> string \<Rightarrow> (world, bytes, store_error) oper" where
  "create_backup lib x s backup_password =
     obind (collect_backup_payload lib s) (\<lambda>payload.
     obind (lift_res (map_err (\<lambda>e. Crypto (''failed to serialise backup: '' @ e)) (payload_to_vec_pretty x payload)))
       (\<lambda>json.
     obind (age_encrypt x json backup_password) (\<lambda>encrypted.
     obind (lift_res (store_conn s)) (\<lambda>conn.
     obind (new_id lib) (\<lambda>i.
     obind unix_now (\<lambda>now.
     obind (conn_execute conn (insert_audit
       \<lparr>au_id = i, au_event_type = ''backup_created'', au_cert_id = None, au_ssh_key_id = None,
        au_app_id = None, au_detail = Some ''Full backup created'', au_occurred_at = now\<rparr>)) (\<lambda>_.
     ret encrypted)))))))"

section \<open>Restoration\<close>

record restore_result =
  rs_certs :: nat
  rs_ssh_keys :: nat
  rs_ca_certs :: nat
  rs_apps :: nat
  rs_routes :: nat
  rs_ssh_routes :: nat

definition nothing_restored :: restore_result where
  "nothing_restored = \<lparr>rs_certs = 0, rs_ssh_keys = 0, rs_ca_certs = 0, rs_apps = 0, rs_routes = 0,
     rs_ssh_routes = 0\<rparr>"

text \<open>\<open>SELECT COUNT(*)\<close> with \<open>n > 0\<close>; a failing query counts as no row.\<close>

definition exists_row :: "connection \<Rightarrow> (tables \<Rightarrow> bool) \<Rightarrow> (world, bool, 'e) oper" where
  "exists_row conn P = reading (\<lambda>w. Ok (case conn_tables conn w of Ok t \<Rightarrow> P t | _ \<Rightarrow> False))"

text \<open>\<open>hex::decode(..).unwrap_or_default()\<close>.\<close>

definition hex_or_default :: "crypto_lib \<Rightarrow> string \<Rightarrow> bytes" where
  "hex_or_default lib h = (case hex_decode lib h of Ok bs \<Rightarrow> bs | _ \<Rightarrow> [])"

text \<open>The bodies of the six loops, in their order.\<close>

definition restored_ca_cert :: "backup_ca_cert \<Rightarrow> ca_cert" where
  "restored_ca_cert ca =
     \<lparr>ca_id = ba_id ca, ca_label = ba_label ca, ca_pem = ba_cert_pem ca, ca_fingerprint = ba_fingerprint ca,
      ca_subject = ba_subject ca, ca_not_after = ba_not_after ca, ca_system_file = None,
      ca_created_at = ba_created_at ca\<rparr>"

definition restore_ca_cert ::
  "connection \<Rightarrow> backup_ca_cert \<Rightarrow> restore_result \<Rightarrow> (world, restore_result, store_error) oper" where
  "restore_ca_cert conn ca result =
     obind (exists_row conn (\<lambda>t. \<exists>y\<in>set (ca_certs t). ca_fingerprint y = ba_fingerprint ca)) (\<lambda>exists.
     if \<not> exists then
       obind (conn_execute conn (insert_ca_cert (restored_ca_cert ca))) (\<lambda>_.
       ret (result\<lparr>rs_ca_certs := rs_ca_certs result + 1\<rparr>))
     else ret result)"

definition restore_cert ::
  "crypto_lib \<Rightarrow> connection \<Rightarrow> backup_cert \<Rightarrow> restore_result \<Rightarrow> (world, restore_result, store_error) oper" where
  "restore_cert lib conn c result =
     obind (exists_row conn (\<lambda>t. \<exists>y\<in>set (certs t). c_fingerprint y = bc_fingerprint c)) (\<lambda>exists.
     if \<not> exists then
       obind (lift_res (map_err (\<lambda>e. Import (''invalid cert data in backup: '' @ e)) (hex_decode lib (bc_cert_der c))))
         (\<lambda>cert_der.
       obind (conn_execute conn (insert_cert
         \<lparr>c_id = bc_id c, c_label = bc_label c, c_der = cert_der, c_fingerprint = bc_fingerprint c,
          c_subject = bc_subject c, c_issuer = bc_issuer c, c_not_before = bc_not_before c,
          c_not_after = bc_not_after c, c_created_at = bc_created_at c\<rparr>)) (\<lambda>_.
       obind (new_id lib) (\<lambda>i.
       obind (conn_execute conn (insert_key
         \<lparr>k_id = i, k_cert_id = bc_id c, k_algorithm = bc_key_algorithm c,
          k_enc = hex_or_default lib (bc_key_enc c), k_salt = hex_or_default lib (bc_key_salt c),
          k_nonce = hex_or_default lib (bc_key_nonce c)\<rparr>)) (\<lambda>_.
       ret (result\<lparr>rs_certs := rs_certs result + 1\<rparr>)))))
     else ret result)"

definition restored_ssh_key :: "crypto_lib \<Rightarrow> backup_ssh_key \<Rightarrow> ssh_key_row" where
  "restored_ssh_key lib k =
     \<lparr>s_id = bk_id k, s_label = bk_label k, s_public_key = bk_public_key k, s_algorithm = bk_algorithm k,
      s_enc = hex_or_default lib (bk_key_enc k), s_salt = hex_or_default lib (bk_key_salt k),
      s_nonce = hex_or_default lib (bk_key_nonce k), s_created_at = bk_created_at k\<rparr>"

definition restore_ssh_key ::
  "crypto_lib \<Rightarrow> connection \<Rightarrow> backup_ssh_key \<Rightarrow> restore_result \<Rightarrow> (world, restore_result, store_error) oper"
  where
  "restore_ssh_key lib conn k result =
     obind (exists_row conn (\<lambda>t. \<exists>y\<in>set (ssh_keys t). s_id y = bk_id k)) (\<lambda>exists.
     if \<not> exists then
       obind (conn_execute conn (insert_ssh_key (restored_ssh_key lib k))) (\<lambda>_.
       ret (result\<lparr>rs_ssh_keys := rs_ssh_keys result + 1\<rparr>))
     else ret result)"

definition restored_app :: "backup_app \<Rightarrow> app" where
  "restored_app a =
     \<lparr>app_id = bp_id a, app_label = bp_label a, app_exe_path = bp_exe_path a, app_exe_hash = bp_exe_hash a,
      app_registered_at = bp_registered_at a\<rparr>"

definition restore_app ::
  "connection \<Rightarrow> backup_app \<Rightarrow> restore_result \<Rightarrow> (world, restore_result, store_error) oper" where
  "restore_app conn a result =
     obind (exists_row conn (\<lambda>t. \<exists>y\<in>set (apps t). app_exe_path y = bp_exe_path a)) (\<lambda>exists.
     if \<not> exists then
       obind (conn_execute conn (insert_app (restored_app a))) (\<lambda>_.
       ret (result\<lparr>rs_apps := rs_apps result + 1\<rparr>))
     else ret result)"

definition restored_route :: "backup_route \<Rightarrow> route_row" where
  "restored_route r =
     \<lparr>r_id = br_id r, r_cert_id = br_cert_id r, r_app_id = br_app_id r, r_match_type = br_match_type r,
      r_pattern = br_pattern r, r_require_both = (if br_require_both r then 1 else 0),
      r_priority = br_priority r, r_created_at = br_created_at r\<rparr>"

definition restore_route ::
  "connection \<Rightarrow> backup_route \<Rightarrow> restore_result \<Rightarrow> (world, restore_result, store_error) oper" where
  "restore_route conn r result =
     obind (conn_execute conn (insert_or_ignore_route (restored_route r))) (\<lambda>_.
     ret (result\<lparr>rs_routes := rs_routes result + 1\<rparr>))"

definition restored_ssh_route :: "backup_ssh_route \<Rightarrow> ssh_route" where
  "restored_ssh_route r =
     \<lparr>sr_id = bq_id r, sr_ssh_key_id = bq_ssh_key_id r, sr_app_id = bq_app_id r,
      sr_host_pattern = bq_host_pattern r, sr_created_at = bq_created_at r\<rparr>"

definition restore_ssh_route ::
  "connection \<Rightarrow> backup_ssh_route \<Rightarrow> restore_result \<Rightarrow> (world, restore_result, store_error) oper" where
  "restore_ssh_route conn r result =
     obind (conn_execute conn (insert_or_ignore_ssh_route (restored_ssh_route r))) (\<lambda>_.
     ret (result\<lparr>rs_ssh_routes := rs_ssh_routes result + 1\<rparr>))"

definition restore_payload ::
  "crypto_lib \<Rightarrow> connection \<Rightarrow> backup_payload \<Rightarrow> (world, restore_result, store_error) oper" where
  "restore_payload lib conn payload =
     obind (ofold (restore_ca_cert conn) (pl_ca_certs payload) nothing_restored) (\<lambda>result.
     obind (ofold (restore_cert lib conn) (pl_certs payload) result) (\<lambda>result.
     obind (ofold (restore_ssh_key lib conn) (pl_ssh_keys payload) result) (\<lambda>result.
     obind (ofold (restore_app conn) (pl_apps payload) result) (\<lambda>result.
     obind (ofold (restore_route conn) (pl_routes payload) result) (\<lambda>result.
     ofold (restore_ssh_route conn) (pl_ssh_routes payload) result)))))"

definition restore_backup ::
  "crypto_lib \<Rightarrow> export_lib \<Rightarrow> store \<Rightarrow> bytes \<Rightarrow> string \<Rightarrow> (world, restore_result, store_error) oper" where
  "restore_backup lib x s backup_data backup_password =
     obind (lift_res (age_decrypt x backup_data backup_password)) (\<lambda>json.
     obind (lift_res (map_err (\<lambda>e. Import (''failed to parse backup: '' @ e)) (payload_from_slice x json))) (\<lambda>payload.
     obind (lift_res (store_conn s)) (\<lambda>conn.
     obind unix_now (\<lambda>now.
     obind (restore_payload lib conn payload) (\<lambda>result.
     obind (new_id lib) (\<lambda>i.
     obind (conn_execute conn (insert_audit
       \<lparr>au_id = i, au_event_type = ''backup_restored'', au_cert_id = None, au_ssh_key_id = None,
        au_app_id = None, au_detail = Some (''Restored: '' @ dec (rs_certs result) @ '' certs, ''
          @ dec (rs_ssh_keys result) @ '' SSH keys, '' @ dec (rs_apps result) @ '' apps''),
        au_occurred_at = now\<rparr>)) (\<lambda>_.
     ret result)))))))"

end
