(* ===== verification/Cli.thy ===== *)
theory Cli
  imports Cli_Client Route_Choice Integrity Export
begin

text \<open>
  \<open>crates/cone-cli/src/main.rs\<close>: the commands of \<open>cone\<close>. Three of them talk to the daemon, the
  others open the store themselves or only print that they are not implemented. A value of
  \<open>command\<close> is what \<open>clap\<close> has parsed.
\<close>

section \<open>Commands\<close>

datatype ca_command = CaAdd string string | CaList | CaRemove string

datatype ssh_route_command = SshRouteAdd string "string option" "string option" | SshRouteList
  | SshRouteRemove string

datatype ssh_command = SshImport string string | SshList | SshRemove string | SshRoute ssh_route_command

datatype app_command = AppAdd string string | AppList | AppVerify string | AppUpdate string
  | AppRemove string

datatype route_command =
    RouteAdd string "string option" "string option" "string option" bool int
  | RouteList
  | RouteRemove string

datatype command =
    StatusCommand
  | LockCommand
  | ImportCommand "string option" "string option" "string option" string
  | ListCommand
  | RemoveCommand string
  | CaCommand ca_command
  | SshCommand ssh_command
  | AppCommand app_command
  | RouteCommand route_command
  | BackupCommand string
  | RestoreCommand string
  | TestCommand "string option" "string option"
  | AuditCommand u32
  | VerifyCommand

section \<open>The process\<close>

text \<open>
  The libraries and the system around the tool: what the daemon's socket and \<open>create_dir_all\<close>
  answer, and what the user types at a password prompt.
\<close>

record cli_env =
  ce_lib :: daemon_lib
  ce_import :: import_lib
  ce_export :: export_lib
  ce_json :: client_json
  ce_connect :: "string \<Rightarrow> (stream, io_error) res"
  ce_prompt :: "string \<Rightarrow> (string, io_error) res"
  ce_create_dir_all :: "string \<Rightarrow> (unit, io_error) res"

abbreviation ce_crypto :: "cli_env \<Rightarrow> crypto_lib" where
  "ce_crypto env \<equiv> dl_crypto (ce_lib env)"

record terminal =
  tm_world :: world
  tm_out :: string
  tm_err :: string

text \<open>How a command that does not fail ends: it returns, or calls \<open>process::exit\<close>.\<close>

datatype cli_end = Returned | Exited nat

definition print :: "string \<Rightarrow> (terminal, unit, coned_error) oper" where
  "print text = (\<lambda>tm. (Ok (), tm\<lparr>tm_out := tm_out tm @ text\<rparr>))"

definition println :: "string \<Rightarrow> (terminal, unit, coned_error) oper" where
  "println text = print (text @ [newline])"

definition eprintln :: "string \<Rightarrow> (terminal, unit, coned_error) oper" where
  "eprintln text = (\<lambda>tm. (Ok (), tm\<lparr>tm_err := tm_err tm @ text @ [newline]\<rparr>))"

text \<open>An operation of the store library, whose error the question mark wraps.\<close>

definition on_store :: "(world, 'a, store_error) oper \<Rightarrow> (terminal, 'a, coned_error) oper" where
  "on_store m = (\<lambda>tm. case m (tm_world tm) of (r, w) \<Rightarrow> (map_err FromStore r, tm\<lparr>tm_world := w\<rparr>))"

definition from_store :: "(world \<Rightarrow> ('a, store_error) res) \<Rightarrow> (terminal, 'a, coned_error) oper" where
  "from_store f = reading (\<lambda>tm. map_err FromStore (f (tm_world tm)))"

definition oper_context :: "string \<Rightarrow> ('s, 'a, coned_error) oper \<Rightarrow> ('s, 'a, coned_error) oper" where
  "oper_context text m = (\<lambda>s. case m s of (r, s') \<Rightarrow> (with_context text r, s'))"

definition prompt :: "cli_env \<Rightarrow> string \<Rightarrow> (terminal, string, coned_error) oper" where
  "prompt env text = lift_res (map_err FromIo (ce_prompt env text))"

fun for_each :: "('x \<Rightarrow> ('s, unit, 'e) oper) \<Rightarrow> 'x list \<Rightarrow> ('s, unit, 'e) oper" where
  "for_each f [] = ret ()"
| "for_each f (x # xs) = obind (f x) (\<lambda>_. for_each f xs)"

section \<open>Text\<close>

text \<open>\<open>{:<n}\<close> pads to a number of characters, not of bytes.\<close>

definition char_count :: "string \<Rightarrow> nat" where
  "char_count s = length (filter (\<lambda>c. \<not> (128 \<le> (of_char c :: nat) \<and> (of_char c :: nat) < 192)) s)"

definition pad_right :: "nat \<Rightarrow> string \<Rightarrow> string" where
  "pad_right n s = s @ replicate (n - char_count s) (CHR '' '')"

definition debug_option :: "string option \<Rightarrow> string" where
  "debug_option v = (case v of None \<Rightarrow> ''None'' | Some s \<Rightarrow> ''Some('' @ debug_str s @ '')'')"

definition show_bool :: "bool \<Rightarrow> string" where
  "show_bool b = (if b then ''true'' else ''false'')"

text \<open>The bullet, the middle dot, the check mark and the ballot cross of the messages.\<close>

definition bullet :: string where "bullet = [CHR 0xE2, CHR 0x97, CHR 0x8F]"

definition middle_dot :: string where "middle_dot = [CHR 0xC2, CHR 0xB7]"

definition check_mark :: string where "check_mark = [CHR 0xE2, CHR 0x9C, CHR 0x93]"

definition ballot_cross :: string where "ballot_cross = [CHR 0xE2, CHR 0x9C, CHR 0x97]"

text \<open>\<open>ts as u64\<close> reinterprets a negative time.\<close>

definition format_timestamp :: "int \<Rightarrow> string" where
  "format_timestamp ts =
     (let secs = unat (of_int ts :: u64);
          mins = secs div 60;
          hours = mins div 60;
          days = hours div 24
      in dec days @ ''d '' @ dec_pad2 (hours mod 24) @ '':'' @ dec_pad2 (mins mod 60))"

section \<open>Opening the store\<close>

definition cli_store_path :: "cli_env \<Rightarrow> world \<Rightarrow> (string, coned_error) res" where
  "cli_store_path env w =
     (let data_home = (case env_var ''XDG_DATA_HOME'' w of
            Some d \<Rightarrow> d
          | None \<Rightarrow>
              (let home = (case env_var ''HOME'' w of Some h \<Rightarrow> h | None \<Rightarrow> ''/tmp'')
               in home @ ''/.local/share''));
          dir = data_home @ ''/cone''
      in rbind (with_context ''Failed to create store directory'' (map_err FromIo (ce_create_dir_all env dir)))
           (\<lambda>_. Ok (dir @ ''/store.db'')))"

definition cli_passphrase :: "cli_env \<Rightarrow> (terminal, string, coned_error) oper" where
  "cli_passphrase env = (\<lambda>tm. case env_var ''CONE_PASSPHRASE'' (tm_world tm) of
      Some p \<Rightarrow> (Ok p, tm)
    | None \<Rightarrow> prompt env ''Master passphrase'' tm)"

text \<open>The store is a local variable of the command; \<open>unlock\<close> works on it and on the world.\<close>

definition unlock_at :: "cli_env \<Rightarrow> string \<Rightarrow> string \<Rightarrow> (world, store, store_error) oper" where
  "unlock_at env path passphrase = (\<lambda>w.
     case unlock (ce_crypto env) (as_bytes passphrase) (store_open path, w) of
       (r, s, w') \<Rightarrow> (rbind r (\<lambda>_. Ok s), w'))"

definition open_store_direct :: "cli_env \<Rightarrow> (terminal, store, coned_error) oper" where
  "open_store_direct env =
     obind (reading (\<lambda>tm. cli_store_path env (tm_world tm))) (\<lambda>store_path.
     obind (cli_passphrase env) (\<lambda>passphrase.
     oper_context (''Failed to unlock store '' @ em_dash @ '' wrong passphrase?'')
       (on_store (unlock_at env store_path passphrase))))"

section \<open>The daemon's commands\<close>

text \<open>Connecting, and one call on the new client.\<close>

definition with_client ::
  "cli_env \<Rightarrow> (ipc_client, 'a, coned_error) oper \<Rightarrow> (terminal, 'a, coned_error) oper" where
  "with_client env call = lift_res (rbind (ipc_connect (ce_connect env)) (\<lambda>client. fst (call client)))"

definition cmd_status :: "cli_env \<Rightarrow> (terminal, cli_end, coned_error) oper" where
  "cmd_status env =
     obind (with_client env (status (ce_json env))) (\<lambda>st.
     if ds_locked st
     then obind (println (bullet @ '' coned running'')) (\<lambda>_.
          obind (println ''  Store: locked'') (\<lambda>_. ret Returned))
     else obind (println (bullet @ '' coned running'')) (\<lambda>_.
          obind (println (''  Store: unlocked '' @ middle_dot @ '' '' @ dec (ds_cert_count st) @ '' certs''))
            (\<lambda>_. ret Returned)))"

definition cmd_lock :: "cli_env \<Rightarrow> (terminal, cli_end, coned_error) oper" where
  "cmd_lock env =
     obind (with_client env (cli_lock (ce_json env))) (\<lambda>_.
     obind (println ''Store locked.'') (\<lambda>_. ret Returned))"

definition cmd_list :: "cli_env \<Rightarrow> (terminal, cli_end, coned_error) oper" where
  "cmd_list env =
     obind (with_client env (cli_list_certs (ce_json env))) (\<lambda>cs.
     if cs = []
     then obind (println ''No certificates stored.'') (\<lambda>_.
          obind (println (''Import one with: cone import --file laptop.pfx --label '' @ debug_str ''My Cert''))
            (\<lambda>_. ret Returned))
     else obind (println (pad_right 36 ''ID'' @ ''  '' @ pad_right 20 ''LABEL'' @ ''  SUBJECT'')) (\<lambda>_.
          obind (println (replicate 80 (CHR ''-''))) (\<lambda>_.
          obind (for_each (\<lambda>c. obind (lift_res (str_range (cc_id c) 0 8)) (\<lambda>short.
              println (pad_right 36 short @ ''  '' @ pad_right 20 (cc_label c) @ ''  '' @ cc_subject c))) cs)
            (\<lambda>_. ret Returned))))"

section \<open>Certificates\<close>

definition import_passphrase :: "cli_env \<Rightarrow> string option \<Rightarrow> (terminal, string, coned_error) oper" where
  "import_passphrase env file = (case file of
      Some f \<Rightarrow> if ends_with f ''.pfx'' \<or> ends_with f ''.p12'' then prompt env ''PFX passphrase'' else ret ''''
    | None \<Rightarrow> ret '''')"

definition cmd_import ::
  "cli_env \<Rightarrow> string option \<Rightarrow> string option \<Rightarrow> string option \<Rightarrow> string \<Rightarrow>
   (terminal, cli_end, coned_error) oper" where
  "cmd_import env file cert key label =
     obind (open_store_direct env) (\<lambda>s.
     obind (import_passphrase env file) (\<lambda>passphrase.
     obind (case (file, cert, key) of
         (Some f, _, _) \<Rightarrow> on_store (import_file (ce_crypto env) (ce_import env) s f passphrase label None)
       | (None, Some c, Some k) \<Rightarrow>
           on_store (import_file (ce_crypto env) (ce_import env) s c passphrase label (Some k))
       | _ \<Rightarrow> lift_res (Err (Message ''Provide either --file for PFX/PEM, or both --cert and --key'')))
       (\<lambda>result.
     obind (println (im_summary result)) (\<lambda>_.
     if im_ca_chain result \<noteq> []
     then obind (println (newline # dec (length (im_ca_chain result)) @ '' CA certificate(s) found in this file.''))
            (\<lambda>_. obind (println (''Import them with: cone ca add --file <ca.pem> --label '' @ debug_str ''CA Name''))
            (\<lambda>_. ret Returned))
     else ret Returned))))"

definition cmd_remove :: "cli_env \<Rightarrow> string \<Rightarrow> (terminal, cli_end, coned_error) oper" where
  "cmd_remove env label =
     obind (open_store_direct env) (\<lambda>s.
     obind (on_store (delete_cert (ce_crypto env) s label)) (\<lambda>_.
     obind (println (''Removed certificate '' @ quoted label @ ''.'')) (\<lambda>_. ret Returned)))"

section \<open>Backup, audit log and integrity\<close>

definition cmd_backup :: "cli_env \<Rightarrow> string \<Rightarrow> (terminal, cli_end, coned_error) oper" where
  "cmd_backup env out_path =
     obind (open_store_direct env) (\<lambda>s.
     obind (prompt env ''Backup passphrase'') (\<lambda>backup_pass.
     obind (on_store (create_backup (ce_crypto env) (ce_export env) s backup_pass)) (\<lambda>data.
     obind (oper_context (''Failed to write backup to '' @ out_path)
         (\<lambda>tm. case fs_write out_path data (tm_world tm) of (r, w) \<Rightarrow> (map_err FromIo r, tm\<lparr>tm_world := w\<rparr>)))
       (\<lambda>_.
     obind (println (''Backup written to '' @ out_path)) (\<lambda>_.
     obind (println ''Keep this file and your backup passphrase somewhere safe.'') (\<lambda>_.
     obind (println ''Your master passphrase is also required to restore key material.'') (\<lambda>_.
     ret Returned)))))))"

definition cmd_restore :: "cli_env \<Rightarrow> string \<Rightarrow> (terminal, cli_end, coned_error) oper" where
  "cmd_restore env file =
     obind (open_store_direct env) (\<lambda>s.
     obind (reading (\<lambda>tm. with_context (''Failed to read backup file '' @ file)
         (map_err FromIo (fs_read file (tm_world tm))))) (\<lambda>backup_data.
     obind (prompt env ''Backup passphrase'') (\<lambda>backup_pass.
     obind (on_store (restore_backup (ce_crypto env) (ce_export env) s backup_data backup_pass)) (\<lambda>result.
     obind (println ''Restored successfully:'') (\<lambda>_.
     obind (println (''  '' @ dec (rs_certs result) @ '' client certificates'')) (\<lambda>_.
     obind (println (''  '' @ dec (rs_ssh_keys result) @ '' SSH keys'')) (\<lambda>_.
     obind (println (''  '' @ dec (rs_ca_certs result) @ '' CA certificates'')) (\<lambda>_.
     obind (println (''  '' @ dec (rs_apps result) @ '' applications'')) (\<lambda>_.
     obind (println (''  '' @ dec (rs_routes result + rs_ssh_routes result) @ '' routes'')) (\<lambda>_.
     ret Returned))))))))))"

definition cmd_audit :: "cli_env \<Rightarrow> u32 \<Rightarrow> (terminal, cli_end, coned_error) oper" where
  "cmd_audit env limit =
     obind (open_store_direct env) (\<lambda>s.
     obind (from_store (list_audit_log s limit)) (\<lambda>entries.
     if entries = []
     then obind (println ''No audit log entries.'') (\<lambda>_. ret Returned)
     else obind (for_each (\<lambda>e. println (''['' @ format_timestamp (au_occurred_at e) @ ''] '' @ au_event_type e
            @ '' '' @ (case au_detail e of None \<Rightarrow> '''' | Some d \<Rightarrow> d))) entries) (\<lambda>_. ret Returned)))"

text \<open>A \<open>match\<close> on the result of an operation, in place of the question mark.\<close>

definition attempt :: "(world, 'a, store_error) oper \<Rightarrow> (terminal, ('a, store_error) res, coned_error) oper"
  where
  "attempt m = (\<lambda>tm. case m (tm_world tm) of
      (Panic, w) \<Rightarrow> (Panic, tm\<lparr>tm_world := w\<rparr>)
    | (r, w) \<Rightarrow> (Ok r, tm\<lparr>tm_world := w\<rparr>))"

definition cmd_verify :: "cli_env \<Rightarrow> (terminal, cli_end, coned_error) oper" where
  "cmd_verify env =
     obind (open_store_direct env) (\<lambda>s.
     obind (print ''Verifying integrity... '') (\<lambda>_.
     obind (attempt (verify_all (ce_crypto env) s)) (\<lambda>r. case r of
       Err e \<Rightarrow>
         obind (println ''FAILED'') (\<lambda>_.
         obind (eprintln (''Integrity check failed: '' @ display_store_error (ce_lib env) e)) (\<lambda>_.
         ret (Exited 1)))
     | _ \<Rightarrow> obind (println (check_mark @ '' All binaries verified.'')) (\<lambda>_. ret Returned))))"

section \<open>CA certificates and SSH keys\<close>

definition cmd_ca_list :: "cli_env \<Rightarrow> (terminal, cli_end, coned_error) oper" where
  "cmd_ca_list env =
     obind (open_store_direct env) (\<lambda>s.
     obind (from_store (list_ca_certs s)) (\<lambda>cs.
     if cs = []
     then obind (println ''No CA certificates stored.'') (\<lambda>_. ret Returned)
     else obind (for_each (\<lambda>c. println (ca_label c @ '' '' @ em_dash @ '' '' @ ca_subject c)) cs) (\<lambda>_. ret Returned)))"

fun cmd_ca :: "cli_env \<Rightarrow> ca_command \<Rightarrow> (terminal, cli_end, coned_error) oper" where
  "cmd_ca env CaList = cmd_ca_list env"
| "cmd_ca env (CaAdd file label) =
     obind (println (''CA import: '' @ file @ '' as '' @ quoted label)) (\<lambda>_.
     obind (println ''TODO: implement CA trust store write'') (\<lambda>_. ret Returned))"
| "cmd_ca env (CaRemove label) = obind (println (''TODO: remove CA '' @ quoted label)) (\<lambda>_. ret Returned)"

definition cmd_ssh_list :: "cli_env \<Rightarrow> (terminal, cli_end, coned_error) oper" where
  "cmd_ssh_list env =
     obind (open_store_direct env) (\<lambda>s.
     obind (from_store (list_ssh_keys s)) (\<lambda>ks.
     if ks = []
     then obind (println ''No SSH keys stored.'') (\<lambda>_. ret Returned)
     else obind (for_each (\<lambda>k. println (sk_label k @ '' '' @ em_dash @ '' '' @ sk_public_key k)) ks)
            (\<lambda>_. ret Returned)))"

fun cmd_ssh_route :: "cli_env \<Rightarrow> ssh_route_command \<Rightarrow> (terminal, cli_end, coned_error) oper" where
  "cmd_ssh_route env SshRouteList =
     obind (open_store_direct env) (\<lambda>s.
     obind (from_store (list_ssh_routes s)) (\<lambda>rts.
     obind (println (dec (length rts) @ '' SSH routes'')) (\<lambda>_. ret Returned)))"
| "cmd_ssh_route env (SshRouteAdd key app host) =
     obind (println (''TODO: add SSH route key='' @ key @ '' app='' @ debug_option app @ '' host='' @ debug_option host))
       (\<lambda>_. ret Returned)"
| "cmd_ssh_route env (SshRouteRemove i) = obind (println (''TODO: remove SSH route '' @ i)) (\<lambda>_. ret Returned)"

fun cmd_ssh :: "cli_env \<Rightarrow> ssh_command \<Rightarrow> (terminal, cli_end, coned_error) oper" where
  "cmd_ssh env SshList = cmd_ssh_list env"
| "cmd_ssh env (SshImport file label) =
     obind (println (''TODO: import SSH key '' @ file @ '' as '' @ quoted label)) (\<lambda>_. ret Returned)"
| "cmd_ssh env (SshRemove label) = obind (println (''TODO: remove SSH key '' @ quoted label)) (\<lambda>_. ret Returned)"
| "cmd_ssh env (SshRoute c) = cmd_ssh_route env c"

section \<open>Applications\<close>

definition cmd_app_list :: "cli_env \<Rightarrow> (terminal, cli_end, coned_error) oper" where
  "cmd_app_list env =
     obind (open_store_direct env) (\<lambda>s.
     obind (from_store (list_apps s)) (\<lambda>as.
     if as = []
     then obind (println ''No applications registered.'') (\<lambda>_. ret Returned)
     else obind (println (pad_right 20 ''LABEL'' @ ''  PATH'')) (\<lambda>_.
          obind (println (replicate 60 (CHR ''-''))) (\<lambda>_.
          obind (for_each (\<lambda>a. println (pad_right 20 (app_label a) @ ''  '' @ app_exe_path a)) as)
            (\<lambda>_. ret Returned)))))"

definition cmd_app_add :: "cli_env \<Rightarrow> string \<Rightarrow> string \<Rightarrow> (terminal, cli_end, coned_error) oper" where
  "cmd_app_add env label exe =
     obind (open_store_direct env) (\<lambda>s.
     obind (from_store (hash_file_path (ce_crypto env) exe)) (\<lambda>hash.
     obind (on_store unix_now) (\<lambda>now.
     obind (on_store (new_id (ce_crypto env))) (\<lambda>i.
     obind (oper_context ''Failed to register application'' (on_store (execute s (insert_app
         \<lparr>app_id = i, app_label = label, app_exe_path = exe, app_exe_hash = hash, app_registered_at = now\<rparr>))))
       (\<lambda>_.
     obind (println (''Registered '' @ quoted label @ '' at '' @ exe)) (\<lambda>_.
     obind (lift_res (str_range hash 0 16)) (\<lambda>short.
     obind (println (''Hash: '' @ short)) (\<lambda>_. ret Returned))))))))"

definition cmd_app_verify :: "cli_env \<Rightarrow> string \<Rightarrow> (terminal, cli_end, coned_error) oper" where
  "cmd_app_verify env label =
     obind (open_store_direct env) (\<lambda>s.
     obind (from_store (list_apps s)) (\<lambda>as.
     obind (lift_res (ok_or (Message (''App '' @ quoted label @ '' not found''))
         (find (\<lambda>a. app_label a = label) as))) (\<lambda>a.
     obind (from_store (hash_file_path (ce_crypto env) (app_exe_path a))) (\<lambda>current.
     if current = app_exe_hash a
     then obind (println (check_mark @ '' '' @ quoted label @ '' binary matches registered hash''))
            (\<lambda>_. ret Returned)
     else obind (eprintln (ballot_cross @ '' Hash mismatch for '' @ quoted label @ ''!'')) (\<lambda>_.
          obind (eprintln (''  Expected: '' @ app_exe_hash a)) (\<lambda>_.
          obind (eprintln (''  Found:    '' @ current)) (\<lambda>_. ret (Exited 1))))))))"

fun cmd_app :: "cli_env \<Rightarrow> app_command \<Rightarrow> (terminal, cli_end, coned_error) oper" where
  "cmd_app env AppList = cmd_app_list env"
| "cmd_app env (AppAdd label exe) = cmd_app_add env label exe"
| "cmd_app env (AppVerify label) = cmd_app_verify env label"
| "cmd_app env (AppUpdate label) = obind (println (''TODO: update hash for '' @ quoted label)) (\<lambda>_. ret Returned)"
| "cmd_app env (AppRemove label) = obind (println (''TODO: remove app '' @ quoted label)) (\<lambda>_. ret Returned)"

section \<open>Routes\<close>

definition cmd_route_list :: "cli_env \<Rightarrow> (terminal, cli_end, coned_error) oper" where
  "cmd_route_list env =
     obind (open_store_direct env) (\<lambda>s.
     obind (from_store (list_routes s)) (\<lambda>rts.
     if rts = []
     then obind (println ''No routes configured.'') (\<lambda>_. ret Returned)
     else obind (for_each (\<lambda>r. obind (lift_res (str_range (rt_cert_id r) 0 8)) (\<lambda>short.
            println (''['' @ rt_id r @ ''] cert='' @ short
              @ '' app='' @ (case rt_app_id r of None \<Rightarrow> ''any'' | Some a \<Rightarrow> a)
              @ '' pattern='' @ (case rt_pattern r of None \<Rightarrow> ''any'' | Some p \<Rightarrow> p)
              @ '' require_both='' @ show_bool (rt_require_both r)))) rts) (\<lambda>_. ret Returned)))"

definition app_id_of_label :: "store \<Rightarrow> string option \<Rightarrow> world \<Rightarrow> (string option, coned_error) res" where
  "app_id_of_label s app w = (case app of
      None \<Rightarrow> Ok None
    | Some label \<Rightarrow> rbind (map_err FromStore (list_apps s w)) (\<lambda>as.
        rbind (ok_or (Message (''App '' @ quoted label @ '' not found '' @ em_dash
            @ '' register it first with: cone app add --label '' @ CHR 0x22 # label @ CHR 0x22
            # '' --exe /path/to/binary''))
          (find (\<lambda>a. app_label a = label) as)) (\<lambda>a. Ok (Some (app_id a)))))"

fun match_type_and_pattern :: "string option \<Rightarrow> string option \<Rightarrow> string \<times> string option" where
  "match_type_and_pattern (Some h) _ = (''hostname'', Some h)"
| "match_type_and_pattern None (Some i) = (''ip'', Some i)"
| "match_type_and_pattern None None = (''hostname'', None)"

definition cmd_route_add ::
  "cli_env \<Rightarrow> string \<Rightarrow> string option \<Rightarrow> string option \<Rightarrow> string option \<Rightarrow> bool \<Rightarrow> int \<Rightarrow>
   (terminal, cli_end, coned_error) oper" where
  "cmd_route_add env cert app host ip require_both priority =
     obind (open_store_direct env) (\<lambda>s.
     obind (reading (\<lambda>tm. map_err (\<lambda>_. Message (''Certificate '' @ quoted cert @ '' not found''))
         (get_cert_by_label s cert (tm_world tm)))) (\<lambda>cert_row.
     obind (reading (\<lambda>tm. app_id_of_label s app (tm_world tm))) (\<lambda>aid.
     let (match_type, pattern) = match_type_and_pattern host ip in
     obind (on_store (new_id (ce_crypto env))) (\<lambda>i.
     obind (on_store unix_now) (\<lambda>now.
     obind (oper_context ''Failed to add route'' (on_store (execute s (insert_route
         \<lparr>r_id = i, r_cert_id = c_id cert_row, r_app_id = aid, r_match_type = match_type,
          r_pattern = pattern, r_require_both = (if require_both then 1 else 0), r_priority = priority,
          r_created_at = now\<rparr>)))) (\<lambda>_.
     obind (lift_res (str_range i 0 8)) (\<lambda>short.
     obind (println (''Route added (id: '' @ short @ '')'')) (\<lambda>_. ret Returned))))))))"

text \<open>
  SQLite's \<open>text LIKE pattern\<close>: \<open>%\<close> matches any text, \<open>_\<close> one character, and ASCII letters match
  in either case. Patterns stay below SQLite's limit of 50000 bytes.
\<close>

definition next_char :: "string \<Rightarrow> string" where
  "next_char s = dropWhile (\<lambda>c. 128 \<le> (of_char c :: nat) \<and> (of_char c :: nat) < 192) s"

function sql_like :: "string \<Rightarrow> string \<Rightarrow> bool" where
  "sql_like [] s = (s = [])"
| "sql_like (p # ps) [] = (p = CHR ''%'' \<and> sql_like ps [])"
| "sql_like (p # ps) (c # s) =
     (if p = CHR ''%'' then sql_like ps (c # s) \<or> sql_like (p # ps) s
      else if p = CHR ''_'' then sql_like ps (next_char s)
      else ascii_lower p = ascii_lower c \<and> sql_like ps s)"
  by pat_completeness auto

termination
proof (relation "measure (\<lambda>(p, s). length p + length s)")
  show "((ps, next_char s), (p # ps, c # s)) \<in> measure (\<lambda>(p, s). length p + length s)" for p ps c s
    using length_dropWhile_le [of "\<lambda>c. 128 \<le> (of_char c :: nat) \<and> (of_char c :: nat) < 192" s]
    by (simp add: next_char_def)
qed simp_all

definition cmd_route_remove :: "cli_env \<Rightarrow> string \<Rightarrow> (terminal, cli_end, coned_error) oper" where
  "cmd_route_remove env i =
     obind (open_store_direct env) (\<lambda>s.
     obind (on_store (execute s (delete_routes (\<lambda>r. r_id r = i \<or> sql_like (i @ ''%'') (r_id r))))) (\<lambda>_.
     obind (println ''Route removed.'') (\<lambda>_. ret Returned)))"

fun cmd_route :: "cli_env \<Rightarrow> route_command \<Rightarrow> (terminal, cli_end, coned_error) oper" where
  "cmd_route env RouteList = cmd_route_list env"
| "cmd_route env (RouteAdd cert app host ip require_both priority) =
     cmd_route_add env cert app host ip require_both priority"
| "cmd_route env (RouteRemove i) = cmd_route_remove env i"

definition cmd_test :: "cli_env \<Rightarrow> string option \<Rightarrow> string option \<Rightarrow> (terminal, cli_end, coned_error) oper" where
  "cmd_test env host ip =
     obind (open_store_direct env) (\<lambda>s.
     obind (from_store (resolve_route s None host ip)) (\<lambda>result. case result of
       Some cid \<Rightarrow>
         obind (from_store (get_cert_by_id s cid)) (\<lambda>cert.
         obind (println (check_mark @ '' Would present: '' @ c_label cert @ '' ('' @ c_subject cert @ '')''))
           (\<lambda>_. ret Returned))
     | None \<Rightarrow>
         obind (println (ballot_cross @ '' No route matched '' @ em_dash @ '' no certificate would be presented.''))
           (\<lambda>_. ret Returned)))"

section \<open>The main function\<close>

fun cli_main :: "cli_env \<Rightarrow> command \<Rightarrow> (terminal, cli_end, coned_error) oper" where
  "cli_main env StatusCommand = cmd_status env"
| "cli_main env LockCommand = cmd_lock env"
| "cli_main env ListCommand = cmd_list env"
| "cli_main env (ImportCommand file cert key label) = cmd_import env file cert key label"
| "cli_main env (RemoveCommand label) = cmd_remove env label"
| "cli_main env (BackupCommand out_path) = cmd_backup env out_path"
| "cli_main env (RestoreCommand file) = cmd_restore env file"
| "cli_main env (AuditCommand limit) = cmd_audit env limit"
| "cli_main env VerifyCommand = cmd_verify env"
| "cli_main env (CaCommand c) = cmd_ca env c"
| "cli_main env (SshCommand c) = cmd_ssh env c"
| "cli_main env (AppCommand c) = cmd_app env c"
| "cli_main env (RouteCommand c) = cmd_route env c"
| "cli_main env (TestCommand host ip) = cmd_test env host ip"

end
