(* ===== verification/Backup.thy ===== *)
theory Backup
  imports Export
begin

text \<open>
  What the backup of \<open>Export\<close> promises: the six passes of a restoration, of which five are
  instances of one contract, restoring into an empty store, restoring again, the failures of a
  restoration, and the transfer of one certificate as a PFX file.
\<close>

section \<open>One pass of the restoration\<close>

text \<open>
  What the passes over the CA certificates, the SSH keys, the applications and the two kinds of
  routes share: a row whose counterpart is in the store is passed over, any other is appended,
  provided it neither conflicts nor dangles.
\<close>

locale restore_pass =
  fixes conn :: connection
    and step :: "'x \<Rightarrow> restore_result \<Rightarrow> (world, restore_result, store_error) oper"
    and rows :: "tables \<Rightarrow> 'r list"
    and set_rows :: "'r list \<Rightarrow> tables \<Rightarrow> tables"
    and row :: "'x \<Rightarrow> 'r"
    and known :: "'x \<Rightarrow> 'r \<Rightarrow> bool"
    and conflict :: "'r \<Rightarrow> 'r \<Rightarrow> bool"
    and refs :: "'r \<Rightarrow> tables \<Rightarrow> bool"
    and count skip :: "restore_result \<Rightarrow> restore_result"
  assumes rows_set: "rows (set_rows rs t) = rs"
    and set_set: "set_rows rs (set_rows qs t) = set_rows rs t"
    and set_same: "set_rows (rows t) t = t"
    and refs_set: "refs y (set_rows rs t) = refs y t"
    and known_row: "known x (row x)"
    and known_conflict: "known x y \<Longrightarrow> conflict y (row x)"
    and step_known: "conn_tables conn w = Ok t \<Longrightarrow> \<exists>y\<in>set (rows t). known x y \<Longrightarrow> step x r w = (Ok (skip r), w)"
    and step_new: "conn_tables conn w = Ok t \<Longrightarrow> \<forall>y\<in>set (rows t). \<not> conflict y (row x) \<Longrightarrow> refs (row x) t \<Longrightarrow>
      step x r w = (Ok (count r), put_tables conn (set_rows (rows t @ [row x]) t) w)"
    and step_Ok: "conn_tables conn w = Ok t \<Longrightarrow> \<forall>y\<in>set (rows t). \<not> known x y \<Longrightarrow> step x r w = (Ok r', w') \<Longrightarrow>
      w' = put_tables conn (set_rows (rows t @ [row x]) t) w"
begin

lemma pass_known:
  "conn_tables conn w = Ok t \<Longrightarrow> \<forall>x\<in>set xs. \<exists>y\<in>set (rows t). known x y \<Longrightarrow>
   ofold step xs r w = (Ok ((skip ^^ length xs) r), w)"
proof (induction xs arbitrary: r)
  case (Cons x xs)
  then have "step x r w = (Ok (skip r), w)" by (simp add: step_known)
  with Cons show ?case by (simp add: funpow_swap1)
qed simp

lemma pass_new:
  "conn_tables conn w = Ok t \<Longrightarrow> pairwise_free conflict (rows t @ map row xs) \<Longrightarrow> \<forall>x\<in>set xs. refs (row x) t \<Longrightarrow>
   ofold step xs r w = (Ok ((count ^^ length xs) r), put_tables conn (set_rows (rows t @ map row xs) t) w)"
proof (induction xs arbitrary: r t w)
  case (Cons x xs)
  let ?t = "set_rows (rows t @ [row x]) t" and ?w = "put_tables conn (set_rows (rows t @ [row x]) t) w"
  have "\<forall>y\<in>set (rows t). \<not> conflict y (row x)"
    using Cons.prems(2) by (auto simp: pairwise_free_def sorted_wrt_append)
  then have "step x r w = (Ok (count r), ?w)" using Cons.prems by (simp add: step_new)
  moreover have "ofold step xs (count r) ?w =
      (Ok ((count ^^ length xs) (count r)), put_tables conn (set_rows (rows ?t @ map row xs) ?t) ?w)"
    using Cons.prems by (intro Cons.IH) (simp_all add: rows_set refs_set)
  ultimately show ?case by (simp add: rows_set set_set funpow_swap1)
qed (simp add: set_same conn_tables_same)

lemma pass_Ok:
  "conn_tables conn w = Ok t \<Longrightarrow> ofold step xs r w = (Ok r', w') \<Longrightarrow>
   \<exists>rs. w' = put_tables conn (set_rows (rows t @ rs) t) w \<and> (\<forall>x\<in>set xs. \<exists>y\<in>set (rows t @ rs). known x y)"
proof (induction xs arbitrary: r t w)
  case Nil
  then show ?case by (intro exI [of _ "[]"]) (simp add: set_same conn_tables_same)
next
  case (Cons x xs)
  then obtain r1 w1 where s: "step x r w = (Ok r1, w1)" "ofold step xs r1 w1 = (Ok r', w')"
    by (auto simp: obind_Ok_iff)
  show ?case
  proof (cases "\<exists>y\<in>set (rows t). known x y")
    case True
    then have "w1 = w" using s(1) Cons.prems(1) by (simp add: step_known)
    with Cons.IH [OF Cons.prems(1)] s(2) True show ?thesis by fastforce
  next
    case False
    let ?t = "set_rows (rows t @ [row x]) t"
    have w1: "w1 = put_tables conn ?t w" using False s(1) Cons.prems(1) by (auto dest: step_Ok)
    with Cons.prems(1) have "conn_tables conn w1 = Ok ?t" by simp
    from Cons.IH [OF this s(2)] obtain rs where
      "w' = put_tables conn (set_rows (rows ?t @ rs) ?t) w1" "\<forall>x\<in>set xs. \<exists>y\<in>set (rows ?t @ rs). known x y"
      by blast
    then show ?thesis
      using known_row [of x] by (intro exI [of _ "row x # rs"]) (auto simp: w1 rows_set set_set)
  qed
qed

end

interpretation ca_pass: restore_pass conn "restore_ca_cert conn" ca_certs "\<lambda>rs t. t\<lparr>ca_certs := rs\<rparr>" "restored_ca_cert"
  "\<lambda>x y. ca_fingerprint y = ba_fingerprint x" ca_conflict "\<lambda>_ _. True" "\<lambda>r. r\<lparr>rs_ca_certs := rs_ca_certs r + 1\<rparr>" "\<lambda>r. r" for conn
  by unfold_locales
    (auto simp: restore_ca_cert_def restored_ca_cert_def ca_conflict_def exists_row_def obind_reading obind_apply conn_execute_eq
      insert_ca_cert_def insert_row_def insert_row_Ok_iff refs_defs split: if_splits res.splits)

interpretation ssh_key_pass: restore_pass conn "restore_ssh_key lib conn" ssh_keys "\<lambda>rs t. t\<lparr>ssh_keys := rs\<rparr>" "restored_ssh_key lib"
  "\<lambda>x y. s_id y = bk_id x" ssh_key_conflict "\<lambda>_ _. True" "\<lambda>r. r\<lparr>rs_ssh_keys := rs_ssh_keys r + 1\<rparr>" "\<lambda>r. r" for conn lib
  by unfold_locales
    (auto simp: restore_ssh_key_def restored_ssh_key_def ssh_key_conflict_def exists_row_def obind_reading obind_apply conn_execute_eq
      insert_ssh_key_def insert_row_def insert_row_Ok_iff refs_defs split: if_splits res.splits)

interpretation app_pass: restore_pass conn "restore_app conn" apps "\<lambda>rs t. t\<lparr>apps := rs\<rparr>" "restored_app"
  "\<lambda>x y. app_exe_path y = bp_exe_path x" app_conflict "\<lambda>_ _. True" "\<lambda>r. r\<lparr>rs_apps := rs_apps r + 1\<rparr>" "\<lambda>r. r" for conn
  by unfold_locales
    (auto simp: restore_app_def restored_app_def app_conflict_def exists_row_def obind_reading obind_apply conn_execute_eq
      insert_app_def insert_row_def insert_row_Ok_iff refs_defs split: if_splits res.splits)

interpretation route_pass: restore_pass conn "restore_route conn" routes "\<lambda>rs t. t\<lparr>routes := rs\<rparr>" "restored_route"
  "\<lambda>x y. r_id y = br_id x" route_conflict "route_refs" "\<lambda>r. r\<lparr>rs_routes := rs_routes r + 1\<rparr>" "\<lambda>r. r\<lparr>rs_routes := rs_routes r + 1\<rparr>" for conn
  by unfold_locales
    (auto simp: restore_route_def restored_route_def route_conflict_def exists_row_def obind_reading obind_apply conn_execute_eq
      insert_or_ignore_route_def insert_route_def conn_tables_same insert_row_def insert_row_Ok_iff refs_defs split: if_splits res.splits)

interpretation ssh_route_pass: restore_pass conn "restore_ssh_route conn" ssh_routes "\<lambda>rs t. t\<lparr>ssh_routes := rs\<rparr>" "restored_ssh_route"
  "\<lambda>x y. sr_id y = bq_id x" ssh_route_conflict "ssh_route_refs" "\<lambda>r. r\<lparr>rs_ssh_routes := rs_ssh_routes r + 1\<rparr>" "\<lambda>r. r\<lparr>rs_ssh_routes := rs_ssh_routes r + 1\<rparr>" for conn
  by unfold_locales
    (auto simp: restore_ssh_route_def restored_ssh_route_def ssh_route_conflict_def exists_row_def obind_reading obind_apply conn_execute_eq
      insert_or_ignore_ssh_route_def insert_ssh_route_def conn_tables_same insert_row_def insert_row_Ok_iff refs_defs split: if_splits res.splits)

section \<open>The pass over the certificates\<close>

definition exists_fingerprint :: "string \<Rightarrow> tables \<Rightarrow> bool" where
  "exists_fingerprint f t \<longleftrightarrow> (\<exists>y\<in>set (certs t). c_fingerprint y = f)"

lemma restore_cert_known:
  "conn_tables conn w = Ok t \<Longrightarrow> exists_fingerprint (bc_fingerprint c) t \<Longrightarrow> restore_cert lib conn c r w = (Ok r, w)"
  by (auto simp: restore_cert_def exists_row_def obind_reading exists_fingerprint_def)

lemma restore_certs_known:
  "conn_tables conn w = Ok t \<Longrightarrow> \<forall>c\<in>set cs. exists_fingerprint (bc_fingerprint c) t \<Longrightarrow>
   ofold (restore_cert lib conn) cs r w = (Ok r, w)"
  by (induction cs) (simp_all add: restore_cert_known)

text \<open>Keys come back under fresh identifiers.\<close>

fun rekey :: "crypto_lib \<Rightarrow> nat \<Rightarrow> key_row list \<Rightarrow> key_row list" where
  "rekey lib n [] = []"
| "rekey lib n (k # ks) = k\<lparr>k_id := drawn_id lib n\<rparr> # rekey lib (Suc n) ks"

lemma cert_eta:
  "\<lparr>c_id = c_id c, c_label = c_label c, c_der = c_der c, c_fingerprint = c_fingerprint c,
    c_subject = c_subject c, c_issuer = c_issuer c, c_not_before = c_not_before c,
    c_not_after = c_not_after c, c_created_at = c_created_at c\<rparr> = c"
  by simp

lemma restore_cert_new:
  assumes "conn_tables conn w = Ok t" and "hex_correct lib" and "\<forall>y\<in>set (certs t). \<not> cert_conflict y c"
    and "\<forall>y\<in>set (keys t). k_id y \<noteq> drawn_id lib (w_draws w)" and "k_cert_id k = c_id c"
  shows "restore_cert lib conn (backup_cert_of lib (c, k)) r w = (Ok (r\<lparr>rs_certs := rs_certs r + 1\<rparr>),
    put_tables conn (t\<lparr>certs := certs t @ [c], keys := keys t @ [k\<lparr>k_id := drawn_id lib (w_draws w)\<rparr>]\<rparr>)
      (w\<lparr>w_draws := Suc (w_draws w)\<rparr>))"
proof -
  have d: "hex_decode lib (hex_encode lib bs) = Ok bs" for bs using assms(2) by (simp add: hex_correct_def)
  have "\<not> (\<exists>y\<in>set (certs t). c_fingerprint y = c_fingerprint c)" using assms(3) by (auto simp: cert_conflict_def)
  moreover have "insert_cert c t = Ok (t\<lparr>certs := certs t @ [c]\<rparr>)"
    using assms(3) by (simp add: insert_cert_def insert_row_def)
  moreover have "insert_key (k\<lparr>k_id := drawn_id lib (w_draws w)\<rparr>) (t\<lparr>certs := certs t @ [c]\<rparr>) =
      Ok (t\<lparr>certs := certs t @ [c], keys := keys t @ [k\<lparr>k_id := drawn_id lib (w_draws w)\<rparr>]\<rparr>)"
    using assms(4,5) by (auto simp: insert_key_def insert_row_def key_conflict_def key_refs_def)
  moreover have "\<lparr>k_id = i, k_cert_id = c_id c, k_algorithm = k_algorithm k, k_enc = k_enc k,
      k_salt = k_salt k, k_nonce = k_nonce k\<rparr> = k\<lparr>k_id := i\<rparr>" for i
    using assms(5) by (cases k) simp
  ultimately show ?thesis
    using assms(1)
    by (simp add: restore_cert_def backup_cert_of_def exists_row_def obind_apply d hex_or_default_def
        conn_execute_eq new_id_apply cert_eta)
qed

lemma restore_certs_new:
  assumes "hex_correct lib"
  shows "conn_tables conn w = Ok t \<Longrightarrow> pairwise_free cert_conflict (certs t @ map fst cks) \<Longrightarrow>
    inj_on (drawn_id lib) {w_draws w..<w_draws w + length cks} \<Longrightarrow>
    \<forall>y\<in>set (keys t). k_id y \<notin> drawn_id lib ` {w_draws w..<w_draws w + length cks} \<Longrightarrow>
    \<forall>(c, k)\<in>set cks. k_cert_id k = c_id c \<Longrightarrow>
    ofold (restore_cert lib conn) (map (backup_cert_of lib) cks) r w =
      (Ok (((\<lambda>r. r\<lparr>rs_certs := rs_certs r + 1\<rparr>) ^^ length cks) r),
       put_tables conn (t\<lparr>certs := certs t @ map fst cks, keys := keys t @ rekey lib (w_draws w) (map snd cks)\<rparr>)
         (w\<lparr>w_draws := w_draws w + length cks\<rparr>))"
proof (induction cks arbitrary: r t w)
  case Nil
  then show ?case by (simp add: conn_tables_same)
next
  case (Cons ck cks)
  obtain c k where ck: "ck = (c, k)" by (cases ck)
  let ?n = "w_draws w"
  let ?t = "t\<lparr>certs := certs t @ [c], keys := keys t @ [k\<lparr>k_id := drawn_id lib ?n\<rparr>]\<rparr>"
  let ?w = "put_tables conn ?t (w\<lparr>w_draws := Suc ?n\<rparr>)"
  have dr: "{?n..<?n + length (ck # cks)} = insert ?n {Suc ?n..<Suc ?n + length cks}" by auto
  have inj: "inj_on (drawn_id lib) {Suc ?n..<Suc ?n + length cks}" "drawn_id lib ?n \<notin> drawn_id lib ` {Suc ?n..<Suc ?n + length cks}"
    using Cons.prems(3) unfolding dr by (auto simp: inj_on_def)
  have "\<forall>y\<in>set (certs t). \<not> cert_conflict y c"
    using Cons.prems(2) by (auto simp: ck pairwise_free_def sorted_wrt_append)
  then have "restore_cert lib conn (backup_cert_of lib ck) r w = (Ok (r\<lparr>rs_certs := rs_certs r + 1\<rparr>), ?w)"
    using Cons.prems unfolding ck by (intro restore_cert_new assms) auto
  moreover have "ofold (restore_cert lib conn) (map (backup_cert_of lib) cks) (r\<lparr>rs_certs := rs_certs r + 1\<rparr>) ?w =
      (Ok (((\<lambda>r. r\<lparr>rs_certs := rs_certs r + 1\<rparr>) ^^ length cks) (r\<lparr>rs_certs := rs_certs r + 1\<rparr>)),
       put_tables conn (?t\<lparr>certs := certs ?t @ map fst cks, keys := keys ?t @ rekey lib (w_draws ?w) (map snd cks)\<rparr>)
         (?w\<lparr>w_draws := w_draws ?w + length cks\<rparr>))"
    using Cons.prems(1,2,4,5) inj unfolding dr
    by (intro Cons.IH) (auto simp: ck simp del: put_tables_draws)
  ultimately show ?case by (simp add: ck funpow_Suc_right del: funpow.simps)
qed

section \<open>A whole payload into an empty store\<close>

lemma counted [simp]:
  "((\<lambda>r. r\<lparr>rs_certs := Suc (rs_certs r)\<rparr>) ^^ n) q = q\<lparr>rs_certs := rs_certs q + n\<rparr>"
  "((\<lambda>r. r\<lparr>rs_ssh_keys := Suc (rs_ssh_keys r)\<rparr>) ^^ n) q = q\<lparr>rs_ssh_keys := rs_ssh_keys q + n\<rparr>"
  "((\<lambda>r. r\<lparr>rs_ca_certs := Suc (rs_ca_certs r)\<rparr>) ^^ n) q = q\<lparr>rs_ca_certs := rs_ca_certs q + n\<rparr>"
  "((\<lambda>r. r\<lparr>rs_apps := Suc (rs_apps r)\<rparr>) ^^ n) q = q\<lparr>rs_apps := rs_apps q + n\<rparr>"
  "((\<lambda>r. r\<lparr>rs_routes := Suc (rs_routes r)\<rparr>) ^^ n) q = q\<lparr>rs_routes := rs_routes q + n\<rparr>"
  "((\<lambda>r. r\<lparr>rs_ssh_routes := Suc (rs_ssh_routes r)\<rparr>) ^^ n) q = q\<lparr>rs_ssh_routes := rs_ssh_routes q + n\<rparr>"
  by (induction n) simp_all

lemma pass_over [simp]: "((\<lambda>r. r) ^^ n) q = q"
  by (induction n) simp_all

text \<open>A row that is backed up and restored is the same row, up to two columns.\<close>

lemma restored_backup [simp]:
  "restored_ca_cert (backup_ca_cert_of c) = c\<lparr>ca_system_file := None\<rparr>"
  "hex_correct lib \<Longrightarrow> restored_ssh_key lib (backup_ssh_key_of lib k) = k"
  "restored_app (backup_app_of a) = a"
  "restored_route (backup_route_of r) = r\<lparr>r_require_both := (if r_require_both r \<noteq> 0 then 1 else 0)\<rparr>"
  "restored_ssh_route (backup_ssh_route_of q) = q"
  by (simp_all add: restored_ca_cert_def backup_ca_cert_of_def restored_ssh_key_def backup_ssh_key_of_def
      restored_app_def backup_app_of_def restored_route_def backup_route_of_def restored_ssh_route_def
      backup_ssh_route_of_def hex_or_default_def hex_correct_def)

text \<open>Each key row has exactly one certificate.\<close>

definition cert_of_key :: "tables \<Rightarrow> key_row \<Rightarrow> cert" where
  "cert_of_key t k = hd (filter (\<lambda>c. c_id c = k_cert_id k) (certs t))"

lemma pairwise_free_filter_unique:
  "pairwise_free cert_conflict cs \<Longrightarrow> c \<in> set cs \<Longrightarrow> filter (\<lambda>x. c_id x = c_id c) cs = [c]"
proof (induction cs)
  case (Cons x xs)
  have tail: "pairwise_free cert_conflict xs" "\<forall>y\<in>set xs. c_id y \<noteq> c_id x"
    using Cons.prems(1) by (auto simp: pairwise_free_def cert_conflict_def)
  show ?case
  proof (cases "c = x")
    case True
    then have "filter (\<lambda>y. c_id y = c_id c) xs = []" using tail(2) by (simp add: filter_empty_conv)
    with True show ?thesis by simp
  next
    case False
    then have "c \<in> set xs" using Cons.prems(2) by simp
    with Cons.IH [OF tail(1)] tail(2) show ?thesis by auto
  qed
qed simp

lemma cert_of_key:
  assumes "tables_ok t" and "k \<in> set (keys t)"
  shows "cert_of_key t k \<in> set (certs t)" "c_id (cert_of_key t k) = k_cert_id k"
    "filter (\<lambda>c. c_id c = k_cert_id k) (certs t) = [cert_of_key t k]"
proof -
  obtain c where c: "c \<in> set (certs t)" "c_id c = k_cert_id k"
    using assms by (auto simp: tables_ok_defs refs_defs has_cert_def)
  moreover have "pairwise_free cert_conflict (certs t)" using assms(1) by (simp add: tables_ok_defs)
  ultimately have f: "filter (\<lambda>x. c_id x = k_cert_id k) (certs t) = [c]"
    using pairwise_free_filter_unique [of "certs t" c] by simp
  then have "cert_of_key t k = c" by (simp add: cert_of_key_def)
  with c f show "cert_of_key t k \<in> set (certs t)" "c_id (cert_of_key t k) = k_cert_id k"
    "filter (\<lambda>c. c_id c = k_cert_id k) (certs t) = [cert_of_key t k]" by simp_all
qed

lemma join_rows_eq:
  assumes "tables_ok t"
  shows "join_rows t = map (\<lambda>k. (cert_of_key t k, k)) (keys t)"
proof -
  have "concat (map (\<lambda>k. map (\<lambda>c. (c, k)) (filter (\<lambda>c. c_id c = k_cert_id k) (certs t))) ks) =
      map (\<lambda>k. (cert_of_key t k, k)) ks" if "set ks \<subseteq> set (keys t)" for ks
    using that by (induction ks) (simp_all add: cert_of_key [OF assms])
  then show ?thesis by (simp add: join_rows_def)
qed

text \<open>Certificates of one table conflict only with themselves.\<close>

lemma pairwise_free_members:
  "pairwise_free cert_conflict cs \<Longrightarrow> c \<in> set cs \<Longrightarrow> d \<in> set cs \<Longrightarrow> cert_conflict c d \<Longrightarrow> c = d"
  by (induction cs) (auto simp: pairwise_free_def cert_conflict_def)

lemma join_certs_free:
  assumes "tables_ok t" and "distinct (map k_cert_id (keys t))"
  shows "pairwise_free cert_conflict (map (cert_of_key t) (keys t))"
proof -
  have p: "pairwise_free cert_conflict (certs t)" using assms(1) by (simp add: tables_ok_defs)
  have "pairwise_free cert_conflict (map (cert_of_key t) ks)"
    if "set ks \<subseteq> set (keys t)" "distinct (map k_cert_id ks)" for ks
    using that
  proof (induction ks)
    case (Cons k ks)
    have "\<not> cert_conflict (cert_of_key t k) (cert_of_key t k')" if k': "k' \<in> set ks" for k'
    proof
      assume "cert_conflict (cert_of_key t k) (cert_of_key t k')"
      then have "cert_of_key t k = cert_of_key t k'"
        using Cons.prems(1) k' cert_of_key(1) [OF assms(1)] by (intro pairwise_free_members [OF p]) auto
      then have "k_cert_id k = k_cert_id k'"
        using Cons.prems(1) k' cert_of_key(2) [OF assms(1), of k] cert_of_key(2) [OF assms(1), of k'] by auto
      with Cons.prems(2) k' show False by auto
    qed
    with Cons show ?case by (simp add: pairwise_free_def)
  qed simp
  with assms(2) show ?thesis by simp
qed


text \<open>What a backup of the tables \<open>t\<close> leaves in an empty store, key identifiers from draw \<open>n\<close> on.\<close>

definition restored_tables :: "crypto_lib \<Rightarrow> nat \<Rightarrow> tables \<Rightarrow> tables" where
  "restored_tables lib n t = \<lparr>certs = map (cert_of_key t) (keys t), keys = rekey lib n (keys t),
     ssh_keys = ssh_keys t, ca_certs = map (\<lambda>c. c\<lparr>ca_system_file := None\<rparr>) (ca_certs t), apps = apps t,
     routes = map (\<lambda>r. r\<lparr>r_require_both := (if r_require_both r \<noteq> 0 then 1 else 0)\<rparr>) (routes t),
     ssh_routes = ssh_routes t, integrity = [], audit_log = []\<rparr>"

lemma find_rekey:
  "(case find (\<lambda>k. k_cert_id k = i) ks of
      None \<Rightarrow> find (\<lambda>k. k_cert_id k = i) (rekey lib n ks) = None
    | Some k \<Rightarrow> \<exists>j. find (\<lambda>k. k_cert_id k = i) (rekey lib n ks) = Some (k\<lparr>k_id := j\<rparr>))"
  by (induction ks arbitrary: n) (auto split: option.splits)

lemma restored_certs:
  assumes "tables_ok t"
  shows "cert_of_key t ` set (keys t) = {c \<in> set (certs t). c_id c \<in> k_cert_id ` set (keys t)}"
proof -
  have "c = cert_of_key t k" if "c \<in> set (certs t)" "k \<in> set (keys t)" "c_id c = k_cert_id k" for c k
  proof -
    have "c \<in> set (filter (\<lambda>c. c_id c = k_cert_id k) (certs t))" using that by simp
    then show ?thesis using cert_of_key(3) [OF assms that(2)] by simp
  qed
  then show ?thesis using cert_of_key(1,2) [OF assms] by (auto simp: image_iff)
qed

text \<open>A backup that can be restored: one key to a certificate, and no route to one without.\<close>

definition restorable :: "tables \<Rightarrow> bool" where
  "restorable t \<longleftrightarrow> tables_ok t \<and> distinct (map k_cert_id (keys t)) \<and>
     (\<forall>r\<in>set (routes t). r_cert_id r \<in> k_cert_id ` set (keys t))"

lemma restore_payload_empty:
  assumes "hex_correct lib" and "restorable t" and "conn_tables conn w = Ok no_rows"
    and "inj_on (drawn_id lib) {w_draws w..<w_draws w + length (keys t)}"
  shows "restore_payload lib conn (payload_of lib now t) w =
    (Ok \<lparr>rs_certs = length (keys t), rs_ssh_keys = length (ssh_keys t), rs_ca_certs = length (ca_certs t),
       rs_apps = length (apps t), rs_routes = length (routes t), rs_ssh_routes = length (ssh_routes t)\<rparr>,
     put_tables conn (restored_tables lib (w_draws w) t) (w\<lparr>w_draws := w_draws w + length (keys t)\<rparr>))"
proof -
  have ok: "tables_ok t" and one: "distinct (map k_cert_id (keys t))"
    and routed: "\<forall>r\<in>set (routes t). r_cert_id r \<in> k_cert_id ` set (keys t)"
    using assms(2) by (simp_all add: restorable_def)
  have free: "pairwise_free ssh_key_conflict (ssh_keys t)" "pairwise_free ca_conflict (ca_certs t)"
    "pairwise_free app_conflict (apps t)" "pairwise_free route_conflict (routes t)"
    "pairwise_free ssh_route_conflict (ssh_routes t)"
    and refs: "\<forall>r\<in>set (routes t). route_refs r t" "\<forall>r\<in>set (ssh_routes t). ssh_route_refs r t"
    using ok by (simp_all add: tables_ok_defs)
  let ?n = "w_draws w" and ?m = "length (keys t)"
  let ?R = "restored_tables lib ?n t"
  let ?t1 = "no_rows\<lparr>ca_certs := ca_certs ?R\<rparr>"
  let ?t2 = "?t1\<lparr>certs := certs ?R, keys := keys ?R\<rparr>"
  let ?t3 = "?t2\<lparr>ssh_keys := ssh_keys ?R\<rparr>"
  let ?t4 = "?t3\<lparr>apps := apps ?R\<rparr>"
  let ?t5 = "?t4\<lparr>routes := routes ?R\<rparr>"
  let ?w = "w\<lparr>w_draws := ?n + ?m\<rparr>"
  have conn: "conn_tables conn ?w = Ok no_rows" using assms(3) by simp
  have p1: "ofold (restore_ca_cert conn) (map backup_ca_cert_of (ca_certs t)) q w =
      (Ok (q\<lparr>rs_ca_certs := rs_ca_certs q + length (ca_certs t)\<rparr>), put_tables conn ?t1 w)" for q
    using assms(3) free(2)
    by (subst ca_pass.pass_new [OF assms(3)])
      (simp_all add: no_rows_def restored_tables_def comp_def pairwise_free_map_same ca_conflict_def)
  have "ofold (restore_cert lib conn) (map (backup_cert_of lib) (join_rows t)) q (put_tables conn ?t1 w) =
      (Ok (q\<lparr>rs_certs := rs_certs q + ?m\<rparr>), put_tables conn ?t2 ?w)" for q
    using assms(3,4) join_certs_free [OF ok one] cert_of_key(2) [OF ok]
    by (subst restore_certs_new [OF assms(1), where t = ?t1])
      (auto simp: join_rows_eq [OF ok] no_rows_def restored_tables_def comp_def)
  then have p2: "ofold (restore_cert lib conn) (map (backup_cert_of lib) (join_rows t)) q (put_tables conn ?t1 w) =
      (Ok (q\<lparr>rs_certs := rs_certs q + ?m\<rparr>), put_tables conn ?t2 ?w)" for q .
  have p3: "ofold (restore_ssh_key lib conn) (map (backup_ssh_key_of lib) (ssh_keys t)) q (put_tables conn ?t2 ?w) =
      (Ok (q\<lparr>rs_ssh_keys := rs_ssh_keys q + length (ssh_keys t)\<rparr>), put_tables conn ?t3 ?w)" for q
    using free(1) assms(1)
    by (subst ssh_key_pass.pass_new [OF conn_tables_put [OF conn]])
      (simp_all add: no_rows_def restored_tables_def comp_def del: put_tables_draws)
  have p4: "ofold (restore_app conn) (map backup_app_of (apps t)) q (put_tables conn ?t3 ?w) =
      (Ok (q\<lparr>rs_apps := rs_apps q + length (apps t)\<rparr>), put_tables conn ?t4 ?w)" for q
    using free(3)
    by (subst app_pass.pass_new [OF conn_tables_put [OF conn]])
      (simp_all add: no_rows_def restored_tables_def comp_def del: put_tables_draws)
  have has: "has_app a ?t4 = has_app a t" "has_ssh_key i ?t5 = has_ssh_key i t" "has_app a ?t5 = has_app a t" for a i
    by (simp_all add: has_defs restored_tables_def)
  have cert: "has_cert (r_cert_id r) ?t4" if "r \<in> set (routes t)" for r
    using routed that cert_of_key(2) [OF ok] by (force simp: has_cert_def restored_tables_def)
  have free4: "pairwise_free route_conflict (map (\<lambda>r. r\<lparr>r_require_both := (if r_require_both r \<noteq> 0 then 1 else 0)\<rparr>) (routes t))"
    using free(4) by (subst pairwise_free_map_same) (simp_all add: route_conflict_def)
  have p5: "ofold (restore_route conn) (map backup_route_of (routes t)) q (put_tables conn ?t4 ?w) =
      (Ok (q\<lparr>rs_routes := rs_routes q + length (routes t)\<rparr>), put_tables conn ?t5 ?w)" for q
    using free4 refs(1) cert
    by (subst route_pass.pass_new [OF conn_tables_put [OF conn]])
      (simp_all add: has refs_defs comp_def del: put_tables_draws,
       simp_all add: no_rows_def restored_tables_def del: put_tables_draws)
  have p6: "ofold (restore_ssh_route conn) (map backup_ssh_route_of (ssh_routes t)) q (put_tables conn ?t5 ?w) =
      (Ok (q\<lparr>rs_ssh_routes := rs_ssh_routes q + length (ssh_routes t)\<rparr>), put_tables conn ?R ?w)" for q
    using free(5) refs(2)
    by (subst ssh_route_pass.pass_new [OF conn_tables_put [OF conn]])
      (simp_all add: no_rows_def restored_tables_def refs_defs has_defs comp_def del: put_tables_draws)
  show ?thesis
    by (simp add: restore_payload_def payload_of_def obind_apply p1 p2 p3 p4 p5 p6 nothing_restored_def
        del: put_tables_draws)
qed

section \<open>A payload that the store already holds\<close>

definition payload_known :: "backup_payload \<Rightarrow> tables \<Rightarrow> bool" where
  "payload_known p t \<longleftrightarrow>
     (\<forall>x\<in>set (pl_ca_certs p). \<exists>y\<in>set (ca_certs t). ca_fingerprint y = ba_fingerprint x) \<and>
     (\<forall>x\<in>set (pl_certs p). exists_fingerprint (bc_fingerprint x) t) \<and>
     (\<forall>x\<in>set (pl_ssh_keys p). \<exists>y\<in>set (ssh_keys t). s_id y = bk_id x) \<and>
     (\<forall>x\<in>set (pl_apps p). \<exists>y\<in>set (apps t). app_exe_path y = bp_exe_path x)"

definition routes_known :: "backup_payload \<Rightarrow> tables \<Rightarrow> bool" where
  "routes_known p t \<longleftrightarrow> (\<forall>x\<in>set (pl_routes p). \<exists>y\<in>set (routes t). r_id y = br_id x) \<and>
     (\<forall>x\<in>set (pl_ssh_routes p). \<exists>y\<in>set (ssh_routes t). sr_id y = bq_id x)"

lemma restore_credentials_known:
  assumes "conn_tables conn w = Ok t" and "payload_known p t"
  shows "restore_payload lib conn p w =
    obind (ofold (restore_route conn) (pl_routes p) nothing_restored)
      (ofold (restore_ssh_route conn) (pl_ssh_routes p)) w"
  using assms unfolding payload_known_def
  by (simp add: restore_payload_def obind_apply ca_pass.pass_known restore_certs_known
      ssh_key_pass.pass_known app_pass.pass_known)

lemma restore_payload_known:
  assumes "conn_tables conn w = Ok t" and "payload_known p t" and "routes_known p t"
  shows "restore_payload lib conn p w =
    (Ok (nothing_restored\<lparr>rs_routes := length (pl_routes p), rs_ssh_routes := length (pl_ssh_routes p)\<rparr>), w)"
  using assms(3) unfolding routes_known_def
  by (simp add: restore_credentials_known [OF assms(1,2)] obind_apply route_pass.pass_known [OF assms(1)]
      ssh_route_pass.pass_known [OF assms(1)] nothing_restored_def)

lemma restore_cert_Ok:
  assumes "conn_tables conn w = Ok t" and "restore_cert lib conn c r w = (Ok r', w')"
  shows "\<exists>cs ks n. w' = put_tables conn (t\<lparr>certs := certs t @ cs, keys := keys t @ ks\<rparr>) (w\<lparr>w_draws := n\<rparr>) \<and>
    exists_fingerprint (bc_fingerprint c) (t\<lparr>certs := certs t @ cs, keys := keys t @ ks\<rparr>)"
proof (cases "exists_fingerprint (bc_fingerprint c) t")
  case True
  with assms have "w' = w" by (simp add: restore_cert_known)
  with True assms(1) show ?thesis
    by (intro exI [of _ "[]"] exI [of _ "w_draws w"]) (simp add: conn_tables_same)
next
  case False
  then have "\<not> (\<exists>y\<in>set (certs t). c_fingerprint y = bc_fingerprint c)" by (auto simp: exists_fingerprint_def)
  with assms obtain d t1 t2 k where
    "insert_cert \<lparr>c_id = bc_id c, c_label = bc_label c, c_der = d, c_fingerprint = bc_fingerprint c,
          c_subject = bc_subject c, c_issuer = bc_issuer c, c_not_before = bc_not_before c,
          c_not_after = bc_not_after c, c_created_at = bc_created_at c\<rparr> t = Ok t1"
    "insert_key k t1 = Ok t2" "w' = put_tables conn t2 (w\<lparr>w_draws := Suc (w_draws w)\<rparr>)"
    by (auto simp: restore_cert_def exists_row_def obind_reading obind_Ok_iff conn_execute_Ok_iff new_id_apply)
  then show ?thesis
    by (intro exI [of _ "[\<lparr>c_id = bc_id c, c_label = bc_label c, c_der = d, c_fingerprint = bc_fingerprint c,
          c_subject = bc_subject c, c_issuer = bc_issuer c, c_not_before = bc_not_before c,
          c_not_after = bc_not_after c, c_created_at = bc_created_at c\<rparr>]"] exI [of _ "[k]"]
        exI [of _ "Suc (w_draws w)"])
      (auto simp: insert_cert_def insert_key_def insert_row_Ok_iff res_simps exists_fingerprint_def)
qed

lemma restore_certs_Ok:
  "conn_tables conn w = Ok t \<Longrightarrow> ofold (restore_cert lib conn) xs r w = (Ok r', w') \<Longrightarrow>
   \<exists>cs ks n. w' = put_tables conn (t\<lparr>certs := certs t @ cs, keys := keys t @ ks\<rparr>) (w\<lparr>w_draws := n\<rparr>) \<and>
     (\<forall>c\<in>set xs. exists_fingerprint (bc_fingerprint c) (t\<lparr>certs := certs t @ cs, keys := keys t @ ks\<rparr>))"
proof (induction xs arbitrary: r t w)
  case Nil
  then show ?case
    by (intro exI [of _ "[]"] exI [of _ "w_draws w"]) (simp add: conn_tables_same)
next
  case (Cons x xs)
  then obtain r1 w1 where s: "restore_cert lib conn x r w = (Ok r1, w1)"
    "ofold (restore_cert lib conn) xs r1 w1 = (Ok r', w')"
    by (auto simp: obind_Ok_iff)
  from restore_cert_Ok [OF Cons.prems(1) s(1)] obtain cs ks n where
    a: "w1 = put_tables conn (t\<lparr>certs := certs t @ cs, keys := keys t @ ks\<rparr>) (w\<lparr>w_draws := n\<rparr>)"
    "exists_fingerprint (bc_fingerprint x) (t\<lparr>certs := certs t @ cs, keys := keys t @ ks\<rparr>)" by blast
  let ?t = "t\<lparr>certs := certs t @ cs, keys := keys t @ ks\<rparr>"
  have "conn_tables conn w1 = Ok ?t" using Cons.prems(1) by (simp add: a)
  from Cons.IH [OF this s(2)] obtain cs' ks' n' where
    b: "w' = put_tables conn (?t\<lparr>certs := certs ?t @ cs', keys := keys ?t @ ks'\<rparr>) (w1\<lparr>w_draws := n'\<rparr>)"
    "\<forall>c\<in>set xs. exists_fingerprint (bc_fingerprint c) (?t\<lparr>certs := certs ?t @ cs', keys := keys ?t @ ks'\<rparr>)"
    by blast
  then show ?case
    using a by (intro exI [of _ "cs @ cs'"] exI [of _ "ks @ ks'"] exI [of _ n'])
      (auto simp: exists_fingerprint_def)
qed

text \<open>A restoration that succeeds leaves a store that knows the whole payload.\<close>

lemma restore_payload_Ok:
  assumes "conn_tables conn w = Ok t" and "restore_payload lib conn p w = (Ok q, w')"
  shows "\<exists>t'. conn_tables conn w' = Ok t' \<and> payload_known p t' \<and> routes_known p t'"
proof -
  from assms(2) obtain q1 w1 q2 w2 q3 w3 q4 w4 q5 w5 where
    s: "ofold (restore_ca_cert conn) (pl_ca_certs p) nothing_restored w = (Ok q1, w1)"
    "ofold (restore_cert lib conn) (pl_certs p) q1 w1 = (Ok q2, w2)"
    "ofold (restore_ssh_key lib conn) (pl_ssh_keys p) q2 w2 = (Ok q3, w3)"
    "ofold (restore_app conn) (pl_apps p) q3 w3 = (Ok q4, w4)"
    "ofold (restore_route conn) (pl_routes p) q4 w4 = (Ok q5, w5)"
    "ofold (restore_ssh_route conn) (pl_ssh_routes p) q5 w5 = (Ok q, w')"
    by (auto simp: restore_payload_def obind_Ok_iff)
  from ca_pass.pass_Ok [OF assms(1) s(1)] obtain rs1 where
    1: "w1 = put_tables conn (t\<lparr>ca_certs := ca_certs t @ rs1\<rparr>) w"
    "\<forall>x\<in>set (pl_ca_certs p). \<exists>y\<in>set (ca_certs t @ rs1). ca_fingerprint y = ba_fingerprint x" by blast
  let ?t1 = "t\<lparr>ca_certs := ca_certs t @ rs1\<rparr>"
  have c1: "conn_tables conn w1 = Ok ?t1" using assms(1) by (simp add: 1)
  from restore_certs_Ok [OF c1 s(2)] obtain cs ks n where
    2: "w2 = put_tables conn (?t1\<lparr>certs := certs ?t1 @ cs, keys := keys ?t1 @ ks\<rparr>) (w1\<lparr>w_draws := n\<rparr>)"
    "\<forall>c\<in>set (pl_certs p). exists_fingerprint (bc_fingerprint c) (?t1\<lparr>certs := certs ?t1 @ cs, keys := keys ?t1 @ ks\<rparr>)"
    by blast
  let ?t2 = "?t1\<lparr>certs := certs ?t1 @ cs, keys := keys ?t1 @ ks\<rparr>"
  have c2: "conn_tables conn w2 = Ok ?t2" unfolding 2(1) using c1 by (intro conn_tables_put) simp
  from ssh_key_pass.pass_Ok [OF c2 s(3)] obtain rs3 where
    3: "w3 = put_tables conn (?t2\<lparr>ssh_keys := ssh_keys ?t2 @ rs3\<rparr>) w2"
    "\<forall>x\<in>set (pl_ssh_keys p). \<exists>y\<in>set (ssh_keys ?t2 @ rs3). s_id y = bk_id x" by blast
  let ?t3 = "?t2\<lparr>ssh_keys := ssh_keys ?t2 @ rs3\<rparr>"
  have c3: "conn_tables conn w3 = Ok ?t3" unfolding 3(1) using c2 by (rule conn_tables_put)
  from app_pass.pass_Ok [OF c3 s(4)] obtain rs4 where
    4: "w4 = put_tables conn (?t3\<lparr>apps := apps ?t3 @ rs4\<rparr>) w3"
    "\<forall>x\<in>set (pl_apps p). \<exists>y\<in>set (apps ?t3 @ rs4). app_exe_path y = bp_exe_path x" by blast
  let ?t4 = "?t3\<lparr>apps := apps ?t3 @ rs4\<rparr>"
  have c4: "conn_tables conn w4 = Ok ?t4" unfolding 4(1) using c3 by (rule conn_tables_put)
  from route_pass.pass_Ok [OF c4 s(5)] obtain rs5 where
    5: "w5 = put_tables conn (?t4\<lparr>routes := routes ?t4 @ rs5\<rparr>) w4"
    "\<forall>x\<in>set (pl_routes p). \<exists>y\<in>set (routes ?t4 @ rs5). r_id y = br_id x" by blast
  let ?t5 = "?t4\<lparr>routes := routes ?t4 @ rs5\<rparr>"
  have c5: "conn_tables conn w5 = Ok ?t5" unfolding 5(1) using c4 by (rule conn_tables_put)
  from ssh_route_pass.pass_Ok [OF c5 s(6)] obtain rs6 where
    6: "w' = put_tables conn (?t5\<lparr>ssh_routes := ssh_routes ?t5 @ rs6\<rparr>) w5"
    "\<forall>x\<in>set (pl_ssh_routes p). \<exists>y\<in>set (ssh_routes ?t5 @ rs6). sr_id y = bq_id x" by blast
  have "conn_tables conn w' = Ok (?t5\<lparr>ssh_routes := ssh_routes ?t5 @ rs6\<rparr>)"
    unfolding 6(1) using c5 by (rule conn_tables_put)
  with 1(2) 2(2) 3(2) 4(2) 5(2) 6(2) show ?thesis
    by (auto simp: payload_known_def routes_known_def exists_fingerprint_def)
qed

section \<open>What the external crates promise\<close>

text \<open>What \<open>age\<close> encrypts under a passphrase it decrypts under that passphrase.\<close>

definition age_correct :: "export_lib \<Rightarrow> bool" where
  "age_correct x \<longleftrightarrow> (\<forall>n pass h bs wr out. age_wrap_output x n pass = Ok h \<longrightarrow> age_write_all x h bs = Ok wr \<longrightarrow>
     age_finish x wr = Ok out \<longrightarrow>
     (\<exists>d r. age_decryptor_new x out = Ok (ByPassphrase d) \<and> age_passphrase_decrypt x d pass = Ok r \<and>
        age_read_to_end x r = Ok bs))"

definition payload_json_correct :: "export_lib \<Rightarrow> bool" where
  "payload_json_correct x \<longleftrightarrow> (\<forall>p bs. payload_to_vec_pretty x p = Ok bs \<longrightarrow> payload_from_slice x bs = Ok p)"

text \<open>A written PFX opens under its passphrase and holds the key and the certificates.\<close>

definition p12_correct :: "export_lib \<Rightarrow> import_lib \<Rightarrow> bool" where
  "p12_correct x y \<longleftrightarrow> (\<forall>d c. p12_cert_from_der x d = Ok c \<longrightarrow> c = d) \<and>
     (\<forall>n pass key i cs out. p12_write x n pass (key, i, cs) = Ok out \<longrightarrow> p12_open y out pass = Ok (Some (cs, key)))"

lemma age_decrypt_encrypt:
  assumes "age_correct x" and "age_encrypt x bs pass w = (Ok out, w')"
  shows "age_decrypt x out pass = Ok bs"
proof -
  from assms(2) obtain h wr where "age_wrap_output x (w_draws w) pass = Ok h"
    "age_write_all x h bs = Ok wr" "age_finish x wr = Ok out"
    by (auto simp: age_encrypt_def drawing_def obind_Ok_iff map_err_Ok_iff)
  with assms(1) obtain d r where "age_decryptor_new x out = Ok (ByPassphrase d)"
    "age_passphrase_decrypt x d pass = Ok r" "age_read_to_end x r = Ok bs"
    unfolding age_correct_def by blast
  then show ?thesis by (simp add: age_decrypt_def)
qed

lemma create_backup_Ok:
  assumes "create_backup lib x s pass w = (Ok data, w1)" and "store_tables s w = Ok t"
  shows "\<exists>json w2 w3. payload_to_vec_pretty x (payload_of lib (w_clock w) t) = Ok json \<and>
    age_encrypt x json pass w2 = (Ok data, w3)"
proof -
  from assms obtain json w3 where "payload_to_vec_pretty x (payload_of lib (w_clock w) t) = Ok json"
    "age_encrypt x json pass w = (Ok data, w3)"
    by (auto simp: create_backup_def collect_backup_payload_def obind_Ok_iff map_err_Ok_iff store_tables_Ok_iff)
  then show ?thesis by blast
qed

lemma restore_backup_apply:
  assumes "age_decrypt x data pass = Ok json" and "payload_from_slice x json = Ok p"
    and "st_state s = Unlocked conn master" and "restore_payload lib conn p w = (r, w1)"
    and "conn_tables conn w1 = Ok t"
  shows "restore_backup lib x s data pass w = (case r of Panic \<Rightarrow> (Panic, w1) | Err e \<Rightarrow> (Err e, w1)
    | Ok q \<Rightarrow> (case insert_audit \<lparr>au_id = drawn_id lib (w_draws w1), au_event_type = ''backup_restored'',
          au_cert_id = None, au_ssh_key_id = None, au_app_id = None,
          au_detail = Some (''Restored: '' @ dec (rs_certs q) @ '' certs, '' @ dec (rs_ssh_keys q) @ '' SSH keys, ''
            @ dec (rs_apps q) @ '' apps''), au_occurred_at = w_clock w\<rparr> t of
        Panic \<Rightarrow> (Panic, w1\<lparr>w_draws := Suc (w_draws w1)\<rparr>)
      | Err e \<Rightarrow> (Err (Database e), w1\<lparr>w_draws := Suc (w_draws w1)\<rparr>)
      | Ok t' \<Rightarrow> (Ok q, put_tables conn t' (w1\<lparr>w_draws := Suc (w_draws w1)\<rparr>))))"
  using assms
  by (simp add: restore_backup_def obind_apply new_id_apply conn_execute_eq split: res.splits)

section \<open>Concrete crates\<close>

text \<open>
  Transparent instances: \<open>age\<close> prepends the passphrase, so does the PFX writer. The serialised form
  is a constant for the payload under test.
\<close>

definition demo_export :: "backup_payload \<Rightarrow> export_lib" where
  "demo_export p = \<lparr>p12_cert_from_der = Ok,
     p12_write = (\<lambda>n pass chain. Ok (as_bytes pass @ fst chain)),
     payload_to_vec_pretty = (\<lambda>q. if q = p then Ok [1] else Err ''other''),
     payload_from_slice = (\<lambda>bs. Ok p),
     age_wrap_output = (\<lambda>n pass. Ok (as_bytes pass)),
     age_write_all = (\<lambda>h bs. Ok (h @ bs)), age_finish = Ok,
     age_decryptor_new = (\<lambda>bs. Ok (ByPassphrase bs)),
     age_passphrase_decrypt = (\<lambda>bs pass. if take (length pass) bs = as_bytes pass
        then Ok (drop (length pass) bs) else Err ''decryption failed''),
     age_read_to_end = Ok\<rparr>"

lemma demo_export_correct: "age_correct (demo_export p)" "payload_json_correct (demo_export p)"
  by (auto simp: age_correct_def payload_json_correct_def demo_export_def split: if_splits)

section \<open>Properties\<close>

text \<open>
  C8. A backup restored into an empty store brings back every certificate that has a key, with a
  key that decrypts to the same bytes under the same master passphrase, every SSH key, application,
  route and SSH route as it was, and every CA certificate except for the place where it was
  installed. It holds for a database in which no certificate has two keys and no route points at a
  certificate without one.
\<close>

theorem backup_restore_round_trip:
  assumes "hex_correct lib" and "age_correct x" and "payload_json_correct x"
    and "store_tables s w = Ok t" and "restorable t" and "create_backup lib x s pass w = (Ok data, w1)"
    and "store_tables s2 w2 = Ok no_rows"
    and "inj_on (drawn_id lib) {w_draws w2..<w_draws w2 + length (keys t)}"
  shows "\<exists>q w3 t'. restore_backup lib x s2 data pass w2 = (Ok q, w3) \<and> store_tables s2 w3 = Ok t' \<and>
    set (certs t') = {c \<in> set (certs t). c_id c \<in> k_cert_id ` set (keys t)} \<and>
    (store_passphrase s2 = store_passphrase s \<longrightarrow>
       (\<forall>i. get_plaintext_key lib s2 i w3 = get_plaintext_key lib s i w)) \<and>
    ssh_keys t' = ssh_keys t \<and> apps t' = apps t \<and> ssh_routes t' = ssh_routes t \<and>
    map route_of_row (routes t') = map route_of_row (routes t) \<and>
    ca_certs t' = map (\<lambda>c. c\<lparr>ca_system_file := None\<rparr>) (ca_certs t)"
proof -
  obtain json v v' where b: "payload_to_vec_pretty x (payload_of lib (w_clock w) t) = Ok json"
    "age_encrypt x json pass v = (Ok data, v')"
    using create_backup_Ok [OF assms(6,4)] by blast
  obtain conn master where c: "st_state s2 = Unlocked conn master" "conn_tables conn w2 = Ok no_rows"
    using assms(7) by (auto simp: store_tables_Ok_iff)
  let ?R = "restored_tables lib (w_draws w2) t" and ?n = "w_draws w2 + length (keys t)"
  have p: "payload_from_slice x json = Ok (payload_of lib (w_clock w) t)"
    using assms(3) b(1) by (simp add: payload_json_correct_def)
  note r = restore_payload_empty [OF assms(1,5) c(2) assms(8), of "w_clock w"]
  have t: "conn_tables conn (put_tables conn ?R (w2\<lparr>w_draws := ?n\<rparr>)) = Ok ?R" using c(2) by simp
  have "insert_audit a ?R = Ok (?R\<lparr>audit_log := [a]\<rparr>)" for a
    by (simp add: insert_audit_def insert_row_def restored_tables_def)
  with restore_backup_apply [OF age_decrypt_encrypt [OF assms(2) b(2)] p c(1) r t]
  obtain q a where q: "restore_backup lib x s2 data pass w2 =
      (Ok q, put_tables conn (?R\<lparr>audit_log := [a]\<rparr>) (w2\<lparr>w_draws := Suc ?n\<rparr>))"
    by simp
  let ?w3 = "put_tables conn (?R\<lparr>audit_log := [a]\<rparr>) (w2\<lparr>w_draws := Suc ?n\<rparr>)"
  have t': "conn_tables conn ?w3 = Ok (?R\<lparr>audit_log := [a]\<rparr>)" using c(2) by simp
  have "get_plaintext_key lib s2 i ?w3 = get_plaintext_key lib s i w" if "store_passphrase s2 = store_passphrase s" for i
  proof -
    note same = that
    obtain conn' where c': "st_state s = Unlocked conn' master" "conn_tables conn' w = Ok t"
      using assms(4) same c(1) by (auto simp: store_tables_Ok_iff)
    show ?thesis
      using c(1) c' t' find_rekey [of i lib "w_draws w2" "keys t"]
      by (cases "find (\<lambda>k. k_cert_id k = i) (keys t)")
        (auto simp: get_plaintext_key_def query_row_def restored_tables_def)
  qed
  moreover have "set (certs ?R) = {c \<in> set (certs t). c_id c \<in> k_cert_id ` set (keys t)}"
    using assms(5) restored_certs by (simp add: restorable_def restored_tables_def)
  ultimately show ?thesis
    using q t' c(1)
    by (intro exI [of _ q] exI [of _ ?w3] exI [of _ "?R\<lparr>audit_log := [a]\<rparr>"])
      (auto simp: store_tables_Ok_iff restored_tables_def route_of_row_def)
qed

definition demo_vault :: tables where
  "demo_vault = demo_tables\<lparr>keys := [demo_key ''k1'' ''c1'' (replicate 12 0), demo_key ''k2'' ''c2'' (replicate 12 0)]\<rparr>"

definition demo_backup :: export_lib where
  "demo_backup = demo_export (payload_of plain_crypto 5 demo_vault)"

lemma demo_vault_restorable: "restorable demo_vault"
  by (simp add: restorable_def tables_ok_defs refs_defs has_defs demo_vault_def demo_defs conflict_defs
      pairwise_free_def)

lemma plain_draws: "inj_on (drawn_id plain_crypto) {0..<2}"
  by (auto simp: inj_on_def plain_crypto_def of_bytes_def char_of_byte_def upt_rec less_2_cases_iff)

lemma create_backup_apply:
  assumes "st_state s = Unlocked conn master" and "conn_tables conn w = Ok t"
    and "payload_to_vec_pretty x (payload_of lib (w_clock w) t) = Ok json"
    and "age_encrypt x json pass w = (Ok out, w\<lparr>w_draws := Suc (w_draws w)\<rparr>)" and "audit_log t = []"
  shows "\<exists>w1. create_backup lib x s pass w = (Ok out, w1)"
  using assms
  by (simp add: create_backup_def collect_backup_payload_def obind_apply new_id_apply conn_execute_eq
      insert_audit_def insert_row_def)

lemma plain_draws_differ: "drawn_id plain_crypto 0 \<noteq> drawn_id plain_crypto (Suc 0)"
  by (simp add: plain_crypto_def of_bytes_def char_of_byte_def upt_rec)

lemma demo_create_backup:
  "\<exists>w1. create_backup plain_crypto demo_backup demo_store ''b'' (demo_world demo_vault) = (Ok (as_bytes ''b'' @ [1]), w1)"
proof (rule create_backup_apply [OF demo_conn(2,3), where json = "[1]"])
  show "payload_to_vec_pretty demo_backup (payload_of plain_crypto (w_clock (demo_world demo_vault)) demo_vault) = Ok [1]"
    by (simp add: demo_backup_def demo_export_def demo_world_def bare_world_def)
  show "age_encrypt demo_backup [1] ''b'' (demo_world demo_vault) =
      (Ok (as_bytes ''b'' @ [1]), (demo_world demo_vault)\<lparr>w_draws := Suc (w_draws (demo_world demo_vault))\<rparr>)"
    by (simp add: age_encrypt_def drawing_def obind_apply demo_backup_def demo_export_def)
qed (simp add: demo_vault_def demo_tables_def no_rows_def)

theorem backup_restore_round_trip_witness:
  "\<exists>q w3 t'. restore_backup plain_crypto demo_backup demo_store (as_bytes ''b'' @ [1]) ''b'' (demo_world no_rows) = (Ok q, w3) \<and>
     store_tables demo_store w3 = Ok t' \<and> set (certs t') = {demo_cert ''c1'' ''work'', demo_cert ''c2'' ''bank''} \<and>
     apps t' = [demo_app ''a1'' ''/usr/bin/firefox'']"
proof -
  obtain w1 where c: "create_backup plain_crypto demo_backup demo_store ''b'' (demo_world demo_vault) =
      (Ok (as_bytes ''b'' @ [1]), w1)" using demo_create_backup by blast
  have i: "inj_on (drawn_id plain_crypto) {w_draws (demo_world no_rows)..<w_draws (demo_world no_rows) + length (keys demo_vault)}"
    using plain_draws by (simp add: demo_world_def bare_world_def demo_vault_def eval_nat_numeral)
  note r = backup_restore_round_trip [OF plain_crypto_correct(2) demo_export_correct(1)
      demo_export_correct(2) demo_store_tables demo_vault_restorable c [unfolded demo_backup_def] demo_store_tables i]
  have v: "{c \<in> set (certs demo_vault). c_id c \<in> k_cert_id ` set (keys demo_vault)} =
      {demo_cert ''c1'' ''work'', demo_cert ''c2'' ''bank''}" "apps demo_vault = [demo_app ''a1'' ''/usr/bin/firefox'']"
    by (auto simp: demo_vault_def demo_tables_def demo_cert_def demo_key_def)
  from r show ?thesis unfolding demo_backup_def v by blast
qed

text \<open>
  C18. A backup can be restored again: after a successful restoration, a second one into any store
  with the same contents changes nothing but the audit log. It reports no certificate, SSH key, CA
  certificate or application, but counts all the routes, although it ignored every one of them.
\<close>

theorem restore_again:
  assumes "restore_backup lib x s data pass w = (Ok q, w1)" and "store_tables s w = Ok t0"
    and "age_decrypt x data pass = Ok json" and "payload_from_slice x json = Ok p"
    and "store_tables s w1 = Ok t" and "store_tables s v = Ok t"
    and "\<forall>e\<in>set (audit_log t). au_id e \<noteq> drawn_id lib (w_draws v)"
  shows "\<exists>v' e. restore_backup lib x s data pass v =
      (Ok \<lparr>rs_certs = 0, rs_ssh_keys = 0, rs_ca_certs = 0, rs_apps = 0, rs_routes = length (pl_routes p),
         rs_ssh_routes = length (pl_ssh_routes p)\<rparr>, v') \<and>
    store_tables s v' = Ok (t\<lparr>audit_log := audit_log t @ [e]\<rparr>)"
proof -
  obtain conn master where c: "st_state s = Unlocked conn master" "conn_tables conn w = Ok t0"
    "conn_tables conn w1 = Ok t" "conn_tables conn v = Ok t"
    using assms(2,5,6) by (auto simp: store_tables_Ok_iff)
  from assms(1) obtain w2 w3 a where r: "restore_payload lib conn p w = (Ok q, w2)" "w3 = w2\<lparr>w_draws := Suc (w_draws w2)\<rparr>"
    "conn_execute conn (insert_audit a) w3 = (Ok (), w1)"
    using assms(3,4) c(1) by (auto simp: restore_backup_def obind_Ok_iff new_id_apply)
  obtain t' where t': "conn_tables conn w2 = Ok t'" "payload_known p t'" "routes_known p t'"
    using restore_payload_Ok [OF c(2) r(1)] by blast
  have "t = t'\<lparr>audit_log := audit_log t' @ [a]\<rparr>"
    using r t'(1) c(3) by (auto simp: conn_execute_Ok_iff insert_audit_def insert_row_Ok_iff res_simps)
  then have k: "payload_known p t" "routes_known p t"
    using t'(2,3) by (simp_all add: payload_known_def routes_known_def exists_fingerprint_def)
  note r2 = restore_backup_apply [OF assms(3,4) c(1) restore_payload_known [OF c(4) k] c(4)]
  show ?thesis
    using c(1,4) assms(7)
    by (simp add: r2 insert_audit_def insert_row_def audit_conflict_def nothing_restored_def store_tables_Ok_iff)
      blast
qed

lemma payload_of_known: "payload_known (payload_of lib now t) t" "routes_known (payload_of lib now t) t"
  by (auto simp: payload_known_def routes_known_def payload_of_def backup_ca_cert_of_def backup_cert_of_def
      join_rows_def exists_fingerprint_def backup_ssh_key_of_def backup_app_of_def backup_route_of_def
      backup_ssh_route_of_def)

lemma demo_world_draws: "w_draws (demo_world t) = 0"
  by (simp add: demo_world_def bare_world_def)

lemma demo_backup_reads:
  "age_decrypt demo_backup (as_bytes ''b'' @ [1]) ''b'' = Ok [1]"
  "payload_from_slice demo_backup [1] = Ok (payload_of plain_crypto 5 demo_vault)"
  by (simp_all add: age_decrypt_def demo_backup_def demo_export_def)

theorem restore_again_witness:
  "\<exists>q w1 q' v'. restore_backup plain_crypto demo_backup demo_store (as_bytes ''b'' @ [1]) ''b'' (demo_world demo_vault) = (Ok q, w1) \<and>
     restore_backup plain_crypto demo_backup demo_store (as_bytes ''b'' @ [1]) ''b'' w1 = (Ok q', v') \<and>
     rs_certs q' = 0 \<and> rs_routes q' = 2"
proof -
  let ?p = "payload_of plain_crypto 5 demo_vault" and ?w = "demo_world demo_vault"
  have l: "audit_log demo_vault = []" by (simp add: demo_vault_def demo_tables_def no_rows_def)
  then have ins: "insert_audit e demo_vault = Ok (demo_vault\<lparr>audit_log := [e]\<rparr>)" for e
    by (simp add: insert_audit_def insert_row_def)
  obtain q e where r: "restore_backup plain_crypto demo_backup demo_store (as_bytes ''b'' @ [1]) ''b'' ?w =
      (Ok q, put_tables ''/s'' (demo_vault\<lparr>audit_log := [e]\<rparr>) (?w\<lparr>w_draws := Suc (w_draws ?w)\<rparr>))"
    "au_id e = drawn_id plain_crypto 0"
    using restore_backup_apply [OF demo_backup_reads demo_conn(2)
        restore_payload_known [OF demo_conn(3) payload_of_known] demo_conn(3), of plain_crypto]
    by (simp add: ins demo_world_draws)
  let ?v = "put_tables ''/s'' (demo_vault\<lparr>audit_log := [e]\<rparr>) (?w\<lparr>w_draws := Suc (w_draws ?w)\<rparr>)"
  have t: "store_tables demo_store ?v = Ok (demo_vault\<lparr>audit_log := [e]\<rparr>)" by (simp add: store_tables_Ok_iff)
  have "\<forall>f\<in>set (audit_log (demo_vault\<lparr>audit_log := [e]\<rparr>)). au_id f \<noteq> drawn_id plain_crypto (w_draws ?v)"
    by (simp add: r(2) demo_world_draws plain_draws_differ)
  from restore_again [OF r(1) demo_store_tables demo_backup_reads t t this] r(1)
  show ?thesis by (auto simp: payload_of_def demo_vault_def demo_tables_def)
qed




text \<open>What an export that succeeds has read and decrypted.\<close>

lemma export_pfx_Ok:
  assumes "export_pfx lib x s cid pw w = (Ok out, w1)" and "get_plaintext_key lib s cid w = Ok (key, alg)"
  shows "\<exists>c cert n. get_cert_by_id s cid w = Ok c \<and> p12_cert_from_der x (c_der c) = Ok cert \<and>
    p12_write x n pw (key, as_bytes ''traffic-cone'', [cert]) = Ok out"
proof -
  from assms obtain conn t c k master cert where
    "store_conn s = Ok conn" "conn_tables conn w = Ok t" "query_row (\<lambda>c. c_id c = cid) (certs t) = Ok c"
    "query_row (\<lambda>k. k_cert_id k = cid) (keys t) = Ok k" "store_passphrase s = Ok master"
    "decrypt_key lib (k_enc k) (k_salt k) (k_nonce k) master = Ok key"
    "p12_cert_from_der x (c_der c) = Ok cert"
    "p12_write x (w_draws w) pw (key, as_bytes ''traffic-cone'', [cert]) = Ok out"
    by (auto simp: export_pfx_def get_plaintext_key_def obind_Ok_iff map_err_Ok_iff rbind_Ok_iff drawing_def)
  then have "get_cert_by_id s cid w = Ok c" "p12_cert_from_der x (c_der c) = Ok cert"
    "p12_write x (w_draws w) pw (key, as_bytes ''traffic-cone'', [cert]) = Ok out"
    by (simp_all add: get_cert_by_id_def)
  then show ?thesis by blast
qed

lemma export_pfx_apply:
  assumes "st_state s = Unlocked conn master" and "conn_tables conn w = Ok t"
    and "query_row (\<lambda>c. c_id c = cid) (certs t) = Ok c" and "get_plaintext_key lib s cid w = Ok (key, alg)"
    and "p12_cert_from_der x (c_der c) = Ok cert"
    and "\<And>n. p12_write x n pw (key, as_bytes ''traffic-cone'', [cert]) = Ok out" and "audit_log t = []"
  shows "\<exists>w1. export_pfx lib x s cid pw w = (Ok out, w1)"
proof -
  from assms(1,2,4) obtain k where "query_row (\<lambda>k. k_cert_id k = cid) (keys t) = Ok k"
    "decrypt_key lib (k_enc k) (k_salt k) (k_nonce k) master = Ok key"
    by (auto simp: get_plaintext_key_def rbind_Ok_iff map_err_Ok_iff)
  with assms(1-3,5-7) show ?thesis
    by (simp add: export_pfx_def obind_apply drawing_def new_id_apply conn_execute_eq insert_audit_def insert_row_def)
qed

text \<open>
  C19. A certificate moves from one store to another as a PFX file: what the second store holds after
  importing the exported file are the bytes of the certificate and of the private key of the first,
  whatever the master passphrases of the two stores.
\<close>

theorem pfx_transfer:
  assumes "export_pfx lib x s cid pw w = (Ok pfx, w1)" and "get_plaintext_key lib s cid w = Ok (key, alg)"
    and "p12_correct x y" and "gcm_correct lib" and "world_ok v"
    and "fs_read path v = Ok pfx" and "detect_format path = Ok Pkcs12"
    and "import_file lib y s2 path pw label kp v = (Ok res, v')"
  shows "\<exists>c c2 alg2. get_cert_by_id s cid w = Ok c \<and> get_cert_by_id s2 (im_cert_id res) v' = Ok c2 \<and>
    c_der c2 = c_der c \<and> c_label c2 = label \<and> get_plaintext_key lib s2 (im_cert_id res) v' = Ok (key, alg2)"
proof -
  obtain c cert n where e: "get_cert_by_id s cid w = Ok c" "p12_cert_from_der x (c_der c) = Ok cert"
    "p12_write x n pw (key, as_bytes ''traffic-cone'', [cert]) = Ok pfx"
    using export_pfx_Ok [OF assms(1,2)] by blast
  then have "cert = c_der c" "p12_open y pfx pw = Ok (Some ([cert], key))"
    using assms(3) by (auto simp: p12_correct_def)
  then have u: "unpack y path pw kp v = Ok (c_der c, key, [])"
    using assms(6,7) by (simp add: unpack_def unpack_pkcs12_def)
  obtain cert' key' ca res0 where i: "unpack y path pw kp v = Ok (cert', key', ca)"
    "store_cert_and_key lib y s2 cert' key' label v = (Ok res0, v')" "res = res0\<lparr>im_ca_chain := ca\<rparr>"
    using assms(8) by (rule import_file_Ok)
  with u stored_key_decrypts [OF i(2) assms(5,4)] e(1) show ?thesis by auto
qed

definition demo_p12 :: import_lib where
  "demo_p12 = demo_import\<lparr>p12_open := (\<lambda>bs pass. if take (length pass) bs = as_bytes pass
     then Ok (Some ([[]], drop (length pass) bs)) else Err ''mac'')\<rparr>"

definition demo_pfx :: export_lib where
  "demo_pfx = demo_backup\<lparr>p12_write := (\<lambda>n pass chain. case chain of (key, i, cs) \<Rightarrow>
     if cs = [[]] then Ok (as_bytes pass @ key) else Err ''one empty certificate only'')\<rparr>"

lemma demo_p12_correct: "p12_correct demo_pfx demo_p12"
  by (auto simp: p12_correct_def demo_p12_def demo_pfx_def demo_import_def demo_backup_def demo_export_def
      split: if_splits)

theorem pfx_transfer_witness:
  "\<exists>res v' alg2. import_file plain_crypto demo_p12 demo_store ''/in.pfx'' ''pw'' ''moved'' None
       ((demo_world no_rows)\<lparr>w_files := [''/in.pfx'' \<mapsto> as_bytes ''pw'' @ [1, 2]]\<rparr>) = (Ok res, v') \<and>
     get_plaintext_key plain_crypto demo_store (im_cert_id res) v' = Ok ([1, 2], alg2)"
proof -
  let ?v = "(demo_world no_rows)\<lparr>w_files := [''/in.pfx'' \<mapsto> as_bytes ''pw'' @ [1, 2]]\<rparr>"
  have v: "conn_tables ''/s'' ?v = Ok no_rows" "world_ok ?v" "fs_read ''/in.pfx'' ?v = Ok (as_bytes ''pw'' @ [1, 2])"
    by (auto simp: conn_tables_def world_ok_def demo_world_def demo_db_def bare_world_def fs_read_def split: if_splits)
  have f: "detect_format ''/in.pfx'' = (Ok Pkcs12 :: (import_format, store_error) res)" by code_simp
  have k: "get_plaintext_key plain_crypto demo_store ''c1'' (demo_world demo_vault) = Ok ([1, 2], EcP256)"
    by (simp add: get_plaintext_key_def query_row_def demo_vault_def demo_tables_def demo_key_def decrypt_key_def
        derive_key_def plain_crypto_def nonce_from_slice_def parse_algorithm_def KEY_LEN_def)
  have q: "query_row (\<lambda>c. c_id c = ''c1'') (certs demo_vault) = Ok (demo_cert ''c1'' ''work'')" "audit_log demo_vault = []"
    by (simp_all add: query_row_def demo_vault_def demo_tables_def demo_cert_def no_rows_def)
  have "p12_cert_from_der demo_pfx (c_der (demo_cert ''c1'' ''work'')) = Ok []"
    "\<And>n. p12_write demo_pfx n ''pw'' ([1, 2], as_bytes ''traffic-cone'', [[]]) = Ok (as_bytes ''pw'' @ [1, 2])"
    by (simp_all add: demo_pfx_def demo_backup_def demo_export_def demo_cert_def)
  from export_pfx_apply [OF demo_conn(2,3) q(1) k this q(2)] obtain w1 where
    e: "export_pfx plain_crypto demo_pfx demo_store ''c1'' ''pw'' (demo_world demo_vault) = (Ok (as_bytes ''pw'' @ [1, 2]), w1)"
    by blast
  obtain meta where m: "parse_cert_metadata plain_crypto demo_p12 [] = Ok meta"
    by (simp add: parse_cert_metadata_def demo_p12_def demo_import_def)
  have d: "detect_key_algorithm demo_p12 [1, 2] = Ok EcP256"
    by (simp add: detect_key_algorithm_def demo_p12_def demo_import_def)
  have "unpack demo_p12 ''/in.pfx'' ''pw'' None ?v = Ok ([], [1, 2], [])"
    by (simp add: unpack_def f v unpack_pkcs12_def demo_p12_def)
  with store_into_empty [OF demo_conn(2) v(1) m d, of "''moved''"] obtain res v' where
    i: "import_file plain_crypto demo_p12 demo_store ''/in.pfx'' ''pw'' ''moved'' None ?v = (Ok res, v')"
    by (auto simp: import_file_eq obind_reading commit_def)
  from pfx_transfer [OF e k demo_p12_correct plain_crypto_correct(1) v(2,3) f i] i show ?thesis by blast
qed

end
