(* ===== verification/Cli_Facts.thy ===== *)
theory Cli_Facts
  imports Cli Backup
begin

text \<open>
  What the commands of \<open>cone\<close> do to the store: which of them change it, and how adding and removing
  a route, registering and verifying an application and testing a host fit together.
\<close>

section \<open>Commands that only print\<close>

lemma keeps_world [keeps_intros]:
  "keeps (\<lambda>tm. tm_world tm = w) (print text)"
  "keeps (\<lambda>tm. tm_world tm = w) (println text)"
  "keeps (\<lambda>tm. tm_world tm = w) (eprintln text)"
  "keeps (\<lambda>tm. tm_world tm = w) (from_store f)"
  "keeps (\<lambda>tm. tm_world tm = w) (prompt env text)"
  "keeps P (lift_res r)" "keeps P (reading g)"
  by (simp_all add: keeps_def print_def println_def eprintln_def from_store_def prompt_def)

lemma keeps_for_each [keeps_intros]: "(\<And>x. keeps P (f x)) \<Longrightarrow> keeps P (for_each f xs)"
  by (induction xs) (auto intro: keeps_intros)

lemma keeps_case_option [keeps_intros]:
  "keeps P m \<Longrightarrow> (\<And>x. keeps P (f x)) \<Longrightarrow> keeps P (case v of None \<Rightarrow> m | Some x \<Rightarrow> f x)"
  by (cases v) simp_all

text \<open>After the store has been opened, nothing else happens to the world.\<close>

lemma world_after_open:
  assumes "\<And>s (w :: world). keeps (\<lambda>tm. tm_world tm = w) (f s)"
  shows "tm_world (snd (obind (open_store_direct env) f tm)) = tm_world (snd (open_store_direct env tm))"
proof (cases "open_store_direct env tm")
  case (Pair r tm1)
  then show ?thesis
    using assms by (cases r) (simp_all add: keeps_def)
qed

lemma world_kept: "(\<And>w. keeps (\<lambda>tm. tm_world tm = w) m) \<Longrightarrow> tm_world (snd (m tm)) = tm_world tm"
  by (simp add: keeps_def)

section \<open>Opening the store\<close>

definition typed_passphrase :: "cli_env \<Rightarrow> world \<Rightarrow> (string, coned_error) res" where
  "typed_passphrase env w = (case env_var ''CONE_PASSPHRASE'' w of
      Some p \<Rightarrow> Ok p | None \<Rightarrow> map_err FromIo (ce_prompt env ''Master passphrase''))"

lemma cli_passphrase_eq: "cli_passphrase env = reading (\<lambda>tm. typed_passphrase env (tm_world tm))"
  by (rule ext) (simp add: cli_passphrase_def typed_passphrase_def prompt_def split: option.splits)

lemma environment_cong:
  assumes "w_env w' = w_env w"
  shows "typed_passphrase env w' = typed_passphrase env w" "cli_store_path env w' = cli_store_path env w"
proof -
  have "env_var v w' = env_var v w" for v using assms by (simp add: env_var_def)
  then show "typed_passphrase env w' = typed_passphrase env w" "cli_store_path env w' = cli_store_path env w"
    unfolding typed_passphrase_def cli_store_path_def by (simp_all only: \<open>\<And>v. env_var v w' = env_var v w\<close>)
qed

lemma unlock_at_Ok:
  "oper_context c (on_store (unlock_at env path pass)) tm = (Ok s, tm1) \<longleftrightarrow>
     (\<exists>w1. unlock (ce_crypto env) (as_bytes pass) (store_open path, tm_world tm) = (Ok (), s, w1) \<and>
       tm1 = tm\<lparr>tm_world := w1\<rparr>)"
proof -
  obtain r s' w1 where u: "unlock (ce_crypto env) (as_bytes pass) (store_open path, tm_world tm) = (r, s', w1)"
    by (rule prod_cases3)
  show ?thesis
    by (auto simp: oper_context_def on_store_def unlock_at_def with_context_def res_simps u)
qed

lemma open_store_Ok:
  "open_store_direct env tm = (Ok s, tm1) \<longleftrightarrow> (\<exists>path pass w1.
     cli_store_path env (tm_world tm) = Ok path \<and> typed_passphrase env (tm_world tm) = Ok pass \<and>
     unlock (ce_crypto env) (as_bytes pass) (store_open path, tm_world tm) = (Ok (), s, w1) \<and>
     tm1 = tm\<lparr>tm_world := w1\<rparr>)"
  by (auto simp: open_store_direct_def obind_Ok_iff unlock_at_Ok cli_passphrase_eq)

text \<open>
  \<open>opens env s w\<close>: in the world \<open>w\<close> the tool opens the store \<open>s\<close> without changing anything, because
  the salt file and the migrated database exist and the passphrase is the database's.
\<close>

definition opens :: "cli_env \<Rightarrow> store \<Rightarrow> world \<Rightarrow> bool" where
  "opens env s w \<longleftrightarrow> (\<exists>path pass salt key f. cli_store_path env w = Ok path \<and>
     typed_passphrase env w = Ok pass \<and> s = \<lparr>st_path = path, st_state = Unlocked path (as_bytes pass)\<rparr> \<and>
     w_files w (path @ ''.salt'') = Some salt \<and> \<not> w_unreadable w (path @ ''.salt'') \<and>
     derive_key (ce_crypto env) (as_bytes pass) salt = Ok key \<and> w_dbs w path = Some f \<and>
     \<not> w_unreadable w path \<and> df_key f = hex_encode (ce_crypto env) key \<and> migrate f = f)"

lemma opens_open: "opens env s (tm_world tm) \<Longrightarrow> open_store_direct env tm = (Ok s, tm)"
proof -
  assume "opens env s (tm_world tm)"
  then obtain path pass salt key f where o: "cli_store_path env (tm_world tm) = Ok path"
    "typed_passphrase env (tm_world tm) = Ok pass" "s = \<lparr>st_path = path, st_state = Unlocked path (as_bytes pass)\<rparr>"
    "w_files (tm_world tm) (path @ ''.salt'') = Some salt" "\<not> w_unreadable (tm_world tm) (path @ ''.salt'')"
    "derive_key (ce_crypto env) (as_bytes pass) salt = Ok key" "w_dbs (tm_world tm) path = Some f"
    "\<not> w_unreadable (tm_world tm) path" "df_key f = hex_encode (ce_crypto env) key" "migrate f = f"
    by (auto simp: opens_def)
  have l: "load_or_create_db_salt (ce_crypto env) (store_open path) (tm_world tm) = (Ok salt, tm_world tm)"
    using o by (intro load_salt_old) (simp_all add: store_open_def)
  have d: "db_open path (hex_encode (ce_crypto env) key) (tm_world tm) = (Ok path, tm_world tm)"
    using o by (simp add: db_open_def map_upd_triv)
  have "unlock (ce_crypto env) (as_bytes pass) (store_open path, tm_world tm) = (Ok (), s, tm_world tm)"
    using d o(3) unlock_apply [OF l o(6)] by (simp add: store_open_def)
  with o(1,2) show ?thesis by (simp add: open_store_Ok)
qed

lemma unlock_env: "w_env (snd (snd (unlock lib pass (s, w)))) = w_env w"
proof -
  have e: "w_env (snd (load_or_create_db_salt lib s v)) = w_env v" for v
    by (simp add: load_or_create_db_salt_def Let_def random_salt_def fs_write_def)
  have d: "w_env (snd (db_open p k v)) = w_env v" for p k v
    by (simp add: db_open_def split: option.splits)
  let ?m = "obind (load_or_create_db_salt lib s) (\<lambda>salt.
      obind (lift_res (derive_key lib pass salt)) (\<lambda>key. db_open (st_path s) (hex_encode lib key)))"
  obtain r w1 where m: "?m w = (r, w1)" by force
  have "w_env (snd (?m w)) = w_env w" by (auto simp: obind_apply e d split: res.splits)
  with m show ?thesis by (cases r) (simp_all add: unlock_def)
qed

lemma open_opens:
  assumes "open_store_direct env tm = (Ok s, tm1)" and "\<forall>p. \<not> w_unreadable (tm_world tm1) p"
  shows "opens env s (tm_world tm1)"
proof -
  obtain path pass w1 where o: "cli_store_path env (tm_world tm) = Ok path"
    "typed_passphrase env (tm_world tm) = Ok pass"
    "unlock (ce_crypto env) (as_bytes pass) (store_open path, tm_world tm) = (Ok (), s, w1)" "tm_world tm1 = w1"
    using assms(1) by (auto simp: open_store_Ok)
  have e: "w_env w1 = w_env (tm_world tm)"
    using unlock_env [of "ce_crypto env" "as_bytes pass" "store_open path" "tm_world tm"] o(3) by simp
  obtain salt key f where u: "s = \<lparr>st_path = path, st_state = Unlocked path (as_bytes pass)\<rparr>"
    "w_files w1 (path @ ''.salt'') = Some salt" "derive_key (ce_crypto env) (as_bytes pass) salt = Ok key"
    "w_dbs w1 path = Some (migrate f)" "df_key f = hex_encode (ce_crypto env) key"
    using unlock_Ok [OF o(3)] by (auto simp: store_open_def)
  show ?thesis
    unfolding opens_def
    by (intro exI [of _ path] exI [of _ pass] exI [of _ salt] exI [of _ key] exI [of _ "migrate f"])
      (use u o(1,2,4) assms(2) environment_cong [OF e] in simp)
qed

lemma migrated_version: "migrate f = f \<Longrightarrow> \<exists>v vs. df_version f = Some (v # vs) \<and> 1 \<le> v"
proof -
  assume "migrate f = f"
  then have "df_version (migrate f) = df_version f" by simp
  then show ?thesis
    by (cases "df_version f"; cases "the (df_version f)")
      (auto simp: migrate_def migration_001_def Let_def split: if_splits)
qed

lemma migrated_tables: "migrate f = f \<Longrightarrow> migrate (f\<lparr>df_tables := Some t\<rparr>) = f\<lparr>df_tables := Some t\<rparr>"
  by (drule migrated_version) (auto simp: migrate_def Let_def)

lemma opens_cong:
  assumes "opens env s w" and e: "w_env w' = w_env w" and "w_unreadable w' = w_unreadable w"
    and "w_files w' (st_path s @ ''.salt'') = w_files w (st_path s @ ''.salt'')"
    and "w_dbs w' (st_path s) = w_dbs w (st_path s) \<or>
      (\<exists>t. w_dbs w' (st_path s) = map_option (\<lambda>f. f\<lparr>df_tables := Some t\<rparr>) (w_dbs w (st_path s)))"
  shows "opens env s w'"
proof -
  obtain path pass salt key f where o: "cli_store_path env w = Ok path" "typed_passphrase env w = Ok pass"
    "s = \<lparr>st_path = path, st_state = Unlocked path (as_bytes pass)\<rparr>" "w_files w (path @ ''.salt'') = Some salt"
    "\<not> w_unreadable w (path @ ''.salt'')" "derive_key (ce_crypto env) (as_bytes pass) salt = Ok key"
    "w_dbs w path = Some f" "\<not> w_unreadable w path" "df_key f = hex_encode (ce_crypto env) key" "migrate f = f"
    using assms(1) by (auto simp: opens_def)
  obtain f' where f': "w_dbs w' path = Some f'" "df_key f' = df_key f" "migrate f' = f'"
    using assms(5) o(3,7,10) migrated_tables [of f] by auto
  show ?thesis
    unfolding opens_def
    by (intro exI [of _ path] exI [of _ pass] exI [of _ salt] exI [of _ key] exI [of _ f'])
      (use o f' assms(3,4) environment_cong [OF e] in simp)
qed

lemma opens_put_tables [simp]: "opens env s w \<Longrightarrow> opens env s (put_tables c t w)"
  by (erule opens_cong) (auto simp: put_tables_def)

lemma opens_update [simp]:
  "opens env s w \<Longrightarrow> opens env s (w\<lparr>w_draws := n\<rparr>)"
  "opens env s w \<Longrightarrow> p \<noteq> st_path s @ ''.salt'' \<Longrightarrow> opens env s (w\<lparr>w_files := (w_files w)(p \<mapsto> bs)\<rparr>)"
  by (erule opens_cong; simp)+

lemma opens_conn: "opens env s w \<Longrightarrow> store_conn s = Ok (st_path s)"
  by (auto simp: opens_def store_conn_def)

section \<open>Which commands change the world\<close>

text \<open>The commands that ask, list or are announced as not implemented.\<close>

fun read_only :: "command \<Rightarrow> bool" where
  "read_only (ImportCommand file cert key label) = False"
| "read_only (RemoveCommand label) = False"
| "read_only (BackupCommand out_path) = False"
| "read_only (RestoreCommand file) = False"
| "read_only VerifyCommand = False"
| "read_only (AppCommand (AppAdd label exe)) = False"
| "read_only (RouteCommand (RouteAdd cert app host ip require_both priority)) = False"
| "read_only (RouteCommand (RouteRemove i)) = False"
| "read_only _ = True"

lemma keeps_case_prod [keeps_intros]: "(\<And>x y. keeps P (f x y)) \<Longrightarrow> keeps P (case p of (x, y) \<Rightarrow> f x y)"
  by (cases p) simp

lemma keeps_daemon_command:
  "keeps (\<lambda>tm. tm_world tm = w) (cmd_status env)" "keeps (\<lambda>tm. tm_world tm = w) (cmd_lock env)"
  "keeps (\<lambda>tm. tm_world tm = w) (cmd_list env)"
  unfolding cmd_status_def cmd_lock_def cmd_list_def with_client_def by (intro keeps_intros)+

lemma keeps_not_implemented:
  "c \<noteq> CaList \<Longrightarrow> keeps (\<lambda>tm. tm_world tm = w) (cmd_ca env c)"
  "c' \<noteq> SshList \<Longrightarrow> c' \<noteq> SshRoute SshRouteList \<Longrightarrow> keeps (\<lambda>tm. tm_world tm = w) (cmd_ssh env c')"
  "keeps (\<lambda>tm. tm_world tm = w) (cmd_app env (AppUpdate label))"
  "keeps (\<lambda>tm. tm_world tm = w) (cmd_app env (AppRemove label))"
proof -
  assume "c \<noteq> CaList"
  then show "keeps (\<lambda>tm. tm_world tm = w) (cmd_ca env c)"
    by (cases c) (auto intro!: keeps_intros)
next
  assume "c' \<noteq> SshList" "c' \<noteq> SshRoute SshRouteList"
  then show "keeps (\<lambda>tm. tm_world tm = w) (cmd_ssh env c')"
  proof (cases c')
    case (SshRoute r)
    with \<open>c' \<noteq> SshRoute SshRouteList\<close> show ?thesis by (cases r) (auto intro!: keeps_intros)
  qed (auto intro!: keeps_intros)
qed (auto intro!: keeps_intros)

lemma world_of_queries:
  "tm_world (snd (cmd_audit env limit tm)) = tm_world (snd (open_store_direct env tm))"
  "tm_world (snd (cmd_ca_list env tm)) = tm_world (snd (open_store_direct env tm))"
  "tm_world (snd (cmd_ssh_list env tm)) = tm_world (snd (open_store_direct env tm))"
  "tm_world (snd (cmd_ssh_route env SshRouteList tm)) = tm_world (snd (open_store_direct env tm))"
  "tm_world (snd (cmd_app_list env tm)) = tm_world (snd (open_store_direct env tm))"
  "tm_world (snd (cmd_app_verify env label tm)) = tm_world (snd (open_store_direct env tm))"
  "tm_world (snd (cmd_route_list env tm)) = tm_world (snd (open_store_direct env tm))"
  "tm_world (snd (cmd_test env host ip tm)) = tm_world (snd (open_store_direct env tm))"
  unfolding cmd_audit_def cmd_ca_list_def cmd_ssh_list_def cmd_ssh_route.simps cmd_app_list_def
    cmd_app_verify_def cmd_route_list_def cmd_test_def
  by (rule world_after_open, intro keeps_intros)+

section \<open>Properties\<close>

text \<open>
  C28. The commands that ask, list or are not implemented change nothing: apart from what opening
  the store does (a salt and an empty database the first time), the world is left as it was. So
  \<open>ca remove\<close>, \<open>ssh remove\<close>, \<open>app remove\<close> and \<open>app update\<close> leave every row where it was.
\<close>

theorem cli_read_only:
  assumes "read_only cmd"
  shows "tm_world (snd (cli_main env cmd tm)) = tm_world tm \<or>
    tm_world (snd (cli_main env cmd tm)) = tm_world (snd (open_store_direct env tm))"
proof (cases cmd)
  case (CaCommand c)
  then show ?thesis
    using world_kept [OF keeps_not_implemented(1)] world_of_queries(2) by (cases "c = CaList") auto
next
  case (SshCommand c)
  then show ?thesis
    using world_kept [OF keeps_not_implemented(2)] world_of_queries(3,4)
    by (cases "c = SshList \<or> c = SshRoute SshRouteList") auto
next
  case (AppCommand c)
  then show ?thesis
    using assms world_kept [OF keeps_not_implemented(3)] world_kept [OF keeps_not_implemented(4)]
      world_of_queries(5,6)
    by (cases c) simp_all
next
  case (RouteCommand c)
  then show ?thesis using assms world_of_queries(7) by (cases c) simp_all
qed (use assms world_kept [OF keeps_daemon_command(1)] world_kept [OF keeps_daemon_command(2)]
    world_kept [OF keeps_daemon_command(3)] world_of_queries(1,8) in simp_all)

subsection \<open>A sample terminal\<close>

definition demo_cli :: cli_env where
  "demo_cli = \<lparr>ce_lib = demo_lib, ce_import = demo_import, ce_export = demo_backup,
     ce_json = \<lparr>cli_request_to_vec = (\<lambda>_. Ok []), cli_response_from_slice = (\<lambda>_. Err ''empty'')\<rparr>,
     ce_connect = (\<lambda>_. Ok (opened [])), ce_prompt = (\<lambda>_. Ok ''p''), ce_create_dir_all = (\<lambda>_. Ok ())\<rparr>"

definition demo_path :: string where
  "demo_path = ''/tmp/.local/share/cone/store.db''"

definition demo_terminal :: "tables \<Rightarrow> terminal" where
  "demo_terminal t = \<lparr>tm_world = bare_world\<lparr>w_files := [demo_path @ ''.salt'' \<mapsto> [], ''/usr/bin/app'' \<mapsto> replicate 20 65],
       w_dbs := [demo_path \<mapsto> \<lparr>df_key = ''p'', df_version = Some [1], df_tables = Some t\<rparr>]\<rparr>,
     tm_out = '''', tm_err = ''''\<rparr>"

definition demo_cli_store :: store where
  "demo_cli_store = \<lparr>st_path = demo_path, st_state = Unlocked demo_path (as_bytes ''p'')\<rparr>"

lemma demo_opens: "opens demo_cli demo_cli_store (tm_world (demo_terminal t))"
proof -
  have "cli_store_path demo_cli (tm_world (demo_terminal t)) = Ok demo_path"
    by (simp add: cli_store_path_def demo_terminal_def bare_world_def env_var_def demo_cli_def demo_path_def
        with_context_def)
  moreover have "typed_passphrase demo_cli (tm_world (demo_terminal t)) = Ok ''p''"
    by (simp add: typed_passphrase_def demo_terminal_def bare_world_def env_var_def demo_cli_def)
  moreover have "derive_key (ce_crypto demo_cli) (as_bytes ''p'') [] = Ok (as_bytes ''p'')"
    by (simp add: demo_cli_def demo_lib_def derive_key_def plain_crypto_def KEY_LEN_def as_bytes_def)
  moreover have "hex_encode (ce_crypto demo_cli) (as_bytes ''p'') = ''p''"
    by (simp add: demo_cli_def demo_lib_def plain_crypto_def)
  ultimately show ?thesis
    by (force simp: opens_def demo_cli_store_def demo_terminal_def bare_world_def migrate_def Let_def demo_path_def)
qed

lemmas demo_open = opens_open [OF demo_opens]

lemma demo_cli_tables: "store_tables demo_cli_store (tm_world (demo_terminal t)) = Ok t"
  by (simp add: store_tables_def store_conn_def demo_cli_store_def demo_terminal_def conn_tables_def)

lemma demo_terminal_ok: "tables_ok t \<Longrightarrow> world_ok (tm_world (demo_terminal t))"
  by (simp add: world_ok_def demo_terminal_def bare_world_def)

theorem cli_read_only_witness:
  "tm_world (snd (cli_main demo_cli (AppCommand (AppRemove ''x'')) (demo_terminal demo_tables))) =
     tm_world (demo_terminal demo_tables)"
  using cli_read_only [of "AppCommand (AppRemove ''x'')" demo_cli "demo_terminal demo_tables"]
  by (simp add: demo_open)

section \<open>Routes from the command line\<close>

lemma print_apply [simp]:
  "print text tm = (Ok (), tm\<lparr>tm_out := tm_out tm @ text\<rparr>)"
  "println text tm = (Ok (), tm\<lparr>tm_out := tm_out tm @ text @ [newline]\<rparr>)"
  "eprintln text tm = (Ok (), tm\<lparr>tm_err := tm_err tm @ text @ [newline]\<rparr>)"
  by (simp_all add: print_def println_def eprintln_def)

lemma sql_like_any [simp]: "sql_like ''%'' s"
  by (induction s) simp_all

lemma sql_like_prefix:
  "CHR ''%'' \<notin> set i \<Longrightarrow> CHR ''_'' \<notin> set i \<Longrightarrow>
   sql_like (i @ ''%'') s \<longleftrightarrow> starts_with (map ascii_lower s) (map ascii_lower i)"
proof (induction i arbitrary: s)
  case (Cons c i)
  then show ?case by (cases s) (auto simp: starts_with_def)
qed (simp add: starts_with_def)

lemma store_execute_Ok:
  "store_tables s w = Ok t \<Longrightarrow> q t = Ok t' \<Longrightarrow> \<exists>c. execute s q w = (Ok (), put_tables c t' w) \<and>
     store_conn s = Ok c \<and> store_tables s (put_tables c t' w) = Ok t'"
  by (auto simp: store_tables_Ok_iff execute_def obind_lift conn_execute_eq)

text \<open>The route that \<open>cone route add\<close> inserts for a host name and no application.\<close>

definition new_host_route :: "cli_env \<Rightarrow> world \<Rightarrow> cert \<Rightarrow> string \<Rightarrow> bool \<Rightarrow> int \<Rightarrow> route_row" where
  "new_host_route env w c host both pri =
     \<lparr>r_id = drawn_id (ce_crypto env) (w_draws w), r_cert_id = c_id c, r_app_id = None, r_match_type = ''hostname'',
      r_pattern = Some host, r_require_both = (if both then 1 else 0), r_priority = pri, r_created_at = w_clock w\<rparr>"

lemma cert_of_label:
  "store_tables s w = Ok t \<Longrightarrow> find (\<lambda>c. c_label c = label) (certs t) = Some c \<Longrightarrow>
   get_cert_by_label s label w = Ok c"
  by (auto simp: store_tables_Ok_iff get_cert_by_label_def query_row_def)

lemma cert_of_id:
  assumes "store_tables s w = Ok t" and "pairwise_free cert_conflict (certs t)" and "c \<in> set (certs t)"
  shows "get_cert_by_id s (c_id c) w = Ok c"
proof -
  have "find (\<lambda>x. c_id x = c_id c) (certs t) = Some c"
    using assms(2,3) pairwise_free_members [of "certs t"]
    by (intro find_unique) (auto simp: cert_conflict_def)
  with assms(1) show ?thesis by (auto simp: store_tables_Ok_iff get_cert_by_id_def query_row_def)
qed

lemma route_add_host_Ok:
  assumes "cli_main env (RouteCommand (RouteAdd label None (Some host) None both pri)) tm = (Ok Returned, tm2)"
    and "open_store_direct env tm = (Ok s, tm1)" and "store_tables s (tm_world tm1) = Ok t"
    and "find (\<lambda>c. c_label c = label) (certs t) = Some c"
  shows "\<exists>conn. store_conn s = Ok conn \<and> tm_world tm2 = put_tables conn
      (t\<lparr>routes := routes t @ [new_host_route env (tm_world tm1) c host both pri]\<rparr>)
      ((tm_world tm1)\<lparr>w_draws := Suc (w_draws (tm_world tm1))\<rparr>)"
proof -
  obtain conn p where c: "st_state s = Unlocked conn p" "conn_tables conn (tm_world tm1) = Ok t"
    using assms(3) by (auto simp: store_tables_Ok_iff)
  from assms(1,2) cert_of_label [OF assms(3,4)] c show ?thesis
    by (auto simp: cmd_route_add_def app_id_of_label_def obind_Ok_iff on_store_def new_id_apply execute_def obind_lift
        oper_context_def with_context_def res_simps conn_execute_eq insert_route_def insert_row_Ok_iff new_host_route_def
        split: prod.splits res.splits)
qed

lemma route_add_host_runs:
  assumes "open_store_direct env tm = (Ok s, tm1)" and "store_tables s (tm_world tm1) = Ok t"
    and "find (\<lambda>c. c_label c = label) (certs t) = Some c"
    and "insert_route (new_host_route env (tm_world tm1) c host both pri) t = Ok t'"
    and "str_range (drawn_id (ce_crypto env) (w_draws (tm_world tm1))) 0 8 = (Ok short :: (string, coned_error) res)"
  shows "\<exists>tm2. cli_main env (RouteCommand (RouteAdd label None (Some host) None both pri)) tm = (Ok Returned, tm2)"
proof -
  obtain conn p where c: "st_state s = Unlocked conn p" "conn_tables conn (tm_world tm1) = Ok t"
    using assms(2) by (auto simp: store_tables_Ok_iff)
  with assms(1,4,5) cert_of_label [OF assms(2,3)] show ?thesis
    by (auto simp: cmd_route_add_def app_id_of_label_def on_store_def new_id_apply execute_def obind_lift
        oper_context_def with_context_def conn_execute_eq new_host_route_def)
qed

lemma unlock_world_ok:
  assumes "world_ok w" and "unlock lib pass (s, w) = (r, s', w')"
  shows "world_ok w'"
proof -
  let ?m = "obind (load_or_create_db_salt lib s) (\<lambda>salt.
      obind (lift_res (derive_key lib pass salt)) (\<lambda>key. db_open (st_path s) (hex_encode lib key)))"
  have k: "keeps world_ok ?m" by (intro keeps_intros)
  obtain q w1 where m: "?m w = (q, w1)" by force
  with assms(2) have "w' = w1" by (cases q) (simp_all add: unlock_def)
  with keepsD [OF k assms(1) m] show ?thesis by simp
qed

lemma open_store_world_ok:
  "world_ok (tm_world tm) \<Longrightarrow> open_store_direct env tm = (Ok s, tm1) \<Longrightarrow> world_ok (tm_world tm1)"
  by (auto simp: open_store_Ok intro: unlock_world_ok)

lemma chosen_highest:
  assumes "r \<in> set rts" and "route_applies aid host ip r"
    and "\<And>q. q \<in> set rts \<Longrightarrow> q \<noteq> r \<Longrightarrow> route_applies aid host ip q \<Longrightarrow> rt_priority q < rt_priority r"
  shows "chosen_route aid host ip rts r"
proof -
  obtain before after where s: "rts = before @ r # after" "r \<notin> set before"
    using split_list_first [OF assms(1)] by blast
  have "route_rank (route_entry aid host ip q) < route_rank (route_entry aid host ip r)"
    if "q \<in> set rts" "q \<noteq> r" "route_applies aid host ip q" for q
    using assms(3) [OF that] by (simp add: route_rank_def route_entry_def)
  with s assms(2) show ?thesis
    unfolding chosen_route_def by (intro exI [of _ before] exI [of _ after]) fastforce
qed


lemma demo_id: "str_range (drawn_id (ce_crypto demo_cli) (w_draws (tm_world (demo_terminal t)))) 0 8 =
    Ok (replicate 8 (CHR 0x00))"
proof -
  have "drawn_id plain_crypto 0 = replicate 16 (CHR 0x00)"
    by (simp add: plain_crypto_def of_bytes_def char_of_byte_def map_replicate_const char_of_def)
  then show ?thesis
    by (simp add: demo_cli_def demo_lib_def demo_terminal_def bare_world_def str_range_def is_char_boundary_def)
qed




section \<open>Applications from the command line\<close>

definition new_app :: "cli_env \<Rightarrow> world \<Rightarrow> string \<Rightarrow> string \<Rightarrow> bytes \<Rightarrow> app" where
  "new_app env w label exe bs =
     \<lparr>app_id = drawn_id (ce_crypto env) (w_draws w), app_label = label, app_exe_path = exe,
      app_exe_hash = hash_bytes (ce_crypto env) bs, app_registered_at = w_clock w\<rparr>"

lemma app_add_Ok:
  assumes "cli_main env (AppCommand (AppAdd label exe)) tm = (Ok Returned, tm2)"
    and "open_store_direct env tm = (Ok s, tm1)" and "store_tables s (tm_world tm1) = Ok t"
    and "fs_read exe (tm_world tm1) = Ok bs"
  shows "\<exists>conn. store_conn s = Ok conn \<and> tm_world tm2 = put_tables conn
      (t\<lparr>apps := apps t @ [new_app env (tm_world tm1) label exe bs]\<rparr>)
      ((tm_world tm1)\<lparr>w_draws := Suc (w_draws (tm_world tm1))\<rparr>)"
proof -
  obtain conn p where c: "st_state s = Unlocked conn p" "conn_tables conn (tm_world tm1) = Ok t"
    using assms(3) by (auto simp: store_tables_Ok_iff)
  from assms(1,2,4) c show ?thesis
    by (auto simp: cmd_app_add_def hash_file_path_def hash_file_def obind_Ok_iff from_store_def on_store_def
        new_id_apply execute_def obind_lift oper_context_def with_context_def res_simps conn_execute_eq
        insert_app_def insert_row_Ok_iff new_app_def split: prod.splits res.splits)
qed

lemma app_add_runs:
  assumes "open_store_direct env tm = (Ok s, tm1)" and "store_tables s (tm_world tm1) = Ok t"
    and "fs_read exe (tm_world tm1) = Ok bs" and "insert_app (new_app env (tm_world tm1) label exe bs) t = Ok t'"
    and "str_range (hash_bytes (ce_crypto env) bs) 0 16 = (Ok short :: (string, coned_error) res)"
  shows "\<exists>tm2. cli_main env (AppCommand (AppAdd label exe)) tm = (Ok Returned, tm2)"
proof -
  obtain conn p where c: "st_state s = Unlocked conn p" "conn_tables conn (tm_world tm1) = Ok t"
    using assms(2) by (auto simp: store_tables_Ok_iff)
  with assms(1,3-5) show ?thesis
    by (auto simp: cmd_app_add_def hash_file_path_def hash_file_def from_store_def on_store_def new_id_apply
        execute_def obind_lift oper_context_def with_context_def conn_execute_eq new_app_def)
qed

text \<open>
  C29. \<open>cone app verify\<close> detects a changed binary: after \<open>cone app add\<close> under a label not used
  before, and whatever is then written to the binary's file, it succeeds when the file's digest
  is the one registered and ends the process with code 1 when it is another.
\<close>

theorem changed_app_detected:
  assumes "cli_main env (AppCommand (AppAdd label exe)) tm = (Ok Returned, tm2)"
    and "open_store_direct env tm = (Ok s, tm1)" and "store_tables s (tm_world tm1) = Ok t"
    and "fs_read exe (tm_world tm1) = Ok old" and "\<forall>a\<in>set (apps t). app_label a \<noteq> label"
    and "\<forall>p. \<not> w_unreadable (tm_world tm1) p" and "exe \<noteq> st_path s @ ''.salt''"
  shows "fst (cli_main env (AppCommand (AppVerify label))
      (tm2\<lparr>tm_world := (tm_world tm2)\<lparr>w_files := (w_files (tm_world tm2))(exe \<mapsto> bs)\<rparr>\<rparr>)) =
    Ok (if hash_bytes (ce_crypto env) bs = hash_bytes (ce_crypto env) old then Returned else Exited 1)"
proof -
  let ?new = "new_app env (tm_world tm1) label exe old"
  let ?t = "t\<lparr>apps := apps t @ [?new]\<rparr>"
  let ?w = "(tm_world tm2)\<lparr>w_files := (w_files (tm_world tm2))(exe \<mapsto> bs)\<rparr>"
  obtain conn where w2: "store_conn s = Ok conn" "tm_world tm2 = put_tables conn ?t
      ((tm_world tm1)\<lparr>w_draws := Suc (w_draws (tm_world tm1))\<rparr>)"
    using app_add_Ok [OF assms(1-4)] by blast
  have o: "open_store_direct env (tm2\<lparr>tm_world := ?w\<rparr>) = (Ok s, tm2\<lparr>tm_world := ?w\<rparr>)"
  proof (rule opens_open)
    have "opens env s (tm_world tm2)" using open_opens [OF assms(2,6)] w2(2) by simp
    then show "opens env s (tm_world (tm2\<lparr>tm_world := ?w\<rparr>))" using opens_update(2) [OF _ assms(7)] by simp
  qed
  have "conn_tables conn (tm_world tm1) = Ok t"
    using assms(3) w2(1) by (auto simp: store_tables_Ok_iff)
  then have "conn_tables conn (tm_world tm2) = Ok ?t" using w2(2) by simp
  then have "store_tables s ?w = Ok ?t" using w2(1) by (simp add: store_tables_def conn_tables_def)
  then have l: "list_apps s ?w = Ok (sort_key app_label (apps ?t))" by (rule store_lists(2))
  have f: "find (\<lambda>a. app_label a = label) (sort_key app_label (apps ?t)) = Some ?new"
    using assms(5) by (intro find_unique) (auto simp: new_app_def)
  have "fs_read exe ?w = Ok bs" using assms(6) w2(2) by (simp add: fs_read_def)
  then have h: "hash_file_path (ce_crypto env) exe ?w = Ok (hash_bytes (ce_crypto env) bs)"
    by (simp add: hash_file_path_def hash_file_def)
  have n: "app_exe_path ?new = exe" "app_exe_hash ?new = hash_bytes (ce_crypto env) old" by (simp_all add: new_app_def)
  show ?thesis
    using o l f h n by (simp add: cmd_app_verify_def from_store_def)
qed

theorem changed_app_detected_witness:
  "\<exists>tm2. cli_main demo_cli (AppCommand (AppAdd ''app'' ''/usr/bin/app'')) (demo_terminal demo_tables) = (Ok Returned, tm2) \<and>
   fst (cli_main demo_cli (AppCommand (AppVerify ''app''))
     (tm2\<lparr>tm_world := (tm_world tm2)\<lparr>w_files := (w_files (tm_world tm2))(''/usr/bin/app'' \<mapsto> [1])\<rparr>\<rparr>)) = Ok (Exited 1)"
proof -
  let ?bs = "replicate 20 65 :: bytes"
  have r: "fs_read ''/usr/bin/app'' (tm_world (demo_terminal demo_tables)) = Ok ?bs"
    by (simp add: fs_read_def demo_terminal_def bare_world_def demo_path_def)
  have h: "hash_bytes (ce_crypto demo_cli) bs = of_bytes bs" for bs
    by (simp add: hash_bytes_def demo_cli_def demo_lib_def plain_crypto_def)
  have "length (drawn_id plain_crypto 0) \<noteq> length ''a1''" by (simp add: plain_crypto_def)
  then have "drawn_id plain_crypto 0 \<noteq> ''a1''" by metis
  then have i: "insert_app (new_app demo_cli (tm_world (demo_terminal demo_tables)) ''app'' ''/usr/bin/app'' ?bs) demo_tables =
      Ok (demo_tables\<lparr>apps := apps demo_tables @
        [new_app demo_cli (tm_world (demo_terminal demo_tables)) ''app'' ''/usr/bin/app'' ?bs]\<rparr>)"
    by (simp add: insert_app_def insert_row_def app_conflict_def new_app_def demo_tables_def demo_app_def no_rows_def
        demo_cli_def demo_lib_def demo_terminal_def bare_world_def)
  have s: "str_range (hash_bytes (ce_crypto demo_cli) ?bs) 0 16 = Ok (replicate 16 (char_of_byte 65))"
    by (simp add: h of_bytes_def str_range_def is_char_boundary_def char_of_byte_def)
  obtain tm2 where a: "cli_main demo_cli (AppCommand (AppAdd ''app'' ''/usr/bin/app'')) (demo_terminal demo_tables)
      = (Ok Returned, tm2)"
    using app_add_runs [OF demo_open demo_cli_tables r i s] by blast
  have "\<forall>a\<in>set (apps demo_tables). app_label a \<noteq> ''app''" by (simp add: demo_tables_def demo_app_def)
  moreover have "\<forall>p. \<not> w_unreadable (tm_world (demo_terminal demo_tables)) p"
    by (simp add: demo_terminal_def bare_world_def)
  moreover have "''/usr/bin/app'' \<noteq> st_path demo_cli_store @ ''.salt''" by (simp add: demo_cli_store_def demo_path_def)
  ultimately have "fst (cli_main demo_cli (AppCommand (AppVerify ''app''))
     (tm2\<lparr>tm_world := (tm_world tm2)\<lparr>w_files := (w_files (tm_world tm2))(''/usr/bin/app'' \<mapsto> [1])\<rparr>\<rparr>)) =
     Ok (if hash_bytes (ce_crypto demo_cli) [1] = hash_bytes (ce_crypto demo_cli) ?bs then Returned else Exited 1)"
    by (rule changed_app_detected [OF a demo_open demo_cli_tables r])
  moreover have "hash_bytes (ce_crypto demo_cli) [1] \<noteq> hash_bytes (ce_crypto demo_cli) ?bs"
    unfolding h by (metis as_bytes_of_bytes length_Cons length_replicate list.size(3) One_nat_def numeral_eq_one_iff semiring_norm(83))
  ultimately show ?thesis using a by auto
qed

end
