(* ===== verification/Lifecycle.thy ===== *)
theory Lifecycle
  imports Cli_Facts Startup
begin

text \<open>
  The program as a whole: the worlds that the command line tool and the daemon can bring about,
  starting from one without a database, and what all of them have in common.
\<close>

section \<open>Laws that the program's statements preserve\<close>

text \<open>The statements that some operation of the program runs. Nothing calls \<open>integrity::record\<close>.\<close>

inductive program_stmt :: "(tables \<Rightarrow> (tables, sql_error) res) \<Rightarrow> bool" where
  "program_stmt (insert_cert c)"
| "program_stmt (insert_key k)"
| "program_stmt (insert_ssh_key sk)"
| "program_stmt (insert_ca_cert ca)"
| "program_stmt (insert_app a)"
| "program_stmt (insert_route r)"
| "program_stmt (insert_audit e)"
| "program_stmt (insert_or_ignore_route r)"
| "program_stmt (insert_or_ignore_ssh_route q)"
| "program_stmt (delete_certs_by_id i)"
| "program_stmt (delete_routes P)"
| "program_stmt (update_verified_at now)"

text \<open>\<open>dbs_sat Q w\<close>: every migrated database of the world satisfies \<open>Q\<close>.\<close>

definition dbs_sat :: "(tables \<Rightarrow> bool) \<Rightarrow> world \<Rightarrow> bool" where
  "dbs_sat Q w \<longleftrightarrow> (\<forall>p f t. w_dbs w p = Some f \<longrightarrow> df_tables f = Some t \<longrightarrow> Q t)"

lemma world_ok_dbs: "world_ok = dbs_sat tables_ok"
  by (rule ext) (simp add: world_ok_def dbs_sat_def)

lemma dbs_sat_same: "w_dbs w' = w_dbs w \<Longrightarrow> dbs_sat Q w' = dbs_sat Q w"
  by (simp add: dbs_sat_def)

lemma keeps_dbs: "(\<And>w. w_dbs (snd (m w)) = w_dbs w) \<Longrightarrow> keeps (dbs_sat Q) m"
  using dbs_sat_same by (blast intro: keepsI)

text \<open>The world without its databases: every operation on it keeps a law on the databases.\<close>

lemma keeps_dbs_intros [keeps_intros]:
  "keeps (dbs_sat Q) (fill_bytes lib n)" "keeps (dbs_sat Q) (random_salt lib)" "keeps (dbs_sat Q) (random_nonce lib)"
  "keeps (dbs_sat Q) (new_id lib)" "keeps (dbs_sat Q) (fs_write p bs)" "keeps (dbs_sat Q) (drawing f)"
  "keeps (dbs_sat Q) (encrypt_key lib k pass)" "keeps (dbs_sat Q) (load_or_create_db_salt lib s)"
  "keeps P (exists_row conn R)"
proof -
  show i: "keeps (dbs_sat Q) (fill_bytes lib n)" for n by (rule keeps_dbs) simp
  show s: "keeps (dbs_sat Q) (random_salt lib)" "keeps (dbs_sat Q) (random_nonce lib)"
    by (simp_all add: random_salt_def random_nonce_def i)
  show "keeps (dbs_sat Q) (new_id lib)" unfolding new_id_def by (intro keeps_intros i)
  show "keeps (dbs_sat Q) (encrypt_key lib k pass)" unfolding encrypt_key_def by (intro keeps_intros s)
  show "keeps (dbs_sat Q) (fs_write p bs)" "keeps (dbs_sat Q) (drawing f)"
    by (rule keeps_dbs, simp add: fs_write_def drawing_def)+
  show "keeps (dbs_sat Q) (load_or_create_db_salt lib s)"
    by (rule keeps_dbs) (simp add: load_or_create_db_salt_def Let_def random_salt_def fs_write_def)
  show "keeps P (exists_row conn R)" by (simp add: exists_row_def keeps_def)
qed

lemma keeps_case_list [keeps_intros]:
  "keeps P m \<Longrightarrow> (\<And>x xs. keeps P (f x xs)) \<Longrightarrow> keeps P (case l of [] \<Rightarrow> m | x # xs \<Rightarrow> f x xs)"
  by (cases l) simp_all

lemma keeps_case_res [keeps_intros]:
  "(\<And>x. keeps P (f x)) \<Longrightarrow> (\<And>e. keeps P (g e)) \<Longrightarrow> keeps P h \<Longrightarrow>
   keeps P (case r of Ok x \<Rightarrow> f x | Err e \<Rightarrow> g e | Panic \<Rightarrow> h)"
  by (cases r) simp_all

lemma keeps_case_bool [keeps_intros]: "keeps P m \<Longrightarrow> keeps P m' \<Longrightarrow> keeps P (case b of True \<Rightarrow> m | False \<Rightarrow> m')"
  by (cases b) simp_all

locale table_law =
  fixes Q :: "tables \<Rightarrow> bool"
  assumes Q_new: "Q no_rows"
    and Q_stmt: "program_stmt q \<Longrightarrow> Q t \<Longrightarrow> q t = Ok t' \<Longrightarrow> Q t'"
begin

lemma conn_execute_law [keeps_intros]: "program_stmt q \<Longrightarrow> keeps (dbs_sat Q) (conn_execute c q)"
  by (rule keepsI)
    (auto simp: conn_execute_def dbs_sat_def split: option.splits res.splits; blast intro: Q_stmt)

lemma execute_law [keeps_intros]: "program_stmt q \<Longrightarrow> keeps (dbs_sat Q) (execute s q)"
  unfolding execute_def by (intro keeps_intros)

lemma db_open_law [keeps_intros]: "keeps (dbs_sat Q) (db_open p k)"
  by (rule keepsI)
    (auto simp: db_open_def dbs_sat_def migrate_tables Q_new split: option.splits if_splits list.splits)

lemma unlock_law:
  assumes "dbs_sat Q w" and "unlock lib pass (s, w) = (r, s', w')"
  shows "dbs_sat Q w'"
proof -
  let ?m = "obind (load_or_create_db_salt lib s) (\<lambda>salt.
      obind (lift_res (derive_key lib pass salt)) (\<lambda>key. db_open (st_path s) (hex_encode lib key)))"
  have k: "keeps (dbs_sat Q) ?m" by (intro keeps_intros)
  obtain q w1 where m: "?m w = (q, w1)" by force
  with assms(2) have "w' = w1" by (cases q) (simp_all add: unlock_def)
  with keepsD [OF k assms(1) m] show ?thesis by simp
qed

lemma verify_all_law [keeps_intros]: "keeps (dbs_sat Q) (verify_all lib s)"
  unfolding verify_all_def by (intro keeps_intros program_stmt.intros)

lemma delete_cert_law [keeps_intros]: "keeps (dbs_sat Q) (delete_cert lib s label)"
  unfolding delete_cert_def by (intro keeps_intros program_stmt.intros)

lemma store_cert_and_key_law [keeps_intros]: "keeps (dbs_sat Q) (store_cert_and_key lib x s c k label)"
  unfolding store_cert_and_key_def by (intro keeps_intros program_stmt.intros)

lemma import_file_law [keeps_intros]: "keeps (dbs_sat Q) (import_file lib x s path pass label kp)"
proof -
  have "keeps (dbs_sat Q) (import_pkcs12 lib x s path pass label)"
    unfolding import_pkcs12_def by (intro keeps_intros)
  moreover have "keeps (dbs_sat Q) (import_pem lib x s path pass label kp)"
    unfolding import_pem_def import_pem_bundle_def import_pem_cert_and_key_def Let_def by (intro keeps_intros)
  moreover have "keeps (dbs_sat Q) (import_der lib x s path label kp)"
    unfolding import_der_def by (intro keeps_intros)
  ultimately have "keeps (dbs_sat Q) (case f of Pkcs12 \<Rightarrow> import_pkcs12 lib x s path pass label
      | Pem \<Rightarrow> import_pem lib x s path pass label kp | Der \<Rightarrow> import_der lib x s path label kp)" for f
    by (cases f) simp_all
  then show ?thesis unfolding import_file_def by (intro keeps_intros)
qed

lemma create_backup_law [keeps_intros]: "keeps (dbs_sat Q) (create_backup lib x s pass)"
  unfolding create_backup_def collect_backup_payload_def age_encrypt_def
  by (intro keeps_intros program_stmt.intros)

lemma restore_backup_law [keeps_intros]: "keeps (dbs_sat Q) (restore_backup lib x s data pass)"
  unfolding restore_backup_def restore_payload_def restore_ca_cert_def restore_cert_def restore_ssh_key_def
    restore_app_def restore_route_def restore_ssh_route_def
  by (intro keeps_intros program_stmt.intros)

text \<open>The tool's commands.\<close>

abbreviation terminal_law :: "terminal \<Rightarrow> bool" where
  "terminal_law tm \<equiv> dbs_sat Q (tm_world tm)"

lemma terminal_intros [keeps_intros]:
  "keeps terminal_law (print text)" "keeps terminal_law (println text)" "keeps terminal_law (eprintln text)"
  "keeps terminal_law (from_store f)" "keeps terminal_law (prompt env text)" "keeps terminal_law (cli_passphrase env)"
  "keeps (dbs_sat Q) m \<Longrightarrow> keeps terminal_law (on_store m)"
  "keeps (dbs_sat Q) m \<Longrightarrow> keeps terminal_law (attempt m)"
  "keeps terminal_law n \<Longrightarrow> keeps terminal_law (oper_context c n)"
  by (auto simp: keeps_def from_store_def prompt_def cli_passphrase_eq on_store_def attempt_def oper_context_def
      split: prod.splits res.splits)

lemma unlock_at_law [keeps_intros]: "keeps (dbs_sat Q) (unlock_at env path pass)"
  by (rule keepsI) (auto simp: unlock_at_def split: prod.splits intro: unlock_law)

lemma open_store_law [keeps_intros]: "keeps terminal_law (open_store_direct env)"
  unfolding open_store_direct_def by (intro keeps_intros)

lemma change_commands_law:
  "keeps terminal_law (cmd_import env file cert key label)" "keeps terminal_law (cmd_remove env label)"
  "keeps terminal_law (cmd_backup env out_path)" "keeps terminal_law (cmd_restore env path)"
  "keeps terminal_law (cmd_verify env)" "keeps terminal_law (cmd_app_add env label exe)"
  "keeps terminal_law (cmd_route_add env label app host ip both pri)" "keeps terminal_law (cmd_route_remove env i)"
proof -
  show "keeps terminal_law (cmd_import env file cert key label)"
  proof -
    have i: "keeps terminal_law (import_passphrase env file)"
      unfolding import_passphrase_def by (intro keeps_intros)
    have "keeps terminal_law (case (file, cert, key) of
         (Some f, _, _) \<Rightarrow> on_store (import_file (ce_crypto env) (ce_import env) s f p label None)
       | (None, Some c, Some k) \<Rightarrow> on_store (import_file (ce_crypto env) (ce_import env) s c p label (Some k))
       | _ \<Rightarrow> lift_res (Err m))" for s p m
      by (auto split: option.splits intro!: keeps_intros)
    then show ?thesis unfolding cmd_import_def by (intro keeps_intros i)
  qed
  show "keeps terminal_law (cmd_remove env label)" unfolding cmd_remove_def by (intro keeps_intros)
  have w: "keeps terminal_law (\<lambda>tm. case fs_write p bs (tm_world tm) of (r, w) \<Rightarrow> (map_err FromIo r, tm\<lparr>tm_world := w\<rparr>))"
    for p bs
    using keeps_dbs_intros(5) [of Q p bs] by (auto simp: keeps_def split: prod.splits)
  show "keeps terminal_law (cmd_backup env out_path)" unfolding cmd_backup_def by (intro keeps_intros w)
  show "keeps terminal_law (cmd_restore env path)" unfolding cmd_restore_def by (intro keeps_intros)
  show "keeps terminal_law (cmd_verify env)" unfolding cmd_verify_def by (intro keeps_intros)
  show "keeps terminal_law (cmd_app_add env label exe)"
    unfolding cmd_app_add_def by (intro keeps_intros program_stmt.intros)
  show "keeps terminal_law (cmd_route_add env label app host ip both pri)"
    unfolding cmd_route_add_def Let_def by (intro keeps_intros program_stmt.intros)
  show "keeps terminal_law (cmd_route_remove env i)"
    unfolding cmd_route_remove_def by (intro keeps_intros program_stmt.intros)
qed

lemma query_commands_law:
  "keeps terminal_law (cmd_status env)" "keeps terminal_law (cmd_lock env)" "keeps terminal_law (cmd_list env)"
  "keeps terminal_law (cmd_audit env limit)" "keeps terminal_law (cmd_ca env ca)" "keeps terminal_law (cmd_ssh_list env)"
  "keeps terminal_law (cmd_ssh_route env q)" "keeps terminal_law (cmd_app_list env)"
  "keeps terminal_law (cmd_app_verify env label)" "keeps terminal_law (cmd_route_list env)"
  "keeps terminal_law (cmd_test env host ip)"
proof -
  show "keeps terminal_law (cmd_ca env ca)"
    by (cases ca) (auto simp: cmd_ca_list_def intro!: keeps_intros)
  show "keeps terminal_law (cmd_ssh_route env q)" by (cases q) (auto intro!: keeps_intros)
qed (unfold cmd_status_def cmd_lock_def cmd_list_def with_client_def cmd_audit_def cmd_ssh_list_def cmd_app_list_def
    cmd_app_verify_def cmd_route_list_def cmd_test_def, (intro keeps_intros)+)

lemma cli_main_law: "keeps terminal_law (cli_main env cmd)"
proof (cases cmd)
  case (SshCommand c)
  then show ?thesis by (cases c) (simp_all add: query_commands_law, (intro keeps_intros)+)
next
  case (AppCommand c)
  then show ?thesis by (cases c) (simp_all add: query_commands_law change_commands_law, (intro keeps_intros)+)
next
  case (RouteCommand c)
  then show ?thesis by (cases c) (simp_all add: query_commands_law change_commands_law)
qed (simp_all add: query_commands_law change_commands_law)

lemma open_and_serve_law: "keeps (dbs_sat Q) (open_and_serve lib os)"
proof -
  have "keeps (dbs_sat Q) (\<lambda>w. case unlock (dl_crypto lib) (as_bytes pass) (store_open path, w) of
      (Panic, s1, w1) \<Rightarrow> (Panic, w1)
    | (Err e, s1, w1) \<Rightarrow> (Err (g e), w1)
    | (Ok x, s1, w1) \<Rightarrow> (case verify_all (dl_crypto lib) s1 w1 of
         (Panic, w2) \<Rightarrow> (Panic, w2) | (Err e, w2) \<Rightarrow> (Ok (ExitCode 1), w2) | (Ok y, w2) \<Rightarrow> (h s1 w2, w2)))"
    for pass path g h
  proof (rule keepsI)
    fix w assume w: "dbs_sat Q w"
    obtain r s1 w1 where u: "unlock (dl_crypto lib) (as_bytes pass) (store_open path, w) = (r, s1, w1)"
      by (rule prod_cases3)
    obtain r' w2 where v: "verify_all (dl_crypto lib) s1 w1 = (r', w2)" by force
    have "dbs_sat Q w1" by (rule unlock_law [OF w u])
    with keepsD [OF verify_all_law this v] show "dbs_sat Q (snd (case unlock (dl_crypto lib) (as_bytes pass) (store_open path, w) of
      (Panic, s1, w1) \<Rightarrow> (Panic, w1)
    | (Err e, s1, w1) \<Rightarrow> (Err (g e), w1)
    | (Ok x, s1, w1) \<Rightarrow> (case verify_all (dl_crypto lib) s1 w1 of
         (Panic, w2) \<Rightarrow> (Panic, w2) | (Err e, w2) \<Rightarrow> (Ok (ExitCode 1), w2) | (Ok y, w2) \<Rightarrow> (h s1 w2, w2))))"
      by (cases r; cases r') (simp_all add: u v)
  qed
  then show ?thesis unfolding open_and_serve_def Let_def by (intro keeps_intros)
qed

end

lemma program_stmt_ok: "program_stmt q \<Longrightarrow> stmt_ok q"
  by (induction rule: program_stmt.induct)
    (rule stmt_intros cert_table.ins_stmt_ok key_table.ins_stmt_ok ssh_key_table.ins_stmt_ok ca_cert_table.ins_stmt_ok
      app_table.ins_stmt_ok route_table.ins_stmt_ok audit_table.ins_stmt_ok)+

text \<open>Two laws: the constraints of the schema, and that no binary has been recorded.\<close>

interpretation schema: table_law tables_ok
proof unfold_locales
  show "tables_ok t'" if "program_stmt q" "tables_ok t" "q t = Ok t'" for q t t'
    using program_stmt_ok [OF that(1)] that(2,3) by (auto simp: stmt_ok_def)
qed simp

interpretation unrecorded: table_law "\<lambda>t. integrity t = []"
proof unfold_locales
  show "integrity t' = []" if "program_stmt q" "integrity t = []" "q t = Ok t'" for q t t'
    using that by (cases rule: program_stmt.cases)
      (auto simp: insert_defs insert_or_ignore_route_def insert_or_ignore_ssh_route_def delete_certs_by_id_def
        delete_routes_def update_verified_at_def res_simps split: if_splits)
qed (simp add: no_rows_def)

section \<open>Reachable worlds\<close>

text \<open>
  The steps of the program: a command of \<open>cone\<close>, a start of \<open>coned\<close> (whose connections only read
  the store), and anything else that happens on the machine and leaves the databases alone.
\<close>

inductive world_step :: "world \<Rightarrow> world \<Rightarrow> bool" where
  Cone: "cli_main env cmd \<lparr>tm_world = w, tm_out = out, tm_err = err\<rparr> = (r, tm) \<Longrightarrow> world_step w (tm_world tm)"
| Coned: "open_and_serve lib os w = (r, w') \<Longrightarrow> world_step w w'"
| Elsewhere: "w_dbs w' = w_dbs w \<Longrightarrow> world_step w w'"

inductive reachable :: "world \<Rightarrow> bool" where
  Fresh: "w_dbs w = (\<lambda>_. None) \<Longrightarrow> reachable w"
| Step: "reachable w \<Longrightarrow> world_step w w' \<Longrightarrow> reachable w'"

inductive_cases world_stepE: "world_step w w'"

context table_law
begin

lemma world_step_law: "world_step w w' \<Longrightarrow> dbs_sat Q w \<Longrightarrow> dbs_sat Q w'"
proof (erule world_stepE)
  fix env cmd out err r tm
  assume "dbs_sat Q w" "cli_main env cmd \<lparr>tm_world = w, tm_out = out, tm_err = err\<rparr> = (r, tm)" "w' = tm_world tm"
  then show "dbs_sat Q w'"
    using keepsD [OF cli_main_law, of "\<lparr>tm_world = w, tm_out = out, tm_err = err\<rparr>" env cmd r tm] by simp
next
  fix lib os r
  assume "dbs_sat Q w" "open_and_serve lib os w = (r, w')"
  then show "dbs_sat Q w'" using keepsD [OF open_and_serve_law] by blast
qed (simp add: dbs_sat_def)

lemma reachable_law: "reachable w \<Longrightarrow> dbs_sat Q w"
proof (induction rule: reachable.induct)
  case (Fresh w)
  then show ?case by (simp add: dbs_sat_def)
qed (rule world_step_law)

end

section \<open>Properties\<close>

text \<open>
  C9. In every world that commands of \<open>cone\<close>, starts of \<open>coned\<close> and outside changes lead to, whatever
  their order, arguments, failures and libraries, every store satisfies the schema: identifiers,
  fingerprints and paths are unique and no key, route or SSH route refers to a missing row.
  So a route never resolves to a certificate that does not exist.
\<close>

theorem reachable_consistent:
  assumes "reachable w"
  shows "world_ok w \<and> (resolve_route s exe host ip w = Ok (Some cid) \<longrightarrow>
    (\<exists>c. get_cert_by_id s cid w = Ok c \<and> c_id c = cid))"
proof -
  have "world_ok w" using schema.reachable_law [OF assms] by (simp add: world_ok_dbs)
  with resolve_route_cert_exists show ?thesis by blast
qed

theorem reachable_consistent_witness:
  "world_ok (tm_world (snd (cli_main demo_cli (ImportCommand (Some ''/in.pfx'') None None ''work'')
     \<lparr>tm_world = bare_world\<lparr>w_files := [''/in.pfx'' \<mapsto> [1, 2, 3]]\<rparr>, tm_out = '''', tm_err = ''''\<rparr>)))"
proof -
  let ?w = "bare_world\<lparr>w_files := [''/in.pfx'' \<mapsto> [1, 2, 3]]\<rparr>"
  have "reachable ?w" by (rule reachable.Fresh) (simp add: bare_world_def)
  then have "reachable (tm_world (snd (cli_main demo_cli (ImportCommand (Some ''/in.pfx'') None None ''work'')
     \<lparr>tm_world = ?w, tm_out = '''', tm_err = ''''\<rparr>)))"
    by (rule reachable.Step) (rule world_step.Cone [OF surjective_pairing])
  from reachable_consistent [OF this] show ?thesis by blast
qed

lemma serve_unaccepted:
  assumes "\<And>w pid uid m p. fst (verify_traffic_cone_binary lib w pid uid known m) \<noteq> Ok p"
  shows "dm_store (snd (serve lib json known w i d)) = dm_store d"
proof (cases i)
  case (Accepted st cred)
  show ?thesis
  proof (cases cred)
    case (Some c)
    obtain r m where v: "verify_traffic_cone_binary lib w (fst c) (snd c) known (dm_monitor d) = (r, m)" by force
    then have n: "r \<noteq> Ok p" for p using assms [of w "fst c" "snd c" "dm_monitor d"] by simp
    show ?thesis
    proof (cases r)
      case (Ok p)
      with n [of p] show ?thesis by simp
    qed (use v Some Accepted in \<open>cases c; simp add: get_peer_credentials_def\<close>)+
  qed (simp add: Accepted get_peer_credentials_def)
qed simp

lemma ipc_run_unaccepted:
  assumes "\<And>w pid uid m p. fst (verify_traffic_cone_binary lib w pid uid known m) \<noteq> Ok p"
  shows "dm_store (snd (ipc_run lib json known is d)) = dm_store d"
proof (induction "is" arbitrary: d)
  case (Cons wi "is")
  obtain w i where "wi = (w, i)" by force
  with Cons serve_unaccepted [OF assms] show ?case by (auto simp: obind_apply split: res.splits)
qed simp

text \<open>
  C11. The tools never record a binary, and the daemon accepts only recorded binaries: in every
  reachable world a daemon that has started knows no hash, so no process is ever accepted as
  its client, and whatever connects, the store stays as it was, unlocked included.
\<close>

theorem no_client_accepted:
  assumes "reachable w" and "open_and_serve lib os w = (Ok (Ready d known), w1)"
  shows "fst (verify_traffic_cone_binary lib w2 pid uid known m) \<noteq> Ok p \<and>
    dm_store (snd (ipc_run lib json known is d)) = dm_store d"
proof -
  obtain w0 where l: "load_known_hashes lib (dm_store d) w1 = Ok known"
    using open_and_serve_Ready [OF assms(2)] by blast
  then obtain t where t: "store_tables (dm_store d) w1 = Ok t"
    by (auto simp: load_known_hashes_def list_integrity_def res_simps)
  have "dbs_sat (\<lambda>t. integrity t = []) w1"
    using keepsD [OF unrecorded.open_and_serve_law unrecorded.reachable_law [OF assms(1)] assms(2)] .
  with t have "integrity t = []"
    by (auto simp: store_tables_Ok_iff dbs_sat_def conn_tables_def ok_or_Ok_iff split: option.splits)
  with l t have "known = (\<lambda>_. None)" by (auto simp: load_known_hashes_def list_integrity_def)
  then have n: "fst (verify_traffic_cone_binary lib w pid uid known m) \<noteq> Ok p" for w pid uid m p
    using verify_Ok_iff [of lib w pid uid known m p] by (metis option.distinct(1) prod.collapse)
  with ipc_run_unaccepted [OF n] show ?thesis by blast
qed

theorem no_client_accepted_witness:
  "\<exists>d known w1. open_and_serve demo_lib demo_calls demo_boot_world = (Ok (Ready d known), w1) \<and>
     fst (verify_traffic_cone_binary demo_lib demo_host 7 1000 known new_monitor) \<noteq> Ok demo_peer"
proof -
  have crypto: "dl_crypto demo_lib = plain_crypto" by (simp add: demo_lib_def)
  obtain s w where u: "unlock plain_crypto (as_bytes ''pw'') (store_open ''/tmp/.local/share/cone/store.db'', demo_boot_world) = (Ok (), s, w)"
    and t: "store_tables s w = Ok no_rows" by (rule demo_unlocks)
  obtain w2 where v: "verify_all plain_crypto s w = (Ok (), w2)"
    by (simp add: verify_all_apply [OF t] no_rows_def)
  then obtain t2 where "store_tables s w2 = Ok t2" using verify_all_intact [OF t v] by blast
  then obtain known where k: "load_known_hashes demo_lib s w2 = Ok known"
    by (simp add: load_known_hashes_def list_integrity_def)
  obtain d where r: "open_and_serve demo_lib demo_calls demo_boot_world = (Ok (Ready d known), w2)"
    using u v k by (simp add: obind_apply with_context_def demo_calls_def open_and_serve_def get_store_path_def
        prompt_passphrase_def demo_env crypto Let_def)
  have "reachable demo_boot_world"
    by (rule reachable.Fresh) (simp add: demo_boot_world_def bare_world_def)
  from no_client_accepted [OF this r] r show ?thesis by blast
qed

end
