(* ===== verification/Spec2Isabelle.thy ===== *)
theory Spec2Isabelle
  imports Threads Startup Vault P11_Facts Protocol_Facts Lifecycle
begin

text \<open>
  A model of Traffic Cone, a credential manager written in Rust, and the properties that make it
  correct. The program keeps client certificates, SSH keys and routing rules in an encrypted
  SQLite file. \<open>crates/cone-store\<close> is the library on that file, \<open>crates/coned\<close> the daemon that signs
  on behalf of other processes, \<open>crates/cone-p11\<close> the PKCS#11 module that TLS stacks load and
  \<open>crates/cone-cli\<close> the command line tool. The tool opens the store itself for everything except
  three commands; the module and those three commands talk to the daemon over a local socket.

  \<^bold>\<open>Conventions.\<close> A struct is a record whose fields carry a prefix, an enum a datatype, text and
  bytes are lists of characters and of 8-bit words, text being its UTF-8 encoding. A fallible
  function returns a \<open>res\<close>: \<open>Ok\<close>, \<open>Err\<close> or \<open>Panic\<close>. A function that changes something is an \<open>oper\<close>, from a
  state to a result and a state, composed by \<open>obind\<close> where the source has a question mark. What the
  program takes from outside the repository is a field of a record that the definitions take as an
  argument: \<open>crypto_lib\<close> (Argon2, AES-GCM, SHA-256, hex, the random generator), \<open>daemon_lib\<close> (signers
  and error texts), \<open>import_lib\<close> (PKCS#12, PEM, X.509, PKCS#8), \<open>export_lib\<close> (PKCS#12 and \<open>age\<close> writers,
  JSON of the backup), \<open>json_text\<close> (the text form of a JSON value), and the records of system calls.
  What the code relies on about them are named hypotheses: \<open>gcm_correct\<close>, \<open>hex_correct\<close>, \<open>age_correct\<close>,
  \<open>payload_json_correct\<close>, \<open>p12_correct\<close>, \<open>reads_back\<close>.

  \<^bold>\<open>Shared theories.\<close> \<open>Prelude\<close> has results, state operations, preservation (\<open>keeps\<close>) and lists;
  \<open>Rust_Std\<close> the standard library's text functions; \<open>Samples\<close> a concrete instance of the
  cryptography and a small store on which the theorems are evaluated. The collections
  \<open>keeps_intros\<close>, \<open>stmt_intros\<close> and \<open>res_simps\<close> carry most proofs.

  \<^bold>\<open>The store library.\<close>
  \<^item> \<open>Models\<close>: \<open>models.rs\<close> and \<open>error.rs\<close>. \<open>Tables\<close>: the schema of \<open>db.rs\<close>, one definition per SQL statement,
    the invariant \<open>tables_ok\<close> (uniqueness and foreign keys) and the locale \<open>sql_table\<close>, interpreted for
    the nine tables. \<open>World\<close>: files, environment, clock, random draws and database files, with the
    invariant \<open>world_ok\<close>.
  \<^item> \<open>Crypto\<close>: \<open>crypto.rs\<close>. \<open>Store\<close>: opening and migration in \<open>db.rs\<close> and the locked or unlocked handle
    of \<open>store.rs\<close>. \<open>Listing\<close>: \<open>list.rs\<close>. \<open>Vault\<close>: what these promise together (key round trip, unlocking,
    exact deletion, a locked store refuses).
  \<^item> \<open>Route_Choice\<close>: \<open>resolve_route\<close>; the locale \<open>best_scan\<close> says what its loop computes.
  \<^item> \<open>Integrity\<close>: \<open>integrity.rs\<close>.
  \<^item> \<open>Import\<close>: \<open>import.rs\<close>, with its specification \<open>unpack\<close> (what the files hold) and \<open>commit\<close> (the rows
    written) and the refinement between them.
  \<^item> \<open>Export\<close>: \<open>export.rs\<close>. \<open>Backup\<close>: the loops of the restoration as instances of the locale
    \<open>restore_pass\<close>, round trips of backups and PFX files, and where a restoration fails.

  \<^bold>\<open>The daemon.\<close>
  \<^item> \<open>Daemon_Lib\<close>: errors and their texts. \<open>Process_Monitor\<close>: \<open>process_monitor.rs\<close>, the readers of \<open>/proc\<close>
    and the cache with its invariant \<open>monitor_ok\<close>. \<open>Routing\<close>: \<open>routing.rs\<close>.
  \<^item> \<open>Wire\<close>: streams and the locale \<open>wire_codec\<close> of formats that are read back, with its instances.
    \<open>Ipc\<close>: \<open>ipc.rs\<close>, from the frame to the accept loop, poisoned mutex included. \<open>Ssh_Agent\<close>:
    \<open>ssh_agent.rs\<close>. \<open>Startup\<close>: \<open>hardening.rs\<close> and \<open>main.rs\<close>.
  \<^item> \<open>Threads\<close>: the two servers as threads on one store, as a step relation in which connections and
    agent messages are handled in any order. The locale \<open>quiet_daemon\<close> says what is sent while a
    condition lasts; it is interpreted for a locked store and for a poisoned mutex.

  \<^bold>\<open>The clients.\<close>
  \<^item> \<open>Client\<close>: connecting by name, and the locale \<open>rpc_client\<close> of one framed call, interpreted for both
    clients. \<open>P11_Ipc\<close>, \<open>P11_Module\<close>: \<open>ipc.rs\<close> and \<open>pkcs11_impl.rs\<close> of \<open>cone-p11\<close>, the module as a step
    relation over the calls of a TLS stack. \<open>P11_Facts\<close>: search, buffer bounds, the cached connection.
  \<^item> \<open>Cli_Client\<close>: \<open>client.rs\<close>. \<open>Cli\<close>: \<open>main.rs\<close> of \<open>cone-cli\<close>, one definition per command and \<open>cli_main\<close>
    for the dispatch, on a terminal with the world and the two output streams. \<open>Cli_Facts\<close>: what the
    commands do to the store and how they fit together.
  \<^item> \<open>Protocol\<close>: the derived JSON readers and writers of the three declarations of the protocol.
    \<open>Protocol_Facts\<close>: whether they agree, and an exchange from the tool's request to its answer.

  \<^bold>\<open>The whole.\<close> \<open>Lifecycle\<close>: the steps of the program on the world and the reachable worlds. The locale
  \<open>table_law\<close> lifts a law on tables that the program's statements preserve to all its operations; it
  is interpreted for the schema and for the absence of integrity records.

  \<^bold>\<open>Termination and bounds.\<close> Every definition is total and no fuel is used; loops over input are
  recursions with a measure (the bytes left of a stream, the objects left of a search). The agent's
  loop ends because each message shortens the stream. Lengths that the code casts to 32 or 64 bits
  are words; row values of type \<open>i64\<close> that are only stored and compared are integers, and where a cast
  matters (\<open>parse_cert_metadata\<close>, \<open>format_timestamp\<close>, the frame lengths) it is written out.

  \<^bold>\<open>Not modelled.\<close> Logging and the waiting of blocking calls: each connection, and each message of the
  agent, is handled in a world of its own, and the two threads interleave between these and not inside
  them, since the mutex of the store is taken at most once in each. Erasure of key material from memory. The parsing
  of arguments by \<open>clap\<close> and the printing of the error that \<open>main\<close> returns. SQLite beyond the statements
  used: a statement fails only by a constraint, a missing table or a wrong key, and its limit on the
  length of a \<open>LIKE\<close> pattern is taken as not reached. \<open>Packaging\<close>, documents and
  configuration are not code of the implementation language.
\<close>

end
